(* ===== verification/Prelude.thy ===== *)
theory Prelude
  imports Main "HOL-Library.Word" "HOL-Library.Sublist"
begin

section \<open>Shared vocabulary: errors, effects, strings\<close>

text \<open>
  This theory holds what every component shares: the error values of the provider, the
  effect type of a reconciliation step (a log of API requests is threaded through the
  code, and every answer of the API is a function of that log), the combinators that
  mirror the Go control flow, a small compositional logic over them, and the string
  functions of the Go standard library the provider uses.
\<close>

named_theorems go_defs \<open>definitions of the control-flow combinators\<close>
named_theorems post_intros \<open>compositional rules of the effect logic\<close>

subsection \<open>Errors\<close>

text \<open>
  One constructor per class of error the code tells apart. \<open>Wrapped\<close> is
  \<open>fmt.Errorf("...: %w", err)\<close>: the callers look through it with \<open>errors.As\<close>.
  \<open>WrappedV e v\<close> is \<open>fmt.Errorf("%w: %v", e, v)\<close>: only \<open>e\<close> stays visible to
  \<open>errors.Is\<close> and \<open>errors.As\<close>. \<open>Panic\<close> is a run-time panic.
\<close>

datatype err =
    ApiNotFound string
  | ApiAlreadyExists string
  | ApiError string
  | NoMatchError string
  | TLSCABundleNotReady
  | WaitFor string
  | BackupConfigError string string
  | DataSourceConfigError string string
  | Errorf string
  | Wrapped string err
  | WrappedV err err
  | Panic string

fun cause :: "err \<Rightarrow> err" where
  "cause (Wrapped _ e) = cause e"
| "cause (WrappedV e _) = cause e"
| "cause e = e"

definition is_not_found :: "err \<Rightarrow> bool" where
  "is_not_found e = (case cause e of ApiNotFound _ \<Rightarrow> True | _ \<Rightarrow> False)"

definition is_already_exists :: "err \<Rightarrow> bool" where
  "is_already_exists e = (case cause e of ApiAlreadyExists _ \<Rightarrow> True | _ \<Rightarrow> False)"

definition is_no_match :: "err \<Rightarrow> bool" where
  "is_no_match e = (case cause e of NoMatchError _ \<Rightarrow> True | _ \<Rightarrow> False)"

definition is_ca_bundle_not_ready :: "err \<Rightarrow> bool" where
  "is_ca_bundle_not_ready e = (cause e = TLSCABundleNotReady)"

lemma is_not_found_simps [simp]:
  "is_not_found (ApiNotFound s)"
  "\<not> is_not_found (ApiAlreadyExists s)"
  "\<not> is_not_found (ApiError s)"
  "\<not> is_not_found (NoMatchError s)"
  "\<not> is_not_found TLSCABundleNotReady"
  "\<not> is_not_found (WaitFor s)"
  "\<not> is_not_found (BackupConfigError s t)"
  "\<not> is_not_found (DataSourceConfigError s t)"
  "\<not> is_not_found (Errorf s)"
  "is_not_found (Wrapped s e) = is_not_found e"
  "is_not_found (WrappedV e v) = is_not_found e"
  "\<not> is_not_found (Panic s)"
  by (simp_all add: is_not_found_def)

lemma is_ca_bundle_not_ready_simps [simp]:
  "is_ca_bundle_not_ready TLSCABundleNotReady"
  "is_ca_bundle_not_ready (Wrapped s e) = is_ca_bundle_not_ready e"
  "is_ca_bundle_not_ready (WrappedV e v) = is_ca_bundle_not_ready e"
  "\<not> is_ca_bundle_not_ready (ApiNotFound s)"
  "\<not> is_ca_bundle_not_ready (ApiError s)"
  "\<not> is_ca_bundle_not_ready (Errorf s)"
  by (simp_all add: is_ca_bundle_not_ready_def)

lemma not_found_not_ca_bundle: "is_not_found e \<Longrightarrow> \<not> is_ca_bundle_not_ready e"
  by (auto simp: is_not_found_def is_ca_bundle_not_ready_def split: err.splits)

subsection \<open>Effects\<close>

text \<open>
  A computation takes the log of everything the provider has asked the outside for so far
  and returns its result together with the extended log. \<open>'e\<close> is the type of log
  entries (requests with their outcome).
\<close>

type_synonym ('e, 'a) eff = "'e list \<Rightarrow> (err + 'a) \<times> 'e list"

definition ret :: "'a \<Rightarrow> ('e, 'a) eff" where
  [go_defs]: "ret x = (\<lambda>l. (Inr x, l))"

definition fail :: "err \<Rightarrow> ('e, 'a) eff" where
  [go_defs]: "fail e = (\<lambda>l. (Inl e, l))"

definition lift :: "err + 'a \<Rightarrow> ('e, 'a) eff" where
  [go_defs]: "lift r = (\<lambda>l. (r, l))"

definition attempt :: "('e, 'a) eff \<Rightarrow> (err + 'a \<Rightarrow> ('e, 'b) eff) \<Rightarrow> ('e, 'b) eff" where
  [go_defs]: "attempt m k = (\<lambda>l. case m l of (r, l') \<Rightarrow> k r l')"

definition bnd :: "('e, 'a) eff \<Rightarrow> ('a \<Rightarrow> ('e, 'b) eff) \<Rightarrow> ('e, 'b) eff" where
  [go_defs]: "bnd m k = attempt m (case_sum fail k)"

text \<open>\<open>if err != nil { return fmt.Errorf("msg: %w", err) }\<close>\<close>

definition wrap_err :: "string \<Rightarrow> ('e, 'a) eff \<Rightarrow> ('e, 'a) eff" where
  [go_defs]: "wrap_err msg m = attempt m (case_sum (\<lambda>e. fail (Wrapped msg e)) ret)"

text \<open>
  The idiom of every read of the API:
  \<open>if err := c.Get(...); err != nil { if IsNotFound(err) {absent}; return wrap(err) }; found\<close>
\<close>

definition on_get :: "string \<Rightarrow> ('e, 'a) eff \<Rightarrow> ('e, 'b) eff \<Rightarrow> ('a \<Rightarrow> ('e, 'b) eff) \<Rightarrow> ('e, 'b) eff"
  where
  [go_defs]: "on_get msg m absent found = attempt m
     (case_sum (\<lambda>e. if is_not_found e then absent else fail (Wrapped msg e)) found)"

text \<open>The state-free error monad, for the code that performs no request.\<close>

definition ebind :: "err + 'a \<Rightarrow> ('a \<Rightarrow> err + 'b) \<Rightarrow> err + 'b" where
  [go_defs]: "ebind r k = case_sum Inl k r"

definition ewrap :: "string \<Rightarrow> err + 'a \<Rightarrow> err + 'a" where
  [go_defs]: "ewrap msg r = case_sum (\<lambda>e. Inl (Wrapped msg e)) Inr r"

text \<open>A loop over a slice whose body may fail: the first error ends it.\<close>

primrec for_each :: "('a \<Rightarrow> ('e, unit) eff) \<Rightarrow> 'a list \<Rightarrow> ('e, unit) eff" where
  "for_each f [] = ret ()"
| "for_each f (x # xs) = bnd (f x) (\<lambda>_. for_each f xs)"

lemma ret_apply [simp]: "ret x l = (Inr x, l)"
  by (simp add: ret_def)

lemma fail_apply [simp]: "fail e l = (Inl e, l)"
  by (simp add: fail_def)

lemma lift_apply [simp]: "lift r l = (r, l)"
  by (simp add: lift_def)

lemma bnd_Inl [simp]: "m l = (Inl e, l') \<Longrightarrow> bnd m k l = (Inl e, l')"
  by (simp add: go_defs)

lemma bnd_Inr [simp]: "m l = (Inr x, l') \<Longrightarrow> bnd m k l = k x l'"
  by (simp add: go_defs)

lemma attempt_apply [simp]: "m l = (r, l') \<Longrightarrow> attempt m k l = k r l'"
  by (simp add: go_defs)

lemma ebind_simps [simp]: "ebind (Inl e) k = Inl e" "ebind (Inr x) k = k x"
  by (simp_all add: ebind_def)

lemma ewrap_simps [simp]: "ewrap msg (Inl e) = Inl (Wrapped msg e)" "ewrap msg (Inr x) = Inr x"
  by (simp_all add: ewrap_def)

lemma on_get_simps:
  "m l = (Inr x, l') \<Longrightarrow> on_get msg m a f l = f x l'"
  "m l = (Inl e, l') \<Longrightarrow> is_not_found e \<Longrightarrow> on_get msg m a f l = a l'"
  "m l = (Inl e, l') \<Longrightarrow> \<not> is_not_found e \<Longrightarrow> on_get msg m a f l = (Inl (Wrapped msg e), l')"
  by (simp_all add: on_get_def)

lemma wrap_err_simps:
  "m l = (Inr x, l') \<Longrightarrow> wrap_err msg m l = (Inr x, l')"
  "m l = (Inl e, l') \<Longrightarrow> wrap_err msg m l = (Inl (Wrapped msg e), l')"
  by (simp_all add: wrap_err_def)

lemma ebind_eq_Inr [simp]: "ebind r k = Inr y \<longleftrightarrow> (\<exists>x. r = Inr x \<and> k x = Inr y)"
  by (cases r) simp_all

lemma ebind_eq_Inl: "ebind r k = Inl e \<longleftrightarrow> r = Inl e \<or> (\<exists>x. r = Inr x \<and> k x = Inl e)"
  by (cases r) simp_all

lemma ewrap_eq_Inr [simp]: "ewrap msg r = Inr x \<longleftrightarrow> r = Inr x"
  by (cases r) simp_all

text \<open>A run that returned, taken apart.\<close>

named_theorems run_simps \<open>inversion of successful runs\<close>

lemma bnd_eq_Inr [run_simps]:
  "bnd m k l = (Inr y, l') \<longleftrightarrow> (\<exists>x l1. m l = (Inr x, l1) \<and> k x l1 = (Inr y, l'))"
  by (auto simp: bnd_def attempt_def split: prod.splits sum.splits)

lemma wrap_err_eq_Inr [run_simps]: "wrap_err msg m l = (Inr y, l') \<longleftrightarrow> m l = (Inr y, l')"
  by (auto simp: wrap_err_def attempt_def split: prod.splits sum.splits)

lemma on_get_eq_Inr [run_simps]:
  "on_get msg m a f l = (Inr y, l') \<longleftrightarrow>
     (\<exists>x l1. m l = (Inr x, l1) \<and> f x l1 = (Inr y, l')) \<or>
     (\<exists>e l1. m l = (Inl e, l1) \<and> is_not_found e \<and> a l1 = (Inr y, l'))"
  by (auto simp: on_get_def attempt_def split: prod.splits sum.splits)

lemma basic_eq_Inr [run_simps]:
  "ret x l = (Inr y, l') \<longleftrightarrow> x = y \<and> l = l'"
  "\<not> fail e l = (Inr y, l')"
  "lift r l = (Inr y, l') \<longleftrightarrow> r = Inr y \<and> l = l'"
  by auto

subsection \<open>A logic of effects\<close>

text \<open>
  \<open>post m Q\<close>: whatever the log was, \<open>m\<close> only appends to it, and \<open>Q\<close> relates the
  result to the entries appended. All rules are compositional, so the effects of a
  handler are derived from those of the operations it calls.
\<close>

definition post :: "('e, 'a) eff \<Rightarrow> (err + 'a \<Rightarrow> 'e list \<Rightarrow> bool) \<Rightarrow> bool" where
  "post m Q \<longleftrightarrow> (\<forall>l. \<exists>new. snd (m l) = l @ new \<and> Q (fst (m l)) new)"

definition emits :: "('e \<Rightarrow> bool) \<Rightarrow> ('e, 'a) eff \<Rightarrow> bool" where
  "emits P m \<longleftrightarrow> post m (\<lambda>_ new. list_all P new)"

lemma postI: "(\<And>l. \<exists>new. snd (m l) = l @ new \<and> Q (fst (m l)) new) \<Longrightarrow> post m Q"
  by (simp add: post_def)

lemma postD:
  assumes "post m Q" and "m l = (r, l')"
  shows "\<exists>new. l' = l @ new \<and> Q r new"
proof -
  from assms(1) obtain new where "snd (m l) = l @ new \<and> Q (fst (m l)) new"
    unfolding post_def by blast
  with assms(2) show ?thesis by auto
qed

lemma post_weaken: "post m Q \<Longrightarrow> (\<And>r new. Q r new \<Longrightarrow> Q' r new) \<Longrightarrow> post m Q'"
  unfolding post_def by meson

lemma post_ret: "Q (Inr x) [] \<Longrightarrow> post (ret x) Q"
  by (simp add: post_def)

lemma post_fail: "Q (Inl e) [] \<Longrightarrow> post (fail e) Q"
  by (simp add: post_def)

lemma post_lift: "Q r [] \<Longrightarrow> post (lift r) Q"
  by (simp add: post_def)

lemma post_attempt:
  assumes m: "post m Q1" and k: "\<And>r n1. Q1 r n1 \<Longrightarrow> post (k r) (\<lambda>r' n2. Q r' (n1 @ n2))"
  shows "post (attempt m k) Q"
proof (rule postI)
  fix l
  obtain r l1 where ml: "m l = (r, l1)" by (cases "m l")
  from postD [OF m ml] obtain n1 where l1: "l1 = l @ n1" and q1: "Q1 r n1" by blast
  obtain r' l2 where kl: "k r l1 = (r', l2)" by (cases "k r l1")
  from postD [OF k [OF q1] kl] obtain n2 where "l2 = l1 @ n2" "Q r' (n1 @ n2)" by blast
  with ml kl l1 show "\<exists>new. snd (attempt m k l) = l @ new \<and> Q (fst (attempt m k l)) new"
    by (intro exI [of _ "n1 @ n2"]) simp
qed

lemma post_bnd:
  assumes m: "post m Q1"
    and err: "\<And>e n1. Q1 (Inl e) n1 \<Longrightarrow> Q (Inl e) n1"
    and k: "\<And>x n1. Q1 (Inr x) n1 \<Longrightarrow> post (k x) (\<lambda>r' n2. Q r' (n1 @ n2))"
  shows "post (bnd m k) Q"
  unfolding bnd_def
proof (rule post_attempt [OF m])
  fix r n1
  assume "Q1 r n1"
  then show "post (case_sum fail k r) (\<lambda>r' n2. Q r' (n1 @ n2))"
    by (cases r) (simp_all add: post_fail err k)
qed

lemma emits_ret [post_intros]: "emits P (ret x)"
  by (simp add: emits_def post_ret)

lemma emits_fail [post_intros]: "emits P (fail e)"
  by (simp add: emits_def post_fail)

lemma emits_lift [post_intros]: "emits P (lift r)"
  by (simp add: emits_def post_lift)

lemma emits_attempt [post_intros]:
  assumes "emits P m" and "\<And>r. emits P (k r)"
  shows "emits P (attempt m k)"
  unfolding emits_def
  by (rule post_attempt [OF assms(1) [unfolded emits_def]])
     (auto intro: post_weaken [OF assms(2) [unfolded emits_def]])

lemma emits_case_sum [post_intros]:
  "(\<And>e. emits P (f e)) \<Longrightarrow> (\<And>x. emits P (g x)) \<Longrightarrow> emits P (case_sum f g r)"
  by (cases r) simp_all

lemma emits_case_option [post_intros]:
  "emits P f \<Longrightarrow> (\<And>x. emits P (g x)) \<Longrightarrow> emits P (case_option f g r)"
  by (cases r) simp_all

lemma emits_if [post_intros]:
  "(b \<Longrightarrow> emits P f) \<Longrightarrow> (\<not> b \<Longrightarrow> emits P g) \<Longrightarrow> emits P (if b then f else g)"
  by simp

lemma emits_let [post_intros]: "emits P (f t) \<Longrightarrow> emits P (Let t f)"
  by simp

lemma emits_bnd [post_intros]:
  "emits P m \<Longrightarrow> (\<And>x. emits P (k x)) \<Longrightarrow> emits P (bnd m k)"
  unfolding bnd_def by (intro post_intros)

lemma emits_wrap_err [post_intros]: "emits P m \<Longrightarrow> emits P (wrap_err msg m)"
  unfolding wrap_err_def by (intro post_intros)

lemma emits_on_get [post_intros]:
  "emits P m \<Longrightarrow> emits P a \<Longrightarrow> (\<And>x. emits P (f x)) \<Longrightarrow> emits P (on_get msg m a f)"
  unfolding on_get_def by (intro post_intros)

lemma emits_for_each [post_intros]:
  "(\<And>x. x \<in> set xs \<Longrightarrow> emits P (f x)) \<Longrightarrow> emits P (for_each f xs)"
  by (induction xs) (auto intro: post_intros)

lemma emits_mono: "emits P m \<Longrightarrow> (\<And>e. P e \<Longrightarrow> Q e) \<Longrightarrow> emits Q m"
  unfolding emits_def by (erule post_weaken) (auto simp: list_all_iff)

lemma emitsD:
  assumes "emits P m" and "m l = (r, l')"
  shows "\<exists>new. l' = l @ new \<and> list_all P new"
  using postD [OF assms(1) [unfolded emits_def] assms(2)] .

lemma emits_entry:
  assumes "emits P m" and "m l = (r, l')" and "e \<in> set l'" and "e \<notin> set l"
  shows "P e"
  using emitsD [OF assms(1,2)] assms(3,4) by (auto simp: list_all_iff)

text \<open>\<open>yields Q m\<close>: whatever \<open>m\<close> returns without an error satisfies \<open>Q\<close>.\<close>

definition yields :: "('a \<Rightarrow> bool) \<Rightarrow> ('e, 'a) eff \<Rightarrow> bool" where
  "yields Q m \<longleftrightarrow> (\<forall>l x l'. m l = (Inr x, l') \<longrightarrow> Q x)"

named_theorems yield_intros \<open>compositional rules for results\<close>

lemma yieldsD: "yields Q m \<Longrightarrow> m l = (Inr x, l') \<Longrightarrow> Q x"
  unfolding yields_def by blast

lemma yields_ret [yield_intros]: "Q x \<Longrightarrow> yields Q (ret x)"
  by (simp add: yields_def)

lemma yields_fail [yield_intros]: "yields Q (fail e)"
  by (simp add: yields_def)

lemma yields_lift [yield_intros]: "(\<And>x. r = Inr x \<Longrightarrow> Q x) \<Longrightarrow> yields Q (lift r)"
  by (simp add: yields_def)

lemma yields_bnd [yield_intros]:
  assumes "yields Q1 m" and "\<And>x. Q1 x \<Longrightarrow> yields Q (k x)"
  shows "yields Q (bnd m k)"
  unfolding yields_def
  by (auto simp: bnd_def attempt_def split: prod.splits sum.splits
      dest: yieldsD [OF assms(1)] dest!: yieldsD [OF assms(2)])

lemma yields_true: "yields (\<lambda>_. True) m"
  by (simp add: yields_def)

lemma yields_if [yield_intros]:
  "(b \<Longrightarrow> yields Q f) \<Longrightarrow> (\<not> b \<Longrightarrow> yields Q g) \<Longrightarrow> yields Q (if b then f else g)"
  by simp

lemma yields_case_option [yield_intros]:
  "(r = None \<Longrightarrow> yields Q f) \<Longrightarrow> (\<And>x. r = Some x \<Longrightarrow> yields Q (g x)) \<Longrightarrow> yields Q (case_option f g r)"
  by (cases r) simp_all

lemma yields_wrap_err [yield_intros]: "yields Q m \<Longrightarrow> yields Q (wrap_err msg m)"
  unfolding yields_def by (auto simp: wrap_err_def attempt_def split: prod.splits sum.splits)

lemma yields_on_get [yield_intros]:
  assumes "yields R m" and "yields Q a" and "\<And>x. R x \<Longrightarrow> yields Q (f x)"
  shows "yields Q (on_get msg m a f)"
  unfolding yields_def
  by (auto simp: on_get_def attempt_def split: prod.splits sum.splits if_splits
      dest: yieldsD [OF assms(1)] yieldsD [OF assms(2)] dest!: yieldsD [OF assms(3)])

lemma yields_mono: "yields P m \<Longrightarrow> (\<And>x. P x \<Longrightarrow> Q x) \<Longrightarrow> yields Q m"
  unfolding yields_def by blast

lemma yields_conj: "yields P m \<Longrightarrow> yields Q m \<Longrightarrow> yields (\<lambda>x. P x \<and> Q x) m"
  unfolding yields_def by blast

text \<open>The two together: what is emitted after a result may depend on that result.\<close>

lemma emits_bnd_yields:
  assumes "emits P m" and "yields Q m" and "\<And>x. Q x \<Longrightarrow> emits P (k x)"
  shows "emits P (bnd m k)"
proof -
  have "\<exists>new. snd (bnd m k l) = l @ new \<and> list_all P new" for l
  proof -
    obtain r l1 where m: "m l = (r, l1)" by fastforce
    from emitsD [OF assms(1) m] obtain n1 where n1: "l1 = l @ n1" "list_all P n1" by blast
    show ?thesis
    proof (cases r)
      case (Inl e)
      with m n1 show ?thesis by (intro exI [of _ n1]) simp
    next
      case (Inr x)
      with m assms(2) have "emits P (k x)" by (intro assms(3)) (auto dest: yieldsD)
      obtain r2 l2 where k: "k x l1 = (r2, l2)" by fastforce
      from emitsD [OF \<open>emits P (k x)\<close> k] obtain n2 where "l2 = l1 @ n2" "list_all P n2" by blast
      with Inr m n1 k show ?thesis by (intro exI [of _ "n1 @ n2"]) simp
    qed
  qed
  then show ?thesis by (simp add: emits_def post_def)
qed

lemma emits_on_get_yields:
  assumes m: "emits P m" and y: "yields Q m" and a: "emits P a" and f: "\<And>x. Q x \<Longrightarrow> emits P (f x)"
  shows "emits P (on_get msg m a f)"
proof -
  have "\<exists>new. snd (on_get msg m a f l) = l @ new \<and> list_all P new" for l
  proof -
    obtain r l1 where ml: "m l = (r, l1)" by fastforce
    from emitsD [OF m ml] obtain n1 where n1: "l1 = l @ n1" "list_all P n1" by blast
    have step: "\<exists>new. snd (t l1) = l @ new \<and> list_all P new" if "emits P t" for t :: "('a, 'c) eff"
    proof -
      obtain r2 l2 where k: "t l1 = (r2, l2)" by fastforce
      from emitsD [OF that k] obtain n2 where "l2 = l1 @ n2" "list_all P n2" by blast
      with n1 k show ?thesis by (intro exI [of _ "n1 @ n2"]) simp
    qed
    show ?thesis
    proof (cases r)
      case (Inl e)
      with ml n1 step [OF a] show ?thesis
        by (cases "is_not_found e") (auto simp: on_get_simps)
    next
      case (Inr x)
      with ml y have "Q x" by (auto dest: yieldsD)
      with step [OF f] Inr ml show ?thesis by (simp add: on_get_simps)
    qed
  qed
  then show ?thesis by (simp add: emits_def post_def)
qed

end
