(* ===== verification/GoLib.thy ===== *)
theory GoLib
  imports Prelude
begin

section \<open>The Go standard library, as far as the provider uses it\<close>

text \<open>
  Strings are lists of bytes (\<^typ>\<open>char\<close>), as in Go. The functions modelled are those of
  \<open>strings\<close> (HasPrefix is \<^const>\<open>prefix\<close>, TrimPrefix, Cut, LastIndex, Contains),
  \<open>strconv\<close> (Itoa, Atoi, FormatBool) and the verbs \<open>%q\<close> and \<open>%d\<close> of \<open>fmt\<close>. Bytes from
  128 on are copied by \<open>%q\<close>, which is what Go does with printable characters. 64-bit
  integers are \<^typ>\<open>64 word\<close>s read with \<^const>\<open>sint\<close>.
\<close>

type_synonym i64 = "64 word"

abbreviation max_i64 :: int where "max_i64 \<equiv> 9223372036854775807"
abbreviation min_i64 :: int where "min_i64 \<equiv> - 9223372036854775808"

subsection \<open>strings\<close>

definition TrimPrefix :: "string \<Rightarrow> string \<Rightarrow> string" where
  "TrimPrefix s p = (if prefix p s then drop (length p) s else s)"

definition cut_before :: "char \<Rightarrow> string \<Rightarrow> string" where
  "cut_before c s = takeWhile (\<lambda>x. x \<noteq> c) s"

fun LastIndex :: "string \<Rightarrow> char \<Rightarrow> nat option" where
  "LastIndex [] c = None"
| "LastIndex (x # xs) c =
     (case LastIndex xs c of
        Some i \<Rightarrow> Some (Suc i)
      | None \<Rightarrow> if x = c then Some 0 else None)"

lemma LastIndex_None_iff: "LastIndex s c = None \<longleftrightarrow> c \<notin> set s"
  by (induction s) (auto split: option.splits)

lemma LastIndex_append: "c \<notin> set t \<Longrightarrow> LastIndex (s @ c # t) c = Some (length s)"
  by (induction s) (auto simp: LastIndex_None_iff split: option.splits)

lemma TrimPrefix_append [simp]: "TrimPrefix (p @ s) p = s"
  by (simp add: TrimPrefix_def)

lemma TrimPrefix_other: "\<not> prefix p s \<Longrightarrow> TrimPrefix s p = s"
  by (simp add: TrimPrefix_def)

lemma cut_before_append: "c \<notin> set s \<Longrightarrow> cut_before c (s @ c # t) = s"
  by (induction s) (auto simp: cut_before_def)

lemma cut_before_none: "c \<notin> set s \<Longrightarrow> cut_before c s = s"
  by (induction s) (auto simp: cut_before_def)

subsection \<open>strconv\<close>

definition is_digit :: "char \<Rightarrow> bool" where
  "is_digit c \<longleftrightarrow> 48 \<le> (of_char c :: nat) \<and> (of_char c :: nat) \<le> 57"

definition digit_val :: "char \<Rightarrow> int" where
  "digit_val c = int (of_char c) - 48"

definition digit :: "int \<Rightarrow> char" where
  "digit n = char_of (48 + nat n)"

definition digits_val :: "string \<Rightarrow> int" where
  "digits_val s = foldl (\<lambda>a c. a * 10 + digit_val c) 0 s"

function itoa_pos :: "int \<Rightarrow> string" where
  "itoa_pos n = (if n < 10 then [digit n] else itoa_pos (n div 10) @ [digit (n mod 10)])"
  by pat_completeness auto
termination
  by (relation "measure nat") auto

declare itoa_pos.simps [simp del]

definition Itoa :: "int \<Rightarrow> string" where
  "Itoa n = (if n < 0 then CHR ''-'' # itoa_pos (- n) else itoa_pos n)"

text \<open>
  \<open>Atoi\<close> returns the value and whether the error is nil. A number out of range gives the
  nearest 64-bit value together with an error.
\<close>

definition clamp_i64 :: "int \<Rightarrow> int \<times> bool" where
  "clamp_i64 v = (if v > max_i64 then (max_i64, False)
     else if v < min_i64 then (min_i64, False) else (v, True))"

fun Atoi :: "string \<Rightarrow> int \<times> bool" where
  "Atoi s = (case s of
       [] \<Rightarrow> (0, False)
     | c # cs \<Rightarrow>
         (let neg = (c = CHR ''-''); ds = (if c = CHR ''-'' \<or> c = CHR ''+'' then cs else s)
          in if ds = [] \<or> \<not> list_all is_digit ds then (0, False)
             else clamp_i64 (if neg then - digits_val ds else digits_val ds)))"

declare Atoi.simps [simp del]

definition FormatBool :: "bool \<Rightarrow> string" where
  "FormatBool b = (if b then ''true'' else ''false'')"

lemma of_char_char_of_small: "n < 256 \<Longrightarrow> (of_char (char_of (n :: nat)) :: nat) = n"
  by simp

lemma is_digit_digit [simp]: "0 \<le> n \<Longrightarrow> n < 10 \<Longrightarrow> is_digit (digit n)"
  by (simp add: is_digit_def digit_def nat_less_iff)

lemma digit_val_digit [simp]: "0 \<le> n \<Longrightarrow> n < 10 \<Longrightarrow> digit_val (digit n) = n"
  by (simp add: digit_val_def digit_def)

lemma digits_val_snoc: "digits_val (s @ [c]) = digits_val s * 10 + digit_val c"
  by (simp add: digits_val_def)

lemma digits_val_nonneg: "list_all is_digit s \<Longrightarrow> 0 \<le> digits_val s"
proof (induction s rule: rev_induct)
  case Nil
  then show ?case by (simp add: digits_val_def)
next
  case (snoc c s)
  then have "0 \<le> digit_val c" by (simp add: is_digit_def digit_val_def)
  with snoc show ?case by (simp add: digits_val_snoc)
qed

lemma itoa_pos_props:
  "0 \<le> n \<Longrightarrow> itoa_pos n \<noteq> [] \<and> list_all is_digit (itoa_pos n) \<and> digits_val (itoa_pos n) = n"
proof (induction n rule: itoa_pos.induct)
  case (1 n)
  show ?case
  proof (cases "n < 10")
    case True
    with 1 show ?thesis
      by (simp add: itoa_pos.simps [of n] digits_val_def)
  next
    case False
    with 1 have "itoa_pos (n div 10) \<noteq> []" "list_all is_digit (itoa_pos (n div 10))"
      "digits_val (itoa_pos (n div 10)) = n div 10" by simp_all
    with False show ?thesis
      by (simp add: itoa_pos.simps [of n] digits_val_snoc)
  qed
qed

lemma is_digit_not_sign: "is_digit c \<Longrightarrow> c \<noteq> CHR ''-'' \<and> c \<noteq> CHR ''+''"
  by (auto simp: is_digit_def)

lemma Atoi_digits:
  assumes "s \<noteq> []" and "list_all is_digit s"
  shows "Atoi s = clamp_i64 (digits_val s)"
proof -
  from assms obtain c cs where s: "s = c # cs" by (cases s) auto
  with assms(2) have "c \<noteq> CHR ''-''" "c \<noteq> CHR ''+''"
    using is_digit_not_sign by auto
  with s assms show ?thesis by (simp add: Atoi.simps [of "c # cs"])
qed

lemma Atoi_Itoa: "0 \<le> n \<Longrightarrow> n \<le> max_i64 \<Longrightarrow> Atoi (Itoa n) = (n, True)"
  using itoa_pos_props [of n] by (simp add: Itoa_def Atoi_digits clamp_i64_def)

lemma Atoi_ok_range: "Atoi s = (n, True) \<Longrightarrow> min_i64 \<le> n \<and> n \<le> max_i64"
  by (auto simp: Atoi.simps [of s] clamp_i64_def Let_def split: list.splits if_splits)

subsection \<open>fmt\<close>

definition hexdigit :: "nat \<Rightarrow> char" where
  "hexdigit n = (if n < 10 then char_of (48 + n) else char_of (87 + n))"

definition hex_byte :: "nat \<Rightarrow> string" where
  "hex_byte n = [hexdigit (n div 16), hexdigit (n mod 16)]"

definition quote_char :: "char \<Rightarrow> string" where
  "quote_char c = (let n = (of_char c :: nat) in
     if n = 34 then [char_of (92::nat), char_of (34::nat)]
     else if n = 92 then [char_of (92::nat), char_of (92::nat)]
     else if n = 7 then [char_of (92::nat), CHR ''a'']
     else if n = 8 then [char_of (92::nat), CHR ''b'']
     else if n = 12 then [char_of (92::nat), CHR ''f'']
     else if n = 10 then [char_of (92::nat), CHR ''n'']
     else if n = 13 then [char_of (92::nat), CHR ''r'']
     else if n = 9 then [char_of (92::nat), CHR ''t'']
     else if n = 11 then [char_of (92::nat), CHR ''v'']
     else if n < 32 \<or> n = 127 then [char_of (92::nat), CHR ''x''] @ hex_byte n
     else [c])"

text \<open>The verb \<open>%q\<close>.\<close>

definition quote :: "string \<Rightarrow> string" where
  "quote s = [char_of (34::nat)] @ concat (map quote_char s) @ [char_of (34::nat)]"

text \<open>The verb \<open>%v\<close> on a slice of strings.\<close>

fun join_space :: "string list \<Rightarrow> string" where
  "join_space [] = []"
| "join_space [s] = s"
| "join_space (s # t # ts) = s @ CHR '' '' # join_space (t # ts)"

definition show_strings :: "string list \<Rightarrow> string" where
  "show_strings xs = ''['' @ join_space xs @ '']''"

end
