(* ===== verification/Json.thy ===== *)
theory Json
  imports GoLib
begin

section \<open>encoding/json\<close>

text \<open>
  JSON values, the syntax accepted by \<open>json.Unmarshal\<close> and the encoding of strings by
  \<open>json.Marshal\<close>. Objects keep the order and the duplicates of the text. The parser has
  the depth limit of the library (10000) and runs on fuel; \<open>json_fuel_enough\<close> shows that
  the fuel chosen by \<open>json_parse\<close> is always enough.
\<close>

datatype json =
    JNull
  | JBool bool
  | JNum string
  | JStr string
  | JArr "json list"
  | JObj "(string \<times> json) list"

abbreviation dq :: char where "dq \<equiv> CHR 0x22"
abbreviation bs :: char where "bs \<equiv> CHR 0x5C"

abbreviation byte :: "char \<Rightarrow> nat" where "byte c \<equiv> of_char c"

subsection \<open>UTF-8\<close>

definition is_cont :: "nat \<Rightarrow> bool" where
  "is_cont n \<longleftrightarrow> 128 \<le> n \<and> n < 192"

text \<open>The length of the well-formed sequence at the head of the text, 0 if there is none.\<close>

definition utf8_len :: "string \<Rightarrow> nat" where
  "utf8_len s = (case map byte (take 4 s) of
       [] \<Rightarrow> 0
     | a # t \<Rightarrow>
        if a < 128 then 1
        else if 194 \<le> a \<and> a < 224 \<and> 1 \<le> length t \<and> is_cont (t ! 0) then 2
        else if 224 \<le> a \<and> a < 240 \<and> 2 \<le> length t \<and> is_cont (t ! 0) \<and> is_cont (t ! 1)
             \<and> (a = 224 \<longrightarrow> 160 \<le> t ! 0) \<and> (a = 237 \<longrightarrow> t ! 0 < 160) then 3
        else if 240 \<le> a \<and> a < 245 \<and> 3 \<le> length t \<and> is_cont (t ! 0) \<and> is_cont (t ! 1) \<and> is_cont (t ! 2)
             \<and> (a = 240 \<longrightarrow> 144 \<le> t ! 0) \<and> (a = 244 \<longrightarrow> t ! 0 < 144) then 4
        else 0)"

definition utf8_encode :: "nat \<Rightarrow> string" where
  "utf8_encode n =
     (if n < 128 then [char_of n]
      else if n < 2048 then [char_of (192 + n div 64), char_of (128 + n mod 64)]
      else if n < 65536 then
        [char_of (224 + n div 4096), char_of (128 + n div 64 mod 64), char_of (128 + n mod 64)]
      else [char_of (240 + n div 262144), char_of (128 + n div 4096 mod 64),
            char_of (128 + n div 64 mod 64), char_of (128 + n mod 64)])"

definition replacement :: string where
  "replacement = [CHR 0xEF, CHR 0xBF, CHR 0xBD]"

subsection \<open>Tokens\<close>

definition is_ws :: "char \<Rightarrow> bool" where
  "is_ws c \<longleftrightarrow> byte c = 32 \<or> byte c = 9 \<or> byte c = 10 \<or> byte c = 13"

definition skip_ws :: "string \<Rightarrow> string" where
  "skip_ws s = dropWhile is_ws s"

definition hex_val :: "char \<Rightarrow> nat option" where
  "hex_val c = (let n = byte c in
     if 48 \<le> n \<and> n \<le> 57 then Some (n - 48)
     else if 97 \<le> n \<and> n \<le> 102 then Some (n - 87)
     else if 65 \<le> n \<and> n \<le> 70 then Some (n - 55)
     else None)"

fun hex4 :: "string \<Rightarrow> nat option" where
  "hex4 (a # b # c # d # _) =
     (case (hex_val a, hex_val b, hex_val c, hex_val d) of
        (Some i, Some j, Some k, Some l) \<Rightarrow> Some (((i * 16 + j) * 16 + k) * 16 + l)
      | _ \<Rightarrow> None)"
| "hex4 _ = None"

definition escape_val :: "char \<Rightarrow> char option" where
  "escape_val c =
     (if c = dq \<or> c = bs \<or> c = CHR ''/'' then Some c
      else if c = CHR ''b'' then Some (char_of (8::nat))
      else if c = CHR ''f'' then Some (char_of (12::nat))
      else if c = CHR ''n'' then Some (char_of (10::nat))
      else if c = CHR ''r'' then Some (char_of (13::nat))
      else if c = CHR ''t'' then Some (char_of (9::nat))
      else None)"

definition low_surrogate :: "nat \<Rightarrow> string \<Rightarrow> nat option" where
  "low_surrogate hi s =
     (if 55296 \<le> hi \<and> hi < 56320 \<and> take 2 s = [bs, CHR ''u''] then
        (case hex4 (drop 2 s) of
           Some lo \<Rightarrow> if 56320 \<le> lo \<and> lo < 57344
             then Some (65536 + (hi - 55296) * 1024 + (lo - 56320)) else None
         | None \<Rightarrow> None)
      else None)"

definition prepend :: "string \<Rightarrow> (string \<times> string) option \<Rightarrow> (string \<times> string) option" where
  "prepend p r = map_option (\<lambda>(t, rest). (p @ t, rest)) r"

text \<open>The rest of a string literal, after its opening quote: its value and what follows it.\<close>

function json_str :: "string \<Rightarrow> (string \<times> string) option" where
  "json_str [] = None"
| "json_str (c # cs) =
     (if c = dq then Some ([], cs)
      else if c = bs then
        (case cs of
           [] \<Rightarrow> None
         | e # r \<Rightarrow>
            if e = CHR ''u'' then
              (case hex4 r of
                 None \<Rightarrow> None
               | Some n \<Rightarrow>
                  if 55296 \<le> n \<and> n < 57344 then
                    (case low_surrogate n (drop 4 r) of
                       Some m \<Rightarrow> prepend (utf8_encode m) (json_str (drop 10 r))
                     | None \<Rightarrow> prepend replacement (json_str (drop 4 r)))
                  else prepend (utf8_encode n) (json_str (drop 4 r)))
            else (case escape_val e of
                    None \<Rightarrow> None
                  | Some x \<Rightarrow> prepend [x] (json_str r)))
      else if byte c < 32 then None
      else if utf8_len (c # cs) = 0 then prepend replacement (json_str cs)
      else prepend (take (utf8_len (c # cs)) (c # cs)) (json_str (drop (utf8_len (c # cs) - 1) cs)))"
  by pat_completeness auto
termination
  by (relation "measure length") auto

declare json_str.simps [simp del]

definition span_digits :: "string \<Rightarrow> string \<times> string" where
  "span_digits s = (takeWhile is_digit s, dropWhile is_digit s)"

definition num_int :: "string \<Rightarrow> (string \<times> string) option" where
  "num_int s = (case s of
       [] \<Rightarrow> None
     | c # cs \<Rightarrow>
        if c = CHR ''0'' then Some ([c], cs)
        else if is_digit c then Some (span_digits s) else None)"

definition num_frac :: "string \<Rightarrow> string \<times> string" where
  "num_frac s = (case s of
       [] \<Rightarrow> ([], s)
     | c # cs \<Rightarrow>
        if c = CHR ''.'' \<and> fst (span_digits cs) \<noteq> []
        then (c # fst (span_digits cs), snd (span_digits cs)) else ([], s))"

definition num_exp :: "string \<Rightarrow> string \<times> string" where
  "num_exp s = (case s of
       [] \<Rightarrow> ([], s)
     | c # cs \<Rightarrow>
        if c = CHR ''e'' \<or> c = CHR ''E'' then
          (case cs of
             [] \<Rightarrow> ([], s)
           | g # ds \<Rightarrow>
              (let (sg, r) = (if g = CHR ''+'' \<or> g = CHR ''-'' then ([g], ds) else ([], cs))
               in if fst (span_digits r) \<noteq> []
                  then (c # sg @ fst (span_digits r), snd (span_digits r)) else ([], s)))
        else ([], s))"

definition json_num :: "string \<Rightarrow> (json \<times> string) option" where
  "json_num s =
     (let (sg, r) = (case s of c # cs \<Rightarrow> if c = CHR ''-'' then ([c], cs) else ([], s) | [] \<Rightarrow> ([], s))
      in case num_int r of
           None \<Rightarrow> None
         | Some (i, r1) \<Rightarrow>
            (let (f, r2) = num_frac r1; (e, r3) = num_exp r2
             in Some (JNum (sg @ i @ f @ e), r3)))"

subsection \<open>Values\<close>

fun json_value :: "nat \<Rightarrow> nat \<Rightarrow> string \<Rightarrow> (json \<times> string) option"
  and json_elems :: "nat \<Rightarrow> nat \<Rightarrow> string \<Rightarrow> (json list \<times> string) option"
  and json_members :: "nat \<Rightarrow> nat \<Rightarrow> string \<Rightarrow> ((string \<times> json) list \<times> string) option" where
  "json_value 0 d s = None"
| "json_value (Suc f) d s =
     (case skip_ws s of
        [] \<Rightarrow> None
      | c # cs \<Rightarrow>
         if c = dq then map_option (\<lambda>(t, r). (JStr t, r)) (json_str cs)
         else if c = CHR ''{'' then
           (if d = 0 then None
            else if take 1 (skip_ws cs) = ''}'' then Some (JObj [], drop 1 (skip_ws cs))
            else map_option (\<lambda>(ms, r). (JObj ms, r)) (json_members f (d - 1) cs))
         else if c = CHR ''['' then
           (if d = 0 then None
            else if take 1 (skip_ws cs) = '']'' then Some (JArr [], drop 1 (skip_ws cs))
            else map_option (\<lambda>(vs, r). (JArr vs, r)) (json_elems f (d - 1) cs))
         else if prefix ''true'' (c # cs) then Some (JBool True, drop 3 cs)
         else if prefix ''false'' (c # cs) then Some (JBool False, drop 4 cs)
         else if prefix ''null'' (c # cs) then Some (JNull, drop 3 cs)
         else json_num (c # cs))"
| "json_elems 0 d s = None"
| "json_elems (Suc f) d s =
     (case json_value f d s of
        None \<Rightarrow> None
      | Some (v, r) \<Rightarrow>
         (case skip_ws r of
            [] \<Rightarrow> None
          | c # cs \<Rightarrow>
             if c = CHR '']'' then Some ([v], cs)
             else if c = CHR '','' then map_option (\<lambda>(vs, t). (v # vs, t)) (json_elems f d cs)
             else None))"
| "json_members 0 d s = None"
| "json_members (Suc f) d s =
     (case skip_ws s of
        [] \<Rightarrow> None
      | q # s1 \<Rightarrow>
         if q \<noteq> dq then None
         else (case json_str s1 of
                 None \<Rightarrow> None
               | Some (k, s2) \<Rightarrow>
                  if take 1 (skip_ws s2) \<noteq> '':'' then None
                  else (case json_value f d (drop 1 (skip_ws s2)) of
                          None \<Rightarrow> None
                        | Some (v, s3) \<Rightarrow>
                           (case skip_ws s3 of
                              [] \<Rightarrow> None
                            | c # cs \<Rightarrow>
                               if c = CHR ''}'' then Some ([(k, v)], cs)
                               else if c = CHR '','' then
                                 map_option (\<lambda>(ms, t). ((k, v) # ms, t)) (json_members f d cs)
                               else None))))"

definition max_depth :: nat where "max_depth = 10000"

definition json_fuel :: "string \<Rightarrow> nat" where
  "json_fuel s = 2 * length s + 2"

text \<open>A whole text: one value, with blanks around it.\<close>

definition json_parse :: "string \<Rightarrow> json option" where
  "json_parse s = (case json_value (json_fuel s) max_depth s of
     Some (v, r) \<Rightarrow> if skip_ws r = [] then Some v else None
   | None \<Rightarrow> None)"

subsection \<open>Encoding of strings\<close>

definition u_escape :: "nat \<Rightarrow> string" where
  "u_escape n = [bs, CHR ''u'', hexdigit (n div 4096 mod 16), hexdigit (n div 256 mod 16),
     hexdigit (n div 16 mod 16), hexdigit (n mod 16)]"

text \<open>Control characters, the quote, the backslash and the HTML characters are escaped.\<close>

definition encode_ascii :: "char \<Rightarrow> string" where
  "encode_ascii c = (let n = byte c in
     if c = dq \<or> c = bs then [bs, c]
     else if n = 8 then [bs, CHR ''b'']
     else if n = 12 then [bs, CHR ''f'']
     else if n = 10 then [bs, CHR ''n'']
     else if n = 13 then [bs, CHR ''r'']
     else if n = 9 then [bs, CHR ''t'']
     else if n < 32 \<or> n = 60 \<or> n = 62 \<or> n = 38 then u_escape n
     else [c])"

function encode_body :: "string \<Rightarrow> string" where
  "encode_body [] = []"
| "encode_body (c # cs) =
     (if byte c < 128 then encode_ascii c @ encode_body cs
      else (let k = utf8_len (c # cs) in
        if k = 0 then u_escape 65533 @ encode_body cs
        else if take 3 (c # cs) = [CHR 0xE2, CHR 0x80, CHR 0xA8] then u_escape 8232 @ encode_body (drop 2 cs)
        else if take 3 (c # cs) = [CHR 0xE2, CHR 0x80, CHR 0xA9] then u_escape 8233 @ encode_body (drop 2 cs)
        else take k (c # cs) @ encode_body (drop (k - 1) cs)))"
  by pat_completeness auto
termination
  by (relation "measure length") auto

declare encode_body.simps [simp del]

definition encode_string :: "string \<Rightarrow> string" where
  "encode_string s = [dq] @ encode_body s @ [dq]"

text \<open>\<open>json.Marshal(map[string]string{k: v})\<close>\<close>

definition marshal_single :: "string \<Rightarrow> string \<Rightarrow> string" where
  "marshal_single k v = ''{'' @ encode_string k @ '':'' @ encode_string v @ ''}''"


subsection \<open>Every parser consumes its text\<close>

lemma prepend_eq_Some: "prepend p r = Some (t, rest) \<longleftrightarrow> (\<exists>t'. r = Some (t', rest) \<and> t = p @ t')"
  by (auto simp: prepend_def)

lemma prepend_None [simp]: "prepend p None = None"
  by (simp add: prepend_def)

lemma prepend_Some [simp]: "prepend p (Some (t, r)) = Some (p @ t, r)"
  by (simp add: prepend_def)

lemma length_skip_ws: "length (skip_ws s) \<le> length s"
  by (simp add: skip_ws_def length_dropWhile_le)

lemma skip_ws_Cons: "skip_ws s = c # cs \<Longrightarrow> Suc (length cs) \<le> length s"
  using length_skip_ws [of s] by simp

lemma json_str_shrinks: "json_str s = Some (t, r) \<Longrightarrow> length r < length s"
proof (induction s arbitrary: t rule: length_induct)
  case (1 s)
  show ?case
  proof (cases s)
    case Nil
    with 1 show ?thesis by (simp add: json_str.simps)
  next
    case (Cons c cs)
    have IH: "json_str u = Some (t', r) \<Longrightarrow> length u \<le> length cs \<Longrightarrow> length r \<le> length cs" for u t'
    proof -
      assume a: "json_str u = Some (t', r)" "length u \<le> length cs"
      with 1(1) Cons have "length r < length u" by (metis le_imp_less_Suc length_Cons)
      with a(2) show ?thesis by simp
    qed
    from 1(2) have "length r \<le> length cs"
      unfolding Cons json_str.simps(2) [of c cs]
      by (auto split: if_splits list.splits option.splits simp: prepend_eq_Some dest!: IH)
    with Cons show ?thesis by simp
  qed
qed

lemma span_digits_shrinks: "length (snd (span_digits s)) \<le> length s"
  by (simp add: span_digits_def length_dropWhile_le)

lemma num_int_shrinks: "num_int s = Some (i, r) \<Longrightarrow> length r < length s"
  by (auto simp: num_int_def span_digits_def split: list.splits if_splits)
     (metis le_imp_less_Suc length_dropWhile_le)

lemma num_frac_shrinks: "length (snd (num_frac s)) \<le> length s"
  by (auto simp: num_frac_def split: list.splits) (simp add: span_digits_def length_dropWhile_le le_SucI)

lemma num_exp_shrinks: "length (snd (num_exp s)) \<le> length s"
  by (auto simp: num_exp_def span_digits_def Let_def split: list.splits prod.splits if_splits)
     (simp_all add: length_dropWhile_le le_SucI)

lemma json_num_shrinks: "json_num s = Some (v, r) \<Longrightarrow> length r < length s"
proof -
  assume a: "json_num s = Some (v, r)"
  obtain sg u where su: "(case s of c # cs \<Rightarrow> if c = CHR ''-'' then ([c], cs) else ([], s) | [] \<Rightarrow> ([], s)) = (sg, u)"
    by fastforce
  then have u: "length u \<le> length s" by (auto split: list.splits if_splits)
  from a su obtain i r1 where i: "num_int u = Some (i, r1)"
    and r: "r = snd (num_exp (snd (num_frac r1)))"
    by (auto simp: json_num_def Let_def split: option.splits prod.splits)
  show ?thesis
    using u num_int_shrinks [OF i] num_frac_shrinks [of r1] num_exp_shrinks [of "snd (num_frac r1)"]
    unfolding r by linarith
qed

lemma json_value_shrinks:
  "json_value f d s = Some (v, r) \<Longrightarrow> length r < length s"
  "json_elems f d s = Some (vs, r) \<Longrightarrow> length r < length s"
  "json_members f d s = Some (ms, r) \<Longrightarrow> length r < length s"
proof (induction f d s and f d s and f d s arbitrary: v r and vs r and ms r
    rule: json_value_json_elems_json_members.induct)
  case (2 f d s)
  show ?case
  proof (cases "skip_ws s")
    case Nil
    with "2.prems" show ?thesis by simp
  next
    case (Cons c cs)
    from "2.prems" Cons have "length r \<le> length cs"
      using "2.IH" length_skip_ws [of cs]
      by (fastforce split: if_splits dest: json_str_shrinks json_num_shrinks
          simp: less_Suc_eq_le intro: less_imp_le)
    with skip_ws_Cons [OF Cons] show ?thesis by simp
  qed
next
  case (4 f d s)
  then show ?case
    by (fastforce split: option.splits list.splits if_splits prod.splits dest: skip_ws_Cons)
next
  case (6 f d s)
  show ?case
  proof (cases "skip_ws s")
    case Nil
    with "6.prems" show ?thesis by simp
  next
    case (Cons q s1)
    with "6.prems" obtain k s2 v s3 where k: "json_str s1 = Some (k, s2)"
      and v: "json_value f d (drop 1 (skip_ws s2)) = Some (v, s3)" and q: "q = dq"
      and sep: "take 1 (skip_ws s2) = '':''"
      by (auto split: option.splits list.splits if_splits)
    have "length (drop 1 (skip_ws s2)) \<le> length s2" using length_skip_ws [of s2] by simp
    with "6.IH"(1) [OF Cons _ k _ _ v] q sep have v': "length s3 < length s2" by fastforce
    have "length r \<le> length s3"
      using "6.prems" Cons k v q sep "6.IH"(2) [OF Cons _ k _ _ v]
      by (fastforce split: list.splits if_splits dest: skip_ws_Cons)
    with v' json_str_shrinks [OF k] skip_ws_Cons [OF Cons] show ?thesis by linarith
  qed
qed simp_all

subsection \<open>The fuel is enough\<close>

text \<open>
  With the fuel of \<^const>\<open>json_parse\<close> or more, one more unit changes nothing: the parser
  never stops for lack of fuel.
\<close>

lemma json_value_fuel:
  "2 * length s + 1 \<le> f \<Longrightarrow> json_value (Suc f) d s = json_value f d s"
  "2 * length s + 2 \<le> f \<Longrightarrow> json_elems (Suc f) d s = json_elems f d s"
  "2 * length s + 1 \<le> f \<Longrightarrow> json_members (Suc f) d s = json_members f d s"
proof (induction f d s and f d s and f d s rule: json_value_json_elems_json_members.induct)
  case (2 f d s)
  show ?case
  proof (cases "skip_ws s")
    case (Cons c cs)
    with "2.prems" have "2 * length cs + 2 \<le> f" using skip_ws_Cons [OF Cons] by simp
    with "2.IH" Cons show ?thesis
      by (simp only: json_value.simps list.case if_split) (simp split: if_splits)
  qed simp
next
  case (4 f d s)
  have val: "json_value (Suc f) d s = json_value f d s"
    using "4.IH"(1) "4.prems" by simp
  have tail: "json_elems (Suc f) d cs = json_elems f d cs"
    if v: "json_value f d s = Some (v, r)" and r: "skip_ws r = CHR '','' # cs" for v r cs
    using "4.IH"(2) [OF v refl r] json_value_shrinks(1) [OF v] skip_ws_Cons [OF r] "4.prems" by simp
  show ?case
    unfolding json_elems.simps(2) [of "Suc f" d s] json_elems.simps(2) [of f d s] val
    by (auto simp del: json_elems.simps simp: tail split: option.split list.split)
next
  case (6 f d s)
  have val: "json_value (Suc f) d (drop 1 (skip_ws s2)) = json_value f d (drop 1 (skip_ws s2))"
    if q: "skip_ws s = dq # s1" and k: "json_str s1 = Some (k, s2)" and c: "take 1 (skip_ws s2) = '':''"
    for s1 k s2
    using "6.IH"(1) [OF q _ k refl] c length_skip_ws [of s2] json_str_shrinks [OF k]
      skip_ws_Cons [OF q] "6.prems" by fastforce
  have tail: "json_members (Suc f) d cs = json_members f d cs"
    if q: "skip_ws s = dq # s1" and k: "json_str s1 = Some (k, s2)" and c: "take 1 (skip_ws s2) = '':''"
      and v: "json_value f d (drop 1 (skip_ws s2)) = Some (v, s3)" and r: "skip_ws s3 = CHR '','' # cs"
    for s1 k s2 v s3 cs
    using "6.IH"(2) [OF q _ k refl _ v refl r] c length_skip_ws [of s2] json_str_shrinks [OF k]
      skip_ws_Cons [OF q] json_value_shrinks(1) [OF v] skip_ws_Cons [OF r] "6.prems" by fastforce
  show ?case
    unfolding json_members.simps(2) [of "Suc f" d s] json_members.simps(2) [of f d s]
    by (auto simp del: json_members.simps json_value.simps One_nat_def simp: val tail split: option.split list.split)
qed simp_all

lemma json_fuel_enough: "json_value (json_fuel s + n) d s = json_value (json_fuel s) d s"
  by (induction n) (simp_all add: json_fuel_def json_value_fuel(1) del: json_value.simps)

subsection \<open>Encoding and decoding a string\<close>

definition is_ascii :: "string \<Rightarrow> bool" where
  "is_ascii s \<longleftrightarrow> list_all (\<lambda>c. byte c < 128) s"

lemma hex_val_hexdigit [simp]: "n < 16 \<Longrightarrow> hex_val (hexdigit n) = Some n"
  by (simp add: hexdigit_def hex_val_def Let_def)

lemma json_str_quote [simp]: "json_str (dq # t) = Some ([], t)"
  by (simp add: json_str.simps)

lemma json_str_escape: "e \<noteq> CHR ''u'' \<Longrightarrow> escape_val e = Some x \<Longrightarrow>
    json_str (bs # e # t) = prepend [x] (json_str t)"
  by (simp add: json_str.simps(2) [of bs "e # t"])

lemma json_str_u_escape:
  assumes "n < 128"
  shows "json_str (u_escape n @ t) = prepend [char_of n] (json_str t)"
proof -
  have "n div 16 < 16" "n div 4096 = 0" "n div 256 = 0" using assms by simp_all
  then have "n div 16 mod 16 * 16 + n mod 16 = n" "n div 4096 mod 16 = 0" "n div 256 mod 16 = 0"
    by simp_all
  then obtain h where "u_escape n = bs # CHR ''u'' # h" "length h = 4" "hex4 (h @ t) = Some n"
    by (simp add: u_escape_def)
  then show ?thesis
    using assms by (simp add: json_str.simps(2) [of bs] utf8_encode_def)
qed

lemma json_str_plain:
  assumes "32 \<le> byte c" "byte c < 128" "c \<noteq> dq" "c \<noteq> bs"
  shows "json_str (c # t) = prepend [c] (json_str t)"
proof -
  have "utf8_len (c # t) = 1" using assms by (simp add: utf8_len_def)
  with assms show ?thesis by (simp add: json_str.simps(2) [of c t])
qed

lemma json_str_encode_ascii:
  assumes "byte c < 128"
  shows "json_str (encode_ascii c @ t) = prepend [c] (json_str t)"
proof -
  have e: "byte c = n \<Longrightarrow> c = char_of n" for n by auto
  consider "c = dq \<or> c = bs" | "byte c = 8" | "byte c = 12" | "byte c = 10" | "byte c = 13" | "byte c = 9"
    | "c \<noteq> dq" "c \<noteq> bs" "byte c \<notin> {8, 12, 10, 13, 9}" "byte c < 32 \<or> byte c = 60 \<or> byte c = 62 \<or> byte c = 38"
    | "c \<noteq> dq" "c \<noteq> bs" "32 \<le> byte c" "byte c \<noteq> 60" "byte c \<noteq> 62" "byte c \<noteq> 38"
    by force
  then show ?thesis
  proof cases
    case 1
    then have "encode_ascii c = [bs, c]" "c \<noteq> CHR ''u''" "escape_val c = Some c"
      by (auto simp: encode_ascii_def escape_val_def Let_def)
    then show ?thesis by (simp add: json_str_escape)
  next
    case 2
    then have "c = char_of (8 :: nat)" by (rule e)
    then show ?thesis by (simp add: encode_ascii_def json_str_escape escape_val_def)
  next
    case 3
    then have "c = char_of (12 :: nat)" by (rule e)
    then show ?thesis by (simp add: encode_ascii_def json_str_escape escape_val_def)
  next
    case 4
    then have "c = char_of (10 :: nat)" by (rule e)
    then show ?thesis by (simp add: encode_ascii_def json_str_escape escape_val_def)
  next
    case 5
    then have "c = char_of (13 :: nat)" by (rule e)
    then show ?thesis by (simp add: encode_ascii_def json_str_escape escape_val_def)
  next
    case 6
    then have "c = char_of (9 :: nat)" by (rule e)
    then show ?thesis by (simp add: encode_ascii_def json_str_escape escape_val_def)
  next
    case 7
    then have "encode_ascii c = u_escape (byte c)" by (simp add: encode_ascii_def Let_def)
    with assms show ?thesis by (simp add: json_str_u_escape)
  next
    case 8
    then have "encode_ascii c = [c]" by (auto simp: encode_ascii_def Let_def)
    with 8 assms show ?thesis by (simp add: json_str_plain)
  qed
qed

lemma json_str_encode_body: "is_ascii s \<Longrightarrow> json_str (encode_body s @ dq # t) = Some (s, t)"
proof (induction s)
  case Nil
  then show ?case by (simp add: encode_body.simps)
next
  case (Cons c cs)
  then show ?case
    by (simp add: is_ascii_def encode_body.simps(2) [of c cs] json_str_encode_ascii)
qed

lemma json_parse_marshal_single:
  assumes "is_ascii k" and "is_ascii v"
  shows "json_parse (marshal_single k v) = Some (JObj [(k, JStr v)])"
proof -
  have k: "json_str (encode_body k @ dq # t) = Some (k, t)" for t
    by (rule json_str_encode_body [OF assms(1)])
  have v: "json_str (encode_body v @ dq # t) = Some (v, t)" for t
    by (rule json_str_encode_body [OF assms(2)])
  have ws0: "skip_ws [] = []" by (simp add: skip_ws_def)
  have ws: "skip_ws (c # t) = c # t" if "\<not> is_ws c" for c t
    using that by (simp add: skip_ws_def)
  obtain f where f: "json_fuel (marshal_single k v) = Suc (Suc (Suc f))"
    by (metis (no_types, lifting) Suc_eq_plus1 add_2_eq_Suc' json_fuel_def length_Cons marshal_single_def
        append_Cons mult_Suc_right numeral_2_eq_2 add_Suc_right add_Suc)
  show ?thesis
    unfolding json_parse_def f
    by (simp add: marshal_single_def encode_string_def max_depth_def ws0 ws is_ws_def k v)
qed

end
