(* ===== verification/Api.thy ===== *)
theory Api
  imports Json
begin

section \<open>The objects the provider reads and writes\<close>

text \<open>
  Records for the custom resources of OpenEverest (Instance, Backup, Restore,
  BackupStorage), of the mariadb-operator and of Kubernetes, with the fields the provider
  reads or declares. They are third-party types: only their shape is stated here. A nil
  pointer or absent field is \<^term>\<open>None\<close>; a Go string map is an association list.
\<close>

type_synonym quantity = int \<comment> \<open>a \<open>resource.Quantity\<close>, counted in its smallest unit (nano)\<close>
type_synonym time = int \<comment> \<open>nanoseconds since the epoch\<close>
type_synonym labels = "(string \<times> string) list"
type_synonym raw_extension = "string option" \<comment> \<open>the bytes of a RawExtension, \<^term>\<open>None\<close> for nil\<close>
type_synonym nsname = "string \<times> string" \<comment> \<open>namespace and name\<close>

subsection \<open>Metadata and conditions\<close>

record owner_ref =
  or_kind :: string
  or_name :: string
  or_uid :: string
  or_controller :: "bool option"

record managed_entry =
  mf_manager :: string
  mf_operation :: string
  mf_subresource :: string

record meta =
  m_name :: string
  m_namespace :: string
  m_uid :: string
  m_labels :: labels
  m_annotations :: labels
  m_rv :: string
  m_deleting :: bool
  m_owners :: "owner_ref list"
  m_managed :: "managed_entry list"

definition empty_meta :: "string \<Rightarrow> string \<Rightarrow> meta" where
  "empty_meta ns n = \<lparr> m_name = n, m_namespace = ns, m_uid = [], m_labels = [], m_annotations = [],
     m_rv = [], m_deleting = False, m_owners = [], m_managed = [] \<rparr>"

text \<open>Condition types and reasons of the operator; the constants of one switch are distinct.\<close>

datatype cond_type = TypeReady | TypeComplete | TypeOther string
datatype cond_reason =
  ReasonJobComplete | ReasonCronJobSuccess | ReasonJobFailed | ReasonFailed | ReasonOther string

record condition =
  cn_type :: cond_type
  cn_reason :: cond_reason
  cn_message :: string
  cn_time :: time

datatype job_cond_type = JobComplete | JobFailed | JobOther string

record job_condition =
  jc_type :: job_cond_type
  jc_true :: bool
  jc_message :: string
  jc_time :: time

subsection \<open>Scheduling\<close>

record node_req =
  nr_key :: string
  nr_op :: string
  nr_values :: "string list"

record node_term =
  nt_exprs :: "node_req list"
  nt_fields :: "node_req list"

record node_affinity =
  na_required :: "node_term list option"
  na_preferred :: "(int \<times> node_term) list"

record label_req =
  lr_key :: string
  lr_op :: string
  lr_values :: "string list"

record label_selector =
  ls_labels :: labels
  ls_exprs :: "label_req list"

text \<open>
  A pod (anti-)affinity term of Kubernetes; the operator only has the selector and the
  topology key.
\<close>

record pod_term =
  pt_selector :: "label_selector option"
  pt_key :: string
  pt_namespaces :: "string list"
  pt_ns_selector :: "label_selector option"
  pt_match_keys :: "string list"
  pt_mismatch_keys :: "string list"

record pod_affinity =
  pa_required :: "pod_term list"
  pa_preferred :: "(int \<times> pod_term) list"

record affinity =
  af_node :: "node_affinity option"
  af_pod :: "pod_affinity option"
  af_anti :: "pod_affinity option"

record spread_constraint =
  ts_max_skew :: int
  ts_key :: string
  ts_when :: string
  ts_selector :: "label_selector option"
  ts_min_domains :: "int option"
  ts_node_affinity :: "string option"
  ts_node_taints :: "string option"
  ts_match_keys :: "string list"

datatype toleration = Toleration string

record scheduling_policy =
  sp_affinity :: "affinity option"
  sp_node_selector :: labels
  sp_tolerations :: "toleration list"
  sp_spread :: "spread_constraint list"

text \<open>The operator's own scheduling types.\<close>

record op_node_req =
  onr_key :: string
  onr_op :: string
  onr_values :: "string list"

record op_node_term =
  ont_exprs :: "op_node_req list"
  ont_fields :: "op_node_req list"

record op_node_affinity =
  ona_required :: "op_node_term list option"
  ona_preferred :: "(int \<times> op_node_term) list"

record op_label_req =
  olr_key :: string
  olr_op :: string
  olr_values :: "string list"

record op_label_selector =
  ols_labels :: labels
  ols_exprs :: "op_label_req list"

record op_pod_term =
  opt_key :: string
  opt_selector :: "op_label_selector option"

record op_pod_anti_affinity =
  opa_required :: "op_pod_term list"
  opa_preferred :: "(int \<times> op_pod_term) list"

record op_affinity =
  oaf_node :: "op_node_affinity option"
  oaf_anti :: "op_pod_anti_affinity option"

record op_spread_constraint =
  ots_max_skew :: int
  ots_key :: string
  ots_when :: string
  ots_selector :: "label_selector option"
  ots_min_domains :: "int option"
  ots_node_affinity :: "string option"
  ots_node_taints :: "string option"
  ots_match_keys :: "string list"

subsection \<open>The Instance\<close>

record storage_request =
  sr_size :: quantity
  sr_class :: "string option"

record resources =
  rs_limits :: "(string \<times> quantity) list option"
  rs_requests :: "(string \<times> quantity) list option"

text \<open>
  \<open>sv_lb\<close> is the LoadBalancerService pointer; inside, the SourceRanges pointer.
\<close>

record service_request =
  sv_type :: string
  sv_annotations :: labels
  sv_lb :: "string list option option"

record component_spec =
  cs_image :: string
  cs_version :: string
  cs_replicas :: "int option"
  cs_storage :: "storage_request option"
  cs_resources :: "resources option"
  cs_service :: "service_request option"
  cs_scheduling :: "scheduling_policy option"
  cs_parameters :: "raw_extension option"

text \<open>The zero value: what reading an absent key of the components map yields.\<close>

definition zero_component :: component_spec where
  "zero_component = \<lparr> cs_image = [], cs_version = [], cs_replicas = None, cs_storage = None,
     cs_resources = None, cs_service = None, cs_scheduling = None, cs_parameters = None \<rparr>"

datatype retention_type = RetentionTime | RetentionCount | RetentionEmpty | RetentionOther string

record retention =
  rt_type :: retention_type
  rt_duration :: string
  rt_count :: "int option"

record backup_schedule =
  sc_name :: string
  sc_cron :: string
  sc_enabled :: bool
  sc_retention :: "retention option"
  sc_parameters :: "raw_extension option"

record instance_storage =
  is_ref :: string
  is_pitr :: "bool option"
  is_schedules :: "backup_schedule list"

record instance_backup =
  ib_enabled :: bool
  ib_class :: string
  ib_storages :: "instance_storage list"

text \<open>\<open>dataSource.pointInTime\<close>; \<open>pit_to_date\<close> tells the target \<open>date\<close> from \<open>latest\<close>.\<close>

record pit_source =
  pit_instance :: "string option"
  pit_to_date :: bool
  pit_date :: "time option"

datatype ds_type = DSBackup | DSPointInTime | DSOther string

record data_source =
  ds_type :: ds_type
  ds_backup :: "string option"
  ds_pit :: "pit_source option"

record instance_cr =
  in_name :: string
  in_namespace :: string
  in_uid :: string
  in_topology :: string
  in_components :: "(string \<times> component_spec) list"
  in_backup :: "instance_backup option"
  in_datasource :: "data_source option"

subsection \<open>Backups and restores of OpenEverest\<close>

datatype run_state = StatePending | StateRunning | StateSucceeded | StateFailed | StateNone

record ev_backup =
  eb_meta :: meta
  eb_schedule :: string
  eb_class :: string
  eb_storage :: string
  eb_parameters :: "raw_extension option"
  eb_origin :: "string option"
  eb_state :: run_state
  eb_completed :: "time option"
  eb_operator_ref :: "string option"

record ev_restore =
  er_meta :: meta
  er_ds_type :: ds_type
  er_backup :: "string option"
  er_instance :: string

record s3_config =
  s3c_bucket :: string
  s3c_region :: string
  s3c_endpoint :: string
  s3c_credentials :: string

record typed_ref =
  tr_group :: string
  tr_kind :: string
  tr_name :: string

record exec_status =
  ex_state :: run_state
  ex_message :: string
  ex_completed :: "time option"
  ex_ref :: "typed_ref option"

definition exec_state :: "run_state \<Rightarrow> string \<Rightarrow> exec_status" where
  "exec_state st msg = \<lparr> ex_state = st, ex_message = msg, ex_completed = None, ex_ref = None \<rparr>"

datatype ds_state = DSRestoring | DSSucceeded | DSFailed

record ds_status =
  dss_done :: bool
  dss_state :: ds_state
  dss_reason :: ds_state
  dss_message :: string

subsection \<open>Custom resources of the mariadb-operator\<close>

type_synonym secret_key = "string \<times> string" \<comment> \<open>a Secret's name and a key in it\<close>

record s3 =
  s3_bucket :: string
  s3_endpoint :: string
  s3_region :: string
  s3_prefix :: string
  s3_access :: "secret_key option"
  s3_secret :: "secret_key option"
  s3_tls :: "bool option"

record op_ref =
  rf_name :: string
  rf_wait :: bool

datatype content_type = Logical | Physical | ContentOther string

record bootstrap_from =
  bf_s3 :: "s3 option"
  bf_content :: content_type
  bf_target_time :: "time option"
  bf_pitr :: "string option"

record generated_key =
  gk_key :: secret_key
  gk_generate :: bool

record service_template =
  tm_type :: string
  tm_annotations :: "labels option"
  tm_ranges :: "string list"

record service_monitor_spec =
  sm_enabled :: "bool option"
  sm_release :: string
  sm_job_label :: string
  sm_interval :: string
  sm_timeout :: string

record metrics =
  mt_enabled :: bool
  mt_image :: string
  mt_pod_labels :: labels
  mt_resources :: "resources option"
  mt_monitor :: service_monitor_spec

record op_tls =
  tl_enabled :: bool
  tl_required :: "bool option"
  tl_galera_sst :: "bool option"

record replication =
  rp_enabled :: bool
  rp_boot_as_replica :: "bool option"
  rp_bootstrap :: "string option"
  rp_recovery :: "bool option"

record mariadb_spec =
  ms_image :: string
  ms_pull_policy :: string
  ms_replicas :: int
  ms_storage_size :: "quantity option"
  ms_storage_class :: string
  ms_storage_ephemeral :: "bool option"
  ms_root_empty :: "bool option"
  ms_my_cnf :: "string option"
  ms_root_password :: generated_key
  ms_username :: "string option"
  ms_database :: "string option"
  ms_password :: "generated_key option"
  ms_resources :: "resources option"
  ms_metrics :: "metrics option"
  ms_tls :: "op_tls option"
  ms_pitr_ref :: "string option"
  ms_auto_update :: "bool option"
  ms_auto_upgrade :: "bool option"
  ms_affinity :: "op_affinity option"
  ms_node_selector :: labels
  ms_tolerations :: "toleration list"
  ms_spread :: "op_spread_constraint list"
  ms_pod_labels :: "labels option"
  ms_galera :: "bool option"
  ms_replication :: "replication option"
  ms_primary_service :: "service_template option"
  ms_service :: "service_template option"
  ms_bootstrap :: "bootstrap_from option"

record mariadb =
  md_meta :: meta
  md_spec :: mariadb_spec
  md_conditions :: "condition list"

record maxscale_spec =
  xs_ref :: "op_ref option"
  xs_image :: string
  xs_replicas :: int
  xs_service :: "service_template option"
  xs_tls :: "bool option"
  xs_resources :: "resources option"
  xs_affinity :: "op_affinity option"
  xs_node_selector :: labels
  xs_tolerations :: "toleration list"
  xs_spread :: "op_spread_constraint list"
  xs_pod_labels :: "labels option"
  xs_monitor_params :: labels

record maxscale =
  mx_meta :: meta
  mx_spec :: maxscale_spec
  mx_conditions :: "condition list"

record op_backup =
  ob_meta :: meta
  ob_ref :: op_ref
  ob_storage :: "s3 option"
  ob_args :: "string list"
  ob_databases :: "string list option"
  ob_ignore_priv :: "bool option"
  ob_compression :: string
  ob_retention :: i64
  ob_schedule :: "(string \<times> bool) option" \<comment> \<open>cron and suspend\<close>
  ob_inherit :: "labels option"
  ob_conditions :: "condition list"

record phys_schedule =
  ps_cron :: string
  ps_suspend :: bool
  ps_immediate :: "bool option"

record phys_backup =
  pb_meta :: meta
  pb_ref :: op_ref
  pb_storage :: "s3 option"
  pb_compression :: string
  pb_target :: "string option"
  pb_retention :: i64
  pb_schedule :: "phys_schedule option"
  pb_inherit :: "labels option"
  pb_conditions :: "condition list"

record op_restore =
  rst_meta :: meta
  rst_ref :: op_ref
  rst_backup :: "string option"
  rst_conditions :: "condition list"

record pitr_cr =
  pi_meta :: meta
  pi_base :: string
  pi_storage :: "s3 option"
  pi_last :: "string option"

definition zero_ref :: op_ref where
  "zero_ref = \<lparr> rf_name = [], rf_wait = False \<rparr>"

definition new_op_backup :: "string \<Rightarrow> string \<Rightarrow> op_backup" where
  "new_op_backup ns n = \<lparr> ob_meta = empty_meta ns n, ob_ref = zero_ref, ob_storage = None, ob_args = [],
     ob_databases = None, ob_ignore_priv = None, ob_compression = [], ob_retention = 0,
     ob_schedule = None, ob_inherit = None, ob_conditions = [] \<rparr>"

definition new_phys_backup :: "string \<Rightarrow> string \<Rightarrow> phys_backup" where
  "new_phys_backup ns n = \<lparr> pb_meta = empty_meta ns n, pb_ref = zero_ref, pb_storage = None,
     pb_compression = [], pb_target = None, pb_retention = 0, pb_schedule = None, pb_inherit = None,
     pb_conditions = [] \<rparr>"

definition new_op_restore :: "string \<Rightarrow> string \<Rightarrow> op_restore" where
  "new_op_restore ns n = \<lparr> rst_meta = empty_meta ns n, rst_ref = zero_ref, rst_backup = None,
     rst_conditions = [] \<rparr>"

definition new_pitr :: "string \<Rightarrow> string \<Rightarrow> pitr_cr" where
  "new_pitr ns n = \<lparr> pi_meta = empty_meta ns n, pi_base = [], pi_storage = None, pi_last = None \<rparr>"

subsection \<open>Kubernetes objects\<close>

record secret =
  se_meta :: meta
  se_type :: string
  se_data :: "(string \<times> string) list"

record service =
  sx_type :: string
  sx_ingress :: "(string \<times> string) list" \<comment> \<open>IP and host name of each ingress\<close>

record job =
  jb_meta :: meta
  jb_conditions :: "job_condition list"

text \<open>An object handled without its Go type.\<close>

record unstructured =
  un_meta :: meta
  un_object :: "(string \<times> json) list"

subsection \<open>Controllers and owners\<close>

text \<open>\<open>metav1.GetControllerOf\<close> and \<open>metav1.IsControlledBy\<close>.\<close>

definition is_controller :: "owner_ref \<Rightarrow> bool" where
  "is_controller r \<longleftrightarrow> or_controller r = Some True"

definition controller_of :: "meta \<Rightarrow> owner_ref option" where
  "controller_of m = find is_controller (m_owners m)"

definition is_controlled_by :: "meta \<Rightarrow> string \<Rightarrow> bool" where
  "is_controlled_by m uid = (case controller_of m of Some r \<Rightarrow> or_uid r = uid | None \<Rightarrow> False)"

text \<open>\<open>meta.FindStatusCondition\<close>\<close>

definition find_condition :: "cond_type \<Rightarrow> condition list \<Rightarrow> condition option" where
  "find_condition t cs = find (\<lambda>c. cn_type c = t) cs"

text \<open>The components map of the Instance.\<close>

definition component :: "instance_cr \<Rightarrow> string \<Rightarrow> component_spec option" where
  "component i n = map_of (in_components i) n"

definition component_or_zero :: "instance_cr \<Rightarrow> string \<Rightarrow> component_spec" where
  "component_or_zero i n = (case component i n of Some c \<Rightarrow> c | None \<Rightarrow> zero_component)"

lemma component_or_zero_Some: "component i n = Some c \<Longrightarrow> component_or_zero i n = c"
  by (simp add: component_or_zero_def)

end
