(* ===== verification/Params.thy ===== *)
theory Params
  imports Api
begin

section \<open>Component and backup parameters\<close>

text \<open>
  The parameter types of \<open>definition/components/types.go\<close> and
  \<open>definition/backupclasses/mariadb/types.go\<close>, the boolean that also decodes from a
  quoted string, and the decoding of backup parameters (\<open>parseBackupParams\<close> of
  \<open>internal/provider/backup.go\<close>), with the struct decoding rules of \<open>encoding/json\<close>.
\<close>

subsection \<open>FlexBool\<close>

definition FlexBool_UnmarshalJSON :: "string \<Rightarrow> string + bool" where
  "FlexBool_UnmarshalJSON data =
     (if data = ''true'' \<or> data = [dq] @ ''true'' @ [dq] then Inr True
      else if data = ''false'' \<or> data = [dq] @ ''false'' @ [dq] \<or> data = [dq, dq] \<or> data = ''null''
      then Inr False
      else Inl (''invalid boolean value: '' @ data))"

subsection \<open>Component parameters\<close>

record tls_params =
  tp_enabled :: "bool option"
  tp_required :: "bool option"
  tp_galera_sst :: "bool option"

record mariadb_params =
  mp_configuration :: string
  mp_tls :: "tls_params option"

record service_monitor_params =
  smp_enabled :: "bool option"
  smp_release :: string
  smp_job_label :: string
  smp_interval :: string
  smp_timeout :: string

record victoria_params =
  vmp_enabled :: bool
  vmp_interval :: string
  vmp_timeout :: string

record monitoring_params =
  mop_enabled :: bool
  mop_monitor :: service_monitor_params
  mop_victoria :: victoria_params

record maxscale_params =
  mxp_enabled :: bool

subsection \<open>Backup parameters\<close>

record backup_params =
  bp_type :: string
  bp_compression :: string
  bp_databases :: "string list option"
  bp_ignore_priv :: "bool option"
  bp_target :: string

definition zero_backup_params :: backup_params where
  "zero_backup_params = \<lparr> bp_type = [], bp_compression = [], bp_databases = None,
     bp_ignore_priv = None, bp_target = [] \<rparr>"

text \<open>
  A key of the object selects the field of the same name up to case; the two non-ASCII
  characters that fold onto ASCII letters (U+017F and U+212A) do so here as well.
\<close>

fun fold_key :: "string \<Rightarrow> string" where
  "fold_key [] = []"
| "fold_key (c # cs) =
     (if take 2 (c # cs) = [CHR 0xC5, CHR 0xBF] then CHR ''S'' # fold_key (drop 1 cs)
      else if take 3 (c # cs) = [CHR 0xE2, CHR 0x84, CHR 0xAA] then CHR ''K'' # fold_key (drop 2 cs)
      else if 97 \<le> byte c \<and> byte c \<le> 122 then char_of (byte c - 32) # fold_key cs
      else c # fold_key cs)"

text \<open>One value into a field: \<^term>\<open>None\<close> is a type error, \<open>null\<close> leaves the field alone.\<close>

fun decode_string :: "json \<Rightarrow> string \<Rightarrow> string option" where
  "decode_string (JStr s) old = Some s"
| "decode_string JNull old = Some old"
| "decode_string _ old = None"

fun decode_elems :: "json list \<Rightarrow> string list \<Rightarrow> string list option" where
  "decode_elems [] old = Some []"
| "decode_elems (v # vs) old =
     (case decode_string v (case old of o1 # _ \<Rightarrow> o1 | [] \<Rightarrow> []) of
        None \<Rightarrow> None
      | Some s \<Rightarrow> map_option (Cons s) (decode_elems vs (drop 1 old)))"

fun decode_strings :: "json \<Rightarrow> string list option \<Rightarrow> string list option option" where
  "decode_strings (JArr vs) old = map_option Some (decode_elems vs (case old of Some xs \<Rightarrow> xs | None \<Rightarrow> []))"
| "decode_strings JNull old = Some None"
| "decode_strings _ old = None"

fun decode_bool_ptr :: "json \<Rightarrow> bool option option" where
  "decode_bool_ptr (JBool b) = Some (Some b)"
| "decode_bool_ptr JNull = Some None"
| "decode_bool_ptr _ = None"

definition decode_member :: "string \<Rightarrow> json \<Rightarrow> backup_params \<Rightarrow> backup_params option" where
  "decode_member k v p =
     (let f = fold_key k in
      if f = fold_key ''type'' then map_option (\<lambda>s. p\<lparr>bp_type := s\<rparr>) (decode_string v (bp_type p))
      else if f = fold_key ''compression'' then
        map_option (\<lambda>s. p\<lparr>bp_compression := s\<rparr>) (decode_string v (bp_compression p))
      else if f = fold_key ''databases'' then
        map_option (\<lambda>s. p\<lparr>bp_databases := s\<rparr>) (decode_strings v (bp_databases p))
      else if f = fold_key ''ignoreGlobalPriv'' then
        map_option (\<lambda>b. p\<lparr>bp_ignore_priv := b\<rparr>) (decode_bool_ptr v)
      else if f = fold_key ''target'' then
        map_option (\<lambda>s. p\<lparr>bp_target := s\<rparr>) (decode_string v (bp_target p))
      else Some p)"

fun decode_members :: "(string \<times> json) list \<Rightarrow> backup_params \<Rightarrow> backup_params option" where
  "decode_members [] p = Some p"
| "decode_members ((k, v) # ms) p = Option.bind (decode_member k v p) (decode_members ms)"

fun decode_backup_params :: "json \<Rightarrow> backup_params option" where
  "decode_backup_params (JObj ms) = decode_members ms zero_backup_params"
| "decode_backup_params JNull = Some zero_backup_params"
| "decode_backup_params _ = None"

text \<open>
  \<open>json_err raw\<close> is the text of the error \<open>json.Unmarshal\<close> gives for the input; nothing
  else depends on it.
\<close>

definition parseBackupParams :: "(string \<Rightarrow> string) \<Rightarrow> string \<Rightarrow> err + backup_params" where
  "parseBackupParams json_err raw =
     (if raw = [] then Inr zero_backup_params
      else (case Option.bind (json_parse raw) decode_backup_params of
              Some p \<Rightarrow> Inr p
            | None \<Rightarrow> Inl (BackupConfigError ''InvalidParameters''
                (''decode backup parameters: '' @ json_err raw))))"

definition backupTypeLogical :: string where "backupTypeLogical = ''logical''"
definition backupTypePhysical :: string where "backupTypePhysical = ''physical''"

definition isPhysical :: "backup_params \<Rightarrow> bool" where
  "isPhysical params \<longleftrightarrow> bp_type params = backupTypePhysical"

definition rawParameters :: "raw_extension option \<Rightarrow> string" where
  "rawParameters p = (case p of None \<Rightarrow> [] | Some r \<Rightarrow> (case r of None \<Rightarrow> [] | Some b \<Rightarrow> b))"

text \<open>\<open>parseBackupParams(rawParameters(p))\<close>, the form in which every caller decodes.\<close>

abbreviation backup_params_of :: "(string \<Rightarrow> string) \<Rightarrow> raw_extension option \<Rightarrow> err + backup_params" where
  "backup_params_of json_err p \<equiv> parseBackupParams json_err (rawParameters p)"

subsection \<open>Lemmas\<close>

lemma parse_absent [simp]:
  "backup_params_of je None = Inr zero_backup_params"
  "backup_params_of je (Some None) = Inr zero_backup_params"
  by (simp_all add: rawParameters_def parseBackupParams_def)

lemma logical_by_default [simp]: "\<not> isPhysical zero_backup_params"
  by (simp add: isPhysical_def zero_backup_params_def backupTypePhysical_def)

lemma parse_error_is_config_error:
  "parseBackupParams je raw = Inl e \<Longrightarrow>
     e = BackupConfigError ''InvalidParameters'' (''decode backup parameters: '' @ je raw)"
  by (auto simp: parseBackupParams_def split: if_splits option.splits)

lemma parse_type_only:
  assumes "is_ascii t"
  shows "parseBackupParams je (marshal_single ''type'' t) = Inr (zero_backup_params\<lparr>bp_type := t\<rparr>)"
proof -
  have "json_parse (marshal_single ''type'' t) = Some (JObj [(''type'', JStr t)])"
    by (rule json_parse_marshal_single [OF _ assms]) (simp add: is_ascii_def)
  moreover have "marshal_single ''type'' t \<noteq> []" by (simp add: marshal_single_def)
  ultimately show ?thesis
    by (simp add: parseBackupParams_def decode_member_def Let_def zero_backup_params_def)
qed

end
