(* ===== verification/Env.thy ===== *)
theory Env
  imports Params
begin

section \<open>The outside world: the Kubernetes API, the provider SDK, the operator\<close>

text \<open>
  Code that is not in this repository is a parameter: the record \<open>env\<close> holds the answers
  of the Kubernetes API server (per kind of object, as functions of everything asked
  before), the functions of the OpenEverest provider SDK (\<open>controller.Context\<close>), the
  methods of the mariadb-operator's types and the cron parser. Every theorem quantifies
  over it, so it holds whatever these answer, unless a hypothesis says otherwise.

  The state a handler threads is the list of the requests it has made, each with its
  outcome: \<^term>\<open>None\<close> for success, \<^term>\<open>Some e\<close> for the error returned. An answer may
  depend on the whole list, so faults, races with other controllers and the effects of
  the provider's own writes are all answers of some environment.
\<close>

subsection \<open>Requests\<close>

datatype kind =
  KMariaDB | KMaxScale | KBackup | KPhysicalBackup | KRestore | KPITR | KSecret | KService
| KJob | KEvBackup | KServiceMonitor | KVMServiceScrape

datatype obj =
    OMariaDB mariadb
  | OMaxScale maxscale
  | OBackup op_backup
  | OPhysicalBackup phys_backup
  | ORestore op_restore
  | OPITR pitr_cr
  | OSecret secret
  | OUnstructured unstructured

text \<open>
  \<open>ReqStage\<close> is not a request to the API server: it is \<open>Context.SetDataSourceStatus\<close>,
  which stages a status for the runtime to publish.
\<close>

datatype request =
    ReqGet kind nsname
  | ReqStorage string
  | ReqList kind labels
  | ReqCRD
  | ReqCreate obj
  | ReqUpdate obj
  | ReqPatch obj
  | ReqDelete kind nsname
  | ReqApply kind "(string \<times> json) list"
  | ReqStage ds_status

type_synonym entry = "request \<times> err option"
type_synonym log = "entry list"
type_synonym 'a go = "(entry, 'a) eff"

fun is_write :: "request \<Rightarrow> bool" where
  "is_write (ReqGet _ _) = False"
| "is_write (ReqStorage _) = False"
| "is_write (ReqList _ _) = False"
| "is_write ReqCRD = False"
| "is_write (ReqStage _) = False"
| "is_write _ = True"

abbreviation read_only :: "entry \<Rightarrow> bool" where
  "read_only e \<equiv> \<not> is_write (fst e)"

subsection \<open>The environment\<close>

text \<open>What the API server answers about one kind of object.\<close>

record 'o endpoint =
  ep_get :: "log \<Rightarrow> nsname \<Rightarrow> err + 'o"
  ep_list :: "log \<Rightarrow> labels \<Rightarrow> err + 'o list"
  ep_create :: "log \<Rightarrow> 'o \<Rightarrow> err + 'o"
  ep_update :: "log \<Rightarrow> 'o \<Rightarrow> err + 'o"
  ep_delete :: "log \<Rightarrow> nsname \<Rightarrow> err option"

text \<open>The Provider resource as the SDK's look-up functions see it.\<close>

record provider_spec =
  pv_image :: "string \<Rightarrow> string \<Rightarrow> string" \<comment> \<open>\<open>GetImageForVersion(spec, component, version)\<close>\<close>
  pv_default :: "string \<Rightarrow> string" \<comment> \<open>\<open>GetDefaultImageForComponent(spec, component)\<close>\<close>
  pv_bundle_name :: "instance_cr \<Rightarrow> string" \<comment> \<open>\<open>EffectiveVersionBundleName(spec, instance)\<close>\<close>
  pv_bundle :: "string \<Rightarrow> err + (string \<times> string) list" \<comment> \<open>\<open>ResolveVersionBundle(spec, name)\<close>\<close>

text \<open>The ServiceMonitor the operator's builder produces, with the fields the provider copies.\<close>

record relabel_config =
  rl_source :: "string list"
  rl_separator :: "string option"
  rl_target :: string
  rl_regex :: string
  rl_replacement :: "string option"
  rl_action :: string
  rl_modulus :: nat

record monitor_endpoint =
  me_port :: string
  me_path :: string
  me_interval :: string
  me_timeout :: string
  me_params :: "(string \<times> string list) list"
  me_relabel :: "relabel_config list"
  me_metric_relabel :: "relabel_config list"

record built_monitor =
  bm_name :: string
  bm_selector :: labels
  bm_namespaces :: "string list"
  bm_endpoints :: "monitor_endpoint list"

record env =
  e_mariadbs :: "mariadb endpoint"
  e_maxscales :: "maxscale endpoint"
  e_backups :: "op_backup endpoint"
  e_physicals :: "phys_backup endpoint"
  e_restores :: "op_restore endpoint"
  e_pitrs :: "pitr_cr endpoint"
  e_secrets :: "secret endpoint"
  e_services :: "service endpoint"
  e_jobs :: "job endpoint"
  e_ev_backups :: "ev_backup endpoint"
  e_monitors :: "unstructured endpoint"
  e_scrapes :: "unstructured endpoint"
  e_storage :: "log \<Rightarrow> string \<Rightarrow> err + s3_config option"
  e_apply :: "log \<Rightarrow> kind \<Rightarrow> (string \<times> json) list \<Rightarrow> err option"
  e_patch :: "log \<Rightarrow> obj \<Rightarrow> err option"
  e_crd :: "log \<Rightarrow> err option"
  e_now :: "log \<Rightarrow> time"
  e_ds_status :: "log \<Rightarrow> ds_status option"
  e_provider_spec :: "err + provider_spec"
  e_object_meta :: "instance_cr \<Rightarrow> string \<Rightarrow> meta"
  e_pod_labels :: "instance_cr \<Rightarrow> string \<Rightarrow> labels"
  e_decode_engine :: "component_spec \<Rightarrow> err + mariadb_params"
  e_try_decode_engine :: "component_spec \<Rightarrow> mariadb_params option"
  e_decode_monitoring :: "component_spec \<Rightarrow> err + monitoring_params"
  e_decode_proxy :: "component_spec \<Rightarrow> err + maxscale_params"
  e_set_controller :: "owner_ref \<Rightarrow> meta \<Rightarrow> err + meta"
  e_gvk :: "kind \<Rightarrow> err + string \<times> string"
  e_unstruct_mariadb :: "mariadb \<Rightarrow> err + (string \<times> json) list"
  e_unstruct_maxscale :: "maxscale \<Rightarrow> err + (string \<times> json) list"
  e_upgrade_managed :: "meta \<Rightarrow> string list \<Rightarrow> string \<Rightarrow> err + meta"
  e_topology_spread :: "scheduling_policy \<Rightarrow> labels \<Rightarrow> spread_constraint list"
  e_normalized_ranges :: "string list \<Rightarrow> string list"
  e_quantity_text :: "quantity \<Rightarrow> string"
  e_json_error :: "string \<Rightarrow> string"
  e_cron :: "string \<Rightarrow> string + (time \<Rightarrow> time)"
  e_is_ready :: "mariadb \<Rightarrow> bool"
  e_galera_enabled :: "mariadb \<Rightarrow> bool"
  e_replication_enabled :: "mariadb \<Rightarrow> bool"
  e_has_restored :: "mariadb \<Rightarrow> bool"
  e_replay_error :: "mariadb \<Rightarrow> string option"
  e_replay_skipped :: "mariadb \<Rightarrow> bool"
  e_replayed :: "mariadb \<Rightarrow> bool"
  e_replaying :: "mariadb \<Rightarrow> bool"
  e_metrics_enabled :: "mariadb \<Rightarrow> bool"
  e_monitor_enabled :: "mariadb \<Rightarrow> bool"
  e_metrics_name :: "string \<Rightarrow> string"
  e_restore_name :: "mariadb \<Rightarrow> string"
  e_mxs_ready :: "maxscale \<Rightarrow> bool"
  e_mxs_tls :: "maxscale \<Rightarrow> bool"
  e_build_monitor :: "mariadb \<Rightarrow> err + built_monitor"

subsection \<open>Requests as effects\<close>

definition outcome :: "err + 'a \<Rightarrow> err option" where
  "outcome r = (case r of Inl e \<Rightarrow> Some e | Inr _ \<Rightarrow> None)"

lemma outcome_simps [simp]: "outcome (Inl e) = Some e" "outcome (Inr x) = None"
  by (simp_all add: outcome_def)

definition result :: "err option \<Rightarrow> err + unit" where
  "result r = (case r of Some e \<Rightarrow> Inl e | None \<Rightarrow> Inr ())"

lemma result_simps [simp]: "result (Some e) = Inl e" "result None = Inr ()"
  by (simp_all add: result_def)

definition request :: "request \<Rightarrow> (log \<Rightarrow> err + 'a) \<Rightarrow> 'a go" where
  "request q ask = (\<lambda>l. (ask l, l @ [(q, outcome (ask l))]))"

definition api_get :: "kind \<Rightarrow> 'o endpoint \<Rightarrow> nsname \<Rightarrow> 'o go" where
  "api_get K ep k = request (ReqGet K k) (\<lambda>l. ep_get ep l k)"

definition api_list :: "kind \<Rightarrow> 'o endpoint \<Rightarrow> labels \<Rightarrow> 'o list go" where
  "api_list K ep sel = request (ReqList K sel) (\<lambda>l. ep_list ep l sel)"

definition api_create :: "('o \<Rightarrow> obj) \<Rightarrow> 'o endpoint \<Rightarrow> 'o \<Rightarrow> 'o go" where
  "api_create C ep o1 = request (ReqCreate (C o1)) (\<lambda>l. ep_create ep l o1)"

definition api_update :: "('o \<Rightarrow> obj) \<Rightarrow> 'o endpoint \<Rightarrow> 'o \<Rightarrow> 'o go" where
  "api_update C ep o1 = request (ReqUpdate (C o1)) (\<lambda>l. ep_update ep l o1)"

definition api_delete :: "kind \<Rightarrow> 'o endpoint \<Rightarrow> nsname \<Rightarrow> unit go" where
  "api_delete K ep k = request (ReqDelete K k) (\<lambda>l. result (ep_delete ep l k))"

definition api_apply :: "env \<Rightarrow> kind \<Rightarrow> (string \<times> json) list \<Rightarrow> unit go" where
  "api_apply E K o1 = request (ReqApply K o1) (\<lambda>l. result (e_apply E l K o1))"

definition api_patch :: "env \<Rightarrow> obj \<Rightarrow> unit go" where
  "api_patch E o1 = request (ReqPatch o1) (\<lambda>l. result (e_patch E l o1))"

definition get_storage :: "env \<Rightarrow> string \<Rightarrow> s3_config option go" where
  "get_storage E n = request (ReqStorage n) (\<lambda>l. e_storage E l n)"

definition look_up_crd :: "env \<Rightarrow> unit go" where
  "look_up_crd E = request ReqCRD (\<lambda>l. result (e_crd E l))"

definition stage_ds_status :: "ds_status \<Rightarrow> unit go" where
  "stage_ds_status st = request (ReqStage st) (\<lambda>_. Inr ())"

definition clock :: "env \<Rightarrow> time go" where
  "clock E = (\<lambda>l. (Inr (e_now E l), l))"

text \<open>
  The documented contract of \<open>controllerutil.CreateOrUpdate\<close>: fetch the object; if it
  does not exist, run the mutate function on the given object and create it; if it does,
  run the function on the fetched object and update it when the function changed it.
\<close>

definition create_or_update ::
  "kind \<Rightarrow> ('o \<Rightarrow> obj) \<Rightarrow> 'o endpoint \<Rightarrow> nsname \<Rightarrow> 'o \<Rightarrow> ('o \<Rightarrow> 'o go) \<Rightarrow> 'o go" where
  "create_or_update K C ep k init mutate =
     attempt (api_get K ep k) (\<lambda>r. case r of
         Inl e \<Rightarrow> if is_not_found e then bnd (mutate init) (api_create C ep) else fail e
       | Inr o1 \<Rightarrow> bnd (mutate o1) (\<lambda>o2. if o2 = o1 then ret o1 else api_update C ep o2))"

text \<open>\<open>client.IgnoreNotFound\<close> after a delete.\<close>

definition delete_if_present :: "string \<Rightarrow> unit go \<Rightarrow> unit go" where
  "delete_if_present msg m = on_get msg m (ret ()) ret"

subsection \<open>The key of an object of the Instance\<close>

definition key_of :: "instance_cr \<Rightarrow> string \<Rightarrow> nsname" where
  "key_of c n = (in_namespace c, n)"

definition meta_key :: "meta \<Rightarrow> nsname" where
  "meta_key m = (m_namespace m, m_name m)"

text \<open>Owners, as \<open>SetControllerReference\<close> records them.\<close>

definition owner_of :: "string \<Rightarrow> meta \<Rightarrow> owner_ref" where
  "owner_of kd m = \<lparr> or_kind = kd, or_name = m_name m, or_uid = m_uid m, or_controller = Some True \<rparr>"

definition instance_owner :: "instance_cr \<Rightarrow> owner_ref" where
  "instance_owner c = \<lparr> or_kind = ''Instance'', or_name = in_name c, or_uid = in_uid c,
     or_controller = Some True \<rparr>"

subsection \<open>What a request appends to the log\<close>

lemma request_apply: "request q ask l = (ask l, l @ [(q, outcome (ask l))])"
  by (simp add: request_def)

lemmas api_defs = api_get_def api_list_def api_create_def api_update_def api_delete_def
  api_apply_def api_patch_def get_storage_def look_up_crd_def stage_ds_status_def

lemma api_run [run_simps]:
  "api_get K ep k l = (r, l') \<longleftrightarrow> ep_get ep l k = r \<and> l' = l @ [(ReqGet K k, outcome r)]"
  "api_list K ep sel l = (r', l') \<longleftrightarrow> ep_list ep l sel = r' \<and> l' = l @ [(ReqList K sel, outcome r')]"
  "api_create C ep o1 l = (r, l') \<longleftrightarrow> ep_create ep l o1 = r \<and> l' = l @ [(ReqCreate (C o1), outcome r)]"
  "api_update C ep o1 l = (r, l') \<longleftrightarrow> ep_update ep l o1 = r \<and> l' = l @ [(ReqUpdate (C o1), outcome r)]"
  "api_delete K ep k l = (Inr u, l') \<longleftrightarrow> ep_delete ep l k = None \<and> l' = l @ [(ReqDelete K k, None)]"
  "api_apply E K js l = (Inr u, l') \<longleftrightarrow> e_apply E l K js = None \<and> l' = l @ [(ReqApply K js, None)]"
  "api_patch E ob l = (Inr u, l') \<longleftrightarrow> e_patch E l ob = None \<and> l' = l @ [(ReqPatch ob, None)]"
  "look_up_crd E l = (Inr u, l') \<longleftrightarrow> e_crd E l = None \<and> l' = l @ [(ReqCRD, None)]"
  "stage_ds_status st l = (Inr u, l') \<longleftrightarrow> l' = l @ [(ReqStage st, None)]"
  "clock E l = (Inr t, l') \<longleftrightarrow> t = e_now E l \<and> l' = l"
  by (auto simp: api_defs request_def result_def clock_def split: option.splits)

lemmas api_apply_simps = api_defs [THEN fun_cong, unfolded request_def]

lemma clock_apply [simp]: "clock E l = (Inr (e_now E l), l)"
  by (simp add: clock_def)

lemma post_request: "(\<And>r. Q r [(q, outcome r)]) \<Longrightarrow> post (request q ask) Q"
  by (simp add: post_def request_def)

lemma emits_request: "(\<And>r. P (q, r)) \<Longrightarrow> emits P (request q ask)"
  unfolding emits_def by (rule post_request) simp

lemma emits_api [post_intros]:
  "(\<And>r. P (ReqGet K k, r)) \<Longrightarrow> emits P (api_get K ep k)"
  "(\<And>r. P (ReqList K sel, r)) \<Longrightarrow> emits P (api_list K ep sel)"
  "(\<And>r. P (ReqCreate (C o1), r)) \<Longrightarrow> emits P (api_create C ep o1)"
  "(\<And>r. P (ReqUpdate (C o1), r)) \<Longrightarrow> emits P (api_update C ep o1)"
  "(\<And>r. P (ReqDelete K k, r)) \<Longrightarrow> emits P (api_delete K ep k)"
  "(\<And>r. P (ReqApply K js, r)) \<Longrightarrow> emits P (api_apply E K js)"
  "(\<And>r. P (ReqPatch ob, r)) \<Longrightarrow> emits P (api_patch E ob)"
  "(\<And>r. P (ReqStorage n, r)) \<Longrightarrow> emits P (get_storage E n)"
  "(\<And>r. P (ReqCRD, r)) \<Longrightarrow> emits P (look_up_crd E)"
  "(\<And>r. P (ReqStage st, r)) \<Longrightarrow> emits P (stage_ds_status st)"
  unfolding api_defs by (rule emits_request, simp)+

lemma emits_clock [post_intros]: "emits P (clock E)"
  by (simp add: emits_def post_def)

lemma emits_delete_if_present [post_intros]: "emits P m \<Longrightarrow> emits P (delete_if_present msg m)"
  unfolding delete_if_present_def by (intro post_intros)

text \<open>
  The rule for the operations whose object a later part of the same run depends on: what
  \<open>CreateOrUpdate\<close> wrote, in terms of what the read found.
\<close>

lemma create_or_update_cases:
  assumes run: "create_or_update K C ep k init f l = (r, l')"
  obtains (get_error) e where "ep_get ep l k = Inl e" "\<not> is_not_found e" "r = Inl e"
      "l' = l @ [(ReqGet K k, Some e)]"
  | (created) e r1 l1 where "ep_get ep l k = Inl e" "is_not_found e"
      "f init (l @ [(ReqGet K k, Some e)]) = (r1, l1)"
      "(case r1 of Inl e' \<Rightarrow> r = Inl e' \<and> l' = l1
         | Inr x \<Rightarrow> r = ep_create ep l1 x \<and> l' = l1 @ [(ReqCreate (C x), outcome r)])"
  | (found) x r1 l1 where "ep_get ep l k = Inr x"
      "f x (l @ [(ReqGet K k, None)]) = (r1, l1)"
      "(case r1 of Inl e' \<Rightarrow> r = Inl e' \<and> l' = l1
         | Inr y \<Rightarrow> if y = x then r = Inr x \<and> l' = l1
             else r = ep_update ep l1 y \<and> l' = l1 @ [(ReqUpdate (C y), outcome r)])"
proof (cases "ep_get ep l k")
  case (Inl e)
  show ?thesis
  proof (cases "is_not_found e")
    case False
    with run Inl show ?thesis
      by (intro get_error [of e]) (simp_all add: create_or_update_def api_get_def request_def attempt_def)
  next
    case True
    obtain r1 l1 where f: "f init (l @ [(ReqGet K k, Some e)]) = (r1, l1)" by fastforce
    from run Inl True f show ?thesis
      by (intro created [of e r1 l1])
         (auto simp: create_or_update_def api_get_def api_create_def request_def go_defs split: sum.splits)
  qed
next
  case (Inr x)
  obtain r1 l1 where f: "f x (l @ [(ReqGet K k, None)]) = (r1, l1)" by fastforce
  from run Inr f show ?thesis
    by (intro found [of x r1 l1])
       (auto simp: create_or_update_def api_get_def api_update_def request_def go_defs
             split: sum.splits if_splits)
qed

lemma yields_request: "(\<And>l x. ask l = Inr x \<Longrightarrow> Q x) \<Longrightarrow> yields Q (request q ask)"
  by (auto simp: yields_def request_def)

lemma yields_get: "(\<And>l x. ep_get ep l k = Inr x \<Longrightarrow> Q x) \<Longrightarrow> yields Q (api_get K ep k)"
  unfolding api_get_def by (rule yields_request)

lemma yields_served: "yields (\<lambda>x. \<exists>l. ep_get ep l k = Inr x) (api_get K ep k)"
  by (rule yields_get) blast

text \<open>
  What \<open>CreateOrUpdate\<close> writes: what the function makes of the new object, or what it makes
  of an object the server returned.
\<close>

lemma emits_create_or_update_spec:
  assumes get: "\<And>r. P (ReqGet K k, r)" and f: "\<And>x. emits P (f x)"
    and new: "yields is_new (f init)" "\<And>y r. is_new y \<Longrightarrow> P (ReqCreate (C y), r)"
    and old: "\<And>l x. ep_get ep l k = Inr x \<Longrightarrow> yields (is_old x) (f x)"
      "\<And>l x y r. ep_get ep l k = Inr x \<Longrightarrow> is_old x y \<Longrightarrow> P (ReqUpdate (C y), r)"
  shows "emits P (create_or_update K C ep k init f)"
proof -
  have "\<exists>n. snd (create_or_update K C ep k init f l) = l @ n \<and> list_all P n" for l
  proof -
    obtain r l' where run: "create_or_update K C ep k init f l = (r, l')" by fastforce
    then show ?thesis
    proof (cases rule: create_or_update_cases)
      case (get_error e)
      with get run show ?thesis by simp
    next
      case (created e r1 l1)
      from emitsD [OF f created(3)] obtain n where n: "l1 = (l @ [(ReqGet K k, Some e)]) @ n" "list_all P n" by blast
      show ?thesis
      proof (cases r1)
        case (Inl e')
        with created n get run show ?thesis by simp
      next
        case (Inr x)
        with yieldsD [OF new(1)] created(3) have "is_new x" by simp
        with Inr created n get run new(2) show ?thesis by simp
      qed
    next
      case (found x r1 l1)
      from emitsD [OF f found(2)] obtain n where n: "l1 = (l @ [(ReqGet K k, None)]) @ n" "list_all P n" by blast
      show ?thesis
      proof (cases r1)
        case (Inl e')
        with found n get run show ?thesis by simp
      next
        case (Inr y)
        with yieldsD [OF old(1) [OF found(1)]] found(2) have "is_old x y" by simp
        with Inr found n get run old(2) [OF found(1)] show ?thesis by (auto split: if_splits)
      qed
    qed
  qed
  then show ?thesis by (simp add: emits_def post_def)
qed

end
