(* ===== verification/Common.thy ===== *)
theory Common
  imports Env
begin

section \<open>Names and topologies\<close>

text \<open>
  The constants of \<open>internal/common/spec.go\<close> and \<open>definition/types.go\<close>, the topology
  predicates of \<open>galera.go\<close> and \<open>replication.go\<close>, the topology helpers of
  \<open>validate.go\<close>, and the names the provider derives from the Instance's name.
\<close>

definition ProviderName :: string where "ProviderName = ''mariadb''"
definition ComponentEngine :: string where "ComponentEngine = ''engine''"
definition ComponentMonitoring :: string where "ComponentMonitoring = ''monitoring''"
definition ComponentProxy :: string where "ComponentProxy = ''proxy''"

definition TopologyTypeStandalone :: string where "TopologyTypeStandalone = ''standalone''"
definition TopologyTypeGalera :: string where "TopologyTypeGalera = ''galera''"
definition TopologyTypeReplication :: string where "TopologyTypeReplication = ''replication''"

lemmas topology_names = TopologyTypeStandalone_def TopologyTypeGalera_def TopologyTypeReplication_def

abbreviation engine_of :: "instance_cr \<Rightarrow> component_spec" where
  "engine_of c \<equiv> component_or_zero c ComponentEngine"

subsection \<open>Topology\<close>

definition standaloneDefaultReplicas :: int where "standaloneDefaultReplicas = 1"
definition galeraDefaultReplicas :: int where "galeraDefaultReplicas = 3"
definition replicationDefaultReplicas :: int where "replicationDefaultReplicas = 3"

definition isGaleraTopology :: "instance_cr \<Rightarrow> bool" where
  "isGaleraTopology c \<longleftrightarrow> in_topology c = TopologyTypeGalera"

definition isReplicationTopology :: "instance_cr \<Rightarrow> bool" where
  "isReplicationTopology c \<longleftrightarrow> in_topology c = TopologyTypeReplication"

definition isHATopology :: "instance_cr \<Rightarrow> bool" where
  "isHATopology c \<longleftrightarrow> isGaleraTopology c \<or> isReplicationTopology c"

definition defaultReplicas :: "instance_cr \<Rightarrow> int" where
  "defaultReplicas c =
     (if isGaleraTopology c then galeraDefaultReplicas
      else if isReplicationTopology c then replicationDefaultReplicas
      else standaloneDefaultReplicas)"

definition normalizeTopology :: "string \<Rightarrow> string" where
  "normalizeTopology t = (if t = [] then TopologyTypeStandalone else t)"

definition existingTopology :: "env \<Rightarrow> mariadb \<Rightarrow> string" where
  "existingTopology E m =
     (if e_galera_enabled E m then TopologyTypeGalera
      else if e_replication_enabled E m then TopologyTypeReplication
      else TopologyTypeStandalone)"

lemma galera_not_replication: "isGaleraTopology c \<Longrightarrow> \<not> isReplicationTopology c"
  by (simp add: isGaleraTopology_def isReplicationTopology_def topology_names)

subsection \<open>Derived names\<close>

definition userSecretName :: "string \<Rightarrow> string" where
  "userSecretName i = ''everest-secrets-'' @ i"

definition rootSecretName :: "string \<Rightarrow> string" where
  "rootSecretName i = ''everest-secrets-'' @ i @ ''-root''"

definition maxScaleName :: "string \<Rightarrow> string" where
  "maxScaleName i = i @ ''-maxscale''"

definition pitrCRName :: "string \<Rightarrow> string" where
  "pitrCRName i = i @ ''-pitr''"

definition replicaTemplateName :: "string \<Rightarrow> string" where
  "replicaTemplateName i = i @ ''-replica-tpl''"

definition tlsCABundleSecretName :: "string \<Rightarrow> string" where
  "tlsCABundleSecretName i = i @ ''-ca-bundle''"

definition primaryServiceSuffix :: string where "primaryServiceSuffix = ''-primary''"

definition replicaPrefixSuffix :: string where "replicaPrefixSuffix = ''-replica''"

definition binlogPrefixSuffix :: string where "binlogPrefixSuffix = ''-binlog''"

text \<open>
  Within an Instance the two names differ, but the root Secret of one Instance is the user
  Secret of another whose name is that of the first followed by \<open>-root\<close>.
\<close>

lemma root_secret_of_other: "rootSecretName i = userSecretName (i @ ''-root'')"
  by (simp add: userSecretName_def rootSecretName_def)

lemma user_root_secret_distinct: "userSecretName i \<noteq> rootSecretName i"
  by (simp add: userSecretName_def rootSecretName_def)

end
