(* ===== verification/Storage.thy ===== *)
theory Storage
  imports Common
begin

section \<open>Backup storage and run states\<close>

text \<open>
  The pieces of \<open>backup.go\<close> shared by logical and physical backups, schedules,
  point-in-time recovery and seeding: the resolution of a BackupStorage into the
  operator's S3 block, and the translation of the operator's Complete condition into the
  state the runtime publishes.
\<close>

subsection \<open>S3\<close>

definition s3AccessKeyIDSecretKey :: string where "s3AccessKeyIDSecretKey = ''AWS_ACCESS_KEY_ID''"
definition s3SecretAccessKeySecretKey :: string where
  "s3SecretAccessKeySecretKey = ''AWS_SECRET_ACCESS_KEY''"

definition operatorS3 :: "s3_config \<Rightarrow> string \<Rightarrow> s3" where
  "operatorS3 cfg pre =
     (let endpoint = s3c_endpoint cfg;
          useTLS = prefix ''https://'' endpoint;
          endpoint = TrimPrefix (TrimPrefix endpoint ''https://'') ''http://''
      in \<lparr> s3_bucket = s3c_bucket cfg, s3_endpoint = endpoint, s3_region = s3c_region cfg,
           s3_prefix = pre,
           s3_access = Some (s3c_credentials cfg, s3AccessKeyIDSecretKey),
           s3_secret = Some (s3c_credentials cfg, s3SecretAccessKeySecretKey),
           s3_tls = Some useTLS \<rparr>)"

definition buildOperatorS3 :: "env \<Rightarrow> string \<Rightarrow> string \<Rightarrow> s3 go" where
  "buildOperatorS3 E storageName pre =
     attempt (get_storage E storageName) (\<lambda>r. case r of
         Inl e \<Rightarrow> if is_not_found e
           then fail (WaitFor (''BackupStorage '' @ quote storageName @ '' not yet present''))
           else fail e
       | Inr b \<Rightarrow> (case b of
             None \<Rightarrow> fail (BackupConfigError ''UnsupportedStorage''
               (''BackupStorage '' @ quote storageName @ '' is not S3-compatible''))
           | Some cfg \<Rightarrow> ret (operatorS3 cfg pre)))"

text \<open>
  The operator's storage blocks of a logical and of a physical backup wrap the S3 block;
  both isolate the Instance's backups under its own name.
\<close>

definition buildOperatorS3Storage :: "env \<Rightarrow> instance_cr \<Rightarrow> string \<Rightarrow> s3 option go" where
  "buildOperatorS3Storage E c storageName = bnd (buildOperatorS3 E storageName (in_name c)) (\<lambda>s. ret (Some s))"

definition buildPhysicalS3Storage :: "env \<Rightarrow> instance_cr \<Rightarrow> string \<Rightarrow> s3 option go" where
  "buildPhysicalS3Storage E c storageName = bnd (buildOperatorS3 E storageName (in_name c)) (\<lambda>s. ret (Some s))"

lemma emits_buildOperatorS3 [post_intros]:
  "(\<And>r. P (ReqStorage n, r)) \<Longrightarrow> emits P (buildOperatorS3 E n pre)"
  unfolding buildOperatorS3_def by (intro post_intros)

lemma emits_S3Storage [post_intros]:
  "(\<And>r. P (ReqStorage n, r)) \<Longrightarrow> emits P (buildOperatorS3Storage E c n)"
  "(\<And>r. P (ReqStorage n, r)) \<Longrightarrow> emits P (buildPhysicalS3Storage E c n)"
  unfolding buildOperatorS3Storage_def buildPhysicalS3Storage_def by (intro post_intros; blast)+

text \<open>The result of resolving a storage, from the answer of the API alone.\<close>

definition s3_of :: "env \<Rightarrow> log \<Rightarrow> string \<Rightarrow> string \<Rightarrow> err + s3" where
  "s3_of E l n pre = (case e_storage E l n of
       Inl e \<Rightarrow> Inl (if is_not_found e
           then WaitFor (''BackupStorage '' @ quote n @ '' not yet present'') else e)
     | Inr None \<Rightarrow> Inl (BackupConfigError ''UnsupportedStorage''
               (''BackupStorage '' @ quote n @ '' is not S3-compatible''))
     | Inr (Some cfg) \<Rightarrow> Inr (operatorS3 cfg pre))"

text \<open>An S3 block resolved from some storage the server returned.\<close>

definition storage_block :: "env \<Rightarrow> string \<Rightarrow> s3 \<Rightarrow> bool" where
  "storage_block E pre s \<longleftrightarrow> (\<exists>l n cfg. e_storage E l n = Inr (Some cfg) \<and> s = operatorS3 cfg pre)"

lemma storage_blockI: "e_storage E l n = Inr (Some cfg) \<Longrightarrow> storage_block E pre (operatorS3 cfg pre)"
  unfolding storage_block_def by blast

lemma buildOperatorS3_apply:
  "buildOperatorS3 E n pre l = (s3_of E l n pre, l @ [(ReqStorage n, outcome (e_storage E l n))])"
  by (simp add: buildOperatorS3_def get_storage_def request_def s3_of_def attempt_def
      split: sum.splits option.splits)

lemma buildS3Storage_apply:
  "buildOperatorS3Storage E c n l =
     (map_sum id Some (s3_of E l n (in_name c)), l @ [(ReqStorage n, outcome (e_storage E l n))])"
  "buildPhysicalS3Storage E c n l =
     (map_sum id Some (s3_of E l n (in_name c)), l @ [(ReqStorage n, outcome (e_storage E l n))])"
  unfolding buildOperatorS3Storage_def buildPhysicalS3Storage_def
  by (cases "s3_of E l n (in_name c)"; simp add: bnd_def buildOperatorS3_apply attempt_def)+

lemma yields_storage_block:
  "yields (storage_block E pre) (buildOperatorS3 E n pre)"
  "yields (\<lambda>s. \<exists>b. s = Some b \<and> storage_block E (in_name c) b) (buildOperatorS3Storage E c n)"
  "yields (\<lambda>s. \<exists>b. s = Some b \<and> storage_block E (in_name c) b) (buildPhysicalS3Storage E c n)"
  unfolding yields_def
  by (auto simp: buildOperatorS3_apply buildS3Storage_apply s3_of_def intro: storage_blockI
      split: sum.splits option.splits)

text \<open>
  The operator's S3 block has TLS exactly for an https endpoint, and its endpoint is
  the storage's without the scheme; credentials come from one Secret under the two AWS
  keys, and the objects go under the given prefix.
\<close>

theorem operatorS3_endpoint:
  "operatorS3 (cfg\<lparr>s3c_endpoint := ''https://'' @ host\<rparr>) pre =
     \<lparr> s3_bucket = s3c_bucket cfg, s3_endpoint = TrimPrefix host ''http://'', s3_region = s3c_region cfg,
       s3_prefix = pre, s3_access = Some (s3c_credentials cfg, ''AWS_ACCESS_KEY_ID''),
       s3_secret = Some (s3c_credentials cfg, ''AWS_SECRET_ACCESS_KEY''), s3_tls = Some True \<rparr>
   \<and> s3_endpoint (operatorS3 (cfg\<lparr>s3c_endpoint := ''http://'' @ host\<rparr>) pre) = host
   \<and> (s3_tls (operatorS3 cfg pre) = Some True \<longleftrightarrow> prefix ''https://'' (s3c_endpoint cfg))"
  by (simp add: operatorS3_def Let_def s3AccessKeyIDSecretKey_def s3SecretAccessKeySecretKey_def
      TrimPrefix_def)

subsection \<open>Run states\<close>

definition mapBackupState :: "condition list \<Rightarrow> exec_status" where
  "mapBackupState conditions =
     (case find_condition TypeComplete conditions of
        None \<Rightarrow> exec_state StatePending []
      | Some cond \<Rightarrow>
         (case cn_reason cond of
            ReasonJobComplete \<Rightarrow> (exec_state StateSucceeded [])\<lparr>ex_completed := Some (cn_time cond)\<rparr>
          | ReasonCronJobSuccess \<Rightarrow> (exec_state StateSucceeded [])\<lparr>ex_completed := Some (cn_time cond)\<rparr>
          | ReasonJobFailed \<Rightarrow> exec_state StateFailed (cn_message cond)
          | ReasonFailed \<Rightarrow> exec_state StateFailed (cn_message cond)
          | ReasonOther _ \<Rightarrow> exec_state StateRunning (cn_message cond)))"

definition mapRestoreState :: "condition list \<Rightarrow> exec_status" where
  "mapRestoreState conditions =
     (case find_condition TypeComplete conditions of
        None \<Rightarrow> exec_state StatePending []
      | Some cond \<Rightarrow>
         (case cn_reason cond of
            ReasonJobComplete \<Rightarrow> (exec_state StateSucceeded [])\<lparr>ex_completed := Some (cn_time cond)\<rparr>
          | ReasonCronJobSuccess \<Rightarrow> (exec_state StateSucceeded [])\<lparr>ex_completed := Some (cn_time cond)\<rparr>
          | ReasonJobFailed \<Rightarrow> exec_state StateFailed (cn_message cond)
          | ReasonFailed \<Rightarrow> exec_state StateFailed (cn_message cond)
          | ReasonOther _ \<Rightarrow> exec_state StateRunning (cn_message cond)))"

text \<open>
  Run Jobs report per condition type and status; the first true terminal condition decides.
\<close>

fun mapJobConditions :: "job_condition list \<Rightarrow> exec_status" where
  "mapJobConditions [] = exec_state StateRunning []"
| "mapJobConditions (cond # cs) =
     (if \<not> jc_true cond then mapJobConditions cs
      else (case jc_type cond of
          JobComplete \<Rightarrow> (exec_state StateSucceeded [])\<lparr>ex_completed := Some (jc_time cond)\<rparr>
        | JobFailed \<Rightarrow> exec_state StateFailed (jc_message cond)
        | JobOther _ \<Rightarrow> mapJobConditions cs))"

definition mapJobState :: "job \<Rightarrow> exec_status" where
  "mapJobState j = mapJobConditions (jb_conditions j)"

text \<open>
  What the runtime relies on in every translation: a completion time comes with success and
  with nothing else, a message never does, and the reference is left to the caller.
\<close>

locale run_state_map =
  fixes state_of :: "'c \<Rightarrow> exec_status"
  assumes completed_iff: "ex_completed (state_of c) \<noteq> None \<longleftrightarrow> ex_state (state_of c) = StateSucceeded"
    and silent_success: "ex_state (state_of c) = StateSucceeded \<Longrightarrow> ex_message (state_of c) = []"
    and no_ref: "ex_ref (state_of c) = None"
    and known: "ex_state (state_of c) \<noteq> StateNone"
begin

lemma failed_no_time: "ex_state (state_of c) = StateFailed \<Longrightarrow> ex_completed (state_of c) = None"
  using completed_iff [of c] by auto

lemma message_unsucceeded: "ex_message (state_of c) \<noteq> [] \<Longrightarrow> ex_completed (state_of c) = None"
  using completed_iff [of c] silent_success [of c] by auto

end

interpretation backup_state: run_state_map mapBackupState
  by unfold_locales
     (auto simp: mapBackupState_def exec_state_def split: option.splits cond_reason.splits)

interpretation restore_state: run_state_map mapRestoreState
  by unfold_locales
     (auto simp: mapRestoreState_def exec_state_def split: option.splits cond_reason.splits)

lemma mapJobConditions_props:
  "(ex_completed (mapJobConditions cs) \<noteq> None \<longleftrightarrow> ex_state (mapJobConditions cs) = StateSucceeded)
   \<and> (ex_state (mapJobConditions cs) = StateSucceeded \<longrightarrow> ex_message (mapJobConditions cs) = [])
   \<and> ex_ref (mapJobConditions cs) = None \<and> ex_state (mapJobConditions cs) \<notin> {StateNone, StatePending}"
  by (induction cs) (auto simp: exec_state_def split: job_cond_type.splits)

interpretation job_state: run_state_map mapJobState
  using mapJobConditions_props by unfold_locales (auto simp: mapJobState_def)

lemma mapBackupState_succeeded_iff:
  "ex_state (mapBackupState cs) = StateSucceeded \<longleftrightarrow>
     (\<exists>cond. find_condition TypeComplete cs = Some cond
        \<and> cn_reason cond \<in> {ReasonJobComplete, ReasonCronJobSuccess})"
  by (auto simp: mapBackupState_def exec_state_def split: option.splits cond_reason.splits)

lemma mapBackupState_failed_iff:
  "ex_state (mapBackupState cs) = StateFailed \<longleftrightarrow>
     (\<exists>cond. find_condition TypeComplete cs = Some cond \<and> cn_reason cond \<in> {ReasonJobFailed, ReasonFailed})"
  by (auto simp: mapBackupState_def exec_state_def split: option.splits cond_reason.splits)

text \<open>
  A run Job is reported by its first true Complete or Failed condition: succeeded with
  its time, failed with its message, and running while there is none.
\<close>

theorem mapJobState_first_terminal:
  "mapJobState j =
     (case find (\<lambda>c. jc_true c \<and> (jc_type c = JobComplete \<or> jc_type c = JobFailed)) (jb_conditions j) of
        None \<Rightarrow> exec_state StateRunning []
      | Some c \<Rightarrow> if jc_type c = JobComplete
          then (exec_state StateSucceeded [])\<lparr>ex_completed := Some (jc_time c)\<rparr>
          else exec_state StateFailed (jc_message c))"
proof -
  have "mapJobConditions cs =
     (case find (\<lambda>c. jc_true c \<and> (jc_type c = JobComplete \<or> jc_type c = JobFailed)) cs of
        None \<Rightarrow> exec_state StateRunning []
      | Some c \<Rightarrow> if jc_type c = JobComplete
          then (exec_state StateSucceeded [])\<lparr>ex_completed := Some (jc_time c)\<rparr>
          else exec_state StateFailed (jc_message c))" for cs
    by (induction cs) (auto split: job_cond_type.splits)
  then show ?thesis by (simp add: mapJobState_def)
qed

text \<open>
  The operator reports success and terminal failure both as Complete=True; the state
  published for a backup follows the reason of the condition instead: terminal exactly for
  the four terminal reasons, pending exactly without the condition, and with a completion
  time exactly on success.
\<close>

theorem mapBackupState_by_reason:
  "(ex_state (mapBackupState cs) = StatePending \<longleftrightarrow> find_condition TypeComplete cs = None)
   \<and> (ex_state (mapBackupState cs) = StateSucceeded \<longleftrightarrow>
       (\<exists>cond. find_condition TypeComplete cs = Some cond
          \<and> cn_reason cond \<in> {ReasonJobComplete, ReasonCronJobSuccess}))
   \<and> (ex_state (mapBackupState cs) = StateFailed \<longleftrightarrow>
       (\<exists>cond. find_condition TypeComplete cs = Some cond \<and> cn_reason cond \<in> {ReasonJobFailed, ReasonFailed}))
   \<and> (ex_completed (mapBackupState cs) \<noteq> None \<longleftrightarrow> ex_state (mapBackupState cs) = StateSucceeded)
   \<and> mapRestoreState cs = mapBackupState cs"
proof (intro conjI)
  show "ex_state (mapBackupState cs) = StatePending \<longleftrightarrow> find_condition TypeComplete cs = None"
    by (auto simp: mapBackupState_def exec_state_def split: option.splits cond_reason.splits)
  show "mapRestoreState cs = mapBackupState cs"
    by (simp add: mapRestoreState_def mapBackupState_def)
qed (rule mapBackupState_succeeded_iff mapBackupState_failed_iff backup_state.completed_iff)+

end
