(* ===== verification/Store.thy ===== *)
theory Store
  imports Env
begin

section \<open>What the provider relies on in the API server, and a server that has it\<close>

text \<open>
  The API server is a parameter (\<open>Env\<close>). The laws below are the documented behaviour the
  idempotence of the handlers rests on: an object created or updated is what the next read
  returns, reading changes nothing, a served object has a resource version. They are
  hypotheses of the few theorems that need them. \<open>mem_endpoint\<close> is a server with these
  laws, which replays the log over an initial list of objects; \<open>mem_env\<close> is an environment
  made of such servers, on which the theorems are applied to concrete inputs.
\<close>

subsection \<open>The laws\<close>

definition faithful_endpoint ::
  "('o \<Rightarrow> obj) \<Rightarrow> 'o endpoint \<Rightarrow> ('o \<Rightarrow> meta) \<Rightarrow> bool" where
  "faithful_endpoint C ep mt \<longleftrightarrow>
     (\<forall>l x y. ep_create ep l x = Inr y \<longrightarrow>
        meta_key (mt y) = meta_key (mt x) \<and> m_owners (mt y) = m_owners (mt x) \<and>
        ep_get ep (l @ [(ReqCreate (C x), None)]) (meta_key (mt x)) = Inr y) \<and>
     (\<forall>l x y. ep_update ep l x = Inr y \<longrightarrow>
        meta_key (mt y) = meta_key (mt x) \<and> m_owners (mt y) = m_owners (mt x) \<and>
        ep_get ep (l @ [(ReqUpdate (C x), None)]) (meta_key (mt x)) = Inr y) \<and>
     (\<forall>l q r k. \<not> is_write q \<longrightarrow> ep_get ep (l @ [(q, r)]) k = ep_get ep l k) \<and>
     (\<forall>l k x. ep_get ep l k = Inr x \<longrightarrow> meta_key (mt x) = k \<and> m_rv (mt x) \<noteq> [])"

text \<open>Only the law that a served object carries a resource version.\<close>

definition served_versions :: "'o endpoint \<Rightarrow> ('o \<Rightarrow> meta) \<Rightarrow> bool" where
  "served_versions ep mt \<longleftrightarrow> (\<forall>l k x. ep_get ep l k = Inr x \<longrightarrow> m_rv (mt x) \<noteq> [])"

lemma faithful_served: "faithful_endpoint C ep mt \<Longrightarrow> served_versions ep mt"
  unfolding faithful_endpoint_def served_versions_def by blast

lemma served_versionsD: "served_versions ep mt \<Longrightarrow> ep_get ep l k = Inr x \<Longrightarrow> m_rv (mt x) \<noteq> []"
  unfolding served_versions_def by blast

lemma get_after_reads:
  assumes "faithful_endpoint C ep mt" and "list_all read_only new"
  shows "ep_get ep (l @ new) k = ep_get ep l k"
  using assms(2)
proof (induction new rule: rev_induct)
  case (snoc e new)
  obtain q r where e: "e = (q, r)" by (cases e)
  with snoc.prems have "\<not> is_write q" "list_all read_only new" by simp_all
  moreover from assms(1) have "\<not> is_write q \<longrightarrow> ep_get ep ((l @ new) @ [(q, r)]) k = ep_get ep (l @ new) k"
    unfolding faithful_endpoint_def by blast
  ultimately show ?case using snoc.IH e by simp
qed simp

text \<open>
  \<open>SetControllerReference\<close> changes nothing but the owners, and nothing at all once the
  owners are as it left them.
\<close>

definition lawful_owner :: "env \<Rightarrow> bool" where
  "lawful_owner E \<longleftrightarrow> (\<forall>r m m'. e_set_controller E r m = Inr m' \<longrightarrow>
     m' = m\<lparr>m_owners := m_owners m'\<rparr> \<and>
     (\<forall>n. meta_key n = meta_key m \<and> m_owners n = m_owners m' \<longrightarrow> e_set_controller E r n = Inr n))"

lemma lawful_ownerD:
  assumes "lawful_owner E" and "e_set_controller E r m = Inr m'"
  shows "m' = m\<lparr>m_owners := m_owners m'\<rparr>" "meta_key m' = meta_key m" "m_rv m' = m_rv m"
    and "meta_key n = meta_key m \<Longrightarrow> m_owners n = m_owners m' \<Longrightarrow> e_set_controller E r n = Inr n"
proof -
  from assms show eq: "m' = m\<lparr>m_owners := m_owners m'\<rparr>" unfolding lawful_owner_def by blast
  show "meta_key m' = meta_key m" "m_rv m' = m_rv m" by (subst eq, simp add: meta_key_def)+
  from assms show "meta_key n = meta_key m \<Longrightarrow> m_owners n = m_owners m' \<Longrightarrow> e_set_controller E r n = Inr n"
    unfolding lawful_owner_def by blast
qed

lemma lawful_keeps:
  assumes "lawful_owner E" and "e_set_controller E r m = Inr m'"
  shows "meta_key m' = meta_key m \<and> m_rv m' = m_rv m \<and> m_labels m' = m_labels m \<and> m_name m' = m_name m"
proof -
  from assms have eq: "m' = m\<lparr>m_owners := m_owners m'\<rparr>" by (rule lawful_ownerD(1))
  show ?thesis by (subst eq, subst (2) eq, subst (3) eq, subst (4) eq) (simp add: meta_key_def)
qed

text \<open>
  \<open>CreateOrUpdate\<close> leaves the object it returns behind: the next read finds it. The mutate
  function only has to keep the key and to write nothing itself.
\<close>

lemma create_or_update_settles:
  assumes laws: "faithful_endpoint C ep mt"
    and run: "create_or_update K C ep k init f l = (Inr x, l')"
    and keep: "\<And>y l1 z l2. f y l1 = (Inr z, l2) \<Longrightarrow> meta_key (mt z) = meta_key (mt y)"
    and init: "meta_key (mt init) = k"
    and quiet: "\<And>y. emits read_only (f y)"
  shows "ep_get ep l' k = Inr x"
  using run
proof (cases rule: create_or_update_cases)
  case (created e r1 l1)
  then obtain z where z: "r1 = Inr z" "Inr x = ep_create ep l1 z" "l' = l1 @ [(ReqCreate (C z), None)]"
    by (cases r1) auto
  with created keep init have "meta_key (mt z) = k" by auto
  moreover from laws z have "ep_get ep (l1 @ [(ReqCreate (C z), None)]) (meta_key (mt z)) = Inr x"
    unfolding faithful_endpoint_def by metis
  ultimately show ?thesis using z by simp
next
  case (found y r1 l1)
  then obtain z where z: "r1 = Inr z" by (cases r1) auto
  from laws found(1) have ky: "meta_key (mt y) = k" unfolding faithful_endpoint_def by blast
  show ?thesis
  proof (cases "z = y")
    case True
    from emitsD [OF quiet found(2)] obtain new where "l1 = (l @ [(ReqGet K k, None)]) @ new" "list_all read_only new"
      by blast
    with get_after_reads [OF laws, of "(ReqGet K k, None) # new" l k] True found z
    show ?thesis by simp
  next
    case False
    with found z have u: "Inr x = ep_update ep l1 z" "l' = l1 @ [(ReqUpdate (C z), None)]" by auto
    from keep found(2) z ky have "meta_key (mt z) = k" by auto
    moreover from laws u have "ep_get ep (l1 @ [(ReqUpdate (C z), None)]) (meta_key (mt z)) = Inr x"
      unfolding faithful_endpoint_def by metis
    ultimately show ?thesis using u by simp
  qed
qed auto

text \<open>The object a handler leaves behind is controlled by the owner its mutate function set.\<close>

lemma create_or_update_owned:
  assumes laws: "faithful_endpoint C ep mt" and own: "lawful_owner E"
    and run: "create_or_update K C ep k init f l = (Inr x, l')"
    and last_step: "\<And>y l1 z l2. f y l1 = (Inr z, l2) \<Longrightarrow> \<exists>m. e_set_controller E r m = Inr (mt z)"
  shows "e_set_controller E r (mt x) = Inr (mt x)"
proof -
  have "\<exists>z y l1 l2. f y l1 = (Inr z, l2) \<and> meta_key (mt x) = meta_key (mt z) \<and> m_owners (mt x) = m_owners (mt z)"
    using run
  proof (cases rule: create_or_update_cases)
    case (created e r1 l1)
    then obtain z where z: "r1 = Inr z" "Inr x = ep_create ep l1 z" by (cases r1) auto
    with laws have "meta_key (mt x) = meta_key (mt z) \<and> m_owners (mt x) = m_owners (mt z)"
      unfolding faithful_endpoint_def by metis
    with created(3) z(1) show ?thesis by blast
  next
    case (found y r1 l1)
    then obtain z where z: "r1 = Inr z" by (cases r1) auto
    with found have "z = x \<or> Inr x = ep_update ep l1 z" by (auto split: if_splits)
    with laws have "meta_key (mt x) = meta_key (mt z) \<and> m_owners (mt x) = m_owners (mt z)"
      unfolding faithful_endpoint_def by metis
    with found(2) z show ?thesis by blast
  qed auto
  then obtain z m where z: "e_set_controller E r m = Inr (mt z)"
    and eq: "meta_key (mt x) = meta_key (mt z)" "m_owners (mt x) = m_owners (mt z)"
    using last_step by blast
  from lawful_ownerD(2) [OF own z] lawful_ownerD(4) [OF own z, of "mt x"] eq show ?thesis by simp
qed

text \<open>The server stores the part \<open>g\<close> of an object as it was written.\<close>

definition keeps_content :: "'o endpoint \<Rightarrow> ('o \<Rightarrow> 'b) \<Rightarrow> bool" where
  "keeps_content ep g \<longleftrightarrow>
     (\<forall>l x y. ep_create ep l x = Inr y \<or> ep_update ep l x = Inr y \<longrightarrow> g y = g x)"

lemma create_or_update_content:
  assumes keep: "keeps_content ep g" and run: "create_or_update K C ep k init f l = (Inr x, l')"
  obtains (made) e l1 z l2 where "ep_get ep l k = Inl e" "is_not_found e" "f init l1 = (Inr z, l2)" "g x = g z"
  | (kept) y l1 z l2 where "ep_get ep l k = Inr y" "f y l1 = (Inr z, l2)" "g x = g z"
  using run
proof (cases rule: create_or_update_cases)
  case (created e r1 l1)
  then obtain z where "r1 = Inr z" "Inr x = ep_create ep l1 z" by (cases r1) auto
  with created keep show ?thesis by (intro made) (auto simp: keeps_content_def)
next
  case (found y r1 l1)
  then obtain z where z: "r1 = Inr z" by (cases r1) auto
  with found have "z = x \<or> Inr x = ep_update ep l1 z" by (auto split: if_splits)
  with keep have "g x = g z" unfolding keeps_content_def by metis
  with found z show ?thesis by (intro kept) simp_all
qed auto

text \<open>A second run over the same object writes nothing if the function has nothing to change.\<close>

lemma create_or_update_quiet:
  assumes "ep_get ep l k = Inr x" and "f x (l @ [(ReqGet K k, None)]) = (Inr x, l')"
  shows "create_or_update K C ep k init f l = (Inr x, l')"
  using assms by (simp add: create_or_update_def api_get_def request_def)

subsection \<open>A server that replays the log\<close>

definition mem_step ::
  "kind \<Rightarrow> (obj \<Rightarrow> 'o option) \<Rightarrow> ('o \<Rightarrow> nsname) \<Rightarrow> ('o \<Rightarrow> 'o) \<Rightarrow> entry \<Rightarrow> 'o list \<Rightarrow> 'o list" where
  "mem_step K D key stamp e os =
     (if snd e \<noteq> None then os
      else (case fst e of
          ReqCreate ob \<Rightarrow> (case D ob of Some x \<Rightarrow> stamp x # filter (\<lambda>y. key y \<noteq> key x) os | None \<Rightarrow> os)
        | ReqUpdate ob \<Rightarrow> (case D ob of Some x \<Rightarrow> map (\<lambda>y. if key y = key x then stamp x else y) os | None \<Rightarrow> os)
        | ReqDelete K' k \<Rightarrow> (if K' = K then filter (\<lambda>y. key y \<noteq> k) os else os)
        | _ \<Rightarrow> os))"

definition mem_endpoint ::
  "kind \<Rightarrow> (obj \<Rightarrow> 'o option) \<Rightarrow> ('o \<Rightarrow> meta) \<Rightarrow> ('o \<Rightarrow> 'o) \<Rightarrow> 'o list \<Rightarrow> 'o endpoint" where
  "mem_endpoint K D mt stamp init =
     (let key = (\<lambda>x. meta_key (mt x));
          contents = (\<lambda>l. fold (mem_step K D key stamp) l (map stamp init));
          there = (\<lambda>l k. find (\<lambda>y. key y = k) (contents l))
      in \<lparr> ep_get = (\<lambda>l k. case there l k of None \<Rightarrow> Inl (ApiNotFound (snd k)) | Some y \<Rightarrow> Inr y),
           ep_list = (\<lambda>l sel. Inr (filter (\<lambda>y. list_all (\<lambda>(a, b). map_of (m_labels (mt y)) a = Some b) sel)
               (contents l))),
           ep_create = (\<lambda>l x. case there l (key x) of
               None \<Rightarrow> Inr (stamp x) | Some _ \<Rightarrow> Inl (ApiAlreadyExists (snd (key x)))),
           ep_update = (\<lambda>l x. case there l (key x) of
               None \<Rightarrow> Inl (ApiNotFound (snd (key x))) | Some _ \<Rightarrow> Inr (stamp x)),
           ep_delete = (\<lambda>l k. case there l k of None \<Rightarrow> Some (ApiNotFound (snd k)) | Some _ \<Rightarrow> None) \<rparr>)"

text \<open>The server stamps a resource version on an object that has none.\<close>

definition stamp_meta :: "meta \<Rightarrow> meta" where
  "stamp_meta m = (if m_rv m = [] then m\<lparr>m_rv := ''1''\<rparr> else m)"

lemma stamp_meta_simps [simp]:
  "m_rv (stamp_meta m) \<noteq> []" "meta_key (stamp_meta m) = meta_key m" "m_owners (stamp_meta m) = m_owners m"
  "stamp_meta (stamp_meta m) = stamp_meta m"
  by (simp_all add: stamp_meta_def meta_key_def)

lemma find_append: "find P (xs @ ys) = (case find P xs of Some x \<Rightarrow> Some x | None \<Rightarrow> find P ys)"
  by (induction xs) auto

lemma find_member: "find P xs = Some x \<Longrightarrow> x \<in> set xs \<and> P x"
  by (induction xs) (auto split: if_splits)

lemma find_map_same:
  assumes "find (\<lambda>y. key y = k) os = Some w" and "key x = k"
  shows "find (\<lambda>y. key y = k) (map (\<lambda>y. if key y = k then x else y) os) = Some x"
  using assms by (induction os) (auto split: if_splits)

lemma mem_contents_stamped:
  assumes "\<And>x. mt (stamp x) = stamp_meta (mt x)"
  shows "x \<in> set (fold (mem_step K D key stamp) l (map stamp init)) \<Longrightarrow> m_rv (mt x) \<noteq> []"
proof (induction l arbitrary: x rule: rev_induct)
  case Nil
  then show ?case by (auto simp: assms)
next
  case (snoc e l)
  then show ?case
    by (auto simp: mem_step_def assms split: if_splits request.splits option.splits)
qed

lemma mem_endpoint_faithful:
  assumes D: "\<And>x. D (C x) = Some x" and S: "\<And>x. mt (stamp x) = stamp_meta (mt x)"
  shows "faithful_endpoint C (mem_endpoint K D mt stamp init) mt"
proof -
  let ?key = "\<lambda>x. meta_key (mt x)"
  let ?cs = "\<lambda>l. fold (mem_step K D ?key stamp) l (map stamp init)"
  have key_stamp [simp]: "?key (stamp x) = ?key x" "m_owners (mt (stamp x)) = m_owners (mt x)" for x
    by (simp_all add: S)
  have create: "?cs (l @ [(ReqCreate (C x), None)]) = stamp x # filter (\<lambda>y. ?key y \<noteq> ?key x) (?cs l)" for l :: log and x
    by (simp add: mem_step_def D)
  have update: "?cs (l @ [(ReqUpdate (C x), None)]) = map (\<lambda>y. if ?key y = ?key x then stamp x else y) (?cs l)"
    for l :: log and x
    by (simp add: mem_step_def D)
  have reads: "\<not> is_write q \<Longrightarrow> ?cs (l @ [(q, r)]) = ?cs l" for l :: log and q r
    by (cases q) (auto simp: mem_step_def)
  have there: "find (\<lambda>y. ?key y = k) (?cs l) = Some x \<Longrightarrow> ?key x = k \<and> m_rv (mt x) \<noteq> []"
    for l :: log and k x
    by (auto dest!: find_member dest: mem_contents_stamped [of mt stamp, OF S])
  have found: "find (\<lambda>y. ?key y = ?key x) (map (\<lambda>y. if ?key y = ?key x then stamp x else y) (?cs l)) = Some (stamp x)"
    if "find (\<lambda>y. ?key y = ?key x) (?cs l) = Some w" for l :: log and x w
    using that by (rule find_map_same) simp
  show ?thesis
    unfolding faithful_endpoint_def mem_endpoint_def Let_def
    by (intro conjI allI impI)
       (auto simp add: create update reads found simp del: fold_append dest: there split: option.splits)
qed

lemma mem_endpoint_keeps:
  assumes "\<And>x. g (stamp x) = g x"
  shows "keeps_content (mem_endpoint K D mt stamp init) g"
  by (auto simp: keeps_content_def mem_endpoint_def Let_def assms split: option.splits)

subsection \<open>A whole environment\<close>

record world =
  w_mariadbs :: "mariadb list"
  w_maxscales :: "maxscale list"
  w_backups :: "op_backup list"
  w_physicals :: "phys_backup list"
  w_restores :: "op_restore list"
  w_pitrs :: "pitr_cr list"
  w_secrets :: "secret list"
  w_jobs :: "job list"
  w_ev_backups :: "ev_backup list"
  w_monitors :: "unstructured list"
  w_scrapes :: "unstructured list"
  w_storages :: "(string \<times> s3_config option) list"

definition empty_world :: world where
  "empty_world = \<lparr> w_mariadbs = [], w_maxscales = [], w_backups = [], w_physicals = [],
     w_restores = [], w_pitrs = [], w_secrets = [], w_jobs = [], w_ev_backups = [],
     w_monitors = [], w_scrapes = [], w_storages = [] \<rparr>"

text \<open>\<open>SetControllerReference\<close>: refused when another owner controls the object.\<close>

definition mem_set_controller :: "owner_ref \<Rightarrow> meta \<Rightarrow> err + meta" where
  "mem_set_controller r m =
     (case controller_of m of
        Some o1 \<Rightarrow> if or_uid o1 = or_uid r then Inr m else Inl (Errorf ''already owned'')
      | None \<Rightarrow> Inr (m\<lparr>m_owners := m_owners m @ [r\<lparr>or_controller := Some True\<rparr>]\<rparr>))"

definition no_service :: "service endpoint" where
  "no_service = \<lparr> ep_get = (\<lambda>_ k. Inl (ApiNotFound (snd k))), ep_list = (\<lambda>_ _. Inr []),
     ep_create = (\<lambda>_. Inr), ep_update = (\<lambda>_. Inr), ep_delete = (\<lambda>_ _. None) \<rparr>"

definition no_tls_params :: mariadb_params where
  "no_tls_params = \<lparr> mp_configuration = [], mp_tls = None \<rparr>"

definition no_monitoring_params :: monitoring_params where
  "no_monitoring_params = \<lparr> mop_enabled = False,
     mop_monitor = \<lparr> smp_enabled = None, smp_release = [], smp_job_label = [], smp_interval = [], smp_timeout = [] \<rparr>,
     mop_victoria = \<lparr> vmp_enabled = False, vmp_interval = [], vmp_timeout = [] \<rparr> \<rparr>"

definition mem_env :: "world \<Rightarrow> env" where
  "mem_env w = \<lparr>
     e_mariadbs = mem_endpoint KMariaDB (\<lambda>x. case x of OMariaDB y \<Rightarrow> Some y | _ \<Rightarrow> None) md_meta
       (\<lambda>x. x\<lparr>md_meta := stamp_meta (md_meta x)\<rparr>) (w_mariadbs w),
     e_maxscales = mem_endpoint KMaxScale (\<lambda>x. case x of OMaxScale y \<Rightarrow> Some y | _ \<Rightarrow> None) mx_meta
       (\<lambda>x. x\<lparr>mx_meta := stamp_meta (mx_meta x)\<rparr>) (w_maxscales w),
     e_backups = mem_endpoint KBackup (\<lambda>x. case x of OBackup y \<Rightarrow> Some y | _ \<Rightarrow> None) ob_meta
       (\<lambda>x. x\<lparr>ob_meta := stamp_meta (ob_meta x)\<rparr>) (w_backups w),
     e_physicals = mem_endpoint KPhysicalBackup (\<lambda>x. case x of OPhysicalBackup y \<Rightarrow> Some y | _ \<Rightarrow> None) pb_meta
       (\<lambda>x. x\<lparr>pb_meta := stamp_meta (pb_meta x)\<rparr>) (w_physicals w),
     e_restores = mem_endpoint KRestore (\<lambda>x. case x of ORestore y \<Rightarrow> Some y | _ \<Rightarrow> None) rst_meta
       (\<lambda>x. x\<lparr>rst_meta := stamp_meta (rst_meta x)\<rparr>) (w_restores w),
     e_pitrs = mem_endpoint KPITR (\<lambda>x. case x of OPITR y \<Rightarrow> Some y | _ \<Rightarrow> None) pi_meta
       (\<lambda>x. x\<lparr>pi_meta := stamp_meta (pi_meta x)\<rparr>) (w_pitrs w),
     e_secrets = mem_endpoint KSecret (\<lambda>x. case x of OSecret y \<Rightarrow> Some y | _ \<Rightarrow> None) se_meta
       (\<lambda>x. x\<lparr>se_meta := stamp_meta (se_meta x)\<rparr>) (w_secrets w),
     e_services = no_service,
     e_jobs = mem_endpoint KJob (\<lambda>_. None) jb_meta (\<lambda>x. x\<lparr>jb_meta := stamp_meta (jb_meta x)\<rparr>) (w_jobs w),
     e_ev_backups = mem_endpoint KEvBackup (\<lambda>_. None) eb_meta
       (\<lambda>x. x\<lparr>eb_meta := stamp_meta (eb_meta x)\<rparr>) (w_ev_backups w),
     e_monitors = mem_endpoint KServiceMonitor (\<lambda>_. None) un_meta
       (\<lambda>x. x\<lparr>un_meta := stamp_meta (un_meta x)\<rparr>) (w_monitors w),
     e_scrapes = mem_endpoint KVMServiceScrape (\<lambda>x. case x of OUnstructured y \<Rightarrow> Some y | _ \<Rightarrow> None) un_meta
       (\<lambda>x. x\<lparr>un_meta := stamp_meta (un_meta x)\<rparr>) (w_scrapes w),
     e_storage = (\<lambda>_ n. case map_of (w_storages w) n of None \<Rightarrow> Inl (ApiNotFound n) | Some s \<Rightarrow> Inr s),
     e_apply = (\<lambda>_ _ _. None),
     e_patch = (\<lambda>_ _. None),
     e_crd = (\<lambda>_. None),
     e_now = (\<lambda>_. 0),
     e_ds_status = (\<lambda>_. None),
     e_provider_spec = Inr \<lparr> pv_image = (\<lambda>_ v. ''mariadb:'' @ v), pv_default = (\<lambda>c. c @ '':1''),
       pv_bundle_name = (\<lambda>_. []), pv_bundle = (\<lambda>_. Inr []) \<rparr>,
     e_object_meta = (\<lambda>c n. empty_meta (in_namespace c) n),
     e_pod_labels = (\<lambda>_ _. []),
     e_decode_engine = (\<lambda>_. Inr no_tls_params),
     e_try_decode_engine = (\<lambda>_. Some no_tls_params),
     e_decode_monitoring = (\<lambda>_. Inr no_monitoring_params),
     e_decode_proxy = (\<lambda>_. Inr \<lparr> mxp_enabled = False \<rparr>),
     e_set_controller = mem_set_controller,
     e_gvk = (\<lambda>_. Inr (''k8s.mariadb.com/v1alpha1'', ''MariaDB'')),
     e_unstruct_mariadb = (\<lambda>m. Inr [(''metadata'', JObj [(''name'', JStr (m_name (md_meta m)))])]),
     e_unstruct_maxscale = (\<lambda>m. Inr [(''metadata'', JObj [(''name'', JStr (m_name (mx_meta m)))])]),
     e_upgrade_managed = (\<lambda>m _ _. Inr m),
     e_topology_spread = (\<lambda>_ _. []),
     e_normalized_ranges = (\<lambda>rs. rs),
     e_quantity_text = (\<lambda>_. ''q''),
     e_json_error = (\<lambda>_. ''invalid''),
     e_cron = (\<lambda>_. Inr (\<lambda>t. t + 86400000000000)),
     e_is_ready = (\<lambda>_. True),
     e_galera_enabled = (\<lambda>m. ms_galera (md_spec m) = Some True),
     e_replication_enabled = (\<lambda>m. case ms_replication (md_spec m) of Some r \<Rightarrow> rp_enabled r | None \<Rightarrow> False),
     e_has_restored = (\<lambda>_. True),
     e_replay_error = (\<lambda>_. None),
     e_replay_skipped = (\<lambda>_. False),
     e_replayed = (\<lambda>_. True),
     e_replaying = (\<lambda>_. False),
     e_metrics_enabled = (\<lambda>m. case ms_metrics (md_spec m) of Some t \<Rightarrow> mt_enabled t | None \<Rightarrow> False),
     e_monitor_enabled = (\<lambda>_. False),
     e_metrics_name = (\<lambda>n. n @ ''-metrics''),
     e_restore_name = (\<lambda>m. ''restore-'' @ m_name (md_meta m)),
     e_mxs_ready = (\<lambda>_. True),
     e_mxs_tls = (\<lambda>_. True),
     e_build_monitor = (\<lambda>_. Inl (Errorf ''no monitor'')) \<rparr>"

lemma mem_backups_faithful: "faithful_endpoint OBackup (e_backups (mem_env w)) ob_meta"
  unfolding mem_env_def by (simp, rule mem_endpoint_faithful) simp_all

lemma mem_physicals_faithful: "faithful_endpoint OPhysicalBackup (e_physicals (mem_env w)) pb_meta"
  unfolding mem_env_def by (simp, rule mem_endpoint_faithful) simp_all

lemma mem_restores_faithful: "faithful_endpoint ORestore (e_restores (mem_env w)) rst_meta"
  unfolding mem_env_def by (simp, rule mem_endpoint_faithful) simp_all

lemma mem_pitrs_faithful: "faithful_endpoint OPITR (e_pitrs (mem_env w)) pi_meta"
  unfolding mem_env_def by (simp, rule mem_endpoint_faithful) simp_all

lemma mem_secrets_faithful: "faithful_endpoint OSecret (e_secrets (mem_env w)) se_meta"
  unfolding mem_env_def by (simp, rule mem_endpoint_faithful) simp_all

lemmas mem_faithful = mem_backups_faithful mem_physicals_faithful mem_restores_faithful
  mem_pitrs_faithful mem_secrets_faithful

lemma mem_lawful_owner: "lawful_owner (mem_env w)"
proof -
  have "mem_set_controller r m = Inr m' \<Longrightarrow> m' = m\<lparr>m_owners := m_owners m'\<rparr> \<and>
     (\<forall>n. meta_key n = meta_key m \<and> m_owners n = m_owners m' \<longrightarrow> mem_set_controller r n = Inr n)" for r m m'
    by (auto simp: mem_set_controller_def controller_of_def is_controller_def find_append split: option.splits if_splits)
  then show ?thesis
    unfolding lawful_owner_def by (simp add: mem_env_def)
qed

subsection \<open>Instances for the applications\<close>

definition plain_instance :: "string \<Rightarrow> instance_cr" where
  "plain_instance topology = \<lparr> in_name = ''db'', in_namespace = ''ns'', in_uid = ''u1'',
     in_topology = topology, in_components = [(''engine'', zero_component)], in_backup = None,
     in_datasource = None \<rparr>"

definition plain_storage :: s3_config where
  "plain_storage = \<lparr> s3c_bucket = ''bk'', s3c_region = ''r'', s3c_endpoint = ''https://s3'',
     s3c_credentials = ''creds'' \<rparr>"

definition plain_spec :: mariadb_spec where
  "plain_spec = \<lparr> ms_image = ''mariadb:1'', ms_pull_policy = [], ms_replicas = 1, ms_storage_size = None,
     ms_storage_class = [], ms_storage_ephemeral = None, ms_root_empty = None, ms_my_cnf = None,
     ms_root_password = \<lparr> gk_key = ([], []), gk_generate = False \<rparr>, ms_username = None,
     ms_database = None, ms_password = None, ms_resources = None, ms_metrics = None, ms_tls = None,
     ms_pitr_ref = None, ms_auto_update = None, ms_auto_upgrade = None, ms_affinity = None,
     ms_node_selector = [], ms_tolerations = [], ms_spread = [], ms_pod_labels = None,
     ms_galera = None, ms_replication = None, ms_primary_service = None, ms_service = None,
     ms_bootstrap = None \<rparr>"

definition plain_mariadb :: mariadb where
  "plain_mariadb = \<lparr> md_meta = empty_meta ''ns'' ''db'', md_spec = plain_spec, md_conditions = [] \<rparr>"

definition plain_backup :: ev_backup where
  "plain_backup = \<lparr> eb_meta = empty_meta ''ns'' ''b1'', eb_schedule = [], eb_class = ''c'', eb_storage = ''st'',
     eb_parameters = None, eb_origin = Some ''db'', eb_state = StateSucceeded, eb_completed = None,
     eb_operator_ref = None \<rparr>"

text \<open>
  An API server on which nobody creates or removes the given kinds of object, so that every
  read gives the same answer.
\<close>

definition frozen :: "('o \<Rightarrow> meta) \<Rightarrow> 'o list \<Rightarrow> 'o endpoint \<Rightarrow> 'o endpoint" where
  "frozen mt os ep = ep\<lparr>ep_get := (\<lambda>_ k. case find (\<lambda>x. meta_key (mt x) = k) os of
       Some x \<Rightarrow> Inr x | None \<Rightarrow> Inl (ApiNotFound (snd k)))\<rparr>"

definition frozen_env :: "mariadb list \<Rightarrow> secret list \<Rightarrow> env \<Rightarrow> env" where
  "frozen_env ms ss E = E\<lparr>e_mariadbs := frozen md_meta ms (e_mariadbs E), e_secrets := frozen se_meta ss (e_secrets E)\<rparr>"

lemma frozen_env_get:
  "ep_get (e_mariadbs (frozen_env [] ss E)) l k = Inl (ApiNotFound (snd k))"
  "k = meta_key (md_meta m) \<Longrightarrow> ep_get (e_mariadbs (frozen_env [m] ss E)) l k = Inr m"
  by (simp_all add: frozen_env_def frozen_def)

end
