(* ===== verification/Backup.thy ===== *)
theory Backup
  imports Storage Store
begin

section \<open>Backups and restores on demand\<close>

text \<open>
  \<open>SyncBackup\<close>, \<open>SyncRestore\<close>, \<open>CleanupBackup\<close> and \<open>CleanupRestore\<close> of \<open>backup.go\<close>, the
  physical counterparts of \<open>backup_physical.go\<close> and \<open>syncScheduledRun\<close> of
  \<open>backup_schedule.go\<close>. The operator's specs are immutable and a run happens once, so what
  matters is which requests a handler makes: the theorems state them for every branch.
\<close>

subsection \<open>Pieces shared by the backup handlers\<close>

definition mariadb_ref :: "instance_cr \<Rightarrow> op_ref" where
  "mariadb_ref c = \<lparr> rf_name = in_name c, rf_wait = True \<rparr>"

definition target_prefer_replica :: string where "target_prefer_replica = ''PreferReplica''"

definition applyLogicalBackupParameters :: "backup_params \<Rightarrow> op_backup \<Rightarrow> op_backup" where
  "applyLogicalBackupParameters params b =
     b\<lparr>ob_args := [''--flush-privileges''],
       ob_databases := bp_databases params,
       ob_ignore_priv := bp_ignore_priv params,
       ob_compression := (if bp_compression params \<noteq> [] then bp_compression params else ob_compression b)\<rparr>"

definition applyPhysicalBackupParameters :: "backup_params \<Rightarrow> phys_backup \<Rightarrow> phys_backup" where
  "applyPhysicalBackupParameters params b =
     b\<lparr>pb_compression := (if bp_compression params \<noteq> [] then bp_compression params else pb_compression b),
       pb_target := Some (if bp_target params \<noteq> [] then bp_target params else target_prefer_replica)\<rparr>"

definition own_backup :: "env \<Rightarrow> owner_ref \<Rightarrow> op_backup \<Rightarrow> op_backup go" where
  "own_backup E r b = bnd (lift (e_set_controller E r (ob_meta b))) (\<lambda>m. ret (b\<lparr>ob_meta := m\<rparr>))"

definition own_physical :: "env \<Rightarrow> owner_ref \<Rightarrow> phys_backup \<Rightarrow> phys_backup go" where
  "own_physical E r b = bnd (lift (e_set_controller E r (pb_meta b))) (\<lambda>m. ret (b\<lparr>pb_meta := m\<rparr>))"

definition own_restore :: "env \<Rightarrow> owner_ref \<Rightarrow> op_restore \<Rightarrow> op_restore go" where
  "own_restore E r b = bnd (lift (e_set_controller E r (rst_meta b))) (\<lambda>m. ret (b\<lparr>rst_meta := m\<rparr>))"

lemma emits_own [post_intros]:
  "emits P (own_backup E r b)" "emits P (own_physical E r pb)" "emits P (own_restore E r rb)"
  unfolding own_backup_def own_physical_def own_restore_def by (intro post_intros)+

definition waiting_for_cluster :: exec_status where
  "waiting_for_cluster = exec_state StatePending ''Waiting for MariaDB cluster to exist''"

text \<open>The API groups of \<open>mariadbv1alpha1.GroupVersion\<close> and \<open>batchv1.SchemeGroupVersion\<close>.\<close>

definition mariadbGroup :: string where "mariadbGroup = ''k8s.mariadb.com''"
definition batchGroup :: string where "batchGroup = ''batch''"

definition with_ref :: "string \<Rightarrow> string \<Rightarrow> string \<Rightarrow> exec_status \<Rightarrow> exec_status" where
  "with_ref g kd n st = st\<lparr>ex_ref := Some \<lparr> tr_group = g, tr_kind = kd, tr_name = n \<rparr>\<rparr>"

subsection \<open>SyncBackup\<close>

definition syncPhysicalBackup_mutate ::
  "env \<Rightarrow> instance_cr \<Rightarrow> ev_backup \<Rightarrow> backup_params \<Rightarrow> phys_backup \<Rightarrow> phys_backup go" where
  "syncPhysicalBackup_mutate E c backup params b =
     bnd (if m_rv (pb_meta b) = [] then
            bnd (buildPhysicalS3Storage E c (eb_storage backup))
                (\<lambda>st. ret (applyPhysicalBackupParameters params
                        (b\<lparr>pb_ref := mariadb_ref c, pb_storage := st\<rparr>)))
          else ret b)
         (own_physical E (owner_of ''Backup'' (eb_meta backup)))"

definition syncPhysicalBackup :: "env \<Rightarrow> instance_cr \<Rightarrow> ev_backup \<Rightarrow> backup_params \<Rightarrow> exec_status go" where
  "syncPhysicalBackup E c backup params =
     on_get ''get MariaDB'' (api_get KMariaDB (e_mariadbs E) (key_of c (in_name c)))
       (ret waiting_for_cluster)
       (\<lambda>_. bnd (wrap_err ''create or update MariaDB physical backup''
              (create_or_update KPhysicalBackup OPhysicalBackup (e_physicals E) (meta_key (eb_meta backup))
                 (new_phys_backup (m_namespace (eb_meta backup)) (m_name (eb_meta backup)))
                 (syncPhysicalBackup_mutate E c backup params)))
            (\<lambda>b. ret (with_ref mariadbGroup ''PhysicalBackup'' (m_name (pb_meta b)) (mapBackupState (pb_conditions b)))))"

definition syncScheduledRun :: "env \<Rightarrow> instance_cr \<Rightarrow> ev_backup \<Rightarrow> exec_status go" where
  "syncScheduledRun E c backup =
     on_get ''get scheduled backup Job'' (api_get KJob (e_jobs E) (key_of c (m_name (eb_meta backup))))
       (ret (exec_state StatePending ''Waiting for scheduled backup Job''))
       (\<lambda>j. ret (with_ref batchGroup ''Job'' (m_name (jb_meta j)) (mapJobState j)))"

definition SyncBackup_mutate ::
  "env \<Rightarrow> instance_cr \<Rightarrow> ev_backup \<Rightarrow> backup_params \<Rightarrow> op_backup \<Rightarrow> op_backup go" where
  "SyncBackup_mutate E c backup params b =
     bnd (if m_rv (ob_meta b) = [] then
            bnd (buildOperatorS3Storage E c (eb_storage backup))
                (\<lambda>st. ret (applyLogicalBackupParameters params
                        (b\<lparr>ob_ref := mariadb_ref c, ob_storage := st\<rparr>)))
          else ret b)
         (own_backup E (owner_of ''Backup'' (eb_meta backup)))"

definition SyncBackup :: "env \<Rightarrow> instance_cr \<Rightarrow> ev_backup \<Rightarrow> exec_status go" where
  "SyncBackup E c backup =
     (if eb_schedule backup \<noteq> [] then syncScheduledRun E c backup
      else bnd (lift (backup_params_of (e_json_error E) (eb_parameters backup))) (\<lambda>params.
       if isPhysical params then syncPhysicalBackup E c backup params
       else on_get ''get MariaDB'' (api_get KMariaDB (e_mariadbs E) (key_of c (in_name c)))
         (ret waiting_for_cluster)
         (\<lambda>_. bnd (wrap_err ''create or update MariaDB backup''
                (create_or_update KBackup OBackup (e_backups E) (meta_key (eb_meta backup))
                   (new_op_backup (m_namespace (eb_meta backup)) (m_name (eb_meta backup)))
                   (SyncBackup_mutate E c backup params)))
              (\<lambda>b. ret (with_ref mariadbGroup ''Backup'' (m_name (ob_meta b)) (mapBackupState (ob_conditions b)))))))"

subsection \<open>SyncRestore\<close>

fun ds_type_text :: "ds_type \<Rightarrow> string" where
  "ds_type_text DSBackup = ''Backup''"
| "ds_type_text DSPointInTime = ''PointInTime''"
| "ds_type_text (DSOther t) = t"

text \<open>The checks of the source Backup; \<^term>\<open>Inr\<close> is the name of the operator Backup to restore.\<close>

definition restore_source :: "(string \<Rightarrow> string) \<Rightarrow> ev_restore \<Rightarrow> ev_backup \<Rightarrow> err + (exec_status + string)" where
  "restore_source je restore src =
     ebind (backup_params_of je (eb_parameters src)) (\<lambda>params. Inr
       (if isPhysical params then
          Inl (exec_state StateFailed (''In-place restore of a physical backup is not supported; '' @
             ''seed a new Instance from this Backup via spec.dataSource instead''))
        else if (case eb_origin src of Some origin \<Rightarrow> origin \<noteq> er_instance restore | None \<Rightarrow> False) then
          Inl (exec_state StateFailed (''In-place restore of a backup taken from another Instance ('' @
             quote (case eb_origin src of Some origin \<Rightarrow> origin | None \<Rightarrow> []) @ '') is not supported; '' @
             ''seed a new Instance from this Backup via spec.dataSource instead''))
        else if eb_state src = StateFailed then
          Inl (exec_state StateFailed ''Source Backup failed; cannot restore'')
        else if eb_state src \<noteq> StateSucceeded then
          Inl (exec_state StatePending ''Waiting for source Backup to succeed'')
        else Inr (case eb_operator_ref src of
            Some n \<Rightarrow> if n \<noteq> [] then n else m_name (eb_meta src)
          | None \<Rightarrow> m_name (eb_meta src))))"

definition SyncRestore_mutate ::
  "env \<Rightarrow> instance_cr \<Rightarrow> ev_restore \<Rightarrow> string \<Rightarrow> op_restore \<Rightarrow> op_restore go" where
  "SyncRestore_mutate E c restore src r =
     own_restore E (owner_of ''Restore'' (er_meta restore))
       (if m_rv (rst_meta r) = [] then r\<lparr>rst_ref := mariadb_ref c, rst_backup := Some src\<rparr> else r)"

definition SyncRestore :: "env \<Rightarrow> instance_cr \<Rightarrow> ev_restore \<Rightarrow> exec_status go" where
  "SyncRestore E c restore =
     (if er_ds_type restore \<noteq> DSBackup then
        ret (exec_state StateFailed (''Unsupported dataSource type '' @ quote (ds_type_text (er_ds_type restore))))
      else if er_backup restore = None \<or> er_backup restore = Some [] then
        ret (exec_state StateFailed ''Restore dataSource.backup.backupRef.name is required'')
      else on_get ''get source Backup''
        (api_get KEvBackup (e_ev_backups E) (key_of c (case er_backup restore of Some n \<Rightarrow> n | None \<Rightarrow> [])))
        (ret (exec_state StatePending ''Waiting for source Backup''))
        (\<lambda>src. bnd (lift (restore_source (e_json_error E) restore src))
           (case_sum ret (\<lambda>n.
              bnd (wrap_err ''create or update MariaDB restore''
                    (create_or_update KRestore ORestore (e_restores E) (meta_key (er_meta restore))
                       (new_op_restore (m_namespace (er_meta restore)) (m_name (er_meta restore)))
                       (SyncRestore_mutate E c restore n)))
                  (\<lambda>r. ret (with_ref mariadbGroup ''Restore'' (m_name (rst_meta r)) (mapRestoreState (rst_conditions r))))))))"

subsection \<open>Cleanup\<close>

definition cleanupPhysicalBackup :: "env \<Rightarrow> instance_cr \<Rightarrow> ev_backup \<Rightarrow> bool go" where
  "cleanupPhysicalBackup E c backup =
     on_get ''get MariaDB physical backup for cleanup''
       (api_get KPhysicalBackup (e_physicals E) (key_of c (m_name (eb_meta backup))))
       (ret True)
       (\<lambda>b. if m_deleting (pb_meta b) then ret False
            else bnd (wrap_err ''delete MariaDB physical backup''
                   (api_delete KPhysicalBackup (e_physicals E) (meta_key (pb_meta b)))) (\<lambda>_. ret False))"

definition CleanupBackup :: "env \<Rightarrow> instance_cr \<Rightarrow> ev_backup \<Rightarrow> bool go" where
  "CleanupBackup E c backup =
     (if eb_schedule backup \<noteq> [] then ret True
      else bnd (lift (backup_params_of (e_json_error E) (eb_parameters backup))) (\<lambda>params.
       if isPhysical params then cleanupPhysicalBackup E c backup
       else on_get ''get MariaDB backup for cleanup''
         (api_get KBackup (e_backups E) (key_of c (m_name (eb_meta backup))))
         (ret True)
         (\<lambda>b. if m_deleting (ob_meta b) then ret False
              else bnd (wrap_err ''delete MariaDB backup''
                     (api_delete KBackup (e_backups E) (meta_key (ob_meta b)))) (\<lambda>_. ret False))))"

definition CleanupRestore :: "env \<Rightarrow> instance_cr \<Rightarrow> ev_restore \<Rightarrow> bool go" where
  "CleanupRestore E c restore =
     on_get ''get MariaDB restore for cleanup''
       (api_get KRestore (e_restores E) (key_of c (m_name (er_meta restore))))
       (ret True)
       (\<lambda>r. if m_deleting (rst_meta r) then ret False
            else bnd (wrap_err ''delete MariaDB restore''
                   (api_delete KRestore (e_restores E) (meta_key (rst_meta r)))) (\<lambda>_. ret False))"

subsection \<open>What the handlers write\<close>

text \<open>The operator Backup of a request that has none yet.\<close>

definition fresh_backup :: "env \<Rightarrow> instance_cr \<Rightarrow> ev_backup \<Rightarrow> backup_params \<Rightarrow> op_backup \<Rightarrow> bool" where
  "fresh_backup E c backup params b \<longleftrightarrow>
     (\<exists>l cfg m. e_storage E l (eb_storage backup) = Inr (Some cfg)
        \<and> b = applyLogicalBackupParameters params
            ((new_op_backup (m_namespace (eb_meta backup)) (m_name (eb_meta backup)))
               \<lparr>ob_ref := mariadb_ref c, ob_storage := Some (operatorS3 cfg (in_name c)), ob_meta := m\<rparr>))"

definition fresh_physical :: "env \<Rightarrow> instance_cr \<Rightarrow> ev_backup \<Rightarrow> backup_params \<Rightarrow> phys_backup \<Rightarrow> bool" where
  "fresh_physical E c backup params b \<longleftrightarrow>
     (\<exists>l cfg m. e_storage E l (eb_storage backup) = Inr (Some cfg)
        \<and> b = applyPhysicalBackupParameters params
            ((new_phys_backup (m_namespace (eb_meta backup)) (m_name (eb_meta backup)))
               \<lparr>pb_ref := mariadb_ref c, pb_storage := Some (operatorS3 cfg (in_name c)), pb_meta := m\<rparr>))"

text \<open>
  The writes a backup may cause: the creation of its operator object, complete, or an update
  of an object the server has, which changes metadata only.
\<close>

fun backup_write :: "env \<Rightarrow> instance_cr \<Rightarrow> ev_backup \<Rightarrow> backup_params \<Rightarrow> request \<Rightarrow> bool" where
  "backup_write E c backup params (ReqCreate (OBackup b)) =
     (\<not> isPhysical params \<and> fresh_backup E c backup params b)"
| "backup_write E c backup params (ReqCreate (OPhysicalBackup b)) =
     (isPhysical params \<and> fresh_physical E c backup params b)"
| "backup_write E c backup params (ReqUpdate (OBackup b)) =
     (\<not> isPhysical params \<and> (\<exists>l x m. ep_get (e_backups E) l (meta_key (eb_meta backup)) = Inr x \<and> b = x\<lparr>ob_meta := m\<rparr>))"
| "backup_write E c backup params (ReqUpdate (OPhysicalBackup b)) =
     (isPhysical params \<and> (\<exists>l x m. ep_get (e_physicals E) l (meta_key (eb_meta backup)) = Inr x \<and> b = x\<lparr>pb_meta := m\<rparr>))"
| "backup_write E c backup params q = (\<not> is_write q)"

lemma yields_own:
  "yields (\<lambda>b'. \<exists>m. b' = b\<lparr>ob_meta := m\<rparr>) (own_backup E r b)"
  "yields (\<lambda>b'. \<exists>m. b' = pb\<lparr>pb_meta := m\<rparr>) (own_physical E r pb)"
  "yields (\<lambda>b'. \<exists>m. b' = rb\<lparr>rst_meta := m\<rparr>) (own_restore E r rb)"
  unfolding own_backup_def own_physical_def own_restore_def
  by (auto intro!: yields_bnd [OF yields_true] yields_ret)

lemma yields_S3Storage:
  "yields (\<lambda>st. \<exists>l cfg. e_storage E l n = Inr (Some cfg) \<and> st = Some (operatorS3 cfg (in_name c)))
     (buildOperatorS3Storage E c n)"
  "yields (\<lambda>st. \<exists>l cfg. e_storage E l n = Inr (Some cfg) \<and> st = Some (operatorS3 cfg (in_name c)))
     (buildPhysicalS3Storage E c n)"
  unfolding yields_def
  by (auto simp: buildS3Storage_apply s3_of_def split: sum.splits option.splits)

lemma fresh_backup_intros:
  assumes "e_storage E l (eb_storage backup) = Inr (Some cfg)"
  shows "fresh_backup E c backup params (applyLogicalBackupParameters params
     ((new_op_backup (m_namespace (eb_meta backup)) (m_name (eb_meta backup)))
        \<lparr>ob_ref := mariadb_ref c, ob_storage := Some (operatorS3 cfg (in_name c))\<rparr>))"
    and "fresh_physical E c backup params (applyPhysicalBackupParameters params
     ((new_phys_backup (m_namespace (eb_meta backup)) (m_name (eb_meta backup)))
        \<lparr>pb_ref := mariadb_ref c, pb_storage := Some (operatorS3 cfg (in_name c))\<rparr>))"
  unfolding fresh_backup_def fresh_physical_def
  by (rule exI [of _ l], rule exI [of _ cfg],
      rule exI [of _ "empty_meta (m_namespace (eb_meta backup)) (m_name (eb_meta backup))"],
      simp add: assms new_op_backup_def new_phys_backup_def)+

lemma fresh_backup_meta:
  assumes "fresh_backup E c backup params b"
  shows "fresh_backup E c backup params (b\<lparr>ob_meta := m\<rparr>)"
proof -
  from assms obtain l cfg m0 where st: "e_storage E l (eb_storage backup) = Inr (Some cfg)"
    and b: "b = applyLogicalBackupParameters params
            ((new_op_backup (m_namespace (eb_meta backup)) (m_name (eb_meta backup)))
               \<lparr>ob_ref := mariadb_ref c, ob_storage := Some (operatorS3 cfg (in_name c)), ob_meta := m0\<rparr>)"
    unfolding fresh_backup_def by blast
  have "b\<lparr>ob_meta := m\<rparr> = applyLogicalBackupParameters params
            ((new_op_backup (m_namespace (eb_meta backup)) (m_name (eb_meta backup)))
               \<lparr>ob_ref := mariadb_ref c, ob_storage := Some (operatorS3 cfg (in_name c)), ob_meta := m\<rparr>)"
    unfolding b by (simp add: applyLogicalBackupParameters_def)
  with st show ?thesis unfolding fresh_backup_def by metis
qed

lemma fresh_physical_meta:
  assumes "fresh_physical E c backup params b"
  shows "fresh_physical E c backup params (b\<lparr>pb_meta := m\<rparr>)"
proof -
  from assms obtain l cfg m0 where st: "e_storage E l (eb_storage backup) = Inr (Some cfg)"
    and b: "b = applyPhysicalBackupParameters params
            ((new_phys_backup (m_namespace (eb_meta backup)) (m_name (eb_meta backup)))
               \<lparr>pb_ref := mariadb_ref c, pb_storage := Some (operatorS3 cfg (in_name c)), pb_meta := m0\<rparr>)"
    unfolding fresh_physical_def by blast
  have "b\<lparr>pb_meta := m\<rparr> = applyPhysicalBackupParameters params
            ((new_phys_backup (m_namespace (eb_meta backup)) (m_name (eb_meta backup)))
               \<lparr>pb_ref := mariadb_ref c, pb_storage := Some (operatorS3 cfg (in_name c)), pb_meta := m\<rparr>)"
    unfolding b by (simp add: applyPhysicalBackupParameters_def)
  with st show ?thesis unfolding fresh_physical_def by metis
qed

lemma emits_backup_mutate:
  "emits read_only (SyncBackup_mutate E c backup params b)"
  "emits read_only (syncPhysicalBackup_mutate E c backup params pb)"
  unfolding SyncBackup_mutate_def syncPhysicalBackup_mutate_def by (intro post_intros; simp)+

lemma yields_SyncBackup_mutate_new:
  "yields (fresh_backup E c backup params)
     (SyncBackup_mutate E c backup params (new_op_backup (m_namespace (eb_meta backup)) (m_name (eb_meta backup))))"
proof -
  have rv: "m_rv (ob_meta (new_op_backup ns n)) = []" for ns n by (simp add: new_op_backup_def empty_meta_def)
  have own: "yields (fresh_backup E c backup params) (own_backup E r b)" if "fresh_backup E c backup params b" for r b
    by (rule yields_mono [OF yields_own(1)]) (use that in \<open>auto intro: fresh_backup_meta\<close>)
  show ?thesis
    unfolding SyncBackup_mutate_def if_P [OF rv]
    by (rule yields_bnd [OF yields_bnd [OF yields_S3Storage(1)] own])
       (auto intro!: yields_ret fresh_backup_intros)
qed

lemma yields_SyncBackup_mutate_old:
  "m_rv (ob_meta x) \<noteq> [] \<Longrightarrow> yields (\<lambda>b. \<exists>m. b = x\<lparr>ob_meta := m\<rparr>) (SyncBackup_mutate E c backup params x)"
  unfolding SyncBackup_mutate_def
  by (simp, rule yields_bnd [where ?Q1.0 = "\<lambda>b. b = x"]) (auto intro: yields_ret yields_own)

lemma yields_syncPhysicalBackup_mutate_new:
  "yields (fresh_physical E c backup params)
     (syncPhysicalBackup_mutate E c backup params (new_phys_backup (m_namespace (eb_meta backup)) (m_name (eb_meta backup))))"
proof -
  have rv: "m_rv (pb_meta (new_phys_backup ns n)) = []" for ns n by (simp add: new_phys_backup_def empty_meta_def)
  have own: "yields (fresh_physical E c backup params) (own_physical E r b)" if "fresh_physical E c backup params b" for r b
    by (rule yields_mono [OF yields_own(2)]) (use that in \<open>auto intro: fresh_physical_meta\<close>)
  show ?thesis
    unfolding syncPhysicalBackup_mutate_def if_P [OF rv]
    by (rule yields_bnd [OF yields_bnd [OF yields_S3Storage(2)] own])
       (auto intro!: yields_ret fresh_backup_intros)
qed

lemma yields_syncPhysicalBackup_mutate_old:
  "m_rv (pb_meta x) \<noteq> [] \<Longrightarrow> yields (\<lambda>b. \<exists>m. b = x\<lparr>pb_meta := m\<rparr>) (syncPhysicalBackup_mutate E c backup params x)"
  unfolding syncPhysicalBackup_mutate_def
  by (simp, rule yields_bnd [where ?Q1.0 = "\<lambda>b. b = x"]) (auto intro: yields_ret yields_own)

lemma backup_write_read: "\<not> is_write q \<Longrightarrow> backup_write E c backup params q"
  by (cases q) simp_all

lemma syncPhysicalBackup_writes:
  assumes "served_versions (e_physicals E) pb_meta" and "isPhysical params"
  shows "emits (\<lambda>e. backup_write E c backup params (fst e)) (syncPhysicalBackup E c backup params)"
  unfolding syncPhysicalBackup_def
  using assms
  by (intro post_intros
       emits_create_or_update_spec [where is_new = "fresh_physical E c backup params"
         and is_old = "\<lambda>x b. \<exists>m. b = x\<lparr>pb_meta := m\<rparr>"])
     (auto intro: yields_syncPhysicalBackup_mutate_new yields_syncPhysicalBackup_mutate_old emits_mono [OF emits_backup_mutate(2)] backup_write_read
       dest: served_versionsD)

lemma SyncBackup_writes_of:
  assumes "served_versions (e_backups E) ob_meta" and "served_versions (e_physicals E) pb_meta"
    and params: "backup_params_of (e_json_error E) (eb_parameters backup) = Inr params"
  shows "emits (\<lambda>e. backup_write E c backup params (fst e)) (SyncBackup E c backup)"
proof (cases "eb_schedule backup \<noteq> []")
  case True
  then show ?thesis
    unfolding SyncBackup_def syncScheduledRun_def by simp (intro post_intros; simp)
next
  case False
  have b: "bnd (lift (Inr params)) k = k params" for k :: "backup_params \<Rightarrow> exec_status go"
    by (rule ext) (simp add: bnd_def attempt_def)
  show ?thesis
  proof (cases "isPhysical params")
    case True
    with False show ?thesis
      unfolding SyncBackup_def by (simp add: params b syncPhysicalBackup_writes assms)
  next
    case logical: False
    have cou: "emits (\<lambda>e. backup_write E c backup params (fst e))
       (create_or_update KBackup OBackup (e_backups E) (meta_key (eb_meta backup))
          (new_op_backup (m_namespace (eb_meta backup)) (m_name (eb_meta backup)))
          (SyncBackup_mutate E c backup params))"
      by (rule emits_create_or_update_spec [where is_new = "fresh_backup E c backup params"
            and is_old = "\<lambda>x b. \<exists>m. b = x\<lparr>ob_meta := m\<rparr>"])
         (auto simp: logical intro: yields_SyncBackup_mutate_new yields_SyncBackup_mutate_old emits_mono [OF emits_backup_mutate(1)] backup_write_read
           dest: served_versionsD [OF assms(1)])
    from False logical show ?thesis
      unfolding SyncBackup_def by (simp add: params b) (intro post_intros cou; simp)
  qed
qed


lemma SyncBackup_mutate_last:
  assumes "SyncBackup_mutate E c backup params y l = (Inr z, l')"
  shows "\<exists>m. e_set_controller E (owner_of ''Backup'' (eb_meta backup)) m = Inr (ob_meta z)"
  using assms
  by (auto simp: SyncBackup_mutate_def own_backup_def bnd_def attempt_def split: prod.splits sum.splits)

lemma SyncBackup_mutate_key:
  assumes "lawful_owner E" and "SyncBackup_mutate E c backup params y l = (Inr z, l')"
  shows "meta_key (ob_meta z) = meta_key (ob_meta y)"
  using assms(2)
  by (auto simp: SyncBackup_mutate_def own_backup_def bnd_def attempt_def buildS3Storage_apply
      applyLogicalBackupParameters_def lawful_ownerD(2) [OF assms(1)]
      split: prod.splits sum.splits if_splits dest!: lawful_ownerD(2) [OF assms(1)])

lemma SyncBackup_logical_apply:
  assumes "eb_schedule backup = []" and "backup_params_of (e_json_error E) (eb_parameters backup) = Inr params"
    and "\<not> isPhysical params" and "ep_get (e_mariadbs E) l (key_of c (in_name c)) = Inr m"
  shows "SyncBackup E c backup l =
    bnd (wrap_err ''create or update MariaDB backup''
           (create_or_update KBackup OBackup (e_backups E) (meta_key (eb_meta backup))
              (new_op_backup (m_namespace (eb_meta backup)) (m_name (eb_meta backup)))
              (SyncBackup_mutate E c backup params)))
         (\<lambda>b. ret (with_ref mariadbGroup ''Backup'' (m_name (ob_meta b)) (mapBackupState (ob_conditions b))))
      (l @ [(ReqGet KMariaDB (key_of c (in_name c)), None)])"
  using assms by (simp add: SyncBackup_def bnd_def attempt_def on_get_def api_get_def request_def)

text \<open>
  C18: Reconciling a logical Backup again changes nothing: once a run has succeeded, the next
  one only reads the MariaDB and the operator Backup and reports the same status.
\<close>

theorem SyncBackup_idempotent:
  assumes laws: "faithful_endpoint OBackup (e_backups E) ob_meta" and own: "lawful_owner E"
    and logical: "eb_schedule backup = []"
      "backup_params_of (e_json_error E) (eb_parameters backup) = Inr params" "\<not> isPhysical params"
    and mdb: "ep_get (e_mariadbs E) l (key_of c (in_name c)) = Inr m"
      "ep_get (e_mariadbs E) l' (key_of c (in_name c)) = Inr m'"
    and run: "SyncBackup E c backup l = (Inr st, l')"
  shows "SyncBackup E c backup l' =
    (Inr st, l' @ [(ReqGet KMariaDB (key_of c (in_name c)), None), (ReqGet KBackup (meta_key (eb_meta backup)), None)])"
proof -
  let ?k = "meta_key (eb_meta backup)"
  let ?cou = "create_or_update KBackup OBackup (e_backups E) ?k
              (new_op_backup (m_namespace (eb_meta backup)) (m_name (eb_meta backup)))
              (SyncBackup_mutate E c backup params)"
  from run [unfolded SyncBackup_logical_apply [OF logical mdb(1)]] obtain b
    where cou: "?cou (l @ [(ReqGet KMariaDB (key_of c (in_name c)), None)]) = (Inr b, l')"
      and st: "st = with_ref mariadbGroup ''Backup'' (m_name (ob_meta b)) (mapBackupState (ob_conditions b))"
    by (auto simp: bnd_def wrap_err_def attempt_def split: prod.splits sum.splits)
  have init: "meta_key (ob_meta (new_op_backup (m_namespace (eb_meta backup)) (m_name (eb_meta backup)))) = ?k"
    by (simp add: new_op_backup_def empty_meta_def meta_key_def)
  have there: "ep_get (e_backups E) l' ?k = Inr b"
    by (rule create_or_update_settles [OF laws cou _ init])
       (blast intro: SyncBackup_mutate_key [OF own] emits_backup_mutate)+
  have owned: "e_set_controller E (owner_of ''Backup'' (eb_meta backup)) (ob_meta b) = Inr (ob_meta b)"
    by (rule create_or_update_owned [OF laws own cou]) (rule SyncBackup_mutate_last)
  from served_versionsD [OF faithful_served [OF laws] there] owned
  have "SyncBackup_mutate E c backup params b l1 = (Inr b, l1)" for l1
    by (simp add: SyncBackup_mutate_def own_backup_def bnd_def attempt_def)
  moreover from there get_after_reads [OF laws, of "[(ReqGet KMariaDB (key_of c (in_name c)), None)]"]
  have "ep_get (e_backups E) (l' @ [(ReqGet KMariaDB (key_of c (in_name c)), None)]) ?k = Inr b" by simp
  ultimately have "?cou (l' @ [(ReqGet KMariaDB (key_of c (in_name c)), None)]) =
     (Inr b, (l' @ [(ReqGet KMariaDB (key_of c (in_name c)), None)]) @ [(ReqGet KBackup ?k, None)])"
    by (intro create_or_update_quiet)
  then show ?thesis
    unfolding SyncBackup_logical_apply [OF logical mdb(2)] st by (simp add: wrap_err_def bnd_def attempt_def)
qed

definition backup_world :: world where
  "backup_world = empty_world\<lparr>w_mariadbs := [plain_mariadb], w_storages := [(''st'', Some plain_storage)]\<rparr>"

abbreviation backup_run :: "log \<Rightarrow> (err + exec_status) \<times> log" where
  "backup_run \<equiv> SyncBackup (mem_env backup_world) (plain_instance ''standalone'') plain_backup"

lemma backup_run_first:
  "backup_run [] = (Inr (with_ref mariadbGroup ''Backup'' ''b1'' (exec_state StatePending [])), snd (backup_run []))"
  "length (snd (backup_run [])) = 4"
  by code_simp+


theorem SyncBackup_idempotent_witness:
  "backup_run (snd (backup_run [])) =
     (Inr (with_ref mariadbGroup ''Backup'' ''b1'' (exec_state StatePending [])),
      snd (backup_run []) @ [(ReqGet KMariaDB (''ns'', ''db''), None), (ReqGet KBackup (''ns'', ''b1''), None)])"
proof -
  have p: "eb_schedule plain_backup = []" "\<not> isPhysical zero_backup_params"
    "backup_params_of (e_json_error (mem_env backup_world)) (eb_parameters plain_backup) = Inr zero_backup_params"
    by (simp_all add: plain_backup_def)
  have k: "key_of (plain_instance ''standalone'') (in_name (plain_instance ''standalone'')) = (''ns'', ''db'')"
    "meta_key (eb_meta plain_backup) = (''ns'', ''b1'')" by code_simp+
  have m: "ep_get (e_mariadbs (mem_env backup_world)) [] (''ns'', ''db'') = Inr (plain_mariadb\<lparr>md_meta := stamp_meta (md_meta plain_mariadb)\<rparr>)"
    "ep_get (e_mariadbs (mem_env backup_world)) (snd (backup_run [])) (''ns'', ''db'') = Inr (plain_mariadb\<lparr>md_meta := stamp_meta (md_meta plain_mariadb)\<rparr>)"
    by code_simp+
  from SyncBackup_idempotent [OF mem_backups_faithful mem_lawful_owner p(1,3,2) _ _ backup_run_first(1), unfolded k, OF m]
  show ?thesis .
qed

subsection \<open>What a restore writes\<close>

text \<open>A source Backup that may be restored in place, and the operator Backup it stands for.\<close>

definition restorable :: "(string \<Rightarrow> string) \<Rightarrow> ev_restore \<Rightarrow> ev_backup \<Rightarrow> bool" where
  "restorable je restore src \<longleftrightarrow>
     (\<exists>params. backup_params_of je (eb_parameters src) = Inr params \<and> \<not> isPhysical params)
     \<and> eb_origin src \<in> {None, Some (er_instance restore)} \<and> eb_state src = StateSucceeded"

definition operator_backup_name :: "ev_backup \<Rightarrow> string" where
  "operator_backup_name src =
     (if eb_operator_ref src \<in> {None, Some []} then m_name (eb_meta src) else the (eb_operator_ref src))"

lemma restore_source_iff:
  "restore_source je restore src = Inr (Inr n) \<longleftrightarrow> restorable je restore src \<and> n = operator_backup_name src"
  by (cases "eb_origin src"; cases "eb_operator_ref src")
     (auto simp: restore_source_def restorable_def operator_backup_name_def)

definition restore_allowed :: "env \<Rightarrow> instance_cr \<Rightarrow> ev_restore \<Rightarrow> string \<Rightarrow> bool" where
  "restore_allowed E c restore n \<longleftrightarrow> er_ds_type restore = DSBackup \<and>
     (\<exists>l b src. er_backup restore = Some b \<and> b \<noteq> []
        \<and> ep_get (e_ev_backups E) l (key_of c b) = Inr src
        \<and> restorable (e_json_error E) restore src \<and> n = operator_backup_name src)"

fun restore_write :: "env \<Rightarrow> instance_cr \<Rightarrow> ev_restore \<Rightarrow> request \<Rightarrow> bool" where
  "restore_write E c restore (ReqCreate (ORestore x)) =
     (\<exists>n m. restore_allowed E c restore n \<and>
        x = (new_op_restore (m_namespace (er_meta restore)) (m_name (er_meta restore)))
              \<lparr>rst_ref := mariadb_ref c, rst_backup := Some n, rst_meta := m\<rparr>)"
| "restore_write E c restore (ReqUpdate (ORestore x)) =
     (\<exists>n l y m. restore_allowed E c restore n \<and>
        ep_get (e_restores E) l (meta_key (er_meta restore)) = Inr y \<and> x = y\<lparr>rst_meta := m\<rparr>)"
| "restore_write E c restore q = (\<not> is_write q)"

lemma SyncRestore_cou:
  assumes "served_versions (e_restores E) rst_meta" and ok: "restore_allowed E c restore n"
  shows "emits (\<lambda>e. restore_write E c restore (fst e))
    (create_or_update KRestore ORestore (e_restores E) (meta_key (er_meta restore))
       (new_op_restore (m_namespace (er_meta restore)) (m_name (er_meta restore)))
       (SyncRestore_mutate E c restore n))"
proof -
  have rv: "m_rv (rst_meta (new_op_restore ns k)) = []" for ns k
    by (simp add: new_op_restore_def empty_meta_def)
  have "yields (\<lambda>x. restore_write E c restore (ReqCreate (ORestore x)))
      (SyncRestore_mutate E c restore n
        (new_op_restore (m_namespace (er_meta restore)) (m_name (er_meta restore))))"
    unfolding SyncRestore_mutate_def if_P [OF rv]
    by (rule yields_mono [OF yields_own(3)]) (use ok in auto)
  moreover have "yields (\<lambda>x. restore_write E c restore (ReqUpdate (ORestore x)))
      (SyncRestore_mutate E c restore n y)"
    if "ep_get (e_restores E) l (meta_key (er_meta restore)) = Inr y" for l y
    unfolding SyncRestore_mutate_def if_not_P [OF served_versionsD [OF assms(1) that]]
    by (rule yields_mono [OF yields_own(3)]) (use ok that in auto)
  moreover have "emits (\<lambda>e. restore_write E c restore (fst e)) (SyncRestore_mutate E c restore n y)" for y
    unfolding SyncRestore_mutate_def by (intro post_intros)
  ultimately show ?thesis
    by (intro emits_create_or_update_spec
          [where is_new = "\<lambda>x. restore_write E c restore (ReqCreate (ORestore x))"
             and is_old = "\<lambda>_ x. restore_write E c restore (ReqUpdate (ORestore x))"]) auto
qed


definition restore_world :: world where
  "restore_world = backup_world\<lparr>w_ev_backups := [plain_backup]\<rparr>"

definition plain_restore :: ev_restore where
  "plain_restore = \<lparr> er_meta = empty_meta ''ns'' ''r1'', er_ds_type = DSBackup, er_backup = Some ''b1'',
     er_instance = ''db'' \<rparr>"


subsection \<open>Cleanup\<close>

text \<open>
  The cleanup of a Backup is reported as done (so its finalizer may go) only when nothing
  is left: for a scheduled run at once and without a request, otherwise only when the server
  just answered that the operator object of the Backup's kind and name does not exist.
\<close>

theorem CleanupBackup_done:
  assumes run: "CleanupBackup E c backup l = (Inr True, l')"
  shows "eb_schedule backup \<noteq> [] \<and> l' = l
    \<or> (\<exists>params e. backup_params_of (e_json_error E) (eb_parameters backup) = Inr params \<and> is_not_found e \<and>
         (if isPhysical params
          then ep_get (e_physicals E) l (key_of c (m_name (eb_meta backup))) = Inl e
             \<and> l' = l @ [(ReqGet KPhysicalBackup (key_of c (m_name (eb_meta backup))), Some e)]
          else ep_get (e_backups E) l (key_of c (m_name (eb_meta backup))) = Inl e
             \<and> l' = l @ [(ReqGet KBackup (key_of c (m_name (eb_meta backup))), Some e)]))"
proof (cases "eb_schedule backup = []")
  case False
  with run show ?thesis by (simp add: CleanupBackup_def)
next
  case True
  with run obtain params where p: "backup_params_of (e_json_error E) (eb_parameters backup) = Inr params"
    by (cases "backup_params_of (e_json_error E) (eb_parameters backup)")
       (auto simp: CleanupBackup_def bnd_def attempt_def)
  with run True show ?thesis
    by (cases "isPhysical params")
       (auto simp: CleanupBackup_def cleanupPhysicalBackup_def bnd_def attempt_def on_get_def wrap_err_def
          api_get_def api_delete_def request_def split: sum.splits if_splits)
qed

theorem CleanupBackup_done_witness:
  "fst (CleanupBackup (mem_env empty_world) (plain_instance ''standalone'') plain_backup []) = Inr True
   \<and> (eb_schedule plain_backup \<noteq> [] \<and> [(ReqGet KBackup (''ns'', ''b1''), Some (ApiNotFound ''b1''))] = []
    \<or> (\<exists>params e. backup_params_of (e_json_error (mem_env empty_world)) (eb_parameters plain_backup) = Inr params
        \<and> is_not_found e \<and>
         (if isPhysical params
          then ep_get (e_physicals (mem_env empty_world)) [] (key_of (plain_instance ''standalone'') (m_name (eb_meta plain_backup))) = Inl e
             \<and> [(ReqGet KBackup (''ns'', ''b1''), Some (ApiNotFound ''b1''))]
               = [] @ [(ReqGet KPhysicalBackup (key_of (plain_instance ''standalone'') (m_name (eb_meta plain_backup))), Some e)]
          else ep_get (e_backups (mem_env empty_world)) [] (key_of (plain_instance ''standalone'') (m_name (eb_meta plain_backup))) = Inl e
             \<and> [(ReqGet KBackup (''ns'', ''b1''), Some (ApiNotFound ''b1''))]
               = [] @ [(ReqGet KBackup (key_of (plain_instance ''standalone'') (m_name (eb_meta plain_backup))), Some e)])))"
proof -
  have run: "CleanupBackup (mem_env empty_world) (plain_instance ''standalone'') plain_backup [] =
      (Inr True, [(ReqGet KBackup (''ns'', ''b1''), Some (ApiNotFound ''b1''))])"
    by code_simp
  from CleanupBackup_done [OF run] run show ?thesis by (simp only: fst_conv)
qed

end
