(* ===== verification/Images.thy ===== *)
theory Images
  imports Common
begin

section \<open>Resolution of component images\<close>

text \<open>
  \<open>resolveEngineImage\<close> (\<open>mariadb.go\<close>), \<open>resolveExporterImage\<close> (\<open>monitoring.go\<close>),
  \<open>resolveMaxScaleImage\<close> (\<open>maxscale.go\<close>) and \<open>withBundleVersion\<close> (\<open>validate.go\<close>). The
  first three share one contract, the locale \<open>image_resolver\<close>: an image set on the
  component wins and needs no Provider; otherwise the image of the selected version, and
  the default image where there is none.
\<close>

definition resolveEngineImage :: "env \<Rightarrow> component_spec \<Rightarrow> err + string" where
  "resolveEngineImage E engine =
     (if cs_image engine \<noteq> [] then Inr (cs_image engine)
      else ebind (ewrap ''get provider spec'' (e_provider_spec E)) (\<lambda>spec.
        let image = (if cs_version engine \<noteq> []
              then pv_image spec ComponentEngine (cs_version engine) else [])
        in Inr (if image = [] then pv_default spec ComponentEngine else image)))"

definition resolveExporterImage :: "env \<Rightarrow> instance_cr \<Rightarrow> err + string" where
  "resolveExporterImage E c =
     (let monitoring = component_or_zero c ComponentMonitoring in
      if cs_image monitoring \<noteq> [] then Inr (cs_image monitoring)
      else ebind (ewrap ''get provider spec'' (e_provider_spec E)) (\<lambda>spec.
        let image = (if cs_version monitoring \<noteq> []
              then pv_image spec ComponentMonitoring (cs_version monitoring) else [])
        in Inr (if image = [] then pv_default spec ComponentMonitoring else image)))"

definition resolveMaxScaleImage :: "env \<Rightarrow> instance_cr \<Rightarrow> err + string" where
  "resolveMaxScaleImage E c =
     (let proxy = component_or_zero c ComponentProxy in
      if cs_image proxy \<noteq> [] then Inr (cs_image proxy)
      else ebind (ewrap ''get provider spec'' (e_provider_spec E)) (\<lambda>spec.
        let image = (if cs_version proxy \<noteq> []
              then pv_image spec ComponentProxy (cs_version proxy) else [])
        in Inr (if image = [] then pv_default spec ComponentProxy else image)))"

definition withBundleVersion :: "env \<Rightarrow> instance_cr \<Rightarrow> component_spec \<Rightarrow> err + component_spec" where
  "withBundleVersion E c engine =
     (if cs_image engine \<noteq> [] \<or> cs_version engine \<noteq> [] then Inr engine
      else ebind (ewrap ''get provider spec'' (e_provider_spec E)) (\<lambda>spec.
        let name = pv_bundle_name spec c in
        if name = [] then Inr engine
        else ebind (pv_bundle spec name) (\<lambda>bundle.
          Inr (engine\<lparr>cs_version :=
            (case map_of bundle ComponentEngine of Some v \<Rightarrow> v | None \<Rightarrow> [])\<rparr>))))"

text \<open>The contract.\<close>

locale image_resolver =
  fixes E :: env
    and name :: string
    and comp :: "'c \<Rightarrow> component_spec"
    and resolve :: "'c \<Rightarrow> err + string"
  assumes override: "cs_image (comp c) \<noteq> [] \<Longrightarrow> resolve c = Inr (cs_image (comp c))"
    and no_provider: "cs_image (comp c) = [] \<Longrightarrow> e_provider_spec E = Inl e \<Longrightarrow>
      resolve c = Inl (Wrapped ''get provider spec'' e)"
    and version_image: "cs_image (comp c) = [] \<Longrightarrow> e_provider_spec E = Inr spec \<Longrightarrow>
      cs_version (comp c) \<noteq> [] \<Longrightarrow> pv_image spec name (cs_version (comp c)) \<noteq> [] \<Longrightarrow>
      resolve c = Inr (pv_image spec name (cs_version (comp c)))"
    and default_image: "cs_image (comp c) = [] \<Longrightarrow> e_provider_spec E = Inr spec \<Longrightarrow>
      cs_version (comp c) = [] \<or> pv_image spec name (cs_version (comp c)) = [] \<Longrightarrow>
      resolve c = Inr (pv_default spec name)"
begin

lemma resolves: "e_provider_spec E = Inr spec \<Longrightarrow> \<exists>i. resolve c = Inr i"
  by (metis override version_image default_image)

lemma fails_iff:
  "(\<exists>e. resolve c = Inl e) \<longleftrightarrow> cs_image (comp c) = [] \<and> (\<exists>e. e_provider_spec E = Inl e)"
proof (cases "cs_image (comp c) = []")
  case False
  then show ?thesis by (simp add: override)
next
  case True
  then show ?thesis
    using no_provider [of c] resolves [of _ c] by (cases "e_provider_spec E") auto
qed

lemma empty_iff:
  assumes "e_provider_spec E = Inr spec"
  shows "resolve c = Inr [] \<longleftrightarrow> cs_image (comp c) = [] \<and> pv_default spec name = []
     \<and> (cs_version (comp c) = [] \<or> pv_image spec name (cs_version (comp c)) = [])"
  using assms override [of c] version_image [of c spec] default_image [of c spec]
  by (cases "cs_image (comp c) = []"; cases "cs_version (comp c) = []";
      cases "pv_image spec name (cs_version (comp c)) = []") auto

end

interpretation engine_image: image_resolver E ComponentEngine "\<lambda>cs. cs" "resolveEngineImage E" for E
  by unfold_locales (auto simp: resolveEngineImage_def)

interpretation exporter_image: image_resolver E ComponentMonitoring
  "\<lambda>c. component_or_zero c ComponentMonitoring" "resolveExporterImage E" for E
  by unfold_locales (auto simp: resolveExporterImage_def)

interpretation maxscale_image: image_resolver E ComponentProxy
  "\<lambda>c. component_or_zero c ComponentProxy" "resolveMaxScaleImage E" for E
  by unfold_locales (auto simp: resolveMaxScaleImage_def)

lemma withBundleVersion_image: "withBundleVersion E c engine = Inr e' \<Longrightarrow> cs_image e' = cs_image engine"
  by (auto simp: withBundleVersion_def Let_def split: if_splits)

lemma withBundleVersion_keeps:
  "withBundleVersion E c engine = Inr e' \<Longrightarrow> \<exists>v. e' = engine\<lparr>cs_version := v\<rparr>"
  by (auto simp: withBundleVersion_def Let_def split: if_splits intro: exI [of _ "cs_version engine"])

end
