(* ===== verification/Tls.thy ===== *)
theory Tls
  imports Common
begin

section \<open>TLS\<close>

text \<open>
  \<open>internal/provider/tls.go\<close>: the settings decoded from the engine's parameters with the
  provider's defaults, their validation, and the TLS block declared on the MariaDB.
\<close>

definition tlsCAKey :: string where "tlsCAKey = ''ca.crt''"
definition tlsConnectionKey :: string where "tlsConnectionKey = ''tls''"
definition tlsEnabledByDefault :: bool where "tlsEnabledByDefault = True"
definition tlsRequiredByDefault :: bool where "tlsRequiredByDefault = False"

record tlsSettings =
  ts_enabled :: bool
  ts_required :: bool
  ts_galera_sst :: bool

definition zero_mariadb_params :: mariadb_params where
  "zero_mariadb_params = \<lparr> mp_configuration = [], mp_tls = None \<rparr>"

definition deref :: "'a option \<Rightarrow> 'a \<Rightarrow> 'a" where
  "deref p d = (case p of Some x \<Rightarrow> x | None \<Rightarrow> d)"

lemma deref_simps [simp]: "deref None d = d" "deref (Some x) d = x"
  by (simp_all add: deref_def)

definition resolveTLSSettings :: "env \<Rightarrow> instance_cr \<Rightarrow> err + tlsSettings" where
  "resolveTLSSettings E c =
     (let engine = engine_of c in
      ebind (case cs_parameters engine of
               Some (Some _) \<Rightarrow> ewrap ''decode engine parameters'' (e_decode_engine E engine)
             | _ \<Rightarrow> Inr zero_mariadb_params) (\<lambda>params.
      let s0 = \<lparr> ts_enabled = tlsEnabledByDefault, ts_required = tlsRequiredByDefault,
                 ts_galera_sst = False \<rparr>;
          s1 = (case mp_tls params of
                  None \<Rightarrow> s0
                | Some t \<Rightarrow> s0\<lparr>ts_enabled := deref (tp_enabled t) (ts_enabled s0),
                              ts_required := deref (tp_required t) (ts_required s0)\<rparr>);
          s2 = (if isGaleraTopology c then
                  s1\<lparr>ts_galera_sst := (case mp_tls params of
                       Some t \<Rightarrow> deref (tp_galera_sst t) (ts_enabled s1)
                     | None \<Rightarrow> ts_enabled s1)\<rparr>
                else s1)
      in Inr s2))"

definition validateTLS :: "env \<Rightarrow> instance_cr \<Rightarrow> err + unit" where
  "validateTLS E c =
     ebind (resolveTLSSettings E c) (\<lambda>s.
       if \<not> ts_enabled s \<and> ts_required s then
         Inl (Errorf (''spec.components.'' @ ComponentEngine
            @ ''.parameters.tls.required cannot be true when TLS is disabled''))
       else if \<not> ts_enabled s \<and> ts_galera_sst s then
         Inl (Errorf (''spec.components.'' @ ComponentEngine
            @ ''.parameters.tls.galeraSSTEnabled cannot be true when TLS is disabled''))
       else Inr ())"

definition buildTLS :: "env \<Rightarrow> instance_cr \<Rightarrow> err + op_tls" where
  "buildTLS E c =
     ebind (resolveTLSSettings E c) (\<lambda>s.
       Inr \<lparr> tl_enabled = ts_enabled s, tl_required = Some (ts_required s),
             tl_galera_sst = (if isGaleraTopology c then Some (ts_galera_sst s) else None) \<rparr>)"

lemma tls_off_galera:
  "resolveTLSSettings E c = Inr s \<Longrightarrow> \<not> isGaleraTopology c \<Longrightarrow> \<not> ts_galera_sst s"
  by (auto simp: resolveTLSSettings_def Let_def split: option.splits)

lemma tls_defaults:
  "cs_parameters (engine_of c) = None \<Longrightarrow> resolveTLSSettings E c =
     Inr \<lparr> ts_enabled = True, ts_required = False, ts_galera_sst = isGaleraTopology c \<rparr>"
  by (simp add: resolveTLSSettings_def Let_def zero_mariadb_params_def tlsEnabledByDefault_def
      tlsRequiredByDefault_def)

lemma validateTLS_ok:
  "validateTLS E c = Inr () \<longleftrightarrow>
     (\<exists>s. resolveTLSSettings E c = Inr s \<and> (ts_required s \<or> ts_galera_sst s \<longrightarrow> ts_enabled s))"
  by (auto simp: validateTLS_def)

text \<open>
  A TLS block the operator can act on: required TLS and encrypted state transfers imply TLS.
\<close>

definition tls_consistent :: "op_tls \<Rightarrow> bool" where
  "tls_consistent t \<longleftrightarrow> (tl_enabled t \<or> \<not> (tl_required t = Some True \<or> tl_galera_sst t = Some True))"

lemma tls_validation_iff:
  "validateTLS E c = Inr () \<longleftrightarrow> (\<exists>t. buildTLS E c = Inr t \<and> tls_consistent t)"
proof (cases "resolveTLSSettings E c")
  case (Inl e)
  then show ?thesis by (simp add: validateTLS_def buildTLS_def)
next
  case (Inr s)
  then show ?thesis
    by (auto simp: validateTLS_def buildTLS_def tls_consistent_def dest: tls_off_galera)
qed

text \<open>
  The TLS validation accepts an Instance exactly when its parameters decode and the TLS
  block then declared on the MariaDB is consistent: TLS required of clients, or encrypted
  Galera state transfers, only with TLS enabled.
\<close>

theorem tls_validation_exact:
  "validateTLS E c = Inr () \<longleftrightarrow> (\<exists>t. buildTLS E c = Inr t \<and> tls_consistent t)"
  by (rule tls_validation_iff)

text \<open>
  Without engine parameters TLS is enabled and not required, and Galera state transfers
  are encrypted on the Galera topology; off Galera the switch for state transfers is not
  declared, whatever the parameters say.
\<close>

theorem tls_defaults_declared:
  assumes "cs_parameters (engine_of c) = None"
  shows "buildTLS E c = Inr \<lparr> tl_enabled = True, tl_required = Some False,
           tl_galera_sst = (if isGaleraTopology c then Some True else None) \<rparr>"
  using tls_defaults [OF assms] by (simp add: buildTLS_def)

end
