(* ===== verification/Affinity.thy ===== *)
theory Affinity
  imports Common
begin

section \<open>Affinity and topology spread constraints\<close>

text \<open>
  \<open>internal/provider/affinity.go\<close> and \<open>defaultHAAffinity\<close> of \<open>galera.go\<close>: the mapping of
  the Kubernetes scheduling rules of a component onto the operator's own types. The
  lemmas show that the mapping loses exactly what the operator cannot express.
\<close>

subsection \<open>Conversions\<close>

definition convertNodeSelectorRequirement :: "node_req \<Rightarrow> op_node_req" where
  "convertNodeSelectorRequirement r =
     \<lparr> onr_key = nr_key r, onr_op = nr_op r, onr_values = nr_values r \<rparr>"

definition convertNodeSelectorTerm :: "node_term \<Rightarrow> op_node_term" where
  "convertNodeSelectorTerm t =
     \<lparr> ont_exprs = map convertNodeSelectorRequirement (nt_exprs t),
       ont_fields = map convertNodeSelectorRequirement (nt_fields t) \<rparr>"

definition convertNodeSelector :: "node_term list \<Rightarrow> op_node_term list" where
  "convertNodeSelector ns = map convertNodeSelectorTerm ns"

definition convertNodeAffinity :: "node_affinity \<Rightarrow> op_node_affinity" where
  "convertNodeAffinity na =
     \<lparr> ona_required = map_option convertNodeSelector (na_required na),
       ona_preferred = map (\<lambda>(w, t). (w, convertNodeSelectorTerm t)) (na_preferred na) \<rparr>"

definition convertLabelSelector :: "label_selector \<Rightarrow> op_label_selector" where
  "convertLabelSelector ls =
     \<lparr> ols_labels = ls_labels ls,
       ols_exprs = map (\<lambda>r. \<lparr> olr_key = lr_key r, olr_op = lr_op r, olr_values = lr_values r \<rparr>) (ls_exprs ls) \<rparr>"

definition convertPodAffinityTerm :: "pod_term \<Rightarrow> op_pod_term" where
  "convertPodAffinityTerm t =
     \<lparr> opt_key = pt_key t, opt_selector = map_option convertLabelSelector (pt_selector t) \<rparr>"

definition convertPodAntiAffinity :: "pod_affinity \<Rightarrow> op_pod_anti_affinity" where
  "convertPodAntiAffinity paa =
     \<lparr> opa_required = map convertPodAffinityTerm (pa_required paa),
       opa_preferred = map (\<lambda>(w, t). (w, convertPodAffinityTerm t)) (pa_preferred paa) \<rparr>"

definition convertAffinity :: "affinity \<Rightarrow> op_affinity option" where
  "convertAffinity a =
     (let cfg = \<lparr> oaf_node = map_option convertNodeAffinity (af_node a),
                  oaf_anti = map_option convertPodAntiAffinity (af_anti a) \<rparr>
      in if oaf_node cfg = None \<and> oaf_anti cfg = None then None else Some cfg)"

definition defaultHAAffinity :: "string \<Rightarrow> op_affinity" where
  "defaultHAAffinity instanceName =
     \<lparr> oaf_node = None,
       oaf_anti = Some \<lparr> opa_required = [],
         opa_preferred = [(1, \<lparr> opt_key = ''kubernetes.io/hostname'',
           opt_selector = Some \<lparr> ols_labels = [],
             ols_exprs = [\<lparr> olr_key = ''app.kubernetes.io/instance'', olr_op = ''In'',
                            olr_values = [instanceName] \<rparr>] \<rparr> \<rparr>)] \<rparr> \<rparr>"

definition buildAffinity :: "affinity option \<Rightarrow> bool \<Rightarrow> string \<Rightarrow> op_affinity option" where
  "buildAffinity raw ha instanceName =
     (case raw of
        Some a \<Rightarrow> convertAffinity a
      | None \<Rightarrow> if ha then Some (defaultHAAffinity instanceName) else None)"

definition validateAffinity :: "affinity option \<Rightarrow> err + unit" where
  "validateAffinity raw =
     (case raw of
        None \<Rightarrow> Inr ()
      | Some a \<Rightarrow> if af_pod a \<noteq> None
          then Inl (Errorf (''spec.components.'' @ ComponentEngine
            @ ''.schedulingPolicy.affinity.podAffinity is not supported by the MariaDB operator; ''
            @ ''only nodeAffinity and podAntiAffinity are supported''))
          else Inr ())"

definition mariadbPodLabels :: "string \<Rightarrow> labels" where
  "mariadbPodLabels i =
     [(''app.kubernetes.io/name'', ''mariadb''), (''app.kubernetes.io/instance'', i)]"

definition maxScalePodLabels :: "string \<Rightarrow> labels" where
  "maxScalePodLabels n =
     [(''app.kubernetes.io/name'', ''maxscale''), (''app.kubernetes.io/instance'', n)]"

definition convertTopologySpreadConstraints :: "spread_constraint list \<Rightarrow> op_spread_constraint list" where
  "convertTopologySpreadConstraints cs = map (\<lambda>c.
     \<lparr> ots_max_skew = ts_max_skew c, ots_key = ts_key c, ots_when = ts_when c,
       ots_selector = ts_selector c, ots_min_domains = ts_min_domains c,
       ots_node_affinity = ts_node_affinity c, ots_node_taints = ts_node_taints c,
       ots_match_keys = ts_match_keys c \<rparr>) cs"

subsection \<open>What the operator can express\<close>

text \<open>
  The rules of an affinity the operator has a place for: pod affinity dropped, and every
  anti-affinity term reduced to its selector and topology key.
\<close>

definition expressible_term :: "pod_term \<Rightarrow> pod_term" where
  "expressible_term t = t\<lparr>pt_namespaces := [], pt_ns_selector := None, pt_match_keys := [],
     pt_mismatch_keys := []\<rparr>"

definition expressible_pod :: "pod_affinity \<Rightarrow> pod_affinity" where
  "expressible_pod p = \<lparr> pa_required = map expressible_term (pa_required p),
     pa_preferred = map (\<lambda>(w, t). (w, expressible_term t)) (pa_preferred p) \<rparr>"

definition expressible :: "affinity \<Rightarrow> affinity" where
  "expressible a = a\<lparr>af_pod := None, af_anti := map_option expressible_pod (af_anti a)\<rparr>"

lemma inj_map_eq: "(\<And>x y. f x = f y \<longleftrightarrow> g x = g y) \<Longrightarrow> map f xs = map f ys \<longleftrightarrow> map g xs = map g ys"
proof (induction xs arbitrary: ys)
  case (Cons x xs)
  then show ?case by (cases ys) auto
qed auto

lemma inj_map_option_eq:
  "(\<And>x y. f x = f y \<longleftrightarrow> g x = g y) \<Longrightarrow> map_option f a = map_option f b \<longleftrightarrow> map_option g a = map_option g b"
  by (cases a; cases b) auto

lemma inj_map_id: "(\<And>x y. f x = f y \<longleftrightarrow> x = y) \<Longrightarrow> map f xs = map f ys \<longleftrightarrow> xs = ys"
  using inj_map_eq [of f id xs ys] by simp

lemma inj_map_option_id: "(\<And>x y. f x = f y \<longleftrightarrow> x = y) \<Longrightarrow> map_option f a = map_option f b \<longleftrightarrow> a = b"
  by (cases a; cases b) auto

lemma convertNodeSelectorRequirement_eq [simp]:
  "convertNodeSelectorRequirement r = convertNodeSelectorRequirement s \<longleftrightarrow> r = s"
  by (cases r; cases s) (simp add: convertNodeSelectorRequirement_def)

lemma convertNodeSelectorTerm_eq [simp]:
  "convertNodeSelectorTerm t = convertNodeSelectorTerm u \<longleftrightarrow> t = u"
  by (cases t; cases u) (simp add: convertNodeSelectorTerm_def inj_map_id)

lemma convertNodeSelector_eq [simp]: "convertNodeSelector s = convertNodeSelector t \<longleftrightarrow> s = t"
  by (simp add: convertNodeSelector_def inj_map_id)

lemma convertNodeAffinity_eq [simp]: "convertNodeAffinity a = convertNodeAffinity b \<longleftrightarrow> a = b"
proof -
  have "map (\<lambda>(w :: int, t). (w, convertNodeSelectorTerm t)) xs = map (\<lambda>(w, t). (w, convertNodeSelectorTerm t)) ys
      \<longleftrightarrow> xs = ys" for xs ys
    by (rule inj_map_id) auto
  then show ?thesis
    by (cases a; cases b) (simp add: convertNodeAffinity_def inj_map_option_id)
qed

lemma convertLabelSelector_eq [simp]: "convertLabelSelector a = convertLabelSelector b \<longleftrightarrow> a = b"
proof -
  have "map (\<lambda>r. \<lparr> olr_key = lr_key r, olr_op = lr_op r, olr_values = lr_values r \<rparr>) xs =
      map (\<lambda>r. \<lparr> olr_key = lr_key r, olr_op = lr_op r, olr_values = lr_values r \<rparr>) ys
      \<longleftrightarrow> xs = ys" for xs ys :: "label_req list"
    by (rule inj_map_id) (auto intro: label_req.equality)
  then show ?thesis
    by (cases a; cases b) (simp add: convertLabelSelector_def)
qed

lemma convertPodAffinityTerm_eq:
  "convertPodAffinityTerm t = convertPodAffinityTerm u \<longleftrightarrow> expressible_term t = expressible_term u"
  by (cases t; cases u) (auto simp: convertPodAffinityTerm_def expressible_term_def inj_map_option_id)

lemma convertPodAntiAffinity_eq:
  "convertPodAntiAffinity p = convertPodAntiAffinity q \<longleftrightarrow> expressible_pod p = expressible_pod q"
proof -
  have "map (\<lambda>(w :: int, t). (w, convertPodAffinityTerm t)) xs = map (\<lambda>(w, t). (w, convertPodAffinityTerm t)) ys
     \<longleftrightarrow> map (\<lambda>(w, t). (w, expressible_term t)) xs = map (\<lambda>(w, t). (w, expressible_term t)) ys" for xs ys
    by (rule inj_map_eq) (auto simp: convertPodAffinityTerm_eq)
  moreover have "map convertPodAffinityTerm xs = map convertPodAffinityTerm ys \<longleftrightarrow>
      map expressible_term xs = map expressible_term ys" for xs ys
    by (rule inj_map_eq) (rule convertPodAffinityTerm_eq)
  ultimately show ?thesis
    by (simp add: convertPodAntiAffinity_def expressible_pod_def)
qed

lemma convertAffinity_None_iff: "convertAffinity a = None \<longleftrightarrow> af_node a = None \<and> af_anti a = None"
  by (simp add: convertAffinity_def Let_def)

text \<open>
  Two affinities of a component give the same operator affinity exactly when they agree
  on everything the operator has a place for: node affinity whole, and every pod
  anti-affinity term's label selector, topology key and weight. Nothing else is lost.
\<close>

theorem convertAffinity_exact:
  "convertAffinity a = convertAffinity b \<longleftrightarrow> expressible a = expressible b"
proof -
  have n: "map_option convertNodeAffinity x = map_option convertNodeAffinity y \<longleftrightarrow> x = y" for x y
    by (rule inj_map_option_id) simp
  have p: "map_option convertPodAntiAffinity x = map_option convertPodAntiAffinity y \<longleftrightarrow>
      map_option expressible_pod x = map_option expressible_pod y" for x y
    by (rule inj_map_option_eq) (rule convertPodAntiAffinity_eq)
  have e: "expressible a = expressible b \<longleftrightarrow> af_node a = af_node b \<and>
      map_option expressible_pod (af_anti a) = map_option expressible_pod (af_anti b)"
    by (cases a; cases b) (auto simp: expressible_def)
  show ?thesis
    unfolding e convertAffinity_def Let_def using n [of "af_node a" "af_node b"] p [of "af_anti a" "af_anti b"]
    by (auto split: if_splits)
qed

lemma convertTopologySpreadConstraints_eq:
  "convertTopologySpreadConstraints cs = convertTopologySpreadConstraints ds \<longleftrightarrow> cs = ds"
  unfolding convertTopologySpreadConstraints_def
  by (rule inj_map_id) (auto intro: spread_constraint.equality)

text \<open>
  The affinity declared for a component. Nothing is declared exactly when the user set
  rules of which the operator can express none (such as an empty affinity), or set none off
  an HA topology; on an HA topology the default only states a preference, so it never
  blocks scheduling.
\<close>

theorem buildAffinity_default:
  "(buildAffinity raw ha i = None \<longleftrightarrow>
      (case raw of Some a \<Rightarrow> af_node a = None \<and> af_anti a = None | None \<Rightarrow> \<not> ha))
   \<and> (\<exists>paa. buildAffinity None True i = Some \<lparr> oaf_node = None, oaf_anti = Some paa \<rparr>
        \<and> opa_required paa = [] \<and> map fst (opa_preferred paa) = [1])"
  by (auto simp: buildAffinity_def convertAffinity_None_iff defaultHAAffinity_def split: option.splits)

end
