(* ===== verification/Apply.thy ===== *)
theory Apply
  imports Common
begin

section \<open>Server-side apply\<close>

text \<open>
  \<open>internal/provider/apply.go\<close>: the pruning of zero values out of the objects sent with
  server-side apply, and the migration of field ownership from the legacy manager.
\<close>

definition applyFieldManager :: string where "applyFieldManager = ''provider-'' @ ProviderName"
definition legacyFieldManager :: string where "legacyFieldManager = ''provider''"

subsection \<open>Pruning\<close>

fun pruneUnset :: "(string \<times> json) list \<Rightarrow> (string \<times> json) list"
  and prune_items :: "json list \<Rightarrow> json list" where
  "pruneUnset [] = []"
| "pruneUnset ((k, JNull) # ms) = pruneUnset ms"
| "pruneUnset ((k, JStr s) # ms) = (if s = [] then pruneUnset ms else (k, JStr s) # pruneUnset ms)"
| "pruneUnset ((k, JObj child) # ms) =
     (let child' = pruneUnset child
      in if child' = [] then pruneUnset ms else (k, JObj child') # pruneUnset ms)"
| "pruneUnset ((k, JArr items) # ms) =
     (if items = [] then pruneUnset ms else (k, JArr (prune_items items)) # pruneUnset ms)"
| "pruneUnset ((k, v) # ms) = (k, v) # pruneUnset ms"
| "prune_items [] = []"
| "prune_items (JObj child # vs) = JObj (pruneUnset child) # prune_items vs"
| "prune_items (v # vs) = v # prune_items vs"

definition delete_key :: "string \<Rightarrow> (string \<times> json) list \<Rightarrow> (string \<times> json) list" where
  "delete_key k m = filter (\<lambda>(k', _). k' \<noteq> k) m"

definition set_key :: "string \<Rightarrow> json \<Rightarrow> (string \<times> json) list \<Rightarrow> (string \<times> json) list" where
  "set_key k v m = (k, v) # delete_key k m"

definition toApplyObject :: "env \<Rightarrow> kind \<Rightarrow> ('o \<Rightarrow> err + (string \<times> json) list) \<Rightarrow> 'o
    \<Rightarrow> err + (string \<times> json) list" where
  "toApplyObject E K to_unstructured ob =
     ebind (ewrap ''resolve GVK'' (e_gvk E K)) (\<lambda>(apiVersion, kd).
     ebind (ewrap (''convert '' @ kd) (to_unstructured ob)) (\<lambda>raw.
     Inr (set_key ''apiVersion'' (JStr apiVersion) (set_key ''kind'' (JStr kd)
            (pruneUnset (delete_key ''status'' raw))))))"

subsection \<open>Field ownership\<close>

definition hasLegacyUpdateManager :: "managed_entry list \<Rightarrow> bool" where
  "hasLegacyUpdateManager entries \<longleftrightarrow>
     list_ex (\<lambda>e. mf_manager e = legacyFieldManager \<and> mf_operation e = ''Update''
                \<and> mf_subresource e = []) entries"

definition migrateFieldOwnership ::
  "env \<Rightarrow> ('o \<Rightarrow> obj) \<Rightarrow> 'o endpoint \<Rightarrow> ('o \<Rightarrow> meta) \<Rightarrow> (meta \<Rightarrow> 'o \<Rightarrow> 'o) \<Rightarrow> 'o \<Rightarrow> unit go" where
  "migrateFieldOwnership E C ep get_meta set_meta ob =
     (if \<not> hasLegacyUpdateManager (m_managed (get_meta ob)) then ret ()
      else bnd (lift (ewrap (''upgrade managed fields of '' @ m_name (get_meta ob))
             (e_upgrade_managed E (get_meta ob) [legacyFieldManager] applyFieldManager))) (\<lambda>m.
           bnd (wrap_err (''migrate field ownership of '' @ m_name (get_meta ob))
             (api_update C ep (set_meta m ob))) (\<lambda>_. ret ())))"

lemma emits_migrate [post_intros]:
  "(\<And>x r. P (ReqUpdate (C x), r)) \<Longrightarrow> emits P (migrateFieldOwnership E C ep gm sm ob)"
  unfolding migrateFieldOwnership_def by (intro post_intros)

lemma migrate_noop:
  "\<not> hasLegacyUpdateManager (m_managed (gm ob)) \<Longrightarrow>
     migrateFieldOwnership E C ep gm sm ob l = (Inr (), l)"
  by (simp add: migrateFieldOwnership_def)

subsection \<open>What pruning leaves\<close>

text \<open>
  A value the provider has set. In an object no value is unset; an element of a list is
  never removed, so only the objects among the elements are required to be pruned.
\<close>

fun is_set :: "json \<Rightarrow> bool"
  and all_set :: "(string \<times> json) list \<Rightarrow> bool"
  and items_set :: "json list \<Rightarrow> bool" where
  "is_set JNull = False"
| "is_set (JStr s) = (s \<noteq> [])"
| "is_set (JObj child) = (child \<noteq> [] \<and> all_set child)"
| "is_set (JArr items) = (items \<noteq> [] \<and> items_set items)"
| "is_set _ = True"
| "all_set [] = True"
| "all_set ((k, v) # ms) = (is_set v \<and> all_set ms)"
| "items_set [] = True"
| "items_set (JObj child # vs) = (all_set child \<and> items_set vs)"
| "items_set (v # vs) = items_set vs"

lemma prune_items_Nil_iff [simp]: "prune_items vs = [] \<longleftrightarrow> vs = []"
  by (cases vs rule: prune_items.cases) auto

lemma pruneUnset_all_set:
  "all_set (pruneUnset ms)"
  "items_set (prune_items vs)"
  by (induction ms and vs rule: pruneUnset_prune_items.induct) (simp_all add: Let_def)

lemma pruneUnset_id:
  "all_set ms \<Longrightarrow> pruneUnset ms = ms"
  "items_set vs \<Longrightarrow> prune_items vs = vs"
  by (induction ms and vs rule: pruneUnset_prune_items.induct) (simp_all add: Let_def)

lemma pruneUnset_idem: "pruneUnset (pruneUnset ms) = pruneUnset ms"
  by (rule pruneUnset_id) (rule pruneUnset_all_set)

text \<open>The value at a path of object keys.\<close>

fun json_at :: "json \<Rightarrow> string list \<Rightarrow> json option" where
  "json_at v [] = Some v"
| "json_at (JObj ms) (k # ks) = (case map_of ms k of Some v \<Rightarrow> json_at v ks | None \<Rightarrow> None)"
| "json_at _ (k # ks) = None"

text \<open>A Go map has each key once.\<close>

fun distinct_keys :: "json \<Rightarrow> bool"
  and members_distinct :: "(string \<times> json) list \<Rightarrow> bool" where
  "distinct_keys (JObj ms) = (distinct (map fst ms) \<and> members_distinct ms)"
| "distinct_keys _ = True"
| "members_distinct [] = True"
| "members_distinct ((k, v) # ms) = (distinct_keys v \<and> members_distinct ms)"

fun is_scalar :: "json \<Rightarrow> bool" where
  "is_scalar (JBool b) = True"
| "is_scalar (JNum n) = True"
| "is_scalar (JStr s) = (s \<noteq> [])"
| "is_scalar _ = False"

text \<open>What is left of one value.\<close>

fun prune_value :: "json \<Rightarrow> json option" where
  "prune_value JNull = None"
| "prune_value (JStr s) = (if s = [] then None else Some (JStr s))"
| "prune_value (JObj child) = (if pruneUnset child = [] then None else Some (JObj (pruneUnset child)))"
| "prune_value (JArr items) = (if items = [] then None else Some (JArr (prune_items items)))"
| "prune_value v = Some v"

lemma pruneUnset_Cons:
  "pruneUnset ((k, v) # ms) =
     (case prune_value v of None \<Rightarrow> pruneUnset ms | Some v' \<Rightarrow> (k, v') # pruneUnset ms)"
  by (cases v) (simp_all add: Let_def)

lemma pruneUnset_keys: "k \<in> fst ` set (pruneUnset ms) \<Longrightarrow> k \<in> fst ` set ms"
proof (induction ms)
  case (Cons m ms)
  then show ?case by (cases m) (auto simp: pruneUnset_Cons split: option.splits)
qed simp

lemma map_of_pruneUnset:
  "distinct (map fst ms) \<Longrightarrow> map_of (pruneUnset ms) k = Option.bind (map_of ms k) prune_value"
proof (induction ms)
  case (Cons m ms)
  obtain k' v where m: "m = (k', v)" by fastforce
  have "k' \<notin> fst ` set (pruneUnset ms)" using Cons.prems m pruneUnset_keys by auto
  then have "map_of (pruneUnset ms) k' = None" by (simp add: map_of_eq_None_iff)
  with Cons m show ?case by (auto simp: pruneUnset_Cons split: option.splits)
qed simp

lemma members_distinct_lookup: "members_distinct ms \<Longrightarrow> map_of ms k = Some v \<Longrightarrow> distinct_keys v"
  by (induction ms) (auto split: if_splits)

lemma prune_value_at:
  "distinct_keys v \<Longrightarrow> is_scalar x \<Longrightarrow>
     (case prune_value v of None \<Rightarrow> None | Some w \<Rightarrow> json_at w ks) = Some x \<longleftrightarrow> json_at v ks = Some x"
proof (induction v ks rule: json_at.induct)
  case (1 v)
  then show ?case by (cases v) (auto split: if_splits)
next
  case (2 ms k ks)
  have look: "map_of (pruneUnset ms) k = Option.bind (map_of ms k) prune_value"
    using "2.prems"(1) by (intro map_of_pruneUnset) simp
  show ?case
  proof (cases "map_of ms k")
    case None
    with look show ?thesis by simp
  next
    case (Some v)
    with "2.prems"(1) have "distinct_keys v" by (auto dest: members_distinct_lookup)
    with "2.IH" [OF Some] "2.prems"(2) look Some show ?thesis
      by (auto split: option.splits if_splits)
  qed
qed auto


text \<open>
  Pruning keeps every scalar the provider set, explicit \<open>false\<close> and \<open>0\<close> included, at
  its path, and invents none: at any path of keys, a set scalar is found in the pruned
  object exactly when it was in the original.
\<close>

theorem pruneUnset_preserves_scalars:
  assumes "distinct_keys (JObj m)" and "is_scalar x" and "ks \<noteq> []"
  shows "json_at (JObj (pruneUnset m)) ks = Some x \<longleftrightarrow> json_at (JObj m) ks = Some x"
proof (cases "pruneUnset m = []")
  case False
  then show ?thesis using prune_value_at [OF assms(1,2), of ks] by simp
next
  case True
  with prune_value_at [OF assms(1,2), of ks] assms(3) show ?thesis by (cases ks) auto
qed

lemma pruneUnset_preserves_scalars_witness:
  "json_at (JObj (pruneUnset [(''spec'', JObj [(''suspend'', JBool False), (''image'', JStr [])])]))
     [''spec'', ''suspend''] = Some (JBool False)"
  using pruneUnset_preserves_scalars
    [of "[(''spec'', JObj [(''suspend'', JBool False), (''image'', JStr [])])]" "JBool False"
        "[''spec'', ''suspend'']"]
  by simp

end
