(* ===== verification/Services.thy ===== *)
theory Services
  imports Common
begin

section \<open>Services\<close>

text \<open>
  The Kubernetes Service of a component: \<open>configureService\<close> (\<open>mariadb.go\<close>) and its
  admission check \<open>validateService\<close> (\<open>validate.go\<close>).
\<close>

definition ServiceTypeClusterIP :: string where "ServiceTypeClusterIP = ''ClusterIP''"
definition ServiceTypeLoadBalancer :: string where "ServiceTypeLoadBalancer = ''LoadBalancer''"
definition ServiceTypeNodePort :: string where "ServiceTypeNodePort = ''NodePort''"

lemmas service_types = ServiceTypeClusterIP_def ServiceTypeLoadBalancer_def ServiceTypeNodePort_def

definition configureService :: "env \<Rightarrow> service_request option \<Rightarrow> service_template option" where
  "configureService E svc =
     (case svc of
        None \<Rightarrow> None
      | Some s \<Rightarrow>
         (let serviceType = (if sv_type s = [] then ServiceTypeClusterIP else sv_type s)
          in Some \<lparr> tm_type = serviceType,
               tm_annotations = (if sv_annotations s \<noteq> [] then Some (sv_annotations s) else None),
               tm_ranges = (if serviceType = ServiceTypeLoadBalancer
                  then (case sv_lb s of
                      Some (Some ranges) \<Rightarrow> e_normalized_ranges E ranges
                    | _ \<Rightarrow> [])
                  else []) \<rparr>))"

definition validateService :: "string \<Rightarrow> service_request option \<Rightarrow> err + unit" where
  "validateService componentName svc =
     (case svc of
        None \<Rightarrow> Inr ()
      | Some s \<Rightarrow>
          if sv_type s = [] then Inr ()
          else if sv_type s = ServiceTypeClusterIP \<or> sv_type s = ServiceTypeLoadBalancer
            \<or> sv_type s = ServiceTypeNodePort then Inr ()
          else Inl (Errorf (''spec.components.'' @ componentName
             @ ''.service.serviceType must be one of ClusterIP, LoadBalancer or NodePort'')))"

lemma service_type_supported:
  "validateService n svc = Inr () \<Longrightarrow> configureService E svc = Some t \<Longrightarrow>
     tm_type t \<in> {''ClusterIP'', ''LoadBalancer'', ''NodePort''}"
  by (auto simp: validateService_def configureService_def service_types Let_def split: option.splits if_splits)

text \<open>
  A Service that passes validation is always given to the operator as one of the three
  supported types, ClusterIP when none was asked for; source ranges are only ever declared
  for a load balancer.
\<close>

theorem validated_service_supported:
  assumes "validateService n svc = Inr ()" and "configureService E svc = Some t"
  shows "tm_type t \<in> {''ClusterIP'', ''LoadBalancer'', ''NodePort''}
     \<and> (tm_ranges t \<noteq> [] \<longrightarrow> tm_type t = ''LoadBalancer'')
     \<and> (\<exists>s. svc = Some s \<and> (sv_type s = [] \<longrightarrow> tm_type t = ''ClusterIP'') \<and> (sv_type s \<noteq> [] \<longrightarrow> tm_type t = sv_type s))"
  using assms
  by (auto simp: validateService_def configureService_def service_types Let_def split: option.splits if_splits)

end
