(* ===== verification/Monitoring.thy ===== *)
theory Monitoring
  imports Images Store
begin

section \<open>Monitoring\<close>

text \<open>
  \<open>monitoring.go\<close>: the metrics block of the MariaDB, the ServiceMonitor the operator leaves
  behind, and the VMServiceScrape the provider owns: its content, its adoption from another
  controller and its removal.
\<close>

definition vmIgnorePrometheusUpdatesAnnotation :: string where
  "vmIgnorePrometheusUpdatesAnnotation = ''operator.victoriametrics.com/ignore-prometheus-updates''"

subsection \<open>Parameters and metrics\<close>

definition monitoringParams :: "env \<Rightarrow> instance_cr \<Rightarrow> err + monitoring_params option" where
  "monitoringParams E c =
     (case component c ComponentMonitoring of
        None \<Rightarrow> Inr None
      | Some m \<Rightarrow> ebind (ewrap ''decode monitoring parameters'' (e_decode_monitoring E m)) (\<lambda>p. Inr (Some p)))"

definition isVictoriaMetricsEnabled :: "monitoring_params option \<Rightarrow> bool" where
  "isVictoriaMetricsEnabled params =
     (case params of None \<Rightarrow> False | Some p \<Rightarrow> mop_enabled p \<and> vmp_enabled (mop_victoria p))"

definition isServiceMonitorEnabled :: "monitoring_params option \<Rightarrow> bool" where
  "isServiceMonitorEnabled params =
     (case params of
        None \<Rightarrow> False
      | Some p \<Rightarrow>
         if \<not> mop_enabled p then False
         else (case smp_enabled (mop_monitor p) of
             Some b \<Rightarrow> b
           | None \<Rightarrow> \<not> vmp_enabled (mop_victoria p)))"

text \<open>The limits and requests of a component, declared when one of them is present.\<close>

definition declared_resources :: "resources option \<Rightarrow> resources option" where
  "declared_resources r =
     (case r of
        None \<Rightarrow> None
      | Some x \<Rightarrow> if rs_limits x \<noteq> None \<or> rs_requests x \<noteq> None then Some x else None)"

definition buildMetrics :: "env \<Rightarrow> instance_cr \<Rightarrow> err + metrics option" where
  "buildMetrics E c =
     ebind (monitoringParams E c) (\<lambda>params. case params of
         None \<Rightarrow> Inr None
       | Some p \<Rightarrow>
          if \<not> mop_enabled p then Inr None
          else ebind (resolveExporterImage E c) (\<lambda>image. Inr (Some
            \<lparr> mt_enabled = True, mt_image = image, mt_pod_labels = e_pod_labels E c ComponentMonitoring,
              mt_resources = declared_resources (cs_resources (component_or_zero c ComponentMonitoring)),
              mt_monitor = \<lparr> sm_enabled = Some (isServiceMonitorEnabled params),
                sm_release = smp_release (mop_monitor p), sm_job_label = smp_job_label (mop_monitor p),
                sm_interval = smp_interval (mop_monitor p), sm_timeout = smp_timeout (mop_monitor p) \<rparr> \<rparr>)))"

subsection \<open>The ServiceMonitor the operator leaves behind\<close>

text \<open>\<open>apierrors.IsNotFound(err) || meta.IsNoMatchError(err)\<close>: nothing is there.\<close>

definition on_lookup :: "string \<Rightarrow> 'a go \<Rightarrow> 'b go \<Rightarrow> ('a \<Rightarrow> 'b go) \<Rightarrow> 'b go" where
  "on_lookup msg m absent found = attempt m
     (case_sum (\<lambda>e. if is_not_found e \<or> is_no_match e then absent else fail (Wrapped msg e)) found)"

definition SyncServiceMonitor :: "env \<Rightarrow> instance_cr \<Rightarrow> unit go" where
  "SyncServiceMonitor E c =
     bnd (lift (monitoringParams E c)) (\<lambda>params.
     if (case params of None \<Rightarrow> True | Some p \<Rightarrow> \<not> mop_enabled p) \<or> isServiceMonitorEnabled params then ret ()
     else bnd (wrap_err ''get MariaDB'' (api_get KMariaDB (e_mariadbs E) (key_of c (in_name c)))) (\<lambda>mdb.
     if \<not> e_metrics_enabled E mdb \<or> e_monitor_enabled E mdb then ret ()
     else on_lookup ''get ServiceMonitor''
       (api_get KServiceMonitor (e_monitors E) (key_of c (e_metrics_name E (m_name (md_meta mdb)))))
       (ret ())
       (\<lambda>sm. if \<not> is_controlled_by (un_meta sm) (m_uid (md_meta mdb)) \<or> m_deleting (un_meta sm) then ret ()
             else wrap_err (''delete ServiceMonitor '' @ quote (m_name (un_meta sm)))
                    (api_delete KServiceMonitor (e_monitors E) (meta_key (un_meta sm))))))"

subsection \<open>The content of the VMServiceScrape\<close>

definition setString :: "string \<Rightarrow> string \<Rightarrow> (string \<times> json) list" where
  "setString key v = (if v \<noteq> [] then [(key, JStr v)] else [])"

definition toAnySlice :: "string list \<Rightarrow> json" where
  "toAnySlice vs = JArr (map JStr vs)"

definition cmp_or :: "string \<Rightarrow> string \<Rightarrow> string" where
  "cmp_or a b = (if a \<noteq> [] then a else b)"

definition or_empty :: "string option \<Rightarrow> string" where
  "or_empty s = (case s of Some x \<Rightarrow> x | None \<Rightarrow> [])"

definition convertRelabelConfig :: "relabel_config \<Rightarrow> json" where
  "convertRelabelConfig rc = JObj
     ((if rl_source rc \<noteq> [] then [(''sourceLabels'', toAnySlice (rl_source rc))] else [])
      @ setString ''separator'' (or_empty (rl_separator rc))
      @ setString ''targetLabel'' (rl_target rc)
      @ setString ''regex'' (rl_regex rc)
      @ setString ''replacement'' (or_empty (rl_replacement rc))
      @ setString ''action'' (rl_action rc)
      @ (if rl_modulus rc \<noteq> 0 then [(''modulus'', JNum (Itoa (int (rl_modulus rc))))] else []))"

definition convertRelabelConfigs :: "relabel_config list \<Rightarrow> json list" where
  "convertRelabelConfigs rcs = map convertRelabelConfig rcs"

definition convertEndpoint :: "victoria_params \<Rightarrow> monitor_endpoint \<Rightarrow> json" where
  "convertEndpoint p e = JObj
     ((''port'', JStr (me_port e))
      # setString ''path'' (me_path e)
      @ setString ''interval'' (cmp_or (vmp_interval p) (me_interval e))
      @ setString ''scrapeTimeout'' (cmp_or (vmp_timeout p) (me_timeout e))
      @ (if me_params e \<noteq> [] then [(''params'', JObj (map (\<lambda>(k, vs). (k, toAnySlice vs)) (me_params e)))] else [])
      @ (if me_relabel e \<noteq> [] then [(''relabelConfigs'', JArr (convertRelabelConfigs (me_relabel e)))] else [])
      @ (if me_metric_relabel e \<noteq> []
         then [(''metricRelabelConfigs'', JArr (convertRelabelConfigs (me_metric_relabel e)))] else []))"

definition string_map :: "labels \<Rightarrow> json" where
  "string_map ls = JObj (map (\<lambda>(k, v). (k, JStr v)) ls)"

text \<open>\<open>SetLabels\<close> with no labels removes the field.\<close>

definition scrape_metadata :: "meta \<Rightarrow> json" where
  "scrape_metadata m = JObj
     ([(''name'', JStr (m_name m)), (''namespace'', JStr (m_namespace m))]
      @ (if m_labels m \<noteq> [] then [(''labels'', string_map (m_labels m))] else [])
      @ [(''annotations'', string_map [(vmIgnorePrometheusUpdatesAnnotation, ''enabled'')])])"

definition desiredVMServiceScrape ::
  "env \<Rightarrow> instance_cr \<Rightarrow> mariadb \<Rightarrow> victoria_params \<Rightarrow> err + unstructured" where
  "desiredVMServiceScrape E c mdb params =
     ebind (ewrap ''build ServiceMonitor'' (e_build_monitor E mdb)) (\<lambda>sm.
     let m = e_object_meta E c (bm_name sm) in Inr
       \<lparr> un_meta = (empty_meta (m_namespace m) (m_name m))
           \<lparr>m_labels := m_labels m, m_annotations := [(vmIgnorePrometheusUpdatesAnnotation, ''enabled'')]\<rparr>,
         un_object =
           [(''apiVersion'', JStr ''operator.victoriametrics.com/v1beta1''),
            (''kind'', JStr ''VMServiceScrape''),
            (''metadata'', scrape_metadata m),
            (''spec'', JObj
               [(''selector'', JObj [(''matchLabels'', string_map (bm_selector sm))]),
                (''namespaceSelector'', JObj [(''matchNames'', toAnySlice (bm_namespaces sm))]),
                (''endpoints'', JArr (map (convertEndpoint params) (bm_endpoints sm)))])] \<rparr>)"

subsection \<open>Adoption, application, removal\<close>

definition vmServiceScrapeName :: "env \<Rightarrow> string \<Rightarrow> string" where
  "vmServiceScrapeName E i = e_metrics_name E i"

definition drop_controllers :: "meta \<Rightarrow> meta" where
  "drop_controllers m = m\<lparr>m_owners := filter (\<lambda>r. \<not> is_controller r) (m_owners m)\<rparr>"

definition adoptVMServiceScrape :: "env \<Rightarrow> instance_cr \<Rightarrow> string \<Rightarrow> unit go" where
  "adoptVMServiceScrape E c name =
     on_get ''get VMServiceScrape'' (api_get KVMServiceScrape (e_scrapes E) (key_of c name))
       (ret ())
       (\<lambda>existing.
          if is_controlled_by (un_meta existing) (in_uid c) \<or> controller_of (un_meta existing) = None then ret ()
          else wrap_err (''adopt VMServiceScrape '' @ quote name)
                 (api_patch E (OUnstructured (existing\<lparr>un_meta := drop_controllers (un_meta existing)\<rparr>))))"

definition teardownVMServiceScrape :: "env \<Rightarrow> instance_cr \<Rightarrow> unit go" where
  "teardownVMServiceScrape E c =
     on_lookup ''get VMServiceScrape for teardown''
       (api_get KVMServiceScrape (e_scrapes E) (key_of c (vmServiceScrapeName E (in_name c))))
       (ret ())
       (\<lambda>vs. if \<not> is_controlled_by (un_meta vs) (in_uid c) \<or> m_deleting (un_meta vs) then ret ()
             else wrap_err (''delete VMServiceScrape '' @ quote (m_name (un_meta vs)))
                    (api_delete KVMServiceScrape (e_scrapes E) (meta_key (un_meta vs))))"

definition SyncVMServiceScrape :: "env \<Rightarrow> instance_cr \<Rightarrow> unit go" where
  "SyncVMServiceScrape E c =
     bnd (lift (monitoringParams E c)) (\<lambda>params.
     if \<not> isVictoriaMetricsEnabled params then teardownVMServiceScrape E c
     else bnd (wrap_err ''get MariaDB'' (api_get KMariaDB (e_mariadbs E) (key_of c (in_name c)))) (\<lambda>mdb.
     if \<not> e_metrics_enabled E mdb then ret ()
     else bnd (lift (desiredVMServiceScrape E c mdb (mop_victoria (the params)))) (\<lambda>desired.
       bnd (adoptVMServiceScrape E c (m_name (un_meta desired))) (\<lambda>_.
       wrap_err ''apply VMServiceScrape'' (api_apply E KVMServiceScrape (un_object desired))))))"

definition vmServiceScrapeCRDInstalled :: "env \<Rightarrow> bool go" where
  "vmServiceScrapeCRDInstalled E =
     attempt (look_up_crd E) (case_sum
       (\<lambda>e. if is_no_match e then ret False else fail (Wrapped ''look up VMServiceScrape CRD'' e))
       (\<lambda>_. ret True))"

lemma emits_on_lookup [post_intros]:
  "emits P m \<Longrightarrow> emits P a \<Longrightarrow> (\<And>x. emits P (f x)) \<Longrightarrow> emits P (on_lookup msg m a f)"
  unfolding on_lookup_def by (intro post_intros)

lemma emits_on_lookup_yields:
  assumes "emits P m" and "yields Q m" and "emits P a" and "\<And>x. Q x \<Longrightarrow> emits P (f x)"
  shows "emits P (on_lookup msg m a f)"
proof -
  have "emits P (on_lookup msg m a f) = emits P
      (attempt m (case_sum (\<lambda>e. if is_not_found e \<or> is_no_match e then a else fail (Wrapped msg e)) f))"
    by (simp add: on_lookup_def)
  also have "\<dots>"
  proof (unfold emits_def, rule post_attempt)
    show "post m (\<lambda>r new. list_all P new \<and> (case r of Inr x \<Rightarrow> Q x | Inl _ \<Rightarrow> True))"
      using assms(1,2) unfolding emits_def post_def yields_def
      by (metis (mono_tags, lifting) prod.collapse sum.case_eq_if sum.collapse(2))
    show "post (case_sum (\<lambda>e. if is_not_found e \<or> is_no_match e then a else fail (Wrapped msg e)) f r)
        (\<lambda>_ n2. list_all P (n1 @ n2))"
      if "list_all P n1 \<and> (case r of Inr x \<Rightarrow> Q x | Inl _ \<Rightarrow> True)" for r n1
      using that assms(3,4) unfolding emits_def
      by (cases r) (auto intro: post_fail elim!: post_weaken)
  qed
  finally show ?thesis .
qed

subsection \<open>Scraped once\<close>

text \<open>
  With monitoring parameters left at their defaults the exporter is scraped by one of
  the two: the ServiceMonitor exactly when metrics are on and VictoriaMetrics is not, and
  the VMServiceScrape exactly when both are on. Only an explicit ServiceMonitor switch can
  turn both on, and nothing is scraped while metrics are off.
\<close>

theorem scraped_once:
  "(smp_enabled (mop_monitor p) = None \<longrightarrow>
      (isServiceMonitorEnabled (Some p) \<longleftrightarrow> mop_enabled p \<and> \<not> isVictoriaMetricsEnabled (Some p)))
   \<and> (isServiceMonitorEnabled (Some p) \<and> isVictoriaMetricsEnabled (Some p) \<longrightarrow>
      smp_enabled (mop_monitor p) = Some True)
   \<and> (\<not> mop_enabled p \<longrightarrow> \<not> isServiceMonitorEnabled (Some p) \<and> \<not> isVictoriaMetricsEnabled (Some p))"
  by (auto simp: isServiceMonitorEnabled_def isVictoriaMetricsEnabled_def split: option.splits)

theorem scraped_once_witness:
  "isServiceMonitorEnabled (Some (no_monitoring_params\<lparr>mop_enabled := True\<rparr>))"
  using scraped_once [of "no_monitoring_params\<lparr>mop_enabled := True\<rparr>"]
  by (simp add: no_monitoring_params_def isVictoriaMetricsEnabled_def)

subsection \<open>Other controllers' objects are left alone\<close>

text \<open>
  The writes monitoring may cause: deleting an object its own controller made (the
  operator's ServiceMonitor under the MariaDB, the VMServiceScrape under the Instance),
  taking a foreign VMServiceScrape over by dropping its controller references and nothing
  else, and applying the desired one.
\<close>

fun monitoring_write :: "env \<Rightarrow> instance_cr \<Rightarrow> request \<Rightarrow> bool" where
  "monitoring_write E c (ReqDelete KServiceMonitor k) =
     (\<exists>l l' mdb sm k'. ep_get (e_mariadbs E) l (key_of c (in_name c)) = Inr mdb
        \<and> e_metrics_enabled E mdb \<and> \<not> e_monitor_enabled E mdb
        \<and> ep_get (e_monitors E) l' k' = Inr sm \<and> k = meta_key (un_meta sm)
        \<and> is_controlled_by (un_meta sm) (m_uid (md_meta mdb)) \<and> \<not> m_deleting (un_meta sm))"
| "monitoring_write E c (ReqDelete KVMServiceScrape k) =
     (\<exists>l vs k'. ep_get (e_scrapes E) l k' = Inr vs \<and> k = meta_key (un_meta vs)
        \<and> is_controlled_by (un_meta vs) (in_uid c) \<and> \<not> m_deleting (un_meta vs))"
| "monitoring_write E c (ReqPatch ob) =
     (\<exists>l k x r. ep_get (e_scrapes E) l k = Inr x \<and> controller_of (un_meta x) = Some r \<and> or_uid r \<noteq> in_uid c
        \<and> ob = OUnstructured (x\<lparr>un_meta := (un_meta x)\<lparr>m_owners := filter (\<lambda>r. \<not> is_controller r) (m_owners (un_meta x))\<rparr>\<rparr>))"
| "monitoring_write E c (ReqApply K js) =
     (K = KVMServiceScrape \<and> (\<exists>mdb p d. desiredVMServiceScrape E c mdb p = Inr d \<and> js = un_object d))"
| "monitoring_write E c q = (\<not> is_write q)"

lemma SyncServiceMonitor_writes:
  "emits (\<lambda>e. monitoring_write E c (fst e)) (SyncServiceMonitor E c)"
proof -
  have look: "emits (\<lambda>e. monitoring_write E c (fst e))
     (on_lookup ''get ServiceMonitor''
       (api_get KServiceMonitor (e_monitors E) (key_of c (e_metrics_name E (m_name (md_meta mdb)))))
       (ret ())
       (\<lambda>sm. if \<not> is_controlled_by (un_meta sm) (m_uid (md_meta mdb)) \<or> m_deleting (un_meta sm) then ret ()
             else wrap_err (''delete ServiceMonitor '' @ quote (m_name (un_meta sm)))
                    (api_delete KServiceMonitor (e_monitors E) (meta_key (un_meta sm)))))"
    if "\<exists>l. ep_get (e_mariadbs E) l (key_of c (in_name c)) = Inr mdb"
      and "\<not> (\<not> e_metrics_enabled E mdb \<or> e_monitor_enabled E mdb)" for mdb
    by (rule emits_on_lookup_yields [OF _ yields_served]; intro post_intros)
       (use that in \<open>auto simp del: split_paired_Ex, blast\<close>)
  show ?thesis
    unfolding SyncServiceMonitor_def
    by (intro emits_bnd [OF emits_lift] emits_if emits_ret
          emits_bnd_yields [OF _ yields_wrap_err [OF yields_served]] look post_intros) simp_all
qed

lemma adoptVMServiceScrape_writes:
  "emits (\<lambda>e. monitoring_write E c (fst e)) (adoptVMServiceScrape E c name)"
proof -
  have "monitoring_write E c (ReqPatch (OUnstructured (x\<lparr>un_meta := drop_controllers (un_meta x)\<rparr>)))"
    if x: "\<exists>l. ep_get (e_scrapes E) l (key_of c name) = Inr x"
      and foreign: "\<not> (is_controlled_by (un_meta x) (in_uid c) \<or> controller_of (un_meta x) = None)" for x
  proof -
    from foreign obtain r where "controller_of (un_meta x) = Some r" "or_uid r \<noteq> in_uid c"
      by (auto simp: is_controlled_by_def split: option.splits)
    with x show ?thesis by (simp add: drop_controllers_def del: split_paired_Ex) blast
  qed
  then show ?thesis
    unfolding adoptVMServiceScrape_def
    by (intro emits_on_get_yields [OF _ yields_served] post_intros) (simp_all del: split_paired_Ex monitoring_write.simps(3))
qed

lemma teardownVMServiceScrape_writes:
  "emits (\<lambda>e. monitoring_write E c (fst e)) (teardownVMServiceScrape E c)"
  unfolding teardownVMServiceScrape_def
  by (intro emits_on_lookup_yields [OF _ yields_served] post_intros) (auto simp del: split_paired_Ex)

lemma SyncVMServiceScrape_writes:
  "emits (\<lambda>e. monitoring_write E c (fst e)) (SyncVMServiceScrape E c)"
  unfolding SyncVMServiceScrape_def
  by (intro emits_bnd [OF emits_lift] emits_if emits_ret teardownVMServiceScrape_writes
        emits_bnd adoptVMServiceScrape_writes
        emits_bnd_yields [OF emits_lift, where Q = "\<lambda>d. \<exists>mdb p. desiredVMServiceScrape E c mdb p = Inr d"]
        yields_lift post_intros) auto

text \<open>
  C33: Monitoring only deletes what the right controller made and is not being deleted
  already: the operator's ServiceMonitor, once the MariaDB itself no longer wants it, and
  the VMServiceScrape of this Instance. One controlled by somebody else is taken over by a
  patch that removes its controller references and keeps every other owner, and the only
  thing applied is the desired VMServiceScrape.
\<close>

theorem monitoring_writes:
  assumes "SyncServiceMonitor E c l = (r1, l1)" and "SyncVMServiceScrape E c l1 = (r2, l2)"
  shows "\<exists>new. l2 = l @ new \<and> list_all (\<lambda>e. monitoring_write E c (fst e)) new"
  using emitsD [OF SyncServiceMonitor_writes assms(1)] emitsD [OF SyncVMServiceScrape_writes assms(2)]
  by auto

definition foreign_scrape :: unstructured where
  "foreign_scrape = \<lparr> un_meta = (empty_meta ''ns'' ''db-metrics'')\<lparr>m_owners :=
       [\<lparr> or_kind = ''ServiceMonitor'', or_name = ''db-metrics'', or_uid = ''other'', or_controller = Some True \<rparr>]\<rparr>,
     un_object = [] \<rparr>"

theorem monitoring_writes_witness:
  "\<exists>new. snd (SyncVMServiceScrape (mem_env (empty_world\<lparr>w_scrapes := [foreign_scrape]\<rparr>)) (plain_instance ''galera'')
        (snd (SyncServiceMonitor (mem_env (empty_world\<lparr>w_scrapes := [foreign_scrape]\<rparr>)) (plain_instance ''galera'') [])))
      = [] @ new
     \<and> list_all (\<lambda>e. monitoring_write (mem_env (empty_world\<lparr>w_scrapes := [foreign_scrape]\<rparr>)) (plain_instance ''galera'')
         (fst e)) new"
  by (rule monitoring_writes [OF prod.collapse [symmetric] prod.collapse [symmetric]])

end
