(* ===== verification/MaxScale.thy ===== *)
theory MaxScale
  imports Backup Images Tls Affinity Apply Services Monitoring
begin

section \<open>MaxScale\<close>

text \<open>
  \<open>maxscale.go\<close>: the proxy in front of an HA cluster. Only the fields the provider owns are
  declared; the resource is applied when the proxy is enabled and deleted when it is not.
\<close>

definition maxScaleDefaultReplicas :: int where "maxScaleDefaultReplicas = 2"

definition isProxyEnabled :: "env \<Rightarrow> instance_cr \<Rightarrow> err + bool" where
  "isProxyEnabled E c =
     (case component c ComponentProxy of
        None \<Rightarrow> Inr False
      | Some proxy \<Rightarrow>
         (case cs_parameters proxy of
            Some (Some _) \<Rightarrow> ebind (ewrap ''decode proxy parameters'' (e_decode_proxy E proxy)) (\<lambda>p. Inr (mxp_enabled p))
          | _ \<Rightarrow> Inr False))"

subsection \<open>The desired resource\<close>

definition maxScaleTopologyParams :: "string list" where
  "maxScaleTopologyParams = [''auto_failover'', ''auto_rejoin'', ''switchover_on_low_disk_space'']"

definition maxScaleMonitorParams :: labels where
  "maxScaleMonitorParams = map (\<lambda>p. (p, ''false'')) maxScaleTopologyParams"

definition zero_scheduling :: scheduling_policy where
  "zero_scheduling = \<lparr> sp_affinity = None, sp_node_selector = [], sp_tolerations = [], sp_spread = [] \<rparr>"

definition desiredMaxScale :: "env \<Rightarrow> instance_cr \<Rightarrow> err + maxscale" where
  "desiredMaxScale E c =
     (let proxy = component_or_zero c ComponentProxy;
          name = maxScaleName (in_name c);
          scheduling = deref (cs_scheduling proxy) zero_scheduling
      in ebind (resolveMaxScaleImage E c) (\<lambda>image.
         ebind (ewrap ''resolve TLS settings'' (resolveTLSSettings E c)) (\<lambda>tls. Inr
           \<lparr> mx_meta = e_object_meta E c name,
             mx_spec =
               \<lparr> xs_ref = Some (mariadb_ref c), xs_image = image,
                 xs_replicas = deref (cs_replicas proxy) maxScaleDefaultReplicas,
                 xs_service = configureService E (cs_service proxy),
                 xs_tls = Some (ts_enabled tls \<and> ts_required tls),
                 xs_resources = declared_resources (cs_resources proxy),
                 xs_affinity = buildAffinity (sp_affinity scheduling) True name,
                 xs_node_selector = sp_node_selector scheduling,
                 xs_tolerations = sp_tolerations scheduling,
                 xs_spread = convertTopologySpreadConstraints (e_topology_spread E scheduling (maxScalePodLabels name)),
                 xs_pod_labels = Some (e_pod_labels E c ComponentProxy),
                 xs_monitor_params = (if isReplicationTopology c then maxScaleMonitorParams else []) \<rparr>,
             mx_conditions = [] \<rparr>)))"

subsection \<open>Application\<close>

text \<open>\<open>unstructured.RemoveNestedField\<close>\<close>

fun remove_nested :: "string list \<Rightarrow> (string \<times> json) list \<Rightarrow> (string \<times> json) list" where
  "remove_nested [] m = m"
| "remove_nested [k] m = delete_key k m"
| "remove_nested (k # k' # ks) m =
     map (\<lambda>(a, v). if a = k then (a, case v of JObj child \<Rightarrow> JObj (remove_nested (k' # ks) child) | _ \<Rightarrow> v)
                   else (a, v)) m"

definition pruneMaxScaleZeroDefaults :: "(string \<times> json) list \<Rightarrow> (string \<times> json) list" where
  "pruneMaxScaleZeroDefaults m =
     pruneUnset (remove_nested [''spec'', ''monitor'', ''interval'']
       (remove_nested [''spec'', ''admin'', ''port''] m))"

definition teardownMaxScale :: "env \<Rightarrow> instance_cr \<Rightarrow> unit go" where
  "teardownMaxScale E c =
     on_get ''get MaxScale for teardown'' (api_get KMaxScale (e_maxscales E) (key_of c (maxScaleName (in_name c))))
       (ret ())
       (\<lambda>m. if m_deleting (mx_meta m) then ret ()
            else wrap_err (''delete MaxScale '' @ quote (m_name (mx_meta m)))
                   (api_delete KMaxScale (e_maxscales E) (meta_key (mx_meta m))))"

definition SyncMaxScale :: "env \<Rightarrow> instance_cr \<Rightarrow> unit go" where
  "SyncMaxScale E c =
     bnd (lift (isProxyEnabled E c)) (\<lambda>enabled.
     if \<not> enabled then teardownMaxScale E c
     else bnd (lift (desiredMaxScale E c)) (\<lambda>desired.
       bnd (on_get ''get MaxScale'' (api_get KMaxScale (e_maxscales E) (key_of c (m_name (mx_meta desired))))
              (ret ())
              (migrateFieldOwnership E OMaxScale (e_maxscales E) mx_meta (\<lambda>m x. x\<lparr>mx_meta := m\<rparr>))) (\<lambda>_.
       bnd (lift (toApplyObject E KMaxScale (e_unstruct_maxscale E) desired)) (\<lambda>ob.
       wrap_err ''apply MaxScale'' (api_apply E KMaxScale (pruneMaxScaleZeroDefaults ob))))))"

text \<open>The MaxScale once it is ready, or what is waited for.\<close>

definition readyMaxScale :: "env \<Rightarrow> instance_cr \<Rightarrow> (string + maxscale) go" where
  "readyMaxScale E c =
     on_get ''get MaxScale'' (api_get KMaxScale (e_maxscales E) (key_of c (maxScaleName (in_name c))))
       (ret (Inl ''Waiting for MaxScale proxy to be created''))
       (\<lambda>m. if e_mxs_ready E m then ret (Inr m)
            else ret (Inl (case find (\<lambda>x. cn_type x = TypeReady \<and> cn_message x \<noteq> []) (mx_conditions m) of
                Some x \<Rightarrow> ''MaxScale: '' @ cn_message x
              | None \<Rightarrow> ''Waiting for MaxScale proxy to be ready'')))"

subsection \<open>Properties\<close>

text \<open>
  MaxScale never competes with the operator: on the replication topology its three
  topology-changing monitor operations are declared false, on the others no monitor
  parameter is declared. Its listeners demand TLS exactly when the engine has TLS enabled
  and requires it of clients, and it always refers to the Instance's own MariaDB.
\<close>

theorem desiredMaxScale_declares:
  assumes "desiredMaxScale E c = Inr m"
  shows "(isReplicationTopology c \<longrightarrow> (\<forall>p \<in> set maxScaleTopologyParams. map_of (xs_monitor_params (mx_spec m)) p = Some ''false''))
     \<and> (\<not> isReplicationTopology c \<longrightarrow> xs_monitor_params (mx_spec m) = [])
     \<and> (\<exists>t. buildTLS E c = Inr t \<and> xs_tls (mx_spec m) = Some (tl_enabled t \<and> tl_required t = Some True))
     \<and> xs_ref (mx_spec m) = Some (mariadb_ref c)
     \<and> xs_replicas (mx_spec m) = (case cs_replicas (component_or_zero c ComponentProxy) of Some n \<Rightarrow> n | None \<Rightarrow> 2)"
proof -
  from assms obtain image tls where i: "resolveMaxScaleImage E c = Inr image"
    and t: "resolveTLSSettings E c = Inr tls"
    by (auto simp: desiredMaxScale_def Let_def)
  from assms i t have spec: "xs_monitor_params (mx_spec m) = (if isReplicationTopology c then maxScaleMonitorParams else [])"
    "xs_tls (mx_spec m) = Some (ts_enabled tls \<and> ts_required tls)" "xs_ref (mx_spec m) = Some (mariadb_ref c)"
    "xs_replicas (mx_spec m) = deref (cs_replicas (component_or_zero c ComponentProxy)) maxScaleDefaultReplicas"
    by (auto simp: desiredMaxScale_def Let_def)
  have "\<forall>p \<in> set maxScaleTopologyParams. map_of maxScaleMonitorParams p = Some ''false''" by code_simp
  with spec t show ?thesis
    by (auto simp: buildTLS_def deref_def maxScaleDefaultReplicas_def split: option.splits)
qed

definition proxy_instance :: "string \<Rightarrow> instance_cr" where
  "proxy_instance topology = (plain_instance topology)
     \<lparr>in_components := [(''engine'', zero_component), (''proxy'', zero_component\<lparr>cs_parameters := Some (Some ''{}'')\<rparr>)]\<rparr>"

theorem desiredMaxScale_declares_witness:
  "\<exists>m. desiredMaxScale (mem_env empty_world) (proxy_instance ''replication'') = Inr m
     \<and> (\<forall>p \<in> set maxScaleTopologyParams. map_of (xs_monitor_params (mx_spec m)) p = Some ''false'')"
proof -
  obtain m where m: "desiredMaxScale (mem_env empty_world) (proxy_instance ''replication'') = Inr m"
    by (simp add: desiredMaxScale_def resolveMaxScaleImage_def resolveTLSSettings_def proxy_instance_def
        plain_instance_def component_or_zero_def component_def mem_env_def zero_component_def Let_def
        ComponentProxy_def ComponentEngine_def no_tls_params_def)
  moreover have "isReplicationTopology (proxy_instance ''replication'')" by code_simp
  ultimately show ?thesis using desiredMaxScale_declares [OF m] by blast
qed

text \<open>What enabling or disabling the proxy writes.\<close>

fun maxscale_write :: "env \<Rightarrow> instance_cr \<Rightarrow> request \<Rightarrow> bool" where
  "maxscale_write E c (ReqDelete K k) =
     (K = KMaxScale \<and> isProxyEnabled E c = Inr False
      \<and> (\<exists>l x. ep_get (e_maxscales E) l (key_of c (maxScaleName (in_name c))) = Inr x \<and> k = meta_key (mx_meta x)))"
| "maxscale_write E c (ReqApply K js) =
     (K = KMaxScale \<and> isProxyEnabled E c = Inr True
      \<and> (\<exists>m ob. desiredMaxScale E c = Inr m \<and> toApplyObject E KMaxScale (e_unstruct_maxscale E) m = Inr ob
           \<and> js = pruneMaxScaleZeroDefaults ob))"
| "maxscale_write E c (ReqUpdate ob) =
     (isProxyEnabled E c = Inr True \<and> (\<exists>l k x m. ep_get (e_maxscales E) l k = Inr x
        \<and> hasLegacyUpdateManager (m_managed (mx_meta x)) \<and> ob = OMaxScale (x\<lparr>mx_meta := m\<rparr>)))"
| "maxscale_write E c q = (\<not> is_write q)"

lemma teardownMaxScale_writes:
  "emits (\<lambda>e. case fst e of ReqDelete K k \<Rightarrow> K = KMaxScale
        \<and> (\<exists>l x. ep_get (e_maxscales E) l (key_of c (maxScaleName (in_name c))) = Inr x \<and> k = meta_key (mx_meta x))
     | q \<Rightarrow> \<not> is_write q) (teardownMaxScale E c)"
  unfolding teardownMaxScale_def
  by (intro emits_on_get_yields [OF _ yields_served] post_intros) auto

lemma SyncMaxScale_writes_of: "emits (\<lambda>e. maxscale_write E c (fst e)) (SyncMaxScale E c)"
proof -
  let ?P = "\<lambda>e. maxscale_write E c (fst e)"
  have on_case: "emits ?P
     (bnd (lift (desiredMaxScale E c)) (\<lambda>desired.
       bnd (on_get ''get MaxScale'' (api_get KMaxScale (e_maxscales E) (key_of c (m_name (mx_meta desired))))
              (ret ())
              (migrateFieldOwnership E OMaxScale (e_maxscales E) mx_meta (\<lambda>m x. x\<lparr>mx_meta := m\<rparr>))) (\<lambda>_.
       bnd (lift (toApplyObject E KMaxScale (e_unstruct_maxscale E) desired)) (\<lambda>ob.
       wrap_err ''apply MaxScale'' (api_apply E KMaxScale (pruneMaxScaleZeroDefaults ob))))))"
    if on: "isProxyEnabled E c = Inr True"
  proof (rule emits_bnd_yields [where Q = "\<lambda>d. desiredMaxScale E c = Inr d"])
    fix d assume d: "desiredMaxScale E c = Inr d"
    have migrate: "emits ?P (migrateFieldOwnership E OMaxScale (e_maxscales E) mx_meta (\<lambda>m x. x\<lparr>mx_meta := m\<rparr>) x)"
      if "\<exists>l. ep_get (e_maxscales E) l k = Inr x" for x k
      unfolding migrateFieldOwnership_def
      by (intro post_intros) (use that on in \<open>auto simp del: split_paired_Ex\<close>)
    have ob: "emits ?P (bnd (lift (toApplyObject E KMaxScale (e_unstruct_maxscale E) d)) (\<lambda>ob.
       wrap_err ''apply MaxScale'' (api_apply E KMaxScale (pruneMaxScaleZeroDefaults ob))))"
      by (rule emits_bnd_yields [where Q = "\<lambda>ob. toApplyObject E KMaxScale (e_unstruct_maxscale E) d = Inr ob"])
         (use on d in \<open>auto intro!: post_intros yield_intros\<close>)
    show "emits ?P (bnd (on_get ''get MaxScale'' (api_get KMaxScale (e_maxscales E) (key_of c (m_name (mx_meta d))))
              (ret ())
              (migrateFieldOwnership E OMaxScale (e_maxscales E) mx_meta (\<lambda>m x. x\<lparr>mx_meta := m\<rparr>))) (\<lambda>_.
       bnd (lift (toApplyObject E KMaxScale (e_unstruct_maxscale E) d)) (\<lambda>ob.
       wrap_err ''apply MaxScale'' (api_apply E KMaxScale (pruneMaxScaleZeroDefaults ob)))))"
      by (rule emits_bnd [OF emits_on_get_yields [OF _ yields_served _ migrate] ob]) (auto intro: post_intros)
  qed (auto intro: post_intros yield_intros)
  have off: "emits ?P (teardownMaxScale E c)" if "isProxyEnabled E c = Inr False"
  proof (rule emits_mono [OF teardownMaxScale_writes])
    fix e :: entry
    assume "case fst e of ReqDelete K k \<Rightarrow> K = KMaxScale
        \<and> (\<exists>l x. ep_get (e_maxscales E) l (key_of c (maxScaleName (in_name c))) = Inr x \<and> k = meta_key (mx_meta x))
     | q \<Rightarrow> \<not> is_write q"
    with that show "?P e" by (cases "fst e") auto
  qed
  show ?thesis
    unfolding SyncMaxScale_def
    by (rule emits_bnd_yields [where Q = "\<lambda>b. isProxyEnabled E c = Inr b"])
       (auto intro: post_intros yield_intros off on_case)
qed

text \<open>
  C32: The proxy follows its switch: while it is enabled the only resource applied is the
  desired MaxScale (and an existing one is updated only to hand its field ownership over),
  while it is disabled nothing is applied and the only deletion is that of the MaxScale of
  this Instance.
\<close>

theorem SyncMaxScale_writes:
  assumes "SyncMaxScale E c l = (r, l')"
  shows "\<exists>new. l' = l @ new \<and> list_all (\<lambda>e. maxscale_write E c (fst e)) new"
  using emitsD [OF SyncMaxScale_writes_of assms] .

theorem SyncMaxScale_writes_witness:
  "\<exists>new. snd (SyncMaxScale (mem_env empty_world) (proxy_instance ''galera'') []) = [] @ new
     \<and> list_all (\<lambda>e. maxscale_write (mem_env empty_world) (proxy_instance ''galera'') (fst e)) new"
  by (rule SyncMaxScale_writes [OF prod.collapse [symmetric]])

end
