(* ===== verification/DataSource.thy ===== *)
theory DataSource
  imports Backup
begin

section \<open>Seeding a new Instance\<close>

text \<open>
  \<open>datasource.go\<close>: the bootstrap source of a brand-new MariaDB, the copy of the source's
  credentials that must precede it, and the status of the seeding.
\<close>

subsection \<open>The bootstrap source\<close>

text \<open>The bootstrap block, if any, with the name of the source Instance.\<close>

definition resolveBackupBootstrapFrom ::
  "env \<Rightarrow> instance_cr \<Rightarrow> data_source \<Rightarrow> (bootstrap_from option \<times> string) go" where
  "resolveBackupBootstrapFrom E c ds =
     (case ds_backup ds of
        None \<Rightarrow> ret (None, [])
      | Some n \<Rightarrow>
         on_get ''get source Backup'' (api_get KEvBackup (e_ev_backups E) (key_of c n))
           (fail (WaitFor (''Waiting for source Backup '' @ quote n)))
           (\<lambda>src. bnd (lift (backup_params_of (e_json_error E) (eb_parameters src))) (\<lambda>params.
             if eb_state src = StateFailed then
               fail (DataSourceConfigError ''SourceBackupNotSucceeded''
                 (''source Backup '' @ quote (m_name (eb_meta src)) @ '' failed; cannot seed''))
             else if eb_state src \<noteq> StateSucceeded then
               fail (WaitFor (''Waiting for source Backup '' @ quote (m_name (eb_meta src)) @ '' to succeed''))
             else (case eb_origin src of
                 None \<Rightarrow> fail (Panic ''nil pointer dereference'')
               | Some sourceInstance \<Rightarrow>
                   bnd (buildOperatorS3 E (eb_storage src) sourceInstance) (\<lambda>s3.
                   ret (Some \<lparr> bf_s3 = Some s3,
                               bf_content = (if isPhysical params then Physical else Logical),
                               bf_target_time = eb_completed src, bf_pitr = None \<rparr>,
                        sourceInstance))))))"

definition resolvePointInTimeBootstrapFrom ::
  "env \<Rightarrow> instance_cr \<Rightarrow> data_source \<Rightarrow> (bootstrap_from option \<times> string) go" where
  "resolvePointInTimeBootstrapFrom E c ds =
     (case ds_pit ds of
        None \<Rightarrow> ret (None, [])
      | Some pit \<Rightarrow>
         if pit_instance pit = None \<or> pit_instance pit = Some [] then
           fail (DataSourceConfigError ''DataSourceFailed''
             ''dataSource.pointInTime.source.instanceRef is required to seed a new Instance'')
         else if pit_to_date pit \<and> pit_date pit = None then
           fail (DataSourceConfigError ''DataSourceFailed''
             (''dataSource.pointInTime.date is required when recoveryTarget is '' @ quote ''date''))
         else let sourceInstance = (case pit_instance pit of Some n \<Rightarrow> n | None \<Rightarrow> []);
                  pitrName = pitrCRName sourceInstance in
           on_get ''get source PointInTimeRecovery'' (api_get KPITR (e_pitrs E) (key_of c pitrName))
             (fail (WaitFor (''Waiting for source PointInTimeRecovery '' @ quote pitrName)))
             (\<lambda>_. ret (Some \<lparr> bf_s3 = None, bf_content = Physical,
                              bf_target_time = (if pit_to_date pit then pit_date pit else None),
                              bf_pitr = Some pitrName \<rparr>,
                       sourceInstance)))"

definition resolveBootstrapFrom :: "env \<Rightarrow> instance_cr \<Rightarrow> (bootstrap_from option \<times> string) go" where
  "resolveBootstrapFrom E c =
     (case in_datasource c of
        None \<Rightarrow> ret (None, [])
      | Some ds \<Rightarrow>
         (case ds_type ds of
            DSBackup \<Rightarrow> resolveBackupBootstrapFrom E c ds
          | DSPointInTime \<Rightarrow> resolvePointInTimeBootstrapFrom E c ds
          | DSOther _ \<Rightarrow> ret (None, [])))"

subsection \<open>Credentials\<close>

definition copyInstanceSecret :: "env \<Rightarrow> instance_cr \<Rightarrow> string \<Rightarrow> string \<Rightarrow> unit go" where
  "copyInstanceSecret E c srcName dstName =
     on_get (''get target Secret '' @ quote dstName) (api_get KSecret (e_secrets E) (key_of c dstName))
       (on_get (''get source Secret '' @ quote srcName) (api_get KSecret (e_secrets E) (key_of c srcName))
          (fail (DataSourceConfigError ''DataSourceFailed''
             (''source Instance credentials Secret '' @ quote srcName
               @ '' not found; the source Instance may have been deleted'')))
          (\<lambda>src. bnd (wrap_err (''set owner reference on Secret '' @ quote dstName)
                        (lift (e_set_controller E (instance_owner c) (e_object_meta E c dstName)))) (\<lambda>m.
             attempt (api_create OSecret (e_secrets E)
                        \<lparr> se_meta = m, se_type = se_type src, se_data = se_data src \<rparr>)
               (case_sum (\<lambda>e. if is_already_exists e then ret ()
                              else fail (Wrapped (''create target Secret '' @ quote dstName) e))
                         (\<lambda>_. ret ())))))
       (\<lambda>_. ret ())"

definition ensureRestoreCredentials :: "env \<Rightarrow> instance_cr \<Rightarrow> string \<Rightarrow> unit go" where
  "ensureRestoreCredentials E c sourceInstance =
     bnd (copyInstanceSecret E c (rootSecretName sourceInstance) (rootSecretName (in_name c))) (\<lambda>_.
     copyInstanceSecret E c (userSecretName sourceInstance) (userSecretName (in_name c)))"

subsection \<open>The status of the seeding\<close>

definition dataSourceSucceeded :: "string \<Rightarrow> ds_status" where
  "dataSourceSucceeded msg = \<lparr> dss_done = True, dss_state = DSSucceeded, dss_reason = DSSucceeded, dss_message = msg \<rparr>"

definition dataSourceRestoring :: "string \<Rightarrow> ds_status" where
  "dataSourceRestoring msg = \<lparr> dss_done = False, dss_state = DSRestoring, dss_reason = DSRestoring, dss_message = msg \<rparr>"

definition dataSourceFailed :: "string \<Rightarrow> ds_status" where
  "dataSourceFailed msg = \<lparr> dss_done = True, dss_state = DSFailed, dss_reason = DSFailed, dss_message = msg \<rparr>"

definition pointInTimeDataSourceStatus :: "env \<Rightarrow> mariadb \<Rightarrow> ds_status" where
  "pointInTimeDataSourceStatus E mdb =
     (case e_replay_error E mdb of
        Some e \<Rightarrow> dataSourceFailed (''Replaying binary logs failed: '' @ e)
      | None \<Rightarrow>
         if e_is_ready E mdb \<and> e_replay_skipped E mdb then
           dataSourceSucceeded ''Instance recovered from the base backup; no binary logs were available to replay''
         else if e_is_ready E mdb \<and> e_replayed E mdb then
           dataSourceSucceeded ''Instance recovered to the point in time''
         else if e_replaying E mdb then dataSourceRestoring ''Replaying binary logs up to the recovery target''
         else dataSourceRestoring ''Restoring base backup for point-in-time recovery'')"

definition bootstrapRestoreFailed :: "env \<Rightarrow> instance_cr \<Rightarrow> mariadb \<Rightarrow> (bool \<times> string) go" where
  "bootstrapRestoreFailed E c mdb =
     on_get ''get MariaDB restore'' (api_get KRestore (e_restores E) (key_of c (e_restore_name E mdb)))
       (ret (False, []))
       (\<lambda>r. let st = mapRestoreState (rst_conditions r) in ret (ex_state st = StateFailed, ex_message st))"

definition syncDataSourceStatus :: "env \<Rightarrow> instance_cr \<Rightarrow> unit go" where
  "syncDataSourceStatus E c =
     (if in_datasource c = None then ret ()
      else on_get ''get MariaDB'' (api_get KMariaDB (e_mariadbs E) (key_of c (in_name c)))
        (ret ())
        (\<lambda>mdb. case ms_bootstrap (md_spec mdb) of
            None \<Rightarrow> ret ()
          | Some b \<Rightarrow>
             if bf_pitr b \<noteq> None then stage_ds_status (pointInTimeDataSourceStatus E mdb)
             else (case bf_content b of
                 Physical \<Rightarrow>
                   if e_is_ready E mdb then stage_ds_status (dataSourceSucceeded ''Instance seeded from physical backup'')
                   else stage_ds_status (dataSourceRestoring ''Restoring physical backup into new MariaDB cluster'')
               | Logical \<Rightarrow>
                   if e_has_restored E mdb \<and> e_is_ready E mdb then
                     stage_ds_status (dataSourceSucceeded ''Instance seeded from logical backup'')
                   else bnd (bootstrapRestoreFailed E c mdb) (\<lambda>(failed, msg).
                     if failed then stage_ds_status (dataSourceFailed (''Restoring logical backup failed: '' @ msg))
                     else stage_ds_status (dataSourceRestoring ''Restoring logical backup into new MariaDB cluster''))
               | ContentOther _ \<Rightarrow> ret ())))"

subsection \<open>The source is sound\<close>

lemma emits_resolveBootstrapFrom [post_intros]:
  assumes "\<And>e. read_only e \<Longrightarrow> P e"
  shows "emits P (resolveBootstrapFrom E c)"
proof (rule emits_mono [OF _ assms])
  show "emits read_only (resolveBootstrapFrom E c)"
    unfolding resolveBootstrapFrom_def resolveBackupBootstrapFrom_def resolvePointInTimeBootstrapFrom_def Let_def
    by (cases "in_datasource c"; (cases "ds_type (the (in_datasource c))")?) (auto intro!: post_intros)
qed

definition seeds_from :: "env \<Rightarrow> instance_cr \<Rightarrow> bootstrap_from \<Rightarrow> string \<Rightarrow> bool" where
  "seeds_from E c b src \<longleftrightarrow>
     (\<exists>ds l n bk params s. in_datasource c = Some ds \<and> ds_type ds = DSBackup \<and> ds_backup ds = Some n
        \<and> ep_get (e_ev_backups E) l (key_of c n) = Inr bk \<and> eb_state bk = StateSucceeded \<and> eb_origin bk = Some src
        \<and> backup_params_of (e_json_error E) (eb_parameters bk) = Inr params \<and> storage_block E src s
        \<and> b = \<lparr> bf_s3 = Some s, bf_content = (if isPhysical params then Physical else Logical),
                 bf_target_time = eb_completed bk, bf_pitr = None \<rparr>)
     \<or> (\<exists>ds pit l p. in_datasource c = Some ds \<and> ds_type ds = DSPointInTime \<and> ds_pit ds = Some pit
        \<and> pit_instance pit = Some src \<and> src \<noteq> [] \<and> ep_get (e_pitrs E) l (key_of c (pitrCRName src)) = Inr p
        \<and> (pit_to_date pit \<longrightarrow> bf_target_time b \<noteq> None)
        \<and> b = \<lparr> bf_s3 = None, bf_content = Physical,
                 bf_target_time = (if pit_to_date pit then pit_date pit else None), bf_pitr = Some (pitrCRName src) \<rparr>)"

lemma resolveBootstrapFrom_seeds:
  assumes run: "resolveBootstrapFrom E c l = (Inr (Some b, src), l')"
  shows "seeds_from E c b src"
proof -
  from run obtain ds where ds: "in_datasource c = Some ds"
    by (auto simp: resolveBootstrapFrom_def split: option.splits)
  show ?thesis
  proof (cases "ds_type ds")
    case DSBackup
    with run ds obtain n bk params s l1 l2 l3 where n: "ds_backup ds = Some n"
      and bk: "ep_get (e_ev_backups E) l (key_of c n) = Inr bk" "eb_state bk = StateSucceeded" "eb_origin bk = Some src"
      and params: "backup_params_of (e_json_error E) (eb_parameters bk) = Inr params"
      and s: "buildOperatorS3 E (eb_storage bk) src l1 = (Inr s, l2)"
      and b: "b = \<lparr> bf_s3 = Some s, bf_content = (if isPhysical params then Physical else Logical),
                 bf_target_time = eb_completed bk, bf_pitr = None \<rparr>"
      by (auto simp: resolveBootstrapFrom_def resolveBackupBootstrapFrom_def run_simps
          split: option.splits if_splits)
    have "storage_block E src s" by (rule yieldsD [OF yields_storage_block(1) s])
    with ds DSBackup n bk params b show ?thesis unfolding seeds_from_def by blast
  next
    case DSPointInTime
    with run ds obtain pit p where pit: "ds_pit ds = Some pit" "pit_instance pit = Some src" "src \<noteq> []"
      and p: "ep_get (e_pitrs E) l (key_of c (pitrCRName src)) = Inr p"
      and date: "pit_to_date pit \<longrightarrow> pit_date pit \<noteq> None"
      and b: "b = \<lparr> bf_s3 = None, bf_content = Physical,
                 bf_target_time = (if pit_to_date pit then pit_date pit else None), bf_pitr = Some (pitrCRName src) \<rparr>"
      by (auto simp: resolveBootstrapFrom_def resolvePointInTimeBootstrapFrom_def run_simps Let_def
          split: option.splits if_splits)
    from date b have "pit_to_date pit \<longrightarrow> bf_target_time b \<noteq> None" by simp
    with ds DSPointInTime pit p b show ?thesis unfolding seeds_from_def by blast
  next
    case (DSOther t)
    with run ds show ?thesis by (simp add: resolveBootstrapFrom_def)
  qed
qed


text \<open>
  A succeeded source Backup whose origin names no Instance makes the resolution panic on
  a nil pointer, whatever else it holds; the in-place restore tolerates the same Backup.
\<close>

theorem bootstrap_origin_panics:
  assumes "in_datasource c = Some \<lparr> ds_type = DSBackup, ds_backup = Some n, ds_pit = None \<rparr>"
    and "ep_get (e_ev_backups E) l (key_of c n) = Inr bk"
    and "backup_params_of (e_json_error E) (eb_parameters bk) = Inr params" "\<not> isPhysical params"
    and "eb_state bk = StateSucceeded" and "eb_origin bk = None"
  shows "fst (resolveBootstrapFrom E c l) = Inl (Panic ''nil pointer dereference'')
     \<and> restore_source (e_json_error E) r bk = Inr (Inr (operator_backup_name bk))"
  using assms
  by (auto simp: resolveBootstrapFrom_def resolveBackupBootstrapFrom_def on_get_def api_get_def request_def
      attempt_def bnd_def restore_source_iff restorable_def)

definition seed_world :: world where
  "seed_world = backup_world\<lparr>w_ev_backups := [plain_backup, plain_backup\<lparr>eb_meta := empty_meta ''ns'' ''b2'', eb_origin := None\<rparr>]\<rparr>"

definition seeded_instance :: "string \<Rightarrow> instance_cr" where
  "seeded_instance n = (plain_instance ''standalone'')
     \<lparr>in_datasource := Some \<lparr> ds_type = DSBackup, ds_backup = Some n, ds_pit = None \<rparr>\<rparr>"


theorem bootstrap_origin_panics_witness:
  "fst (resolveBootstrapFrom (mem_env seed_world) (seeded_instance ''b2'') []) = Inl (Panic ''nil pointer dereference'')"
proof (rule bootstrap_origin_panics [THEN conjunct1])
  let ?bk = "plain_backup\<lparr>eb_meta := stamp_meta (empty_meta ''ns'' ''b2''), eb_origin := None\<rparr>"
  show "in_datasource (seeded_instance ''b2'') = Some \<lparr> ds_type = DSBackup, ds_backup = Some ''b2'', ds_pit = None \<rparr>"
    by (simp add: seeded_instance_def)
  show "ep_get (e_ev_backups (mem_env seed_world)) [] (key_of (seeded_instance ''b2'') ''b2'') = Inr ?bk"
    by code_simp
  show "backup_params_of (e_json_error (mem_env seed_world)) (eb_parameters ?bk) = Inr zero_backup_params"
    by (simp add: plain_backup_def)
qed (simp_all add: plain_backup_def)

subsection \<open>Credentials are copied, never overwritten\<close>

text \<open>
  After a credentials Secret has been copied, the target exists: it is the Secret that
  was there before, untouched, or a new one with exactly the type and the data of the
  source's. (If another writer created it in between, the server says so and that one is
  kept.)
\<close>

theorem credentials_copied:
  assumes laws: "faithful_endpoint OSecret (e_secrets E) se_meta"
    and keep: "keeps_content (e_secrets E) (\<lambda>s. (se_type s, se_data s))"
    and own: "lawful_owner E" and meta: "meta_key (e_object_meta E c dst) = key_of c dst"
    and run: "copyInstanceSecret E c src dst l = (Inr (), l')"
  shows "(\<exists>s. ep_get (e_secrets E) l' (key_of c dst) = Inr s \<and>
       (ep_get (e_secrets E) l (key_of c dst) = Inr s
        \<or> (\<exists>e l1 x. ep_get (e_secrets E) l (key_of c dst) = Inl e \<and> is_not_found e
             \<and> ep_get (e_secrets E) l1 (key_of c src) = Inr x \<and> se_type s = se_type x \<and> se_data s = se_data x)))
     \<or> (\<exists>x e. (ReqCreate (OSecret x), Some e) \<in> set l' \<and> is_already_exists e)"
proof -
  let ?kd = "key_of c dst" and ?ks = "key_of c src"
  show ?thesis
  proof (cases "ep_get (e_secrets E) l ?kd")
    case (Inr s)
    with run have "l' = l @ [(ReqGet KSecret ?kd, None)]"
      by (auto simp: copyInstanceSecret_def on_get_def attempt_def api_get_def request_def)
    with get_after_reads [OF laws, of "[(ReqGet KSecret ?kd, None)]" l ?kd] Inr show ?thesis by auto
  next
    case (Inl e)
    let ?l2 = "l @ [(ReqGet KSecret ?kd, Some e), (ReqGet KSecret ?ks, None)]"
    from Inl run obtain x m where nf: "is_not_found e" and x: "ep_get (e_secrets E) (l @ [(ReqGet KSecret ?kd, Some e)]) ?ks = Inr x"
      and m: "e_set_controller E (instance_owner c) (e_object_meta E c dst) = Inr m"
      and fin: "attempt (api_create OSecret (e_secrets E) \<lparr> se_meta = m, se_type = se_type x, se_data = se_data x \<rparr>)
               (case_sum (\<lambda>e. if is_already_exists e then ret ()
                              else fail (Wrapped (''create target Secret '' @ quote dst) e))
                         (\<lambda>_. ret ())) ?l2 = (Inr (), l')"
      by (auto simp: copyInstanceSecret_def run_simps)
    let ?new = "\<lparr> se_meta = m, se_type = se_type x, se_data = se_data x \<rparr>"
    from lawful_keeps [OF own m] meta have key: "meta_key (se_meta ?new) = ?kd" by simp
    show ?thesis
    proof (cases "ep_create (e_secrets E) ?l2 ?new")
      case (Inl e')
      with fin have "l' = ?l2 @ [(ReqCreate (OSecret ?new), Some e')] \<and> is_already_exists e'"
        by (auto simp: attempt_def api_create_def request_def split: if_splits)
      then show ?thesis by auto
    next
      case (Inr y)
      with fin have l': "l' = ?l2 @ [(ReqCreate (OSecret ?new), None)]"
        by (auto simp: attempt_def api_create_def request_def)
      from laws Inr have "ep_get (e_secrets E) (?l2 @ [(ReqCreate (OSecret ?new), None)]) (meta_key (se_meta ?new)) = Inr y"
        unfolding faithful_endpoint_def by metis
      with l' key have "ep_get (e_secrets E) l' ?kd = Inr y" by simp
      moreover from keep Inr have "(se_type y, se_data y) = (se_type ?new, se_data ?new)"
        unfolding keeps_content_def by metis
      ultimately show ?thesis using Inl nf x by auto
    qed
  qed
qed

definition secret_world :: world where
  "secret_world = empty_world\<lparr>w_secrets := [\<lparr> se_meta = empty_meta ''ns'' ''everest-secrets-src'', se_type = ''Opaque'',
     se_data = [(''password'', ''pw'')] \<rparr>]\<rparr>"

lemma mem_secrets_keep: "keeps_content (e_secrets (mem_env w)) (\<lambda>s. (se_type s, se_data s))"
  unfolding mem_env_def by (simp, rule mem_endpoint_keeps) simp

theorem credentials_copied_witness:
  "(\<exists>s. ep_get (e_secrets (mem_env secret_world))
          (snd (copyInstanceSecret (mem_env secret_world) (plain_instance ''galera'') ''everest-secrets-src'' ''everest-secrets-db'' []))
          (''ns'', ''everest-secrets-db'') = Inr s)
   \<or> (\<exists>x e. (ReqCreate (OSecret x), Some e) \<in> set (snd (copyInstanceSecret (mem_env secret_world)
          (plain_instance ''galera'') ''everest-secrets-src'' ''everest-secrets-db'' [])) \<and> is_already_exists e)"
proof -
  let ?run = "copyInstanceSecret (mem_env secret_world) (plain_instance ''galera'') ''everest-secrets-src'' ''everest-secrets-db'' []"
  have "fst ?run = Inr ()" by code_simp
  then have run: "?run = (Inr (), snd ?run)" by (simp add: prod_eq_iff)
  have meta: "meta_key (e_object_meta (mem_env secret_world) (plain_instance ''galera'') ''everest-secrets-db'')
      = key_of (plain_instance ''galera'') ''everest-secrets-db''" by code_simp
  have key: "key_of (plain_instance ''galera'') ''everest-secrets-db'' = (''ns'', ''everest-secrets-db'')" by code_simp
  from credentials_copied [OF mem_secrets_faithful mem_secrets_keep mem_lawful_owner meta run, unfolded key]
  show ?thesis by blast
qed

subsection \<open>Success is not reported early\<close>

text \<open>The seeded MariaDB as the server returned it, with its data really in place.\<close>

definition data_in_place :: "env \<Rightarrow> mariadb \<Rightarrow> bootstrap_from \<Rightarrow> bool" where
  "data_in_place E mdb b \<longleftrightarrow> ms_bootstrap (md_spec mdb) = Some b \<and> e_is_ready E mdb
     \<and> (if bf_pitr b \<noteq> None then e_replay_error E mdb = None \<and> (e_replay_skipped E mdb \<or> e_replayed E mdb)
        else bf_content b = Logical \<longrightarrow> e_has_restored E mdb)"

definition really_seeded :: "env \<Rightarrow> instance_cr \<Rightarrow> bool" where
  "really_seeded E c \<longleftrightarrow>
     (\<exists>l mdb b. ep_get (e_mariadbs E) l (key_of c (in_name c)) = Inr mdb \<and> data_in_place E mdb b)"

fun stage_sound :: "env \<Rightarrow> instance_cr \<Rightarrow> request \<Rightarrow> bool" where
  "stage_sound E c (ReqStage st) = (dss_state st = DSSucceeded \<longrightarrow> really_seeded E c)"
| "stage_sound E c q = (\<not> is_write q)"

lemma unsuccessful [simp]:
  "dss_state (dataSourceRestoring m) = DSRestoring" "dss_state (dataSourceFailed m) = DSFailed"
  "dss_state (dataSourceSucceeded m) = DSSucceeded"
  by (simp_all add: dataSourceRestoring_def dataSourceFailed_def dataSourceSucceeded_def)

lemma pit_success:
  "dss_state (pointInTimeDataSourceStatus E mdb) = DSSucceeded \<Longrightarrow>
     e_is_ready E mdb \<and> e_replay_error E mdb = None \<and> (e_replay_skipped E mdb \<or> e_replayed E mdb)"
  by (auto simp: pointInTimeDataSourceStatus_def split: option.splits if_splits)

lemma stage_restored:
  "emits (\<lambda>e. stage_sound E c (fst e)) (bnd (bootstrapRestoreFailed E c mdb) (\<lambda>(failed, msg).
     if failed then stage_ds_status (dataSourceFailed (''Restoring logical backup failed: '' @ msg))
     else stage_ds_status (dataSourceRestoring ''Restoring logical backup into new MariaDB cluster'')))"
  unfolding bootstrapRestoreFailed_def Let_def by (rule emits_bnd) (auto intro!: post_intros split: prod.splits)

lemma stage_success:
  assumes "\<exists>l. ep_get (e_mariadbs E) l (key_of c (in_name c)) = Inr mdb"
    and "dss_state st = DSSucceeded \<Longrightarrow> data_in_place E mdb b"
  shows "emits (\<lambda>e. stage_sound E c (fst e)) (stage_ds_status st)"
  by (rule emits_api(10)) (use assms in \<open>auto simp: really_seeded_def\<close>)

text \<open>
  C23: Seeding is staged as succeeded only for a MariaDB the server returned that is ready
  and, for a logical backup, has restored it, or, for point-in-time recovery, has replayed
  the binary logs or found none to replay, without an error. Nothing is written while the
  status is derived.
\<close>

theorem seeding_success_is_real:
  assumes run: "syncDataSourceStatus E c l = (r, l')"
  shows "\<exists>new. l' = l @ new \<and> list_all (\<lambda>e. stage_sound E c (fst e)) new"
proof -
  have "emits (\<lambda>e. stage_sound E c (fst e)) (syncDataSourceStatus E c)"
    unfolding syncDataSourceStatus_def
  proof (intro emits_if emits_ret emits_on_get_yields [OF _ yields_served] emits_api)
    fix mdb assume mdb: "\<exists>l. ep_get (e_mariadbs E) l (key_of c (in_name c)) = Inr mdb"
    note stage = stage_success [OF mdb]
    show "emits (\<lambda>e. stage_sound E c (fst e)) (case ms_bootstrap (md_spec mdb) of
            None \<Rightarrow> ret ()
          | Some b \<Rightarrow>
             if bf_pitr b \<noteq> None then stage_ds_status (pointInTimeDataSourceStatus E mdb)
             else (case bf_content b of
                 Physical \<Rightarrow>
                   if e_is_ready E mdb then stage_ds_status (dataSourceSucceeded ''Instance seeded from physical backup'')
                   else stage_ds_status (dataSourceRestoring ''Restoring physical backup into new MariaDB cluster'')
               | Logical \<Rightarrow>
                   if e_has_restored E mdb \<and> e_is_ready E mdb then
                     stage_ds_status (dataSourceSucceeded ''Instance seeded from logical backup'')
                   else bnd (bootstrapRestoreFailed E c mdb) (\<lambda>(failed, msg).
                     if failed then stage_ds_status (dataSourceFailed (''Restoring logical backup failed: '' @ msg))
                     else stage_ds_status (dataSourceRestoring ''Restoring logical backup into new MariaDB cluster''))
               | ContentOther _ \<Rightarrow> ret ()))"
    proof (cases "ms_bootstrap (md_spec mdb)")
      case (Some b)
      show ?thesis
      proof (cases "bf_pitr b = None")
        case False
        with Some show ?thesis
          by (auto intro!: stage [of _ b] dest: pit_success simp: data_in_place_def)
      next
        case True
        with Some stage_restored show ?thesis
          by (cases "bf_content b") (auto intro!: stage [of _ b] emits_ret simp: data_in_place_def)
      qed
    qed (simp add: emits_ret)
  qed simp_all
  from emitsD [OF this run] show ?thesis .
qed

theorem seeding_success_is_real_witness:
  "\<exists>new. snd (syncDataSourceStatus (mem_env (empty_world\<lparr>w_mariadbs := [plain_mariadb\<lparr>md_spec := plain_spec
        \<lparr>ms_bootstrap := Some \<lparr> bf_s3 = None, bf_content = Logical, bf_target_time = None, bf_pitr = None \<rparr>\<rparr>\<rparr>]\<rparr>))
        (seeded_instance ''b1'') []) = [] @ new
     \<and> list_all (\<lambda>e. stage_sound (mem_env (empty_world\<lparr>w_mariadbs := [plain_mariadb\<lparr>md_spec := plain_spec
        \<lparr>ms_bootstrap := Some \<lparr> bf_s3 = None, bf_content = Logical, bf_target_time = None, bf_pitr = None \<rparr>\<rparr>\<rparr>]\<rparr>))
        (seeded_instance ''b1'') (fst e)) new"
  by (rule seeding_success_is_real [OF prod.collapse [symmetric]])

end
