(* ===== verification/Sha1.thy ===== *)
theory Sha1
  imports GoLib
begin

section \<open>SHA-1 and hexadecimal encoding\<close>

text \<open>
  \<open>crypto/sha1.Sum\<close> and \<open>encoding/hex.EncodeToString\<close>, from which the provider derives
  the names of its scheduled backups. The digest is the one of FIPS 180-4, over bytes.
\<close>

unbundle bit_operations_syntax

type_synonym u32 = "32 word"
type_synonym sha1_state = "u32 \<times> u32 \<times> u32 \<times> u32 \<times> u32"

definition sha1_init :: sha1_state where
  "sha1_init = (0x67452301, 0xEFCDAB89, 0x98BADCFE, 0x10325476, 0xC3D2E1F0)"

definition be_bytes :: "nat \<Rightarrow> int \<Rightarrow> int list" where
  "be_bytes k n = map (\<lambda>i. (n div 256 ^ (k - 1 - i)) mod 256) [0..<k]"

definition sha1_pad :: "int list \<Rightarrow> int list" where
  "sha1_pad bs = (let n = length bs
     in bs @ [128] @ replicate ((119 - n mod 64) mod 64) 0 @ be_bytes 8 (8 * int n))"

fun be_words :: "int list \<Rightarrow> u32 list" where
  "be_words (a # b # c # d # bs) = of_int (((a * 256 + b) * 256 + c) * 256 + d) # be_words bs"
| "be_words _ = []"

text \<open>The message schedule, newest word first.\<close>

fun sha1_expand :: "nat \<Rightarrow> u32 list \<Rightarrow> u32 list" where
  "sha1_expand 0 ws = ws"
| "sha1_expand (Suc n) ws =
     sha1_expand n (word_rotl 1 (ws ! 2 XOR ws ! 7 XOR ws ! 13 XOR ws ! 15) # ws)"

fun sha1_round :: "nat \<Rightarrow> u32 \<Rightarrow> sha1_state \<Rightarrow> sha1_state" where
  "sha1_round t w (a, b, c, d, e) =
     (let (f, k) = (if t < 20 then ((b AND c) OR (NOT b AND d), 0x5A827999)
            else if t < 40 then (b XOR c XOR d, 0x6ED9EBA1)
            else if t < 60 then ((b AND c) OR (b AND d) OR (c AND d), 0x8F1BBCDC)
            else (b XOR c XOR d, 0xCA62C1D6))
      in (word_rotl 5 a + f + e + k + w, a, word_rotl 30 b, c, d))"

fun sha1_rounds :: "nat \<Rightarrow> u32 list \<Rightarrow> sha1_state \<Rightarrow> sha1_state" where
  "sha1_rounds t [] s = s"
| "sha1_rounds t (w # ws) s = sha1_rounds (Suc t) ws (sha1_round t w s)"

fun sha1_add :: "sha1_state \<Rightarrow> sha1_state \<Rightarrow> sha1_state" where
  "sha1_add (a, b, c, d, e) (a', b', c', d', e') = (a + a', b + b', c + c', d + d', e + e')"

fun sha1_blocks :: "u32 list \<Rightarrow> sha1_state \<Rightarrow> sha1_state" where
  "sha1_blocks [] s = s"
| "sha1_blocks (w # ws) s =
     sha1_blocks (drop 15 ws)
       (sha1_add s (sha1_rounds 0 (rev (sha1_expand 64 (rev (w # take 15 ws)))) s))"

fun sha1_digest :: "sha1_state \<Rightarrow> int list" where
  "sha1_digest (a, b, c, d, e) = concat (map (\<lambda>x. be_bytes 4 (uint x)) [a, b, c, d, e])"

definition sha1 :: "string \<Rightarrow> int list" where
  "sha1 s = sha1_digest (sha1_blocks (be_words (sha1_pad (map (\<lambda>c. int (of_char c)) s))) sha1_init)"

definition hex_encode :: "int list \<Rightarrow> string" where
  "hex_encode bs = concat (map (\<lambda>b. hex_byte (nat b)) bs)"

definition is_hex_char :: "char \<Rightarrow> bool" where
  "is_hex_char c \<longleftrightarrow> c \<in> set ''0123456789abcdef''"

subsection \<open>Shape of a digest\<close>

lemma length_be_bytes [simp]: "length (be_bytes k n) = k"
  by (simp add: be_bytes_def)

lemma be_bytes_small: "b \<in> set (be_bytes k n) \<Longrightarrow> 0 \<le> b \<and> b < 256"
  by (auto simp: be_bytes_def)

lemma length_sha1 [simp]: "length (sha1 s) = 20"
proof -
  obtain a b c d e where "sha1_blocks (be_words (sha1_pad (map (\<lambda>c. int (of_char c)) s))) sha1_init = (a, b, c, d, e)"
    by (metis prod_cases5)
  then show ?thesis by (simp add: sha1_def)
qed

lemma sha1_bytes: "b \<in> set (sha1 s) \<Longrightarrow> 0 \<le> b \<and> b < 256"
proof -
  obtain a b' c d e where "sha1_blocks (be_words (sha1_pad (map (\<lambda>c. int (of_char c)) s))) sha1_init = (a, b', c, d, e)"
    by (metis prod_cases5)
  then show "b \<in> set (sha1 s) \<Longrightarrow> 0 \<le> b \<and> b < 256" by (auto simp: sha1_def dest: be_bytes_small)
qed

lemma length_hex_encode [simp]: "length (hex_encode bs) = 2 * length bs"
  by (induction bs) (simp_all add: hex_encode_def hex_byte_def)

lemma is_hex_hexdigit: "n < 16 \<Longrightarrow> is_hex_char (hexdigit n)"
proof -
  have "\<forall>i \<in> set [0..<16]. is_hex_char (hexdigit i)" by code_simp
  then show "n < 16 \<Longrightarrow> is_hex_char (hexdigit n)" by simp
qed

lemma is_hex_byte: "0 \<le> b \<Longrightarrow> b < 256 \<Longrightarrow> list_all is_hex_char (hex_byte (nat b))"
proof -
  assume "0 \<le> b" "b < 256"
  then have "nat b div 16 < 16" by (simp add: nat_less_iff less_mult_imp_div_less)
  then show ?thesis by (simp add: hex_byte_def is_hex_hexdigit)
qed

lemma hex_encode_chars:
  "\<forall>b \<in> set bs. 0 \<le> b \<and> b < 256 \<Longrightarrow> list_all is_hex_char (hex_encode bs)"
  by (induction bs) (simp_all add: hex_encode_def is_hex_byte)

lemma hex_sha1_chars: "list_all is_hex_char (take n (hex_encode (sha1 s)))"
proof -
  have "list_all is_hex_char (hex_encode (sha1 s))"
    by (rule hex_encode_chars) (auto dest: sha1_bytes)
  then show ?thesis by (auto simp: list_all_iff dest: in_set_takeD)
qed

end
