(* ===== verification/Retention.thy ===== *)
theory Retention
  imports Common Sha1
begin

section \<open>Names and retention of scheduled backups\<close>

text \<open>
  The names of the operator resources behind schedules and point-in-time recovery
  (\<open>scheduledBackupName\<close>, \<open>pitrBaseBackupName\<close>) and the derivation of the operator's
  age-based retention from a schedule's retention (\<open>backup_schedule.go\<close>). Durations are
  64-bit nanosecond counts that wrap around, as \<open>time.Duration\<close> does.
\<close>

subsection \<open>Names\<close>

definition scheduledBackupName :: "string \<Rightarrow> string \<Rightarrow> string" where
  "scheduledBackupName i schedule =
     ''mdb-sched-'' @ take 12 (hex_encode (sha1 (i @ [char_of (0 :: nat)] @ schedule)))"

definition pitrBaseBackupName :: "string \<Rightarrow> string" where
  "pitrBaseBackupName i =
     ''mdb-pitr-'' @ take 12 (hex_encode (sha1 (i @ [char_of (0 :: nat)] @ ''pitr-base'')))"

text \<open>A name Kubernetes accepts for a CronJob: at most 52 lower-case alphanumerics and dashes.\<close>

definition is_lower_alnum :: "char \<Rightarrow> bool" where
  "is_lower_alnum c \<longleftrightarrow> is_digit c \<or> (97 \<le> byte c \<and> byte c \<le> 122)"

definition cronjob_name_ok :: "string \<Rightarrow> bool" where
  "cronjob_name_ok s \<longleftrightarrow> s \<noteq> [] \<and> length s \<le> 52 \<and> list_all (\<lambda>c. is_lower_alnum c \<or> c = CHR ''-'') s
     \<and> is_lower_alnum (hd s) \<and> is_lower_alnum (last s)"

lemma hex_char_alnum: "is_hex_char c \<Longrightarrow> is_lower_alnum c"
  by (auto simp: is_hex_char_def is_lower_alnum_def is_digit_def)

lemma hex_prefix:
  "length (take 12 (hex_encode (sha1 s))) = 12"
  "list_all is_lower_alnum (take 12 (hex_encode (sha1 s)))"
  "is_lower_alnum (last (take 12 (hex_encode (sha1 s))))"
proof -
  let ?h = "take 12 (hex_encode (sha1 s))"
  show l: "length ?h = 12" by simp
  show a: "list_all is_lower_alnum ?h"
    using hex_sha1_chars [of 12 s] by (auto simp: list_all_iff intro: hex_char_alnum)
  have "?h \<noteq> []" using l by (metis list.size(3) zero_neq_numeral)
  then have "last ?h \<in> set ?h" by (rule last_in_set)
  with a show "is_lower_alnum (last ?h)" by (auto simp: list_all_iff)
qed

lemma cronjob_name_append:
  assumes "cronjob_name_ok (p @ ''x'')" and "length p \<le> 40"
    and "length h = 12" and "list_all is_lower_alnum h" and "is_lower_alnum (last h)" and "p \<noteq> []"
  shows "cronjob_name_ok (p @ h)"
  using assms by (cases "h = []") (auto simp: cronjob_name_ok_def list_all_iff)

text \<open>
  C36: The names of the operator resources behind a schedule and behind the base backup of
  point-in-time recovery are valid CronJob names, whatever the Instance and the schedule
  are called, and a schedule never takes the name of a base backup.
\<close>

theorem scheduled_names_valid:
  "cronjob_name_ok (scheduledBackupName i s) \<and> cronjob_name_ok (pitrBaseBackupName j)
   \<and> scheduledBackupName i s \<noteq> pitrBaseBackupName j"
proof -
  have "cronjob_name_ok (''mdb-sched-'' @ ''x'')" "cronjob_name_ok (''mdb-pitr-'' @ ''x'')" by code_simp+
  then have "cronjob_name_ok (scheduledBackupName i s)" "cronjob_name_ok (pitrBaseBackupName j)"
    unfolding scheduledBackupName_def pitrBaseBackupName_def
    by (auto intro!: cronjob_name_append hex_prefix simp del: append.simps)
  moreover have "scheduledBackupName i s \<noteq> pitrBaseBackupName j"
    by (simp add: scheduledBackupName_def pitrBaseBackupName_def)
  ultimately show ?thesis by simp
qed

subsection \<open>Durations\<close>

abbreviation second_ns :: int where "second_ns \<equiv> 1000000000"
abbreviation day_ns :: int where "day_ns \<equiv> 86400 * second_ns"

definition duration :: "int \<Rightarrow> i64" where
  "duration n = word_of_int n"

definition keepAllRetention :: i64 where
  "keepAllRetention = duration (100 * 365 * day_ns)"

text \<open>The value of a duration is its integer, wrapped into 64 bits.\<close>

lemma sint_duration_wrap: "sint (duration n) = (n - min_i64) mod 18446744073709551616 + min_i64"
  by (simp add: duration_def int_word_sint)

lemma sint_duration: "min_i64 \<le> n \<Longrightarrow> n \<le> max_i64 \<Longrightarrow> sint (duration n) = n"
  by (simp add: sint_duration_wrap)

lemma sint_duration_nonneg: "0 \<le> n \<Longrightarrow> n \<le> max_i64 \<Longrightarrow> sint (duration n) = n"
  by (rule sint_duration) simp_all

lemma sint_duration_days: "0 \<le> m \<Longrightarrow> m \<le> 106751 \<Longrightarrow> sint (duration (m * day_ns)) = m * day_ns"
  by (rule sint_duration_nonneg) simp_all

lemma duration_add: "duration a + duration b = duration (a + b)"
  by (simp add: duration_def)

lemma duration_mult: "duration a * duration b = duration (a * b)"
  by (simp add: duration_def)

lemma keepAll_days: "sint keepAllRetention = 36500 * day_ns"
  by (simp add: keepAllRetention_def sint_duration_wrap)

definition retention_units :: "(char \<times> int) list" where
  "retention_units = [(CHR ''d'', day_ns), (CHR ''w'', 7 * day_ns), (CHR ''m'', 30 * day_ns)]"

definition parseRetentionDuration :: "string \<Rightarrow> string + i64" where
  "parseRetentionDuration s =
     (if length s < 2 then Inl (''invalid retention duration '' @ quote s)
      else (case (map_of retention_units (last s), Atoi (butlast s)) of
          (Some unit, (n, True)) \<Rightarrow>
            if n < 1 then Inl (''invalid retention duration '' @ quote s @ '': want <n>d, <n>w or <n>m'')
            else Inr (duration n * duration unit)
        | _ \<Rightarrow> Inl (''invalid retention duration '' @ quote s @ '': want <n>d, <n>w or <n>m'')))"

text \<open>\<open>time.Time.Sub\<close> saturates.\<close>

definition time_sub :: "time \<Rightarrow> time \<Rightarrow> int" where
  "time_sub t u = max min_i64 (min max_i64 (t - u))"

definition countRetention ::
  "(string \<Rightarrow> string + (time \<Rightarrow> time)) \<Rightarrow> time \<Rightarrow> string \<Rightarrow> int \<Rightarrow> string + i64" where
  "countRetention cron now cronExpr copies =
     (if copies \<le> 0 then Inr keepAllRetention
      else (case cron cronExpr of
          Inl e \<Rightarrow> Inl (''parse cron '' @ quote cronExpr @ '': '' @ e)
        | Inr nxt \<Rightarrow>
           (let t = nxt now; i = time_sub (nxt t) t; interval = (if i \<le> 0 then day_ns else i)
            in Inr (duration interval * duration copies + duration interval))))"

definition deriveMaxRetention ::
  "(string \<Rightarrow> string + (time \<Rightarrow> time)) \<Rightarrow> time \<Rightarrow> string \<Rightarrow> retention option \<Rightarrow> string + i64" where
  "deriveMaxRetention cron now cronExpr r =
     (case r of
        None \<Rightarrow> Inr keepAllRetention
      | Some rt \<Rightarrow>
         (case rt_type rt of
            RetentionTime \<Rightarrow> parseRetentionDuration (rt_duration rt)
          | RetentionCount \<Rightarrow> countRetention cron now cronExpr (case rt_count rt of Some n \<Rightarrow> n | None \<Rightarrow> 0)
          | RetentionEmpty \<Rightarrow> countRetention cron now cronExpr (case rt_count rt of Some n \<Rightarrow> n | None \<Rightarrow> 0)
          | RetentionOther t \<Rightarrow> Inl (''unsupported retention type '' @ quote t)))"

subsection \<open>Time retention\<close>

text \<open>The number of days a unit stands for.\<close>

definition unit_days :: "char \<Rightarrow> int option" where
  "unit_days u = (if u = CHR ''d'' then Some 1 else if u = CHR ''w'' then Some 7
     else if u = CHR ''m'' then Some 30 else None)"

lemma retention_units_days: "map_of retention_units u = map_option (\<lambda>d. d * day_ns) (unit_days u)"
  by (simp add: retention_units_def unit_days_def)

lemma parse_retention_shape:
  "parseRetentionDuration s = Inr d \<longleftrightarrow>
     (\<exists>n u k. s \<noteq> [] \<and> u = last s \<and> unit_days u = Some k \<and> Atoi (butlast s) = (n, True) \<and> 1 \<le> n
        \<and> d = duration (n * (k * day_ns)))"
proof -
  have "length s < 2 \<Longrightarrow> \<not> (snd (Atoi (butlast s)))"
    by (cases s) (auto simp: Atoi.simps)
  then show ?thesis
    by (cases "Atoi (butlast s)")
       (auto simp: parseRetentionDuration_def retention_units_days duration_mult split: option.splits
         bool.splits if_splits)
qed

lemma parse_retention_Itoa:
  assumes "1 \<le> n" "n \<le> max_i64" "unit_days u = Some k"
  shows "parseRetentionDuration (Itoa n @ [u]) = Inr (duration (n * (k * day_ns)))"
  unfolding parse_retention_shape using assms Atoi_Itoa [of n] by simp

lemma unit_days_pos: "unit_days u = Some k \<Longrightarrow> 1 \<le> k \<and> k \<le> 30"
  by (auto simp: unit_days_def split: if_splits)

text \<open>
  C34: A time retention of \<open>n\<close> days, weeks or months is accepted, and is exactly that many
  nanoseconds as long as the product fits in 64 bits (up to 106751 days).
\<close>

theorem parse_retention_exact:
  assumes "unit_days u = Some k" and "1 \<le> n" and "n * k \<le> 106751"
  shows "\<exists>d. parseRetentionDuration (Itoa n @ [u]) = Inr d \<and> sint d = n * k * day_ns"
proof -
  have k: "1 \<le> k" using unit_days_pos [OF assms(1)] by simp
  then have "n * 1 \<le> n * k" using assms(2) by (intro mult_left_mono) simp_all
  then have "n \<le> 106751" using assms(3) by simp
  moreover have "0 \<le> n * k" using assms(2) k by simp
  then have "sint (duration (n * k * day_ns)) = n * k * day_ns"
    using assms(3) by (rule sint_duration_days)
  ultimately show ?thesis using parse_retention_Itoa [OF assms(2) _ assms(1)]
    by (simp add: mult.assoc)
qed

lemma parse_retention_exact_witness:
  "\<exists>d. parseRetentionDuration (Itoa 4 @ ''w'') = Inr d \<and> sint d = 4 * 7 * day_ns"
  using parse_retention_exact [of "CHR ''w''" 7 4] by (simp add: unit_days_def)

text \<open>
  Beyond that bound the multiplication wraps around unnoticed: a retention of 200000
  days is accepted and becomes a negative duration, although every accepted number is
  positive.
\<close>

theorem parse_retention_overflow:
  "\<exists>d. parseRetentionDuration ''200000d'' = Inr d \<and> sint d < 0"
proof -
  have i: "Itoa 200000 = ''200000''" by code_simp
  have "parseRetentionDuration (Itoa 200000 @ ''d'') = Inr (duration (200000 * (1 * day_ns)))"
    by (rule parse_retention_Itoa) (simp_all add: unit_days_def)
  moreover have "sint (duration (200000 * (1 * day_ns))) < 0"
    by (simp add: sint_duration_wrap)
  ultimately show ?thesis unfolding i by auto
qed

subsection \<open>Count retention\<close>

lemma time_sub_range: "min_i64 \<le> time_sub t u \<and> time_sub t u \<le> max_i64"
  by (auto simp: time_sub_def)

lemma countRetention_value:
  assumes "cron cronExpr = Inr nxt" and "0 < copies"
    and "interval = nxt (nxt now) - nxt now" and "0 < interval"
    and "interval * (copies + 1) \<le> max_i64"
  shows "countRetention cron now cronExpr copies = Inr (duration (interval * (copies + 1)))"
    and "sint (duration (interval * (copies + 1))) = interval * (copies + 1)"
proof -
  have "interval * 1 \<le> interval * (copies + 1)" using assms(2,4) by (intro mult_left_mono) simp_all
  then have "interval \<le> max_i64" using assms(5) by simp
  then have ts: "time_sub (nxt (nxt now)) (nxt now) = interval"
    using assms(3,4) by (simp add: time_sub_def)
  have "duration interval * duration copies + duration interval = duration (interval * (copies + 1))"
    by (simp add: duration_mult duration_add distrib_left)
  then show "countRetention cron now cronExpr copies = Inr (duration (interval * (copies + 1)))"
    using assms(1,2,4) ts by (simp add: countRetention_def Let_def)
  show "sint (duration (interval * (copies + 1))) = interval * (copies + 1)"
    using assms(2,4,5) by (intro sint_duration_nonneg) simp_all
qed

text \<open>
  C35: Keeping \<open>copies\<close> backups of a schedule is turned into an age of \<open>copies + 1\<close>
  intervals of the cron schedule, so the slack of one interval keeps a backup until its
  \<open>copies\<close> successors are due; this holds as long as the age fits in 64 bits.
\<close>

theorem count_retention_exact:
  assumes "cron cronExpr = Inr nxt" and "0 < copies"
    and "interval = nxt (nxt now) - nxt now" and "0 < interval"
    and "interval * (copies + 1) \<le> max_i64"
  shows "\<exists>d. countRetention cron now cronExpr copies = Inr d \<and> sint d = interval * (copies + 1)"
  using countRetention_value [where cron = cron and nxt = nxt and now = now, OF assms] by blast

lemma count_retention_exact_witness:
  "\<exists>d. countRetention (\<lambda>_. Inr (\<lambda>t. t + day_ns)) 0 ''0 2 * * *'' 7 = Inr d \<and> sint d = day_ns * (7 + 1)"
  using count_retention_exact [of "\<lambda>_. Inr (\<lambda>t. t + day_ns)" "''0 2 * * *''" "\<lambda>t. t + day_ns" 7 day_ns 0]
  by simp

lemma no_retention_keeps_all:
  "deriveMaxRetention cron now expr None = Inr keepAllRetention"
  "rt_type r \<in> {RetentionCount, RetentionEmpty} \<Longrightarrow> (case rt_count r of None \<Rightarrow> True | Some n \<Rightarrow> n \<le> 0) \<Longrightarrow>
     deriveMaxRetention cron now expr (Some r) = Inr keepAllRetention"
  by (auto simp: deriveMaxRetention_def countRetention_def split: option.splits)

end
