(* ===== verification/Schedule.thy ===== *)
theory Schedule
  imports Backup Retention
begin

section \<open>Scheduled backups\<close>

text \<open>
  \<open>SyncScheduledBackups\<close>, its per-schedule reconcilers for logical and physical backups, the
  pruning of operator objects whose schedule is gone, and \<open>Mirror\<close>, which surfaces the runs
  (\<open>backup_schedule.go\<close>, \<open>backup_physical.go\<close>).
\<close>

subsection \<open>Labels\<close>

definition scheduleLabel :: string where "scheduleLabel = ''backup.provider-mariadb.openeverest.io/schedule''"
definition instanceLabel :: string where "instanceLabel = ''backup.provider-mariadb.openeverest.io/instance''"
definition storageLabel :: string where "storageLabel = ''backup.provider-mariadb.openeverest.io/storage''"
definition classLabel :: string where "classLabel = ''backup.provider-mariadb.openeverest.io/class''"
definition typeLabel :: string where "typeLabel = ''backup.provider-mariadb.openeverest.io/type''"
definition pitrBaseLabel :: string where "pitrBaseLabel = ''backup.provider-mariadb.openeverest.io/pitr-base''"

lemmas label_defs = scheduleLabel_def instanceLabel_def storageLabel_def classLabel_def typeLabel_def
  pitrBaseLabel_def

text \<open>Reading the class of an Instance without a backup block would dereference nil.\<close>

definition scheduledBackupLabels :: "instance_cr \<Rightarrow> string \<Rightarrow> string \<Rightarrow> string \<Rightarrow> err + labels" where
  "scheduledBackupLabels c scheduleName storageName backupType =
     (case in_backup c of
        None \<Rightarrow> Inl (Panic ''nil pointer dereference'')
      | Some b \<Rightarrow> Inr [(scheduleLabel, scheduleName), (instanceLabel, in_name c), (storageLabel, storageName),
          (classLabel, ib_class b), (typeLabel, backupType)])"

text \<open>Reading an absent key of a Go map yields the empty string.\<close>

definition label_value :: "labels \<Rightarrow> string \<Rightarrow> string" where
  "label_value ls k = (case map_of ls k of Some v \<Rightarrow> v | None \<Rightarrow> [])"

subsection \<open>Switching the type of a schedule\<close>

definition deleteScheduledBackup :: "env \<Rightarrow> instance_cr \<Rightarrow> string \<Rightarrow> unit go" where
  "deleteScheduledBackup E c name =
     on_get (''get scheduled backup '' @ quote name) (api_get KBackup (e_backups E) (key_of c name))
       (ret ())
       (\<lambda>b. wrap_err (''delete scheduled backup '' @ quote name)
              (api_delete KBackup (e_backups E) (meta_key (ob_meta b))))"

definition deleteScheduledPhysicalBackup :: "env \<Rightarrow> instance_cr \<Rightarrow> string \<Rightarrow> unit go" where
  "deleteScheduledPhysicalBackup E c name =
     on_get (''get scheduled physical backup '' @ quote name)
       (api_get KPhysicalBackup (e_physicals E) (key_of c name))
       (ret ())
       (\<lambda>b. wrap_err (''delete scheduled physical backup '' @ quote name)
              (api_delete KPhysicalBackup (e_physicals E) (meta_key (pb_meta b))))"

subsection \<open>One logical schedule\<close>

definition schedule_retention :: "env \<Rightarrow> backup_schedule \<Rightarrow> i64 go" where
  "schedule_retention E schedule =
     bnd (clock E) (\<lambda>now. case deriveMaxRetention (e_cron E) now (sc_cron schedule) (sc_retention schedule) of
         Inl e \<Rightarrow> fail (BackupConfigError ''InvalidSchedule'' e)
       | Inr d \<Rightarrow> ret d)"

definition scheduled_backup_mutate ::
  "env \<Rightarrow> instance_cr \<Rightarrow> mariadb \<Rightarrow> s3 option \<Rightarrow> i64 \<Rightarrow> labels \<Rightarrow> backup_schedule \<Rightarrow> backup_params
    \<Rightarrow> op_backup \<Rightarrow> op_backup go" where
  "scheduled_backup_mutate E c mdb st rt managed schedule params b =
     (let b1 = (if m_rv (ob_meta b) = [] then
                  b\<lparr>ob_meta := (ob_meta b)\<lparr>m_labels := managed\<rparr>, ob_ref := mariadb_ref c, ob_storage := st,
                    ob_retention := rt, ob_inherit := Some managed\<rparr>
                else b);
          b2 = b1\<lparr>ob_schedule := Some (sc_cron schedule, \<not> sc_enabled schedule)\<rparr>
      in own_backup E (owner_of ''MariaDB'' (md_meta mdb)) (applyLogicalBackupParameters params b2))"

definition reconcileScheduledBackup ::
  "env \<Rightarrow> instance_cr \<Rightarrow> mariadb \<Rightarrow> string \<Rightarrow> backup_schedule \<Rightarrow> string \<Rightarrow> backup_params \<Rightarrow> unit go" where
  "reconcileScheduledBackup E c mdb storageName schedule name params =
     bnd (buildOperatorS3Storage E c storageName) (\<lambda>st.
     bnd (schedule_retention E schedule) (\<lambda>rt.
     bnd (deleteScheduledPhysicalBackup E c name) (\<lambda>_.
     bnd (on_get (''get scheduled backup '' @ quote name) (api_get KBackup (e_backups E) (key_of c name))
            (ret ())
            (\<lambda>existing. if ob_storage existing \<noteq> st \<or> ob_retention existing \<noteq> rt then
                bnd (wrap_err (''delete outdated scheduled backup '' @ quote name)
                      (api_delete KBackup (e_backups E) (meta_key (ob_meta existing))))
                    (\<lambda>_. fail (WaitFor (''Recreating scheduled backup '' @ quote name)))
              else ret ())) (\<lambda>_.
     bnd (lift (scheduledBackupLabels c (sc_name schedule) storageName backupTypeLogical)) (\<lambda>managed.
     wrap_err (''reconcile scheduled backup '' @ quote name)
       (bnd (create_or_update KBackup OBackup (e_backups E) (key_of c name) (new_op_backup (in_namespace c) name)
               (scheduled_backup_mutate E c mdb st rt managed schedule params)) (\<lambda>_. ret ())))))))"

subsection \<open>One physical schedule\<close>

definition scheduled_physical_mutate ::
  "env \<Rightarrow> instance_cr \<Rightarrow> mariadb \<Rightarrow> s3 option \<Rightarrow> i64 \<Rightarrow> labels \<Rightarrow> backup_schedule \<Rightarrow> backup_params
    \<Rightarrow> phys_backup \<Rightarrow> phys_backup go" where
  "scheduled_physical_mutate E c mdb st rt managed schedule params b =
     (let b1 = (if m_rv (pb_meta b) = [] then
                  b\<lparr>pb_meta := (pb_meta b)\<lparr>m_labels := managed\<rparr>, pb_ref := mariadb_ref c, pb_storage := st,
                    pb_inherit := Some managed\<rparr>
                else b);
          b2 = b1\<lparr>pb_retention := rt,
                 pb_schedule := Some \<lparr> ps_cron = sc_cron schedule, ps_suspend = (\<not> sc_enabled schedule),
                   ps_immediate = None \<rparr>\<rparr>
      in own_physical E (owner_of ''MariaDB'' (md_meta mdb)) (applyPhysicalBackupParameters params b2))"

definition reconcileScheduledPhysicalBackup ::
  "env \<Rightarrow> instance_cr \<Rightarrow> mariadb \<Rightarrow> string \<Rightarrow> backup_schedule \<Rightarrow> string \<Rightarrow> backup_params \<Rightarrow> unit go" where
  "reconcileScheduledPhysicalBackup E c mdb storageName schedule name params =
     bnd (buildPhysicalS3Storage E c storageName) (\<lambda>st.
     bnd (schedule_retention E schedule) (\<lambda>rt.
     bnd (deleteScheduledBackup E c name) (\<lambda>_.
     bnd (on_get (''get scheduled physical backup '' @ quote name)
            (api_get KPhysicalBackup (e_physicals E) (key_of c name))
            (ret ())
            (\<lambda>existing. if pb_storage existing \<noteq> st then
                bnd (wrap_err (''delete outdated scheduled physical backup '' @ quote name)
                      (api_delete KPhysicalBackup (e_physicals E) (meta_key (pb_meta existing))))
                    (\<lambda>_. fail (WaitFor (''Recreating scheduled physical backup '' @ quote name)))
              else ret ())) (\<lambda>_.
     bnd (lift (scheduledBackupLabels c (sc_name schedule) storageName backupTypePhysical)) (\<lambda>managed.
     wrap_err (''reconcile scheduled physical backup '' @ quote name)
       (bnd (create_or_update KPhysicalBackup OPhysicalBackup (e_physicals E) (key_of c name)
               (new_phys_backup (in_namespace c) name)
               (scheduled_physical_mutate E c mdb st rt managed schedule params)) (\<lambda>_. ret ())))))))"

subsection \<open>Pruning\<close>

definition pruneScheduledBackups :: "env \<Rightarrow> instance_cr \<Rightarrow> string list \<Rightarrow> unit go" where
  "pruneScheduledBackups E c desired =
     bnd (wrap_err ''list scheduled backups'' (api_list KBackup (e_backups E) [(instanceLabel, in_name c)])) (\<lambda>items.
     for_each (\<lambda>item.
        if map_of (m_labels (ob_meta item)) scheduleLabel = None then ret ()
        else if m_name (ob_meta item) \<in> set desired then ret ()
        else wrap_err (''delete stale scheduled backup '' @ quote (m_name (ob_meta item)))
               (api_delete KBackup (e_backups E) (meta_key (ob_meta item)))) items)"

definition pruneScheduledPhysicalBackups :: "env \<Rightarrow> instance_cr \<Rightarrow> string list \<Rightarrow> unit go" where
  "pruneScheduledPhysicalBackups E c desired =
     bnd (wrap_err ''list scheduled physical backups''
           (api_list KPhysicalBackup (e_physicals E) [(instanceLabel, in_name c)])) (\<lambda>items.
     for_each (\<lambda>item.
        if map_of (m_labels (pb_meta item)) scheduleLabel = None then ret ()
        else if m_name (pb_meta item) \<in> set desired then ret ()
        else wrap_err (''delete stale scheduled physical backup '' @ quote (m_name (pb_meta item)))
               (api_delete KPhysicalBackup (e_physicals E) (meta_key (pb_meta item)))) items)"

subsection \<open>All schedules\<close>

text \<open>
  The two nested loops over storages and schedules, with the owner MariaDB fetched at the
  first schedule; the result is the names wanted as logical and as physical backups.
\<close>

definition declared_schedules :: "instance_backup \<Rightarrow> (string \<times> backup_schedule) list" where
  "declared_schedules cfg = concat (map (\<lambda>st. map (Pair (is_ref st)) (is_schedules st)) (ib_storages cfg))"

definition owner_mariadb :: "env \<Rightarrow> instance_cr \<Rightarrow> mariadb go" where
  "owner_mariadb E c =
     on_get ''get MariaDB'' (api_get KMariaDB (e_mariadbs E) (key_of c (in_name c)))
       (fail (WaitFor ''Waiting for MariaDB cluster to exist'')) ret"

fun sync_schedules ::
  "env \<Rightarrow> instance_cr \<Rightarrow> mariadb option \<Rightarrow> (string \<times> backup_schedule) list \<Rightarrow> (string list \<times> string list) go" where
  "sync_schedules E c mdb [] = ret ([], [])"
| "sync_schedules E c mdb ((storageName, schedule) # ss) =
     bnd (lift (backup_params_of (e_json_error E) (sc_parameters schedule))) (\<lambda>params.
     bnd (case mdb of Some m \<Rightarrow> ret m | None \<Rightarrow> owner_mariadb E c) (\<lambda>m.
     let name = scheduledBackupName (in_name c) (sc_name schedule) in
     if isPhysical params then
       bnd (reconcileScheduledPhysicalBackup E c m storageName schedule name params) (\<lambda>_.
       bnd (sync_schedules E c (Some m) ss) (\<lambda>(ls, ps). ret (ls, name # ps)))
     else
       bnd (reconcileScheduledBackup E c m storageName schedule name params) (\<lambda>_.
       bnd (sync_schedules E c (Some m) ss) (\<lambda>(ls, ps). ret (name # ls, ps)))))"

definition enabled_backup :: "instance_cr \<Rightarrow> instance_backup option" where
  "enabled_backup c = (case in_backup c of Some b \<Rightarrow> if ib_enabled b then Some b else None | None \<Rightarrow> None)"

definition SyncScheduledBackups :: "env \<Rightarrow> instance_cr \<Rightarrow> unit go" where
  "SyncScheduledBackups E c =
     bnd (case enabled_backup c of
            Some cfg \<Rightarrow> sync_schedules E c None (declared_schedules cfg)
          | None \<Rightarrow> ret ([], [])) (\<lambda>(desiredLogical, desiredPhysical).
     bnd (pruneScheduledBackups E c desiredLogical) (\<lambda>_.
     pruneScheduledPhysicalBackups E c desiredPhysical))"

subsection \<open>Mirroring the runs\<close>

definition Mirror :: "job \<Rightarrow> ev_backup option" where
  "Mirror j =
     (let labels = m_labels (jb_meta j);
          scheduleName = label_value labels scheduleLabel;
          className = label_value labels classLabel;
          storageName = label_value labels storageLabel;
          instanceName = label_value labels instanceLabel;
          backupType = label_value labels typeLabel
      in if scheduleName = [] \<or> className = [] \<or> storageName = [] \<or> instanceName = [] then None
         else Some \<lparr> eb_meta = empty_meta (m_namespace (jb_meta j)) (m_name (jb_meta j)),
           eb_schedule = scheduleName, eb_class = className, eb_storage = storageName,
           eb_parameters = (if backupType \<noteq> [] then Some (Some (marshal_single ''type'' backupType)) else None),
           eb_origin = Some instanceName, eb_state = StateNone, eb_completed = None, eb_operator_ref = None \<rparr>)"

subsection \<open>Runs are recognized\<close>

lemma marshal_type_params:
  assumes "t = backupTypeLogical \<or> t = backupTypePhysical"
  shows "parseBackupParams je (marshal_single ''type'' t) = Inr (zero_backup_params\<lparr>bp_type := t\<rparr>)"
  by (rule parse_type_only)
     (use assms in \<open>auto simp: is_ascii_def backupTypeLogical_def backupTypePhysical_def\<close>)

lemma mirrored_labels:
  assumes labels: "scheduledBackupLabels c s st t = Inr ls"
    and inherited: "\<forall>(k, v) \<in> set ls. map_of (m_labels (jb_meta j)) k = Some v"
    and t: "t \<noteq> []"
    and names: "s \<noteq> []" "st \<noteq> []" "in_name c \<noteq> []" "map_option ib_class (in_backup c) \<noteq> Some []"
  obtains cfg where "in_backup c = Some cfg"
    and "Mirror j = Some \<lparr> eb_meta = empty_meta (m_namespace (jb_meta j)) (m_name (jb_meta j)),
       eb_schedule = s, eb_class = ib_class cfg, eb_storage = st,
       eb_parameters = Some (Some (marshal_single ''type'' t)), eb_origin = Some (in_name c),
       eb_state = StateNone, eb_completed = None, eb_operator_ref = None \<rparr>"
proof -
  from labels obtain cfg where cfg: "in_backup c = Some cfg"
    and ls: "ls = [(scheduleLabel, s), (instanceLabel, in_name c), (storageLabel, st),
          (classLabel, ib_class cfg), (typeLabel, t)]"
    by (auto simp: scheduledBackupLabels_def split: option.splits)
  from inherited names t cfg show ?thesis
    by (intro that [OF cfg]) (simp add: Mirror_def Let_def label_value_def ls)
qed

text \<open>
  A run Job that inherited the labels of a schedule's operator object is mirrored as a
  Backup of that schedule, class, storage and Instance, under the Job's own name, and the
  parameters written on it decode to the strategy the schedule was reconciled with.
\<close>

theorem mirror_inverts_labels:
  assumes labels: "scheduledBackupLabels c s st t = Inr ls"
    and inherited: "\<forall>(k, v) \<in> set ls. map_of (m_labels (jb_meta j)) k = Some v"
    and t: "t = backupTypeLogical \<or> t = backupTypePhysical"
    and names: "s \<noteq> []" "st \<noteq> []" "in_name c \<noteq> []" "map_option ib_class (in_backup c) \<noteq> Some []"
  shows "\<exists>b params. Mirror j = Some b \<and> eb_schedule b = s \<and> eb_storage b = st \<and> eb_origin b = Some (in_name c)
     \<and> Some (eb_class b) = map_option ib_class (in_backup c)
     \<and> meta_key (eb_meta b) = meta_key (jb_meta j)
     \<and> backup_params_of je (eb_parameters b) = Inr params
     \<and> isPhysical params = (t = backupTypePhysical)"
proof -
  have "t \<noteq> []" using t by (auto simp: backupTypeLogical_def backupTypePhysical_def)
  from mirrored_labels [OF labels inherited this names] obtain cfg where "in_backup c = Some cfg"
    and "Mirror j = Some \<lparr> eb_meta = empty_meta (m_namespace (jb_meta j)) (m_name (jb_meta j)),
       eb_schedule = s, eb_class = ib_class cfg, eb_storage = st,
       eb_parameters = Some (Some (marshal_single ''type'' t)), eb_origin = Some (in_name c),
       eb_state = StateNone, eb_completed = None, eb_operator_ref = None \<rparr>" .
  then show ?thesis
    using marshal_type_params [OF t, of je]
    by (auto simp: rawParameters_def isPhysical_def meta_key_def empty_meta_def)
qed

definition backup_instance :: "string \<Rightarrow> instance_storage list \<Rightarrow> instance_cr" where
  "backup_instance topology sts =
     (plain_instance topology)\<lparr>in_backup := Some \<lparr> ib_enabled = True, ib_class = ''c'', ib_storages = sts \<rparr>\<rparr>"

theorem mirror_inverts_labels_witness:
  "\<exists>b params. Mirror \<lparr> jb_meta = (empty_meta ''ns'' ''j1'')\<lparr>m_labels :=
        [(scheduleLabel, ''daily''), (instanceLabel, ''db''), (storageLabel, ''st''), (classLabel, ''c''),
         (typeLabel, backupTypePhysical)]\<rparr>, jb_conditions = [] \<rparr> = Some b
     \<and> eb_schedule b = ''daily'' \<and> eb_storage b = ''st'' \<and> eb_origin b = Some ''db''
     \<and> eb_class b = ''c'' \<and> meta_key (eb_meta b) = (''ns'', ''j1'')
     \<and> backup_params_of (\<lambda>_. []) (eb_parameters b) = Inr params \<and> isPhysical params"
  using mirror_inverts_labels [of "backup_instance ''standalone'' []" "''daily''" "''st''" backupTypePhysical
     "[(scheduleLabel, ''daily''), (instanceLabel, ''db''), (storageLabel, ''st''), (classLabel, ''c''),
         (typeLabel, backupTypePhysical)]"
     "\<lparr> jb_meta = (empty_meta ''ns'' ''j1'')\<lparr>m_labels :=
        [(scheduleLabel, ''daily''), (instanceLabel, ''db''), (storageLabel, ''st''), (classLabel, ''c''),
         (typeLabel, backupTypePhysical)]\<rparr>, jb_conditions = [] \<rparr>" "\<lambda>_. []"]
  by (simp add: scheduledBackupLabels_def backup_instance_def plain_instance_def label_defs empty_meta_def meta_key_def)

subsection \<open>Pruning\<close>

lemma prune_loop:
  assumes "\<And>l k. ep_delete ep l k = None"
  shows "for_each (\<lambda>item. if \<not> P item then ret () else if Q item then ret ()
       else wrap_err (msg item) (api_delete K ep (key item))) items l =
     (Inr (), l @ map (\<lambda>item. (ReqDelete K (key item), None)) (filter (\<lambda>item. P item \<and> \<not> Q item) items))"
  by (induction items arbitrary: l)
     (auto simp: bnd_def attempt_def wrap_err_def api_delete_def request_def assms)

text \<open>
  Pruning deletes exactly the objects of this Instance that carry a schedule label and
  whose name is not wanted any more, in the order the server listed them: an object without
  the label (an on-demand backup, the base of point-in-time recovery) or with a wanted name
  is never touched.
\<close>

theorem prune_exact:
  assumes list: "ep_list (e_backups E) l [(instanceLabel, in_name c)] = Inr items"
      "ep_list (e_physicals E) l [(instanceLabel, in_name c)] = Inr pitems"
    and del: "\<And>l k. ep_delete (e_backups E) l k = None" "\<And>l k. ep_delete (e_physicals E) l k = None"
  shows "pruneScheduledBackups E c desired l = (Inr (), l @ (ReqList KBackup [(instanceLabel, in_name c)], None) #
       map (\<lambda>i. (ReqDelete KBackup (meta_key (ob_meta i)), None))
         (filter (\<lambda>i. map_of (m_labels (ob_meta i)) scheduleLabel \<noteq> None \<and> m_name (ob_meta i) \<notin> set desired) items))
   \<and> pruneScheduledPhysicalBackups E c desired l = (Inr (), l @ (ReqList KPhysicalBackup [(instanceLabel, in_name c)], None) #
       map (\<lambda>i. (ReqDelete KPhysicalBackup (meta_key (pb_meta i)), None))
         (filter (\<lambda>i. map_of (m_labels (pb_meta i)) scheduleLabel \<noteq> None \<and> m_name (pb_meta i) \<notin> set desired) pitems))"
proof -
  note loop = prune_loop [OF del(1), where P = "\<lambda>i. map_of (m_labels (ob_meta i)) scheduleLabel \<noteq> None"
      and Q = "\<lambda>i. m_name (ob_meta i) \<in> set desired", unfolded not_not]
    prune_loop [OF del(2), where P = "\<lambda>i. map_of (m_labels (pb_meta i)) scheduleLabel \<noteq> None"
      and Q = "\<lambda>i. m_name (pb_meta i) \<in> set desired", unfolded not_not]
  show ?thesis
    unfolding pruneScheduledBackups_def pruneScheduledPhysicalBackups_def
    by (simp add: bnd_def attempt_def wrap_err_def api_list_def request_def list loop del: not_None_eq)
qed

definition listing_endpoint :: "'o list \<Rightarrow> 'o endpoint" where
  "listing_endpoint xs = \<lparr> ep_get = (\<lambda>_ k. Inl (ApiNotFound (snd k))), ep_list = (\<lambda>_ _. Inr xs),
     ep_create = (\<lambda>_. Inr), ep_update = (\<lambda>_. Inr), ep_delete = (\<lambda>_ _. None) \<rparr>"

definition labelled_backup :: "string \<Rightarrow> labels \<Rightarrow> op_backup" where
  "labelled_backup n ls = (new_op_backup ''ns'' n)\<lparr>ob_meta := (empty_meta ''ns'' n)\<lparr>m_labels := ls\<rparr>\<rparr>"

theorem prune_exact_witness:
  "pruneScheduledBackups ((mem_env empty_world)\<lparr>e_backups := listing_endpoint
       [labelled_backup ''old'' [(scheduleLabel, ''s'')], labelled_backup ''kept'' [(scheduleLabel, ''s'')],
        labelled_backup ''manual'' []],
       e_physicals := listing_endpoint []\<rparr>) (plain_instance ''galera'') [''kept''] [] =
   (Inr (), [(ReqList KBackup [(instanceLabel, ''db'')], None), (ReqDelete KBackup (''ns'', ''old''), None)])"
  by (rule prune_exact [THEN conjunct1, THEN trans, of "(mem_env empty_world)\<lparr>e_backups := listing_endpoint
       [labelled_backup ''old'' [(scheduleLabel, ''s'')], labelled_backup ''kept'' [(scheduleLabel, ''s'')],
        labelled_backup ''manual'' []], e_physicals := listing_endpoint []\<rparr>" _ _
       "[labelled_backup ''old'' [(scheduleLabel, ''s'')], labelled_backup ''kept'' [(scheduleLabel, ''s'')],
        labelled_backup ''manual'' []]" "[]"])
     (simp_all add: listing_endpoint_def labelled_backup_def plain_instance_def meta_key_def empty_meta_def
        new_op_backup_def)

subsection \<open>A reconciled schedule is in force\<close>

lemma schedule_retention_eq:
  "schedule_retention E s l = (Inr rt, l') \<longleftrightarrow>
     l' = l \<and> deriveMaxRetention (e_cron E) (e_now E l) (sc_cron s) (sc_retention s) = Inr rt"
  by (auto simp: schedule_retention_def run_simps split: sum.splits)

lemma scheduled_backup_run:
  assumes "reconcileScheduledBackup E c mdb storageName schedule name params l = (Inr (), l')"
  obtains cfg rt now l2 managed b
    where "e_storage E l storageName = Inr (Some cfg)"
      and "deriveMaxRetention (e_cron E) now (sc_cron schedule) (sc_retention schedule) = Inr rt"
      and "\<forall>x. ep_get (e_backups E) l2 (key_of c name) = Inr x \<longrightarrow>
          ob_storage x = Some (operatorS3 cfg (in_name c)) \<and> ob_retention x = rt"
      and "create_or_update KBackup OBackup (e_backups E) (key_of c name) (new_op_backup (in_namespace c) name)
          (scheduled_backup_mutate E c mdb (Some (operatorS3 cfg (in_name c))) rt managed schedule params)
          (l2 @ [(ReqGet KBackup (key_of c name), outcome (ep_get (e_backups E) l2 (key_of c name)))]) = (Inr b, l')"
proof -
  from assms obtain st l1 rt l2 l3 managed b u
    where st: "buildOperatorS3Storage E c storageName l = (Inr st, l1)"
      and rt: "deriveMaxRetention (e_cron E) (e_now E l1) (sc_cron schedule) (sc_retention schedule) = Inr rt"
      and ex: "on_get (''get scheduled backup '' @ quote name) (api_get KBackup (e_backups E) (key_of c name))
            (ret ())
            (\<lambda>existing. if ob_storage existing \<noteq> st \<or> ob_retention existing \<noteq> rt then
                bnd (wrap_err (''delete outdated scheduled backup '' @ quote name)
                      (api_delete KBackup (e_backups E) (meta_key (ob_meta existing))))
                    (\<lambda>_. fail (WaitFor (''Recreating scheduled backup '' @ quote name)))
              else ret ()) l2 = (Inr u, l3)"
      and cou: "create_or_update KBackup OBackup (e_backups E) (key_of c name) (new_op_backup (in_namespace c) name)
          (scheduled_backup_mutate E c mdb st rt managed schedule params) l3 = (Inr b, l')"
    by (simp only: reconcileScheduledBackup_def bnd_eq_Inr wrap_err_eq_Inr schedule_retention_eq basic_eq_Inr) blast
  from st obtain cfg where cfg: "e_storage E l storageName = Inr (Some cfg)" "st = Some (operatorS3 cfg (in_name c))"
    by (auto simp: buildS3Storage_apply s3_of_def split: sum.splits option.splits)
  from ex have "l3 = l2 @ [(ReqGet KBackup (key_of c name), outcome (ep_get (e_backups E) l2 (key_of c name)))]"
    and "\<forall>x. ep_get (e_backups E) l2 (key_of c name) = Inr x \<longrightarrow> ob_storage x = st \<and> ob_retention x = rt"
    by (auto simp: run_simps split: if_splits)
  with rt cfg cou show ?thesis using that by blast
qed

lemma scheduled_object:
  assumes laws: "faithful_endpoint OBackup (e_backups E) ob_meta"
    and keep: "keeps_content (e_backups E) (\<lambda>b. (ob_storage b, ob_retention b, ob_schedule b, ob_args b, ob_databases b))"
    and own: "lawful_owner E"
    and run: "reconcileScheduledBackup E c mdb storageName schedule name params l = (Inr (), l')"
  obtains b cfg now where "ep_get (e_backups E) l' (key_of c name) = Inr b" and "e_storage E l storageName = Inr (Some cfg)"
    and "deriveMaxRetention (e_cron E) now (sc_cron schedule) (sc_retention schedule) = Inr (ob_retention b)"
    and "(ob_storage b, ob_schedule b, ob_args b, ob_databases b) = (Some (operatorS3 cfg (in_name c)),
       Some (sc_cron schedule, \<not> sc_enabled schedule), [''--flush-privileges''], bp_databases params)"
proof -
  let ?k = "key_of c name"
  from run obtain cfg rt now l2 managed b
    where cfg: "e_storage E l storageName = Inr (Some cfg)"
      and rt: "deriveMaxRetention (e_cron E) now (sc_cron schedule) (sc_retention schedule) = Inr rt"
      and ex: "\<forall>x. ep_get (e_backups E) l2 ?k = Inr x \<longrightarrow>
          ob_storage x = Some (operatorS3 cfg (in_name c)) \<and> ob_retention x = rt"
      and cou: "create_or_update KBackup OBackup (e_backups E) ?k (new_op_backup (in_namespace c) name)
          (scheduled_backup_mutate E c mdb (Some (operatorS3 cfg (in_name c))) rt managed schedule params)
          (l2 @ [(ReqGet KBackup ?k, outcome (ep_get (e_backups E) l2 ?k))]) = (Inr b, l')"
    by (rule scheduled_backup_run) blast
  let ?f = "scheduled_backup_mutate E c mdb (Some (operatorS3 cfg (in_name c))) rt managed schedule params"
  have f: "ob_schedule z = Some (sc_cron schedule, \<not> sc_enabled schedule) \<and> ob_args z = [''--flush-privileges'']
      \<and> ob_databases z = bp_databases params \<and> meta_key (ob_meta z) = meta_key (ob_meta y)
      \<and> (if m_rv (ob_meta y) = [] then ob_storage z = Some (operatorS3 cfg (in_name c)) \<and> ob_retention z = rt
          else ob_storage z = ob_storage y \<and> ob_retention z = ob_retention y)"
    if "?f y l1 = (Inr z, l3)" for y l1 z l3
    using that
    by (auto simp: scheduled_backup_mutate_def own_backup_def run_simps Let_def applyLogicalBackupParameters_def
        meta_key_def split: if_splits dest!: lawful_ownerD(2) [OF own])
  have there: "ep_get (e_backups E) l' ?k = Inr b"
  proof (rule create_or_update_settles [OF laws cou])
    show "meta_key (ob_meta (new_op_backup (in_namespace c) name)) = ?k"
      by (simp add: new_op_backup_def empty_meta_def meta_key_def key_of_def)
    show "emits read_only (?f y)" for y
      unfolding scheduled_backup_mutate_def Let_def by (intro post_intros)
  qed (use f in blast)
  have "(ob_storage b, ob_retention b, ob_schedule b, ob_args b, ob_databases b) =
      (Some (operatorS3 cfg (in_name c)), rt, Some (sc_cron schedule, \<not> sc_enabled schedule),
       [''--flush-privileges''], bp_databases params)"
    using keep cou
  proof (cases rule: create_or_update_content)
    case (made e l1 z l2)
    have "m_rv (ob_meta (new_op_backup (in_namespace c) name)) = []"
      by (simp add: new_op_backup_def empty_meta_def)
    with f [OF made(3)] made(4) show ?thesis by simp
  next
    case (kept y l1 z l3)
    from kept(1) get_after_reads [OF laws, of "[(ReqGet KBackup ?k, outcome (ep_get (e_backups E) l2 ?k))]"]
    have y: "ep_get (e_backups E) l2 ?k = Inr y" by simp
    with served_versionsD [OF faithful_served [OF laws] y] ex f [OF kept(2)] kept(3) show ?thesis by simp
  qed
  with there cfg rt show ?thesis by (intro that [of b cfg now]) auto
qed

text \<open>
  When the reconciliation of a logical schedule succeeds, the operator Backup of its name
  exists and runs it: with the schedule's cron and suspension, the S3 block resolved from the
  storage, the retention derived from the schedule (both immutable in the operator, so an
  object with other values was deleted before and not updated), and the schedule's
  parameters.
\<close>

theorem scheduled_backup_in_force:
  assumes laws: "faithful_endpoint OBackup (e_backups E) ob_meta"
    and keep: "keeps_content (e_backups E) (\<lambda>b. (ob_storage b, ob_retention b, ob_schedule b, ob_args b, ob_databases b))"
    and own: "lawful_owner E"
    and run: "reconcileScheduledBackup E c mdb storageName schedule name params l = (Inr (), l')"
  shows "\<exists>b cfg now. ep_get (e_backups E) l' (key_of c name) = Inr b
     \<and> e_storage E l storageName = Inr (Some cfg) \<and> ob_storage b = Some (operatorS3 cfg (in_name c))
     \<and> deriveMaxRetention (e_cron E) now (sc_cron schedule) (sc_retention schedule) = Inr (ob_retention b)
     \<and> ob_schedule b = Some (sc_cron schedule, \<not> sc_enabled schedule)
     \<and> ob_args b = [''--flush-privileges''] \<and> ob_databases b = bp_databases params"
  by (rule scheduled_object [OF assms]) auto

text \<open>
  The same for a physical schedule; its retention is not immutable and follows the schedule.
\<close>

lemma scheduled_physical_object:
  assumes laws: "faithful_endpoint OPhysicalBackup (e_physicals E) pb_meta"
    and keep: "keeps_content (e_physicals E) (\<lambda>b. (pb_storage b, pb_retention b, pb_schedule b))"
    and own: "lawful_owner E"
    and run: "reconcileScheduledPhysicalBackup E c mdb storageName schedule name params l = (Inr (), l')"
  obtains b cfg now where "ep_get (e_physicals E) l' (key_of c name) = Inr b" and "e_storage E l storageName = Inr (Some cfg)"
    and "deriveMaxRetention (e_cron E) now (sc_cron schedule) (sc_retention schedule) = Inr (pb_retention b)"
    and "(pb_storage b, pb_schedule b) = (Some (operatorS3 cfg (in_name c)),
       Some \<lparr> ps_cron = sc_cron schedule, ps_suspend = (\<not> sc_enabled schedule), ps_immediate = None \<rparr>)"
proof -
  let ?k = "key_of c name"
  from run obtain st l1 rt l2 l3 managed b u
    where st: "buildPhysicalS3Storage E c storageName l = (Inr st, l1)"
      and rt: "deriveMaxRetention (e_cron E) (e_now E l1) (sc_cron schedule) (sc_retention schedule) = Inr rt"
      and ex: "on_get (''get scheduled physical backup '' @ quote name) (api_get KPhysicalBackup (e_physicals E) ?k)
            (ret ())
            (\<lambda>existing. if pb_storage existing \<noteq> st then
                bnd (wrap_err (''delete outdated scheduled physical backup '' @ quote name)
                      (api_delete KPhysicalBackup (e_physicals E) (meta_key (pb_meta existing))))
                    (\<lambda>_. fail (WaitFor (''Recreating scheduled physical backup '' @ quote name)))
              else ret ()) l2 = (Inr u, l3)"
      and cou: "create_or_update KPhysicalBackup OPhysicalBackup (e_physicals E) ?k (new_phys_backup (in_namespace c) name)
          (scheduled_physical_mutate E c mdb st rt managed schedule params) l3 = (Inr b, l')"
    by (simp only: reconcileScheduledPhysicalBackup_def bnd_eq_Inr wrap_err_eq_Inr schedule_retention_eq basic_eq_Inr) blast
  from st obtain cfg where cfg: "e_storage E l storageName = Inr (Some cfg)" "st = Some (operatorS3 cfg (in_name c))"
    by (auto simp: buildS3Storage_apply s3_of_def split: sum.splits option.splits)
  from ex have l3: "l3 = l2 @ [(ReqGet KPhysicalBackup ?k, outcome (ep_get (e_physicals E) l2 ?k))]"
    and same: "\<forall>x. ep_get (e_physicals E) l2 ?k = Inr x \<longrightarrow> pb_storage x = st"
    by (auto simp: run_simps split: if_splits)
  let ?f = "scheduled_physical_mutate E c mdb st rt managed schedule params"
  have f: "pb_schedule z = Some \<lparr> ps_cron = sc_cron schedule, ps_suspend = (\<not> sc_enabled schedule), ps_immediate = None \<rparr>
      \<and> pb_retention z = rt \<and> meta_key (pb_meta z) = meta_key (pb_meta y)
      \<and> pb_storage z = (if m_rv (pb_meta y) = [] then st else pb_storage y)"
    if "?f y l1 = (Inr z, l3)" for y l1 z l3
    using that
    by (auto simp: scheduled_physical_mutate_def own_physical_def run_simps Let_def applyPhysicalBackupParameters_def
        meta_key_def split: if_splits dest!: lawful_ownerD(2) [OF own])
  have there: "ep_get (e_physicals E) l' ?k = Inr b"
  proof (rule create_or_update_settles [OF laws cou])
    show "meta_key (pb_meta (new_phys_backup (in_namespace c) name)) = ?k"
      by (simp add: new_phys_backup_def empty_meta_def meta_key_def key_of_def)
    show "emits read_only (?f y)" for y
      unfolding scheduled_physical_mutate_def Let_def by (intro post_intros)
  qed (use f in blast)
  have "(pb_storage b, pb_retention b, pb_schedule b) =
      (st, rt, Some \<lparr> ps_cron = sc_cron schedule, ps_suspend = (\<not> sc_enabled schedule), ps_immediate = None \<rparr>)"
    using keep cou
  proof (cases rule: create_or_update_content)
    case (made e l1 z l2)
    have "m_rv (pb_meta (new_phys_backup (in_namespace c) name)) = []"
      by (simp add: new_phys_backup_def empty_meta_def)
    with f [OF made(3)] made(4) show ?thesis by simp
  next
    case (kept y l1 z l4)
    from kept(1) get_after_reads [OF laws, of "[(ReqGet KPhysicalBackup ?k, outcome (ep_get (e_physicals E) l2 ?k))]"]
    have y: "ep_get (e_physicals E) l2 ?k = Inr y" by (simp add: l3)
    with served_versionsD [OF faithful_served [OF laws] y] same f [OF kept(2)] kept(3) show ?thesis by simp
  qed
  with there cfg rt show ?thesis by (intro that [of b cfg "e_now E l1"]) auto
qed

lemma mem_backups_keep:
  "keeps_content (e_backups (mem_env w)) (\<lambda>b. (ob_storage b, ob_retention b, ob_schedule b, ob_args b, ob_databases b))"
  unfolding mem_env_def by (simp, rule mem_endpoint_keeps) simp

definition daily :: backup_schedule where
  "daily = \<lparr> sc_name = ''daily'', sc_cron = ''0 0 * * *'', sc_enabled = True, sc_retention = None, sc_parameters = None \<rparr>"

abbreviation daily_run :: "(err + unit) \<times> log" where
  "daily_run \<equiv> reconcileScheduledBackup (mem_env backup_world) (backup_instance ''standalone'' []) plain_mariadb
     ''st'' daily ''mdb-sched-1'' zero_backup_params []"

theorem scheduled_backup_in_force_witness:
  "\<exists>b cfg now. ep_get (e_backups (mem_env backup_world)) (snd daily_run) (''ns'', ''mdb-sched-1'') = Inr b
     \<and> e_storage (mem_env backup_world) [] ''st'' = Inr (Some cfg) \<and> ob_storage b = Some (operatorS3 cfg ''db'')
     \<and> deriveMaxRetention (e_cron (mem_env backup_world)) now ''0 0 * * *'' None = Inr (ob_retention b)
     \<and> ob_schedule b = Some (''0 0 * * *'', False)
     \<and> ob_args b = [''--flush-privileges''] \<and> ob_databases b = None"
proof -
  have "fst daily_run = Inr ()" by code_simp
  then have run: "daily_run = (Inr (), snd daily_run)" by (simp add: prod_eq_iff)
  have v: "key_of (backup_instance ''standalone'' []) ''mdb-sched-1'' = (''ns'', ''mdb-sched-1'')"
    "in_name (backup_instance ''standalone'' []) = ''db''" "sc_cron daily = ''0 0 * * *''" "sc_retention daily = None"
    "(\<not> sc_enabled daily) = False" "bp_databases zero_backup_params = None"
    by code_simp+
  from scheduled_backup_in_force [OF mem_backups_faithful mem_backups_keep mem_lawful_owner run, unfolded v]
  show ?thesis .
qed

subsection \<open>Schedules of the same name\<close>

text \<open>
  The name of the operator object is derived from the Instance and the schedule, not from
  the storage. Two storages with a schedule of the same name therefore share one object,
  and as its storage is immutable each reconciliation deletes what the other one made:
  after the first schedule succeeded, the second deletes its object and waits.
\<close>

definition two_storages_world :: world where
  "two_storages_world = empty_world\<lparr>w_mariadbs := [plain_mariadb],
     w_storages := [(''st1'', Some plain_storage), (''st2'', Some (plain_storage\<lparr>s3c_bucket := ''other''\<rparr>))]\<rparr>"

abbreviation reconcile_daily :: "string \<Rightarrow> log \<Rightarrow> (err + unit) \<times> log" where
  "reconcile_daily st l \<equiv> reconcileScheduledBackup (mem_env two_storages_world) (backup_instance ''standalone'' [])
     plain_mariadb st daily ''mdb-sched-1'' zero_backup_params l"

theorem same_name_schedules_conflict:
  "fst (reconcile_daily ''st1'' []) = Inr ()
   \<and> (case fst (reconcile_daily ''st2'' (snd (reconcile_daily ''st1'' []))) of Inl (WaitFor _) \<Rightarrow> True | _ \<Rightarrow> False)
   \<and> last (snd (reconcile_daily ''st2'' (snd (reconcile_daily ''st1'' [])))) = (ReqDelete KBackup (''ns'', ''mdb-sched-1''), None)
   \<and> fst (reconcile_daily ''st1'' (snd (reconcile_daily ''st2'' (snd (reconcile_daily ''st1'' []))))) = Inr ()"
  by (intro conjI; code_simp)

end
