(* ===== verification/Rfc3339.thy ===== *)
theory Rfc3339
  imports GoLib
begin

section \<open>time.Parse with the layout time.RFC3339\<close>

text \<open>
  The parser of the Go standard library for \<open>2006-01-02T15:04:05Z07:00\<close>, with its
  liberties: the hour may have one digit, a fraction introduced by a period or a comma may
  follow the seconds although the layout has none, and digits beyond nanoseconds are cut.
  A time is the number of nanoseconds since the epoch.
\<close>

subsection \<open>Dates\<close>

definition is_leap :: "int \<Rightarrow> bool" where
  "is_leap y \<longleftrightarrow> y mod 4 = 0 \<and> (y mod 100 \<noteq> 0 \<or> y mod 400 = 0)"

definition days_in :: "int \<Rightarrow> int \<Rightarrow> int" where
  "days_in m y = (if m = 2 then (if is_leap y then 29 else 28)
     else if m = 4 \<or> m = 6 \<or> m = 9 \<or> m = 11 then 30 else 31)"

text \<open>Days from 1970-01-01, counting years from March so that the leap day comes last.\<close>

definition days_from_civil :: "int \<Rightarrow> int \<Rightarrow> int \<Rightarrow> int" where
  "days_from_civil y m d =
     (let y' = (if m \<le> 2 then y - 1 else y);
          m' = (if m > 2 then m - 3 else m + 9)
      in 365 * y' + y' div 4 - y' div 100 + y' div 400 + (153 * m' + 2) div 5 + d - 1 - 719468)"

subsection \<open>The pieces of the layout\<close>

definition expect :: "char \<Rightarrow> string \<Rightarrow> string option" where
  "expect c s = (case s of [] \<Rightarrow> None | x # xs \<Rightarrow> if x = c then Some xs else None)"

text \<open>\<open>getnum(s, fixed)\<close>: two digits, or one if a single digit is allowed.\<close>

fun getnum :: "string \<Rightarrow> bool \<Rightarrow> (int \<times> string) option" where
  "getnum [] fixed = None"
| "getnum [a] fixed = (if is_digit a \<and> \<not> fixed then Some (digit_val a, []) else None)"
| "getnum (a # b # s) fixed =
     (if \<not> is_digit a then None
      else if is_digit b then Some (digit_val a * 10 + digit_val b, s)
      else if fixed then None else Some (digit_val a, b # s))"

definition get_year :: "string \<Rightarrow> (int \<times> string) option" where
  "get_year s = (if length s < 4 \<or> \<not> list_all is_digit (take 4 s) then None
     else Some (digits_val (take 4 s), drop 4 s))"

definition in_range :: "int \<Rightarrow> int \<Rightarrow> int \<times> string \<Rightarrow> (int \<times> string) option" where
  "in_range lo hi r = (if lo \<le> fst r \<and> fst r \<le> hi then Some r else None)"

text \<open>The optional fraction: nanoseconds and the rest.\<close>

definition get_fraction :: "string \<Rightarrow> int \<times> string" where
  "get_fraction s =
     (case s of
        a # b # t \<Rightarrow>
          if (a = CHR ''.'' \<or> a = CHR '','') \<and> is_digit b then
            (let ds = takeWhile is_digit (b # t); kept = take 9 ds
             in (digits_val kept * 10 ^ (9 - length kept), dropWhile is_digit (b # t)))
          else (0, s)
      | _ \<Rightarrow> (0, s))"

text \<open>The zone: \<open>Z\<close> or a signed offset, in seconds.\<close>

definition get_zone :: "string \<Rightarrow> (int \<times> string) option" where
  "get_zone s =
     (case s of
        [] \<Rightarrow> None
      | x # t \<Rightarrow>
         if x = CHR ''Z'' then Some (0, t)
         else if length s < 6 \<or> s ! 3 \<noteq> CHR '':'' then None
         else (case (getnum (take 2 (drop 1 s)) True, getnum (take 2 (drop 4 s)) True) of
             (Some (hr, _), Some (mm, _)) \<Rightarrow>
               if hr > 24 \<or> mm > 60 then None
               else if x = CHR ''+'' then Some ((hr * 60 + mm) * 60, drop 6 s)
               else if x = CHR ''-'' then Some (- ((hr * 60 + mm) * 60), drop 6 s)
               else None
           | _ \<Rightarrow> None))"

subsection \<open>The parser\<close>

definition rfc3339_parse :: "string \<Rightarrow> int option" where
  "rfc3339_parse s =
     Option.bind (get_year s) (\<lambda>(y, s).
     Option.bind (expect CHR ''-'' s) (\<lambda>s.
     Option.bind (Option.bind (getnum s True) (in_range 1 12)) (\<lambda>(mo, s).
     Option.bind (expect CHR ''-'' s) (\<lambda>s.
     Option.bind (getnum s True) (\<lambda>(d, s).
     Option.bind (expect CHR ''T'' s) (\<lambda>s.
     Option.bind (Option.bind (getnum s False) (in_range 0 23)) (\<lambda>(h, s).
     Option.bind (expect CHR '':'' s) (\<lambda>s.
     Option.bind (Option.bind (getnum s True) (in_range 0 59)) (\<lambda>(mi, s).
     Option.bind (expect CHR '':'' s) (\<lambda>s.
     Option.bind (Option.bind (getnum s True) (in_range 0 59)) (\<lambda>(sec, s).
     case get_fraction s of (ns, s) \<Rightarrow>
     Option.bind (get_zone s) (\<lambda>(off, s).
     if s \<noteq> [] \<or> d < 1 \<or> d > days_in mo y then None
     else Some ((((days_from_civil y mo d * 24 + h) * 60 + mi) * 60 + sec - off) * 1000000000 + ns)))))))))))))"

subsection \<open>Formatting and parsing again\<close>

definition pad2 :: "int \<Rightarrow> string" where
  "pad2 n = [digit (n div 10), digit (n mod 10)]"

definition pad4 :: "int \<Rightarrow> string" where
  "pad4 n = [digit (n div 1000), digit (n div 100 mod 10), digit (n div 10 mod 10), digit (n mod 10)]"

text \<open>\<open>Format(time.RFC3339)\<close> of a UTC time with these fields.\<close>

definition rfc3339_format :: "int \<Rightarrow> int \<Rightarrow> int \<Rightarrow> int \<Rightarrow> int \<Rightarrow> int \<Rightarrow> string" where
  "rfc3339_format y mo d h mi s =
     pad4 y @ ''-'' @ pad2 mo @ ''-'' @ pad2 d @ ''T'' @ pad2 h @ '':'' @ pad2 mi @ '':'' @ pad2 s @ ''Z''"

lemma getnum_pad2: "0 \<le> n \<Longrightarrow> n < 100 \<Longrightarrow> getnum (pad2 n @ t) fixed = Some (n, t)"
  by (auto simp: pad2_def)

lemma get_year_digits:
  assumes "0 \<le> a" "a < 10" "0 \<le> b" "b < 10" "0 \<le> c" "c < 10" "0 \<le> e" "e < 10"
  shows "get_year (digit a # digit b # digit c # digit e # t) = Some (a * 1000 + b * 100 + c * 10 + e, t)"
  using assms by (simp add: get_year_def digits_val_def)

lemma get_year_pad4:
  assumes "0 \<le> n" and "n < 10000"
  shows "get_year (pad4 n @ t) = Some (n, t)"
proof -
  have eq: "n div 1000 * 1000 + n div 100 mod 10 * 100 + n div 10 mod 10 * 10 + n mod 10 = n"
  proof -
    have "n div 100 = n div 10 div 10" "n div 1000 = n div 10 div 10 div 10"
      using zdiv_zmult2_eq [of 10 n 10] zdiv_zmult2_eq [of 10 "n" 100] zdiv_zmult2_eq [of 10 "n div 10" 10] by simp_all
    moreover have "b * 10 + r = n \<Longrightarrow> c * 10 + u = b \<Longrightarrow> e * 10 + v = c \<Longrightarrow> e * 1000 + v * 100 + u * 10 + r = n"
      for b c e r u v :: int by linarith
    from this [OF div_mult_mod_eq div_mult_mod_eq div_mult_mod_eq]
    have "n div 10 div 10 div 10 * 1000 + n div 10 div 10 mod 10 * 100 + n div 10 mod 10 * 10 + n mod 10 = n" .
    ultimately show ?thesis by (simp only:)
  qed
  have "0 \<le> n div 1000" "n div 1000 < 10" using assms by auto
  then have "get_year (digit (n div 1000) # digit (n div 100 mod 10) # digit (n div 10 mod 10) # digit (n mod 10) # t) =
      Some (n div 1000 * 1000 + n div 100 mod 10 * 100 + n div 10 mod 10 * 10 + n mod 10, t)"
    by (rule get_year_digits) simp_all
  then show ?thesis by (simp only: pad4_def append_Cons append_Nil eq)
qed

lemma expect_Cons [simp]: "expect c (c # s) = Some s"
  by (simp add: expect_def)

lemma rfc3339_parse_format:
  assumes "0 \<le> y" "y < 10000" "1 \<le> mo" "mo \<le> 12" "1 \<le> d" "d \<le> days_in mo y"
    and "0 \<le> h" "h < 24" "0 \<le> mi" "mi < 60" "0 \<le> s" "s < 60"
  shows "rfc3339_parse (rfc3339_format y mo d h mi s) =
     Some ((((days_from_civil y mo d * 24 + h) * 60 + mi) * 60 + s) * 1000000000)"
proof -
  have "d < 100" using assms by (auto simp: days_in_def split: if_splits)
  with assms show ?thesis
    by (simp add: rfc3339_parse_def rfc3339_format_def get_year_pad4 getnum_pad2 in_range_def
        get_fraction_def get_zone_def)
qed

end
