(* ===== verification/Pitr.thy ===== *)
theory Pitr
  imports Schedule Rfc3339
begin

section \<open>Point-in-time recovery\<close>

text \<open>
  \<open>pitr.go\<close>: the choice of the storage with point-in-time recovery and of the physical
  schedule that drives its base backup, the reconciliation and the teardown of the base
  backup and of the PointInTimeRecovery resource; and \<open>BackupStorageStatuses\<close> of
  \<open>backup_status.go\<close>, which publishes the recovery window.
\<close>

subsection \<open>Configuration\<close>

definition pitr_storages :: "instance_storage list \<Rightarrow> instance_storage list" where
  "pitr_storages sts = filter (\<lambda>s. is_pitr s = Some True) sts"

definition pitrEnabledStorage :: "instance_backup option \<Rightarrow> err + instance_storage option" where
  "pitrEnabledStorage backupCfg =
     (case backupCfg of
        None \<Rightarrow> Inr None
      | Some cfg \<Rightarrow>
         if \<not> ib_enabled cfg then Inr None
         else let names = map is_ref (pitr_storages (ib_storages cfg)) in
           if length names > 1 then
             Inl (BackupConfigError ''PITRConfigInvalid''
               (''at most one PITR-enabled storage is supported, got '' @ Itoa (int (length names)) @ '': ''
                 @ show_strings names))
           else Inr (case pitr_storages (ib_storages cfg) of [] \<Rightarrow> None | s # _ \<Rightarrow> Some s))"

fun first_physical ::
  "(string \<Rightarrow> string) \<Rightarrow> string \<Rightarrow> backup_schedule list \<Rightarrow> err + backup_schedule" where
  "first_physical je st [] = Inl (BackupConfigError ''PITRConfigInvalid''
     (''PITR-enabled storage '' @ quote st @
      '' must declare at least one physical backup schedule to serve as the full base backup''))"
| "first_physical je st (s # ss) =
     ebind (backup_params_of je (sc_parameters s))
       (\<lambda>params. if isPhysical params then Inr s else first_physical je st ss)"

definition firstPhysicalSchedule :: "(string \<Rightarrow> string) \<Rightarrow> instance_storage \<Rightarrow> err + backup_schedule" where
  "firstPhysicalSchedule je st = first_physical je (is_ref st) (is_schedules st)"

subsection \<open>Reconciliation\<close>

definition pitr_base_labels :: "instance_cr \<Rightarrow> labels" where
  "pitr_base_labels c = [(instanceLabel, in_name c), (pitrBaseLabel, ''true'')]"

definition pitr_base_mutate ::
  "env \<Rightarrow> instance_cr \<Rightarrow> mariadb \<Rightarrow> s3 option \<Rightarrow> i64 \<Rightarrow> backup_schedule \<Rightarrow> phys_backup \<Rightarrow> phys_backup go" where
  "pitr_base_mutate E c mdb st rt schedule b =
     (let b1 = (if m_rv (pb_meta b) = [] then
                  b\<lparr>pb_meta := (pb_meta b)\<lparr>m_labels := pitr_base_labels c\<rparr>, pb_ref := mariadb_ref c, pb_storage := st\<rparr>
                else b);
          b2 = b1\<lparr>pb_retention := rt,
                 pb_schedule := Some \<lparr> ps_cron = sc_cron schedule, ps_suspend = (\<not> sc_enabled schedule),
                   ps_immediate = Some True \<rparr>\<rparr>
      in own_physical E (owner_of ''MariaDB'' (md_meta mdb)) (applyPhysicalBackupParameters zero_backup_params b2))"

definition reconcilePITRBaseBackup ::
  "env \<Rightarrow> instance_cr \<Rightarrow> mariadb \<Rightarrow> string \<Rightarrow> backup_schedule \<Rightarrow> string \<Rightarrow> unit go" where
  "reconcilePITRBaseBackup E c mdb storageName schedule name =
     bnd (buildPhysicalS3Storage E c storageName) (\<lambda>st.
     bnd (schedule_retention E schedule) (\<lambda>rt.
     wrap_err (''reconcile PITR base backup '' @ quote name)
       (bnd (create_or_update KPhysicalBackup OPhysicalBackup (e_physicals E) (key_of c name)
               (new_phys_backup (in_namespace c) name)
               (pitr_base_mutate E c mdb st rt schedule)) (\<lambda>_. ret ()))))"

definition reconcilePITR_mutate :: "env \<Rightarrow> instance_cr \<Rightarrow> s3 \<Rightarrow> string \<Rightarrow> pitr_cr \<Rightarrow> pitr_cr go" where
  "reconcilePITR_mutate E c st baseName p =
     (let p1 = (if m_rv (pi_meta p) = [] then p\<lparr>pi_base := baseName\<rparr> else p);
          p2 = p1\<lparr>pi_storage := Some st\<rparr>
      in bnd (lift (e_set_controller E (instance_owner c) (pi_meta p2))) (\<lambda>m. ret (p2\<lparr>pi_meta := m\<rparr>)))"

definition reconcilePITR :: "env \<Rightarrow> instance_cr \<Rightarrow> string \<Rightarrow> string \<Rightarrow> unit go" where
  "reconcilePITR E c storageName baseName =
     bnd (buildOperatorS3 E storageName (in_name c @ binlogPrefixSuffix)) (\<lambda>st.
     wrap_err (''reconcile PointInTimeRecovery '' @ quote (pitrCRName (in_name c)))
       (bnd (create_or_update KPITR OPITR (e_pitrs E) (key_of c (pitrCRName (in_name c)))
               (new_pitr (in_namespace c) (pitrCRName (in_name c)))
               (reconcilePITR_mutate E c st baseName)) (\<lambda>_. ret ())))"

definition teardownPITR :: "env \<Rightarrow> instance_cr \<Rightarrow> unit go" where
  "teardownPITR E c =
     bnd (on_get ''get PointInTimeRecovery for teardown'' (api_get KPITR (e_pitrs E) (key_of c (pitrCRName (in_name c))))
            (ret ())
            (\<lambda>p. if m_deleting (pi_meta p) then ret ()
                 else wrap_err (''delete PointInTimeRecovery '' @ quote (m_name (pi_meta p)))
                        (api_delete KPITR (e_pitrs E) (meta_key (pi_meta p))))) (\<lambda>_.
     on_get ''get PITR base backup for teardown''
       (api_get KPhysicalBackup (e_physicals E) (key_of c (pitrBaseBackupName (in_name c))))
       (ret ())
       (\<lambda>b. if m_deleting (pb_meta b) then ret ()
            else wrap_err (''delete PITR base backup '' @ quote (m_name (pb_meta b)))
                   (api_delete KPhysicalBackup (e_physicals E) (meta_key (pb_meta b)))))"

definition SyncPITR :: "env \<Rightarrow> instance_cr \<Rightarrow> unit go" where
  "SyncPITR E c =
     bnd (lift (pitrEnabledStorage (in_backup c))) (\<lambda>storage. case storage of
         None \<Rightarrow> teardownPITR E c
       | Some st \<Rightarrow>
           bnd (owner_mariadb E c) (\<lambda>mdb.
           bnd (lift (firstPhysicalSchedule (e_json_error E) st)) (\<lambda>schedule.
           bnd (reconcilePITRBaseBackup E c mdb (is_ref st) schedule (pitrBaseBackupName (in_name c))) (\<lambda>_.
           reconcilePITR E c (is_ref st) (pitrBaseBackupName (in_name c))))))"

definition desiredPITRRef :: "env \<Rightarrow> instance_cr \<Rightarrow> string option go" where
  "desiredPITRRef E c =
     bnd (lift (pitrEnabledStorage (in_backup c))) (\<lambda>storage. case storage of
         None \<Rightarrow> ret None
       | Some _ \<Rightarrow> on_get ''get PointInTimeRecovery'' (api_get KPITR (e_pitrs E) (key_of c (pitrCRName (in_name c))))
           (ret None) (\<lambda>_. ret (Some (pitrCRName (in_name c)))))"

subsection \<open>The recovery window\<close>

definition pitrReasonWindowAvailable :: string where "pitrReasonWindowAvailable = ''WindowAvailable''"
definition pitrReasonNoBaseBackup :: string where "pitrReasonNoBaseBackup = ''NoRecoverableTime''"

record pitr_status =
  ws_latest :: "time option"
  ws_available :: bool
  ws_reason :: string
  ws_message :: string

text \<open>\<open>time_err\<close> is the text of the error \<open>time.Parse\<close> gives for the input.\<close>

definition pitrWindow :: "(string \<Rightarrow> string) \<Rightarrow> string option \<Rightarrow> pitr_status" where
  "pitrWindow time_err recoverable =
     (if recoverable = None \<or> recoverable = Some [] then
        \<lparr> ws_latest = None, ws_available = False, ws_reason = pitrReasonNoBaseBackup,
          ws_message = ''Waiting for a full base backup and archived binary logs'' \<rparr>
      else let s = (case recoverable of Some s \<Rightarrow> s | None \<Rightarrow> []) in
       (case rfc3339_parse s of
          None \<Rightarrow> \<lparr> ws_latest = None, ws_available = False, ws_reason = pitrReasonNoBaseBackup,
            ws_message = ''Invalid lastRecoverableTime '' @ quote s @ '': '' @ time_err s \<rparr>
        | Some t \<Rightarrow> \<lparr> ws_latest = Some t, ws_available = True, ws_reason = pitrReasonWindowAvailable,
            ws_message = [] \<rparr>))"

definition BackupStorageStatuses ::
  "(string \<Rightarrow> string) \<Rightarrow> env \<Rightarrow> instance_cr \<Rightarrow> (string \<times> pitr_status) list go" where
  "BackupStorageStatuses time_err E c =
     (case pitrEnabledStorage (in_backup c) of
        Inl _ \<Rightarrow> ret []
      | Inr None \<Rightarrow> ret []
      | Inr (Some st) \<Rightarrow>
          on_get ''get PointInTimeRecovery'' (api_get KPITR (e_pitrs E) (key_of c (pitrCRName (in_name c))))
            (ret []) (\<lambda>p. ret [(is_ref st, pitrWindow time_err (pi_last p))]))"

subsection \<open>The configuration\<close>

lemma first_physical_Inr:
  "first_physical je st ss = Inr s \<longleftrightarrow>
     (\<exists>pre post params. ss = pre @ s # post
        \<and> backup_params_of je (sc_parameters s) = Inr params \<and> isPhysical params
        \<and> list_all (\<lambda>x. \<exists>q. backup_params_of je (sc_parameters x) = Inr q \<and> \<not> isPhysical q) pre)"
  (is "_ \<longleftrightarrow> ?R ss")
proof (induction ss)
  case (Cons x ss)
  show ?case
  proof (cases "backup_params_of je (sc_parameters x)")
    case (Inl e)
    then have "\<not> ?R (x # ss)" by (auto simp: Cons_eq_append_conv)
    with Inl show ?thesis by simp
  next
    case (Inr q)
    show ?thesis
    proof (cases "isPhysical q")
      case True
      with Inr show ?thesis by (auto simp: Cons_eq_append_conv)
    next
      case False
      have "?R (x # ss) \<longleftrightarrow> ?R ss"
      proof
        assume "?R (x # ss)"
        then obtain pre post params where split: "x # ss = pre @ s # post"
          and ok: "backup_params_of je (sc_parameters s) = Inr params" "isPhysical params"
            "list_all (\<lambda>x. \<exists>q. backup_params_of je (sc_parameters x) = Inr q \<and> \<not> isPhysical q) pre"
          by blast
        from ok(1,2) Inr False have "s \<noteq> x" by auto
        with split obtain pre' where "pre = x # pre'" "ss = pre' @ s # post" by (auto simp: Cons_eq_append_conv)
        with ok show "?R ss" by auto
      next
        assume "?R ss"
        then obtain pre post params where "ss = pre @ s # post"
          and ok: "backup_params_of je (sc_parameters s) = Inr params" "isPhysical params"
            "list_all (\<lambda>x. \<exists>q. backup_params_of je (sc_parameters x) = Inr q \<and> \<not> isPhysical q) pre"
          by blast
        then have "x # ss = (x # pre) @ s # post"
          and "list_all (\<lambda>x. \<exists>q. backup_params_of je (sc_parameters x) = Inr q \<and> \<not> isPhysical q) (x # pre)"
          using Inr False by simp_all
        with ok show "?R (x # ss)" by blast
      qed
      with Inr False Cons.IH show ?thesis by simp
    qed
  qed
qed simp

text \<open>
  Point-in-time recovery is on exactly when an enabled backup block has one storage that
  enables it, off when it has none, and an error (reported as PITRConfigInvalid) when it has
  several; the base backup follows the first schedule of that storage that is physical,
  every one before it being decodable and logical.
\<close>

theorem pitr_config_exact:
  "(pitrEnabledStorage b = Inr (Some s) \<longleftrightarrow>
      (\<exists>cfg. b = Some cfg \<and> ib_enabled cfg \<and> filter (\<lambda>x. is_pitr x = Some True) (ib_storages cfg) = [s]))
   \<and> (pitrEnabledStorage b = Inr None \<longleftrightarrow>
      (\<forall>cfg. b = Some cfg \<longrightarrow> ib_enabled cfg \<longrightarrow> filter (\<lambda>x. is_pitr x = Some True) (ib_storages cfg) = []))
   \<and> (\<forall>e. pitrEnabledStorage b = Inl e \<longrightarrow> (\<exists>m. e = BackupConfigError ''PITRConfigInvalid'' m))
   \<and> (firstPhysicalSchedule je s = Inr sch \<longleftrightarrow>
      (\<exists>pre post params. is_schedules s = pre @ sch # post
        \<and> backup_params_of je (sc_parameters sch) = Inr params \<and> isPhysical params
        \<and> list_all (\<lambda>x. \<exists>q. backup_params_of je (sc_parameters x) = Inr q \<and> \<not> isPhysical q) pre))"
proof (intro conjI)
  show "firstPhysicalSchedule je s = Inr sch \<longleftrightarrow>
      (\<exists>pre post params. is_schedules s = pre @ sch # post
        \<and> backup_params_of je (sc_parameters sch) = Inr params \<and> isPhysical params
        \<and> list_all (\<lambda>x. \<exists>q. backup_params_of je (sc_parameters x) = Inr q \<and> \<not> isPhysical q) pre)"
    unfolding firstPhysicalSchedule_def by (rule first_physical_Inr)
qed (auto simp: pitrEnabledStorage_def pitr_storages_def Let_def Suc_lessI split: option.splits list.splits if_splits)

theorem pitr_config_exact_witness:
  "pitrEnabledStorage (Some \<lparr> ib_enabled = True, ib_class = ''c'',
       ib_storages = [\<lparr> is_ref = ''a'', is_pitr = None, is_schedules = [] \<rparr>, \<lparr> is_ref = ''b'', is_pitr = Some True, is_schedules = [] \<rparr>] \<rparr>)
     = Inr (Some \<lparr> is_ref = ''b'', is_pitr = Some True, is_schedules = [] \<rparr>)"
  using pitr_config_exact [of "Some \<lparr> ib_enabled = True, ib_class = ''c'',
       ib_storages = [\<lparr> is_ref = ''a'', is_pitr = None, is_schedules = [] \<rparr>, \<lparr> is_ref = ''b'', is_pitr = Some True, is_schedules = [] \<rparr>] \<rparr>"
       "\<lparr> is_ref = ''b'', is_pitr = Some True, is_schedules = [] \<rparr>"]
  by simp

subsection \<open>What the reconciliation writes\<close>

text \<open>
  The base backup carries its own labels and not those of a schedule. The PITR resource
  names the base once, when it is created.
\<close>

fun pitr_write :: "env \<Rightarrow> instance_cr \<Rightarrow> request \<Rightarrow> bool" where
  "pitr_write E c (ReqCreate (OPhysicalBackup b)) =
     (meta_key (pb_meta b) = key_of c (pitrBaseBackupName (in_name c)) \<and> m_labels (pb_meta b) = pitr_base_labels c
      \<and> pb_inherit b = None \<and> pb_ref b = mariadb_ref c \<and> pb_target b = Some target_prefer_replica
      \<and> (\<exists>s. pb_storage b = Some s \<and> storage_block E (in_name c) s))"
| "pitr_write E c (ReqUpdate (OPhysicalBackup b)) =
     (\<exists>l x. ep_get (e_physicals E) l (key_of c (pitrBaseBackupName (in_name c))) = Inr x
        \<and> pb_storage b = pb_storage x \<and> pb_ref b = pb_ref x \<and> m_labels (pb_meta b) = m_labels (pb_meta x))"
| "pitr_write E c (ReqCreate (OPITR p)) =
     (meta_key (pi_meta p) = key_of c (pitrCRName (in_name c)) \<and> pi_base p = pitrBaseBackupName (in_name c)
      \<and> (\<exists>s. pi_storage p = Some s \<and> storage_block E (in_name c @ ''-binlog'') s))"
| "pitr_write E c (ReqUpdate (OPITR p)) =
     (\<exists>l x. ep_get (e_pitrs E) l (key_of c (pitrCRName (in_name c))) = Inr x \<and> pi_base p = pi_base x)"
| "pitr_write E c (ReqDelete KPITR k) = (k = key_of c (pitrCRName (in_name c)) \<and> pitrEnabledStorage (in_backup c) = Inr None)"
| "pitr_write E c (ReqDelete KPhysicalBackup k) =
     (k = key_of c (pitrBaseBackupName (in_name c)) \<and> pitrEnabledStorage (in_backup c) = Inr None)"
| "pitr_write E c q = (\<not> is_write q)"

lemma pitr_base_cou:
  assumes own: "lawful_owner E" and served: "served_versions (e_physicals E) pb_meta"
    and st: "storage_block E (in_name c) st"
  shows "emits (\<lambda>e. pitr_write E c (fst e))
    (create_or_update KPhysicalBackup OPhysicalBackup (e_physicals E) (key_of c (pitrBaseBackupName (in_name c)))
       (new_phys_backup (in_namespace c) (pitrBaseBackupName (in_name c)))
       (pitr_base_mutate E c mdb (Some st) rt schedule))"
    (is "emits ?P (create_or_update _ _ _ ?k ?new ?f)")
proof (rule emits_create_or_update_spec
    [where is_new = "\<lambda>b. pitr_write E c (ReqCreate (OPhysicalBackup b))"
       and is_old = "\<lambda>x b. pb_storage b = pb_storage x \<and> pb_ref b = pb_ref x \<and> m_labels (pb_meta b) = m_labels (pb_meta x)"])
  have rv: "m_rv (pb_meta ?new) = []" by (simp add: new_phys_backup_def empty_meta_def)
  have key: "meta_key (pb_meta ?new) = ?k" "pb_inherit ?new = None"
    by (simp_all add: new_phys_backup_def empty_meta_def meta_key_def key_of_def)
  show "yields (\<lambda>b. pitr_write E c (ReqCreate (OPhysicalBackup b))) (?f ?new)"
    unfolding yields_def
    using rv key st
    by (auto simp: pitr_base_mutate_def own_physical_def run_simps Let_def applyPhysicalBackupParameters_def
        zero_backup_params_def meta_key_def dest!: lawful_keeps [OF own])
  show "yields (\<lambda>b. pb_storage b = pb_storage x \<and> pb_ref b = pb_ref x \<and> m_labels (pb_meta b) = m_labels (pb_meta x)) (?f x)"
    if "ep_get (e_physicals E) l ?k = Inr x" for l x
    unfolding yields_def
    using served_versionsD [OF served that]
    by (auto simp: pitr_base_mutate_def own_physical_def run_simps Let_def applyPhysicalBackupParameters_def
        dest!: lawful_keeps [OF own])
  show "emits ?P (?f x)" for x
    unfolding pitr_base_mutate_def Let_def by (intro post_intros)
qed auto

lemma reconcilePITR_cou:
  assumes own: "lawful_owner E" and served: "served_versions (e_pitrs E) pi_meta"
    and st: "storage_block E (in_name c @ binlogPrefixSuffix) st"
  shows "emits (\<lambda>e. pitr_write E c (fst e))
    (create_or_update KPITR OPITR (e_pitrs E) (key_of c (pitrCRName (in_name c)))
       (new_pitr (in_namespace c) (pitrCRName (in_name c)))
       (reconcilePITR_mutate E c st (pitrBaseBackupName (in_name c))))"
    (is "emits ?P (create_or_update _ _ _ ?k ?new ?f)")
proof (rule emits_create_or_update_spec
    [where is_new = "\<lambda>p. pitr_write E c (ReqCreate (OPITR p))" and is_old = "\<lambda>x p. pi_base p = pi_base x"])
  have rv: "m_rv (pi_meta ?new) = []" "meta_key (pi_meta ?new) = ?k"
    by (simp_all add: new_pitr_def empty_meta_def meta_key_def key_of_def)
  show "yields (\<lambda>p. pitr_write E c (ReqCreate (OPITR p))) (?f ?new)"
    unfolding yields_def
    using rv st
    by (auto simp: reconcilePITR_mutate_def run_simps Let_def binlogPrefixSuffix_def dest!: lawful_keeps [OF own])
  show "yields (\<lambda>p. pi_base p = pi_base x) (?f x)" if "ep_get (e_pitrs E) l ?k = Inr x" for l x
    unfolding yields_def
    using served_versionsD [OF served that]
    by (auto simp: reconcilePITR_mutate_def run_simps Let_def)
  show "emits ?P (?f x)" for x
    unfolding reconcilePITR_mutate_def Let_def by (intro post_intros)
qed auto

lemma pitr_write_read: "\<not> is_write q \<Longrightarrow> pitr_write E c q"
  by (cases q) simp_all

lemma emits_owner_mariadb [post_intros]:
  "(\<And>r. P (ReqGet KMariaDB (key_of c (in_name c)), r)) \<Longrightarrow> emits P (owner_mariadb E c)"
  unfolding owner_mariadb_def by (intro post_intros)

lemma emits_schedule_retention [post_intros]: "emits P (schedule_retention E s)"
  unfolding schedule_retention_def by (intro post_intros)

lemma reconcilePITRBaseBackup_writes:
  assumes "lawful_owner E" and "served_versions (e_physicals E) pb_meta"
  shows "emits (\<lambda>e. pitr_write E c (fst e))
    (reconcilePITRBaseBackup E c mdb st schedule (pitrBaseBackupName (in_name c)))"
  unfolding reconcilePITRBaseBackup_def
  by (rule emits_bnd_yields [OF _ yields_storage_block(3)])
     (auto intro!: post_intros pitr_base_cou assms)

lemma reconcilePITR_writes:
  assumes "lawful_owner E" and "served_versions (e_pitrs E) pi_meta"
  shows "emits (\<lambda>e. pitr_write E c (fst e)) (reconcilePITR E c st (pitrBaseBackupName (in_name c)))"
  unfolding reconcilePITR_def
  by (rule emits_bnd_yields [OF _ yields_storage_block(1)])
     (auto intro!: post_intros reconcilePITR_cou assms)

lemma teardownPITR_writes:
  assumes "pitrEnabledStorage (in_backup c) = Inr None"
    and "\<And>l k x. ep_get (e_pitrs E) l k = Inr x \<Longrightarrow> meta_key (pi_meta x) = k"
    and "\<And>l k x. ep_get (e_physicals E) l k = Inr x \<Longrightarrow> meta_key (pb_meta x) = k"
  shows "emits (\<lambda>e. pitr_write E c (fst e)) (teardownPITR E c)"
  unfolding teardownPITR_def
proof (rule emits_bnd)
  show "emits (\<lambda>e. pitr_write E c (fst e))
    (on_get ''get PointInTimeRecovery for teardown'' (api_get KPITR (e_pitrs E) (key_of c (pitrCRName (in_name c))))
            (ret ())
            (\<lambda>p. if m_deleting (pi_meta p) then ret ()
                 else wrap_err (''delete PointInTimeRecovery '' @ quote (m_name (pi_meta p)))
                        (api_delete KPITR (e_pitrs E) (meta_key (pi_meta p)))))"
    by (rule emits_on_get_yields [OF _ yields_served]) (auto intro!: post_intros simp: assms)
  show "emits (\<lambda>e. pitr_write E c (fst e))
    (on_get ''get PITR base backup for teardown''
       (api_get KPhysicalBackup (e_physicals E) (key_of c (pitrBaseBackupName (in_name c))))
       (ret ())
       (\<lambda>b. if m_deleting (pb_meta b) then ret ()
            else wrap_err (''delete PITR base backup '' @ quote (m_name (pb_meta b)))
                   (api_delete KPhysicalBackup (e_physicals E) (meta_key (pb_meta b)))))"
    by (rule emits_on_get_yields [OF _ yields_served]) (auto intro!: post_intros simp: assms)
qed

lemma SyncPITR_writes_of:
  assumes own: "lawful_owner E"
    and laws: "faithful_endpoint OPITR (e_pitrs E) pi_meta" "faithful_endpoint OPhysicalBackup (e_physicals E) pb_meta"
  shows "emits (\<lambda>e. pitr_write E c (fst e)) (SyncPITR E c)"
  unfolding SyncPITR_def
proof (rule emits_bnd_yields [where Q = "\<lambda>st. pitrEnabledStorage (in_backup c) = Inr st"])
  fix st assume st: "pitrEnabledStorage (in_backup c) = Inr st"
  have key: "ep_get (e_pitrs E) l k = Inr x \<Longrightarrow> meta_key (pi_meta x) = k"
    "ep_get (e_physicals E) l k = Inr y \<Longrightarrow> meta_key (pb_meta y) = k" for l k x y
    using laws unfolding faithful_endpoint_def by blast+
  show "emits (\<lambda>e. pitr_write E c (fst e)) (case st of None \<Rightarrow> teardownPITR E c
       | Some st \<Rightarrow>
           bnd (owner_mariadb E c) (\<lambda>mdb.
           bnd (lift (firstPhysicalSchedule (e_json_error E) st)) (\<lambda>schedule.
           bnd (reconcilePITRBaseBackup E c mdb (is_ref st) schedule (pitrBaseBackupName (in_name c))) (\<lambda>_.
           reconcilePITR E c (is_ref st) (pitrBaseBackupName (in_name c))))))"
  proof (cases st)
    case None
    with st teardownPITR_writes key show ?thesis by simp
  next
    case (Some s)
    then show ?thesis
      by simp (intro post_intros reconcilePITRBaseBackup_writes reconcilePITR_writes own
          faithful_served [OF laws(1)] faithful_served [OF laws(2)]; simp)
  qed
qed (auto intro: post_intros yield_intros)


definition pitr_storage :: instance_storage where
  "pitr_storage = \<lparr> is_ref = ''st'', is_pitr = Some True, is_schedules =
     [daily\<lparr>sc_parameters := Some (Some (marshal_single ''type'' ''physical''))\<rparr>] \<rparr>"


subsection \<open>The window\<close>

text \<open>
  C37: A recoverable time the operator publishes in RFC 3339, for any valid date, is
  published as the end of the window, to the nanosecond; without one the window is not
  available and the reason says so.
\<close>

theorem pitr_window_roundtrip:
  assumes "0 \<le> y" "y < 10000" "1 \<le> mo" "mo \<le> 12" "1 \<le> d" "d \<le> days_in mo y"
    and "0 \<le> h" "h < 24" "0 \<le> mi" "mi < 60" "0 \<le> s" "s < 60"
  shows "ws_latest (pitrWindow te (Some (rfc3339_format y mo d h mi s))) =
       Some ((((days_from_civil y mo d * 24 + h) * 60 + mi) * 60 + s) * 1000000000)
     \<and> ws_available (pitrWindow te (Some (rfc3339_format y mo d h mi s)))
     \<and> \<not> ws_available (pitrWindow te None) \<and> \<not> ws_available (pitrWindow te (Some []))
     \<and> (ws_available (pitrWindow te (Some t)) \<longleftrightarrow> rfc3339_parse t \<noteq> None)"
proof -
  have "rfc3339_format y mo d h mi s \<noteq> []" by (simp add: rfc3339_format_def pad4_def)
  moreover have "rfc3339_parse [] = None" by code_simp
  ultimately show ?thesis
    using rfc3339_parse_format [OF assms] by (auto simp: pitrWindow_def Let_def split: option.splits)
qed

theorem pitr_window_roundtrip_witness:
  "ws_latest (pitrWindow (\<lambda>_. []) (Some ''2024-02-29T12:00:00Z'')) = Some 1709208000000000000"
proof -
  have "rfc3339_format 2024 2 29 12 0 0 = ''2024-02-29T12:00:00Z''" by code_simp
  moreover have "((((days_from_civil 2024 2 29 * 24 + 12) * 60 + 0) * 60 + 0) * 1000000000 :: int) = 1709208000000000000"
    by code_simp
  ultimately show ?thesis
    using pitr_window_roundtrip [of 2024 2 29 12 0 0 "\<lambda>_. []"] by (simp add: days_in_def is_leap_def)
qed

end
