(* ===== verification/ReplicaTemplate.thy ===== *)
theory ReplicaTemplate
  imports Backup
begin

section \<open>The template of new replicas\<close>

text \<open>
  \<open>replica_template.go\<close>: the suspended PhysicalBackup from which the operator clones new
  replicas of a replication cluster.
\<close>

definition replicaTemplateStorage :: "instance_cr \<Rightarrow> instance_storage option" where
  "replicaTemplateStorage c =
     (case in_backup c of
        None \<Rightarrow> None
      | Some b \<Rightarrow> if \<not> ib_enabled b then None else (case ib_storages b of [] \<Rightarrow> None | s # _ \<Rightarrow> Some s))"

definition desiredReplicaBootstrapFrom :: "instance_cr \<Rightarrow> string option" where
  "desiredReplicaBootstrapFrom c =
     (if \<not> isReplicationTopology c \<or> replicaTemplateStorage c = None then None
      else Some (replicaTemplateName (in_name c)))"

definition replica_template_mutate ::
  "env \<Rightarrow> instance_cr \<Rightarrow> mariadb \<Rightarrow> s3 option \<Rightarrow> phys_backup \<Rightarrow> phys_backup go" where
  "replica_template_mutate E c mdb st b =
     (let b1 = (if m_rv (pb_meta b) = [] then
                  b\<lparr>pb_ref := \<lparr> rf_name = in_name c, rf_wait = False \<rparr>, pb_storage := st\<rparr> else b);
          b2 = b1\<lparr>pb_schedule := Some \<lparr> ps_cron = [], ps_suspend = True, ps_immediate = None \<rparr>,
                  pb_target := Some target_prefer_replica\<rparr>
      in own_physical E (owner_of ''MariaDB'' (md_meta mdb)) b2)"

definition SyncReplicaTemplate :: "env \<Rightarrow> instance_cr \<Rightarrow> unit go" where
  "SyncReplicaTemplate E c =
     (let name = replicaTemplateName (in_name c) in
      if \<not> isReplicationTopology c \<or> replicaTemplateStorage c = None then
        delete_if_present ''delete replica template'' (api_delete KPhysicalBackup (e_physicals E) (key_of c name))
      else let storage = the (replicaTemplateStorage c) in
        on_get ''get MariaDB'' (api_get KMariaDB (e_mariadbs E) (key_of c (in_name c))) (ret ()) (\<lambda>mdb.
        bnd (buildOperatorS3 E (is_ref storage) (in_name c @ replicaPrefixSuffix)) (\<lambda>s3.
        bnd (on_get ''get replica template'' (api_get KPhysicalBackup (e_physicals E) (key_of c name))
               (ret ())
               (\<lambda>existing. if pb_storage existing \<noteq> Some s3 then
                   bnd (wrap_err ''delete outdated replica template''
                          (api_delete KPhysicalBackup (e_physicals E) (meta_key (pb_meta existing))))
                       (\<lambda>_. fail (WaitFor ''Recreating replica template''))
                 else ret ())) (\<lambda>_.
        let tpl = (new_phys_backup (in_namespace c) name)\<lparr>pb_meta := e_object_meta E c name\<rparr> in
        wrap_err ''reconcile replica template''
          (bnd (create_or_update KPhysicalBackup OPhysicalBackup (e_physicals E) (meta_key (pb_meta tpl)) tpl
                  (replica_template_mutate E c mdb (Some s3))) (\<lambda>_. ret ()))))))"

subsection \<open>What it writes\<close>

fun template_write :: "env \<Rightarrow> instance_cr \<Rightarrow> request \<Rightarrow> bool" where
  "template_write E c (ReqCreate (OPhysicalBackup b)) =
     (isReplicationTopology c \<and> (\<exists>ps. pb_schedule b = Some ps \<and> ps_suspend ps \<and> ps_immediate ps = None)
      \<and> pb_target b = Some target_prefer_replica \<and> \<not> rf_wait (pb_ref b)
      \<and> (\<exists>s. pb_storage b = Some s \<and> storage_block E (in_name c @ ''-replica'') s))"
| "template_write E c (ReqUpdate (OPhysicalBackup b)) =
     (isReplicationTopology c \<and> (\<exists>ps. pb_schedule b = Some ps \<and> ps_suspend ps \<and> ps_immediate ps = None)
      \<and> (\<exists>l k x. ep_get (e_physicals E) l k = Inr x \<and> pb_storage b = pb_storage x \<and> pb_ref b = pb_ref x))"
| "template_write E c (ReqDelete KPhysicalBackup k) = (k = key_of c (replicaTemplateName (in_name c)))"
| "template_write E c q = (\<not> is_write q)"

lemma template_cou:
  assumes own: "lawful_owner E" and served: "served_versions (e_physicals E) pb_meta"
    and st: "storage_block E (in_name c @ replicaPrefixSuffix) st" and repl: "isReplicationTopology c"
    and fresh: "m_rv (e_object_meta E c name) = []"
  shows "emits (\<lambda>e. template_write E c (fst e))
    (create_or_update KPhysicalBackup OPhysicalBackup (e_physicals E) k
       ((new_phys_backup (in_namespace c) name)\<lparr>pb_meta := e_object_meta E c name\<rparr>)
       (replica_template_mutate E c mdb (Some st)))"
    (is "emits ?P (create_or_update _ _ _ _ ?new ?f)")
proof (rule emits_create_or_update_spec
    [where is_new = "\<lambda>b. template_write E c (ReqCreate (OPhysicalBackup b))"
       and is_old = "\<lambda>x b. template_write E c (ReqUpdate (OPhysicalBackup b))"])
  show "yields (\<lambda>b. template_write E c (ReqCreate (OPhysicalBackup b))) (?f ?new)"
    unfolding yields_def
    using fresh st repl
    by (auto simp: replica_template_mutate_def own_physical_def run_simps Let_def replicaPrefixSuffix_def)
  show "yields (\<lambda>b. template_write E c (ReqUpdate (OPhysicalBackup b))) (?f x)"
    if "ep_get (e_physicals E) l k = Inr x" for l x
    unfolding yields_def
    using served_versionsD [OF served that] that repl
    by (auto simp: replica_template_mutate_def own_physical_def run_simps Let_def simp del: split_paired_Ex) blast
  show "emits ?P (?f x)" for x
    unfolding replica_template_mutate_def Let_def by (intro post_intros)
qed auto

lemma SyncReplicaTemplate_writes_of:
  assumes "lawful_owner E" and "faithful_endpoint OPhysicalBackup (e_physicals E) pb_meta"
    and "m_rv (e_object_meta E c (replicaTemplateName (in_name c))) = []"
  shows "emits (\<lambda>e. template_write E c (fst e)) (SyncReplicaTemplate E c)"
proof (cases "\<not> isReplicationTopology c \<or> replicaTemplateStorage c = None")
  case True
  then show ?thesis unfolding SyncReplicaTemplate_def Let_def if_P [OF True] by (intro post_intros) simp
next
  case False
  then have repl: "isReplicationTopology c" by simp
  have key: "ep_get (e_physicals E) l k = Inr y \<Longrightarrow> meta_key (pb_meta y) = k" for l k y
    using assms(2) unfolding faithful_endpoint_def by blast
  have ex: "emits (\<lambda>e. template_write E c (fst e))
       (on_get ''get replica template'' (api_get KPhysicalBackup (e_physicals E) (key_of c (replicaTemplateName (in_name c))))
               (ret ())
               (\<lambda>existing. if pb_storage existing \<noteq> Some s3 then
                   bnd (wrap_err ''delete outdated replica template''
                          (api_delete KPhysicalBackup (e_physicals E) (meta_key (pb_meta existing))))
                       (\<lambda>_. fail (WaitFor ''Recreating replica template''))
                 else ret ()))" for s3
    by (rule emits_on_get_yields [OF _ yields_served]) (auto intro!: post_intros simp: key)
  note cou = template_cou [OF assms(1) faithful_served [OF assms(2)] _ repl assms(3)]
  show ?thesis
    unfolding SyncReplicaTemplate_def Let_def if_not_P [OF False]
    by (intro emits_on_get emits_bnd_yields [OF _ yields_storage_block(1)] emits_bnd ex emits_wrap_err cou
        post_intros; simp)
qed

text \<open>
  The replica template exists only for the replication topology with a backup storage,
  and is deleted otherwise. Every version of it that is written is suspended and never runs
  immediately, so it takes no backup of its own; a new one reads from the prefix of the
  replica clones and does not wait for the cluster; an existing one keeps its storage.
\<close>

theorem SyncReplicaTemplate_writes:
  assumes "lawful_owner E" and "faithful_endpoint OPhysicalBackup (e_physicals E) pb_meta"
    and "m_rv (e_object_meta E c (replicaTemplateName (in_name c))) = []"
    and run: "SyncReplicaTemplate E c l = (r, l')"
  shows "\<exists>new. l' = l @ new \<and> list_all (\<lambda>e. template_write E c (fst e)) new"
  using emitsD [OF SyncReplicaTemplate_writes_of [OF assms(1-3)] run] .

definition replication_instance :: instance_cr where
  "replication_instance = (plain_instance ''replication'')\<lparr>in_backup := Some \<lparr> ib_enabled = True, ib_class = ''c'',
     ib_storages = [\<lparr> is_ref = ''st'', is_pitr = None, is_schedules = [] \<rparr>] \<rparr>\<rparr>"

theorem SyncReplicaTemplate_writes_witness:
  "(\<exists>new. snd (SyncReplicaTemplate (mem_env backup_world) replication_instance []) = [] @ new
      \<and> list_all (\<lambda>e. template_write (mem_env backup_world) replication_instance (fst e)) new)
   \<and> length (filter (\<lambda>e. is_write (fst e))
       (snd (SyncReplicaTemplate (mem_env backup_world) replication_instance []))) = 1"
proof
  have "m_rv (e_object_meta (mem_env backup_world) replication_instance (replicaTemplateName (in_name replication_instance))) = []"
    by code_simp
  from SyncReplicaTemplate_writes [OF mem_lawful_owner mem_physicals_faithful this prod.collapse [symmetric]]
  show "\<exists>new. snd (SyncReplicaTemplate (mem_env backup_world) replication_instance []) = [] @ new
      \<and> list_all (\<lambda>e. template_write (mem_env backup_world) replication_instance (fst e)) new" .
qed code_simp

end
