(* ===== verification/MariaDB.thy ===== *)
theory MariaDB
  imports MaxScale DataSource Pitr ReplicaTemplate
begin

section \<open>The MariaDB cluster\<close>

text \<open>
  \<open>mariadb.go\<close>: the MariaDB the provider declares for an Instance, its application, the
  translation of its status with the connection details, and its removal.
\<close>

definition defaultPort :: int where "defaultPort = 3306"
definition rootPasswordSecretKey :: string where "rootPasswordSecretKey = ''root-password''"
definition userPasswordSecretKey :: string where "userPasswordSecretKey = ''password''"
definition defaultInitialDatabase :: string where "defaultInitialDatabase = ''everest''"
definition defaultInitialUser :: string where "defaultInitialUser = ''everest''"

subsection \<open>The desired resource\<close>

text \<open>Quantities are counted in nano units, the finest a \<open>resource.Quantity\<close> keeps.\<close>

definition gibibytes :: "int \<Rightarrow> quantity" where
  "gibibytes n = n * 1073741824 * 1000000000"

definition engineStorageSize :: "component_spec \<Rightarrow> quantity" where
  "engineStorageSize engine =
     (case cs_storage engine of
        Some st \<Rightarrow> if sr_size st \<noteq> 0 then sr_size st else gibibytes 10
      | None \<Rightarrow> gibibytes 10)"

definition generatedSecretKeyRef :: "string \<Rightarrow> string \<Rightarrow> generated_key" where
  "generatedSecretKeyRef name key = \<lparr> gk_key = (name, key), gk_generate = True \<rparr>"

definition desired_replication :: "instance_cr \<Rightarrow> replication option" where
  "desired_replication c =
     (if isReplicationTopology c then
        let boot = desiredReplicaBootstrapFrom c in
        Some \<lparr> rp_enabled = True, rp_boot_as_replica = Some True, rp_bootstrap = boot,
               rp_recovery = (if boot \<noteq> None then Some True else None) \<rparr>
      else None)"

definition desired_spec ::
  "env \<Rightarrow> instance_cr \<Rightarrow> string \<Rightarrow> metrics option \<Rightarrow> op_tls \<Rightarrow> string option \<Rightarrow> mariadb_spec" where
  "desired_spec E c img metrics tls pitrRef =
     (let engine = engine_of c;
          ha = isGaleraTopology c \<or> isReplicationTopology c;
          scheduling = deref (cs_scheduling engine) zero_scheduling
      in \<lparr> ms_image = img,
           ms_pull_policy = ''IfNotPresent'',
           ms_replicas = deref (cs_replicas engine) (defaultReplicas c),
           ms_storage_size = Some (engineStorageSize engine),
           ms_storage_class = (case cs_storage engine of Some st \<Rightarrow> deref (sr_class st) [] | None \<Rightarrow> []),
           ms_storage_ephemeral = Some False,
           ms_root_empty = Some False,
           ms_my_cnf = (case e_try_decode_engine E engine of
               Some p \<Rightarrow> if mp_configuration p \<noteq> [] then Some (mp_configuration p) else None
             | None \<Rightarrow> None),
           ms_root_password = generatedSecretKeyRef (rootSecretName (in_name c)) rootPasswordSecretKey,
           ms_username = Some defaultInitialUser,
           ms_database = Some defaultInitialDatabase,
           ms_password = Some (generatedSecretKeyRef (userSecretName (in_name c)) userPasswordSecretKey),
           ms_resources = declared_resources (cs_resources engine),
           ms_metrics = metrics,
           ms_tls = Some tls,
           ms_pitr_ref = pitrRef,
           ms_auto_update = Some True,
           ms_auto_upgrade = Some True,
           ms_affinity = buildAffinity (sp_affinity scheduling) ha (in_name c),
           ms_node_selector = sp_node_selector scheduling,
           ms_tolerations = sp_tolerations scheduling,
           ms_spread = convertTopologySpreadConstraints (e_topology_spread E scheduling (mariadbPodLabels (in_name c))),
           ms_pod_labels = Some (e_pod_labels E c ComponentEngine),
           ms_galera = (if isGaleraTopology c then Some True else None),
           ms_replication = desired_replication c,
           ms_primary_service = (if ha then configureService E (cs_service engine) else None),
           ms_service = (if ha then None else configureService E (cs_service engine)),
           ms_bootstrap = None \<rparr>)"

definition desiredMariaDB :: "env \<Rightarrow> instance_cr \<Rightarrow> mariadb go" where
  "desiredMariaDB E c =
     bnd (lift (resolveEngineImage E (engine_of c))) (\<lambda>img.
     bnd (lift (ewrap ''build metrics'' (buildMetrics E c))) (\<lambda>metrics.
     bnd (lift (ewrap ''build TLS'' (buildTLS E c))) (\<lambda>tls.
     bnd (wrap_err ''resolve PITR reference'' (desiredPITRRef E c)) (\<lambda>pitrRef.
     ret \<lparr> md_meta = e_object_meta E c (in_name c), md_spec = desired_spec E c img metrics tls pitrRef,
           md_conditions = [] \<rparr>))))"

subsection \<open>Application\<close>

definition with_bootstrap :: "bootstrap_from option \<Rightarrow> mariadb \<Rightarrow> mariadb" where
  "with_bootstrap b m = m\<lparr>md_spec := (md_spec m)\<lparr>ms_bootstrap := b\<rparr>\<rparr>"

definition with_immutables :: "mariadb \<Rightarrow> mariadb \<Rightarrow> mariadb" where
  "with_immutables existing m = m\<lparr>md_spec := (md_spec m)
     \<lparr>ms_bootstrap := ms_bootstrap (md_spec existing), ms_storage_class := ms_storage_class (md_spec existing)\<rparr>\<rparr>"

definition SyncMariaDB :: "env \<Rightarrow> instance_cr \<Rightarrow> unit go" where
  "SyncMariaDB E c =
     bnd (desiredMariaDB E c) (\<lambda>desired.
     bnd (on_get ''get MariaDB'' (api_get KMariaDB (e_mariadbs E) (key_of c (in_name c)))
            (bnd (resolveBootstrapFrom E c) (\<lambda>(bootstrap, sourceInstance).
             bnd (if bootstrap \<noteq> None then ensureRestoreCredentials E c sourceInstance else ret ()) (\<lambda>_.
             ret (with_bootstrap bootstrap desired))))
            (\<lambda>existing.
             bnd (migrateFieldOwnership E OMariaDB (e_mariadbs E) md_meta (\<lambda>m x. x\<lparr>md_meta := m\<rparr>) existing) (\<lambda>_.
             ret (with_immutables existing desired)))) (\<lambda>desired.
     bnd (lift (toApplyObject E KMariaDB (e_unstruct_mariadb E) desired)) (\<lambda>ob.
     wrap_err ''apply MariaDB'' (api_apply E KMariaDB ob))))"

subsection \<open>Connection details\<close>

record conn_details =
  cd_type :: string
  cd_provider :: string
  cd_host :: string
  cd_port :: string
  cd_username :: string
  cd_password :: string
  cd_uri :: string
  cd_properties :: "(string \<times> string) list"

fun first_address :: "(string \<times> string) list \<Rightarrow> string option" where
  "first_address [] = None"
| "first_address ((ip, host) # is) =
     (if ip \<noteq> [] then Some ip else if host \<noteq> [] then Some host else first_address is)"

definition resolveHost :: "env \<Rightarrow> instance_cr \<Rightarrow> string \<Rightarrow> string go" where
  "resolveHost E c serviceName =
     (let internal = serviceName @ ''.'' @ in_namespace c @ ''.svc'' in
      attempt (api_get KService (e_services E) (key_of c serviceName)) (case_sum
        (\<lambda>_. ret internal)
        (\<lambda>svc. if sx_type svc \<noteq> ServiceTypeLoadBalancer then ret internal
               else ret (deref (first_address (sx_ingress svc)) internal))))"

definition client_service :: "instance_cr \<Rightarrow> maxscale option \<Rightarrow> string" where
  "client_service c mxs =
     (case mxs of
        Some m \<Rightarrow> m_name (mx_meta m)
      | None \<Rightarrow> if isHATopology c then in_name c @ primaryServiceSuffix else in_name c)"

definition buildConnectionDetails :: "env \<Rightarrow> instance_cr \<Rightarrow> maxscale option \<Rightarrow> conn_details go" where
  "buildConnectionDetails E c mxs =
     bnd (wrap_err ''get credentials secret'' (api_get KSecret (e_secrets E) (key_of c (userSecretName (in_name c))))) (\<lambda>secret.
     bnd (case mxs of
            Some m \<Rightarrow> ret (e_mxs_tls E m)
          | None \<Rightarrow> bnd (lift (ewrap ''resolve TLS settings'' (resolveTLSSettings E c))) (\<lambda>s. ret (ts_enabled s))) (\<lambda>tlsEnabled.
     bnd (resolveHost E c (client_service c mxs)) (\<lambda>host.
     let caBundle = tlsCABundleSecretName (case mxs of Some m \<Rightarrow> m_name (mx_meta m) | None \<Rightarrow> in_name c);
         port = Itoa defaultPort;
         username = defaultInitialUser;
         password = or_empty (map_of (se_data secret) userPasswordSecretKey)
     in bnd (if tlsEnabled then
               attempt (api_get KSecret (e_secrets E) (key_of c caBundle)) (case_sum
                 (\<lambda>e. fail (WrappedV TLSCABundleNotReady e))
                 (\<lambda>ca. let data = or_empty (map_of (se_data ca) tlsCAKey) in
                    if data = [] then
                      fail (WrappedV TLSCABundleNotReady (Errorf (''secret '' @ quote (m_name (se_meta ca))
                        @ '' has no '' @ quote tlsCAKey @ '' key'')))
                    else ret [(tlsConnectionKey, FormatBool True), (tlsCAKey, data)]))
             else ret []) (\<lambda>props.
        ret \<lparr> cd_type = ''mysql'', cd_provider = ProviderName, cd_host = host, cd_port = port,
              cd_username = username, cd_password = password,
              cd_uri = ''mysql://'' @ username @ '':'' @ password @ ''@'' @ host @ '':'' @ port @ ''/'' @ defaultInitialDatabase,
              cd_properties = props \<rparr>))))"

subsection \<open>Status\<close>

datatype status =
    Provisioning string
  | Restoring string
  | FailedStatus string
  | ReadyWithConnectionDetails conn_details

definition getReadyCondition :: "mariadb \<Rightarrow> condition option" where
  "getReadyCondition m = find (\<lambda>x. cn_type x = TypeReady) (md_conditions m)"

definition details_status :: "env \<Rightarrow> instance_cr \<Rightarrow> maxscale option \<Rightarrow> status go" where
  "details_status E c mxs =
     attempt (buildConnectionDetails E c mxs) (case_sum
       (\<lambda>e. if is_ca_bundle_not_ready e then ret (Provisioning ''Waiting for MariaDB TLS CA bundle'')
            else if is_not_found e then ret (Provisioning ''Waiting for MariaDB credentials secret'')
            else fail e)
       (\<lambda>details. ret (ReadyWithConnectionDetails details)))"

definition ready_status :: "env \<Rightarrow> instance_cr \<Rightarrow> status go" where
  "ready_status E c =
     bnd (lift (isProxyEnabled E c)) (\<lambda>proxyEnabled.
     if \<not> proxyEnabled then details_status E c None
     else bnd (readyMaxScale E c) (\<lambda>ready. case ready of
         Inl msg \<Rightarrow> ret (Provisioning msg)
       | Inr mxs \<Rightarrow> details_status E c (Some mxs)))"

definition staged_status :: "env \<Rightarrow> ds_status option go" where
  "staged_status E = (\<lambda>l. (Inr (e_ds_status E l), l))"

definition StatusMariaDB :: "env \<Rightarrow> instance_cr \<Rightarrow> status go" where
  "StatusMariaDB E c =
     on_get ''get MariaDB'' (api_get KMariaDB (e_mariadbs E) (key_of c (in_name c)))
       (ret (Provisioning ''Waiting for MariaDB cluster to be created''))
       (\<lambda>mdb. bnd (staged_status E) (\<lambda>ds.
          if (case ds of Some d \<Rightarrow> dss_state d = DSFailed | None \<Rightarrow> False) then
            ret (FailedStatus (dss_message (the ds)))
          else if (case ds of Some d \<Rightarrow> \<not> dss_done d | None \<Rightarrow> False) then
            ret (Restoring (dss_message (the ds)))
          else if e_is_ready E mdb then ready_status E c
          else (case getReadyCondition mdb of
              Some cond \<Rightarrow> if cn_message cond \<noteq> [] then ret (Provisioning (cn_message cond))
                           else ret (Provisioning ''Waiting for MariaDB cluster to be ready'')
            | None \<Rightarrow> ret (Provisioning ''Waiting for MariaDB cluster to be ready''))))"

subsection \<open>Cleanup\<close>

definition CleanupMariaDB :: "env \<Rightarrow> instance_cr \<Rightarrow> unit go" where
  "CleanupMariaDB E c =
     bnd (teardownMaxScale E c) (\<lambda>_.
     delete_if_present ''delete MariaDB'' (api_delete KMariaDB (e_mariadbs E) (key_of c (in_name c))))"

subsection \<open>Emission rules\<close>

lemma emits_desiredPITRRef [post_intros]:
  "(\<And>r. P (ReqGet KPITR (key_of c (pitrCRName (in_name c))), r)) \<Longrightarrow> emits P (desiredPITRRef E c)"
  unfolding desiredPITRRef_def by (intro post_intros)

lemma emits_desiredMariaDB [post_intros]:
  "(\<And>r. P (ReqGet KPITR (key_of c (pitrCRName (in_name c))), r)) \<Longrightarrow> emits P (desiredMariaDB E c)"
  unfolding desiredMariaDB_def by (intro post_intros)

lemma emits_staged_status [post_intros]: "emits P (staged_status E)"
  by (simp add: emits_def post_def staged_status_def)

lemma emits_resolveHost [post_intros]:
  "(\<And>r. P (ReqGet KService (key_of c n), r)) \<Longrightarrow> emits P (resolveHost E c n)"
  unfolding resolveHost_def Let_def by (intro post_intros)

lemma resolveHost_total: "\<exists>h. fst (resolveHost E c n l) = Inr h"
  by (auto simp: resolveHost_def Let_def attempt_def api_get_def request_def split: sum.splits)

subsection \<open>What is declared\<close>

lemma desiredMariaDB_spec:
  assumes "desiredMariaDB E c l = (Inr m, l')"
  obtains img metrics tls pitrRef where "resolveEngineImage E (engine_of c) = Inr img"
    and "buildMetrics E c = Inr metrics" and "buildTLS E c = Inr tls"
    and "desiredPITRRef E c l = (Inr pitrRef, l')"
    and "m = \<lparr> md_meta = e_object_meta E c (in_name c), md_spec = desired_spec E c img metrics tls pitrRef,
           md_conditions = [] \<rparr>"
  using assms by (auto simp: desiredMariaDB_def run_simps)



subsection \<open>What is written\<close>

text \<open>
  The object applied: what is desired, with the bootstrap source either just resolved (the
  server has no MariaDB) or copied from the MariaDB the server returned.
\<close>

definition applied_mariadb :: "env \<Rightarrow> instance_cr \<Rightarrow> mariadb \<Rightarrow> bool" where
  "applied_mariadb E c m \<longleftrightarrow>
     (\<exists>d l1 l2. desiredMariaDB E c l1 = (Inr d, l2) \<and>
        ((\<exists>l e b src. ep_get (e_mariadbs E) l (key_of c (in_name c)) = Inl e \<and> is_not_found e
            \<and> (b = None \<or> (\<exists>x. b = Some x \<and> seeds_from E c x src)) \<and> m = with_bootstrap b d)
         \<or> (\<exists>l x. ep_get (e_mariadbs E) l (key_of c (in_name c)) = Inr x \<and> m = d\<lparr>md_spec := (md_spec d)
               \<lparr>ms_bootstrap := ms_bootstrap (md_spec x), ms_storage_class := ms_storage_class (md_spec x)\<rparr>\<rparr>)))"

definition copied_secret :: "env \<Rightarrow> instance_cr \<Rightarrow> secret \<Rightarrow> bool" where
  "copied_secret E c x \<longleftrightarrow>
     (\<exists>n l e. n \<in> {rootSecretName (in_name c), userSecretName (in_name c)}
        \<and> ep_get (e_secrets E) l (key_of c n) = Inl e \<and> is_not_found e)
     \<and> (\<exists>l k s. ep_get (e_secrets E) l k = Inr s \<and> se_type x = se_type s \<and> se_data x = se_data s)"

fun mariadb_write :: "env \<Rightarrow> instance_cr \<Rightarrow> request \<Rightarrow> bool" where
  "mariadb_write E c (ReqApply K js) =
     (K = KMariaDB \<and> (\<exists>m. applied_mariadb E c m \<and> toApplyObject E KMariaDB (e_unstruct_mariadb E) m = Inr js))"
| "mariadb_write E c (ReqUpdate ob) =
     (\<exists>l x m. ep_get (e_mariadbs E) l (key_of c (in_name c)) = Inr x
        \<and> hasLegacyUpdateManager (m_managed (md_meta x)) \<and> ob = OMariaDB (x\<lparr>md_meta := m\<rparr>))"
| "mariadb_write E c (ReqCreate ob) = (\<exists>x. ob = OSecret x \<and> copied_secret E c x)"
| "mariadb_write E c q = (\<not> is_write q)"

lemma mariadb_write_read: "\<not> is_write q \<Longrightarrow> mariadb_write E c q"
  by (cases q) simp_all

text \<open>A read that tells the rest of the run what it found, absence included.\<close>

lemma emits_get_both:
  assumes get: "\<And>r. P (ReqGet K k, r)"
    and a: "(\<exists>l e. ep_get ep l k = Inl e \<and> is_not_found e) \<Longrightarrow> emits P a"
    and f: "\<And>x. (\<exists>l. ep_get ep l k = Inr x) \<Longrightarrow> emits P (f x)"
  shows "emits P (on_get msg (api_get K ep k) a f)"
proof (cases "\<exists>l e. ep_get ep l k = Inl e \<and> is_not_found e")
  case True
  show ?thesis by (rule emits_on_get_yields [OF emits_api(1) yields_served a f]) (use get True in auto)
next
  case False
  then have "on_get msg (api_get K ep k) a f = on_get msg (api_get K ep k) (ret undefined) f"
    by (auto simp: fun_eq_iff on_get_def api_get_def request_def attempt_def split: sum.splits)
  moreover have "emits P (on_get msg (api_get K ep k) (ret undefined) f)"
    by (rule emits_on_get_yields [OF emits_api(1) yields_served emits_ret f]) (use get in auto)
  ultimately show ?thesis by simp
qed

lemma copyInstanceSecret_writes:
  assumes "dst \<in> {rootSecretName (in_name c), userSecretName (in_name c)}"
  shows "emits (\<lambda>e. mariadb_write E c (fst e)) (copyInstanceSecret E c src dst)"
  unfolding copyInstanceSecret_def
proof (rule emits_get_both)
  assume gone: "\<exists>l e. ep_get (e_secrets E) l (key_of c dst) = Inl e \<and> is_not_found e"
  show "emits (\<lambda>e. mariadb_write E c (fst e))
     (on_get (''get source Secret '' @ quote src) (api_get KSecret (e_secrets E) (key_of c src))
          (fail (DataSourceConfigError ''DataSourceFailed''
             (''source Instance credentials Secret '' @ quote src
               @ '' not found; the source Instance may have been deleted'')))
          (\<lambda>x. bnd (wrap_err (''set owner reference on Secret '' @ quote dst)
                        (lift (e_set_controller E (instance_owner c) (e_object_meta E c dst)))) (\<lambda>m.
             attempt (api_create OSecret (e_secrets E)
                        \<lparr> se_meta = m, se_type = se_type x, se_data = se_data x \<rparr>)
               (case_sum (\<lambda>e. if is_already_exists e then ret ()
                              else fail (Wrapped (''create target Secret '' @ quote dst) e))
                         (\<lambda>_. ret ())))))"
  proof (rule emits_get_both)
    fix x assume x: "\<exists>l. ep_get (e_secrets E) l (key_of c src) = Inr x"
    have "copied_secret E c \<lparr> se_meta = m, se_type = se_type x, se_data = se_data x \<rparr>" for m
      unfolding copied_secret_def using gone x assms by (simp del: split_paired_Ex) blast
    then show "emits (\<lambda>e. mariadb_write E c (fst e))
      (bnd (wrap_err (''set owner reference on Secret '' @ quote dst)
                        (lift (e_set_controller E (instance_owner c) (e_object_meta E c dst)))) (\<lambda>m.
             attempt (api_create OSecret (e_secrets E)
                        \<lparr> se_meta = m, se_type = se_type x, se_data = se_data x \<rparr>)
               (case_sum (\<lambda>e. if is_already_exists e then ret ()
                              else fail (Wrapped (''create target Secret '' @ quote dst) e))
                         (\<lambda>_. ret ()))))"
      by (intro post_intros) simp
  qed (auto intro: post_intros)
qed (auto intro: post_intros)

lemma ensureRestoreCredentials_writes:
  "emits (\<lambda>e. mariadb_write E c (fst e)) (ensureRestoreCredentials E c src)"
  unfolding ensureRestoreCredentials_def by (intro emits_bnd copyInstanceSecret_writes) simp_all

lemma apply_step:
  assumes "applied_mariadb E c m"
  shows "emits (\<lambda>e. mariadb_write E c (fst e))
    (bnd (lift (toApplyObject E KMariaDB (e_unstruct_mariadb E) m)) (\<lambda>ob. wrap_err ''apply MariaDB'' (api_apply E KMariaDB ob)))"
  by (rule emits_bnd_yields [where Q = "\<lambda>ob. toApplyObject E KMariaDB (e_unstruct_mariadb E) m = Inr ob"])
     (use assms in \<open>auto intro!: post_intros yield_intros\<close>)

lemma emits_migrate_mariadb:
  assumes "\<exists>l. ep_get (e_mariadbs E) l (key_of c (in_name c)) = Inr x"
  shows "emits (\<lambda>e. mariadb_write E c (fst e))
    (migrateFieldOwnership E OMariaDB (e_mariadbs E) md_meta (\<lambda>m x. x\<lparr>md_meta := m\<rparr>) x)"
  unfolding migrateFieldOwnership_def by (intro post_intros) (use assms in \<open>auto simp del: split_paired_Ex\<close>)

text \<open>The object to apply, from the read that finds or does not find a MariaDB.\<close>

definition settled_desired :: "env \<Rightarrow> instance_cr \<Rightarrow> mariadb \<Rightarrow> mariadb go" where
  "settled_desired E c desired =
     on_get ''get MariaDB'' (api_get KMariaDB (e_mariadbs E) (key_of c (in_name c)))
            (bnd (resolveBootstrapFrom E c) (\<lambda>(bootstrap, sourceInstance).
             bnd (if bootstrap \<noteq> None then ensureRestoreCredentials E c sourceInstance else ret ()) (\<lambda>_.
             ret (with_bootstrap bootstrap desired))))
            (\<lambda>existing.
             bnd (migrateFieldOwnership E OMariaDB (e_mariadbs E) md_meta (\<lambda>m x. x\<lparr>md_meta := m\<rparr>) existing) (\<lambda>_.
             ret (with_immutables existing desired)))"

lemma SyncMariaDB_alt:
  "SyncMariaDB E c = bnd (desiredMariaDB E c) (\<lambda>desired. bnd (settled_desired E c desired) (\<lambda>desired.
     bnd (lift (toApplyObject E KMariaDB (e_unstruct_mariadb E) desired)) (\<lambda>ob.
     wrap_err ''apply MariaDB'' (api_apply E KMariaDB ob))))"
  unfolding SyncMariaDB_def settled_desired_def ..

lemma settled_desired_emits:
  "emits (\<lambda>e. mariadb_write E c (fst e)) (settled_desired E c d)"
  unfolding settled_desired_def
proof (rule emits_on_get_yields [OF _ yields_served])
  show "emits (\<lambda>e. mariadb_write E c (fst e))
    (bnd (resolveBootstrapFrom E c) (\<lambda>(bootstrap, sourceInstance).
             bnd (if bootstrap \<noteq> None then ensureRestoreCredentials E c sourceInstance else ret ()) (\<lambda>_.
             ret (with_bootstrap bootstrap d))))"
    by (rule emits_bnd [OF emits_resolveBootstrapFrom])
       (auto intro!: emits_bnd ensureRestoreCredentials_writes emits_ret mariadb_write_read split: prod.splits)
qed (auto intro!: post_intros emits_migrate_mariadb)

lemma settled_desired_yields:
  assumes d: "desiredMariaDB E c l1 = (Inr d, l2)"
  shows "yields (applied_mariadb E c) (settled_desired E c d)"
  unfolding yields_def
proof (intro allI impI)
  fix l m l'
  let ?k = "key_of c (in_name c)"
  assume run: "settled_desired E c d l = (Inr m, l')"
  show "applied_mariadb E c m"
  proof (cases "ep_get (e_mariadbs E) l ?k")
    case (Inr x)
    with run have "m = with_immutables x d" by (auto simp: settled_desired_def run_simps)
    with d Inr show ?thesis unfolding applied_mariadb_def with_immutables_def by blast
  next
    case (Inl e)
    with run obtain b src l3 l4 where nf: "is_not_found e" and b: "resolveBootstrapFrom E c l3 = (Inr (b, src), l4)"
      and m: "m = with_bootstrap b d"
      by (auto simp: settled_desired_def run_simps)
    from b resolveBootstrapFrom_seeds have "b = None \<or> (\<exists>x. b = Some x \<and> seeds_from E c x src)"
      by (cases b) auto
    with d Inl nf m show ?thesis unfolding applied_mariadb_def by blast
  qed
qed

lemma SyncMariaDB_writes_of: "emits (\<lambda>e. mariadb_write E c (fst e)) (SyncMariaDB E c)"
  unfolding SyncMariaDB_alt
proof (rule emits_bnd_yields [where Q = "\<lambda>d. \<exists>l1 l2. desiredMariaDB E c l1 = (Inr d, l2)"])
  fix d assume "\<exists>l1 l2. desiredMariaDB E c l1 = (Inr d, l2)"
  then obtain l1 l2 where "desiredMariaDB E c l1 = (Inr d, l2)" by blast
  from emits_bnd_yields [OF settled_desired_emits settled_desired_yields [OF this] apply_step]
  show "emits (\<lambda>e. mariadb_write E c (fst e)) (bnd (settled_desired E c d) (\<lambda>desired.
     bnd (lift (toApplyObject E KMariaDB (e_unstruct_mariadb E) desired)) (\<lambda>ob.
     wrap_err ''apply MariaDB'' (api_apply E KMariaDB ob))))" .
qed (auto intro: post_intros simp: yields_def)

text \<open>
  C2: Reconciling the cluster writes only three things: the desired MariaDB, applied with
  the bootstrap source and the storage class of the MariaDB the server has (immutable there,
  so the apply never removes or changes them), or, if there is none, with a sound bootstrap
  source or none; a hand-over of the field ownership of an existing MariaDB; and credentials
  Secrets of this Instance that were absent, as copies of a Secret the server returned.
\<close>

theorem SyncMariaDB_writes:
  assumes "SyncMariaDB E c l = (r, l')"
  shows "\<exists>new. l' = l @ new \<and> list_all (\<lambda>e. mariadb_write E c (fst e)) new"
  using emitsD [OF SyncMariaDB_writes_of assms] .

theorem SyncMariaDB_writes_witness:
  "(\<exists>new. snd (SyncMariaDB (mem_env backup_world) (plain_instance ''standalone'') []) = [] @ new
      \<and> list_all (\<lambda>e. mariadb_write (mem_env backup_world) (plain_instance ''standalone'') (fst e)) new)
   \<and> length (filter (\<lambda>e. is_write (fst e)) (snd (SyncMariaDB (mem_env backup_world) (plain_instance ''standalone'') []))) = 1"
proof
  show "\<exists>new. snd (SyncMariaDB (mem_env backup_world) (plain_instance ''standalone'') []) = [] @ new
      \<and> list_all (\<lambda>e. mariadb_write (mem_env backup_world) (plain_instance ''standalone'') (fst e)) new"
    by (rule SyncMariaDB_writes [OF prod.collapse [symmetric]])
qed code_simp

lemma resolveBootstrapFrom_Some:
  assumes "in_datasource c = Some ds"
    and "ds_type ds = DSBackup \<and> ds_backup ds \<noteq> None \<or> ds_type ds = DSPointInTime \<and> ds_pit ds \<noteq> None"
    and "resolveBootstrapFrom E c l = (Inr r, l')"
  shows "fst r \<noteq> None"
  using assms
  by (auto simp: resolveBootstrapFrom_def resolveBackupBootstrapFrom_def resolvePointInTimeBootstrapFrom_def
      run_simps Let_def split: option.splits if_splits)


text \<open>A world with a succeeded Backup of another Instance and that Instance's credentials.\<close>

definition clone_world :: world where
  "clone_world = backup_world\<lparr>w_ev_backups := [plain_backup\<lparr>eb_origin := Some ''src''\<rparr>],
     w_secrets := map (\<lambda>n. \<lparr> se_meta = empty_meta ''ns'' n, se_type = ''Opaque'', se_data = [(''password'', ''pw'')] \<rparr>)
       [''everest-secrets-src'', ''everest-secrets-src-root'']\<rparr>"


end
