(* ===== verification/Versions.thy ===== *)
theory Versions
  imports Images Store
begin

section \<open>Versions in image tags\<close>

text \<open>
  \<open>imageMinorVersion\<close> and \<open>validateVersionDowngrade\<close> of \<open>validate.go\<close>: the major and minor
  version read off an image tag, their order, and the check that an update of the engine
  never moves to an older one.
\<close>

subsection \<open>The order of versions\<close>

text \<open>A \<open>[2]int\<close>. The strict order is the condition the code compares two of them by.\<close>

datatype minor_version = Minor (mv_major: int) (mv_minor: int)

instantiation minor_version :: linorder
begin

definition less_minor_version :: "minor_version \<Rightarrow> minor_version \<Rightarrow> bool" where
  "less_minor_version d c \<longleftrightarrow>
     mv_major d < mv_major c \<or> (mv_major d = mv_major c \<and> mv_minor d < mv_minor c)"

definition less_eq_minor_version :: "minor_version \<Rightarrow> minor_version \<Rightarrow> bool" where
  "less_eq_minor_version d c \<longleftrightarrow> d < c \<or> d = (c :: minor_version)"

instance
proof
  fix x y z :: minor_version
  show "x < y \<longleftrightarrow> x \<le> y \<and> \<not> y \<le> x"
    by (auto simp: less_minor_version_def less_eq_minor_version_def)
  show "x \<le> x" by (simp add: less_eq_minor_version_def)
  show "x \<le> y \<Longrightarrow> y \<le> z \<Longrightarrow> x \<le> z"
    by (auto simp: less_minor_version_def less_eq_minor_version_def)
  show "x \<le> y \<Longrightarrow> y \<le> x \<Longrightarrow> x = y"
    by (auto simp: less_minor_version_def less_eq_minor_version_def)
  show "x \<le> y \<or> y \<le> x"
    by (cases x; cases y) (auto simp: less_minor_version_def less_eq_minor_version_def)
qed

end

subsection \<open>Reading a tag\<close>

text \<open>
  \<open>^(\d+)\.(\d+)\<close>: the two submatches. The digits of each group are the longest run, since
  neither a dot nor the end of the match is a digit.
\<close>

definition minorVersionMatch :: "string \<Rightarrow> (string \<times> string) option" where
  "minorVersionMatch s =
     (let ds = takeWhile is_digit s in
      case dropWhile is_digit s of
        [] \<Rightarrow> None
      | c # cs \<Rightarrow>
         (let es = takeWhile is_digit cs in
          if ds = [] \<or> c \<noteq> CHR ''.'' \<or> es = [] then None else Some (ds, es)))"

definition imageMinorVersion :: "string \<Rightarrow> minor_version option" where
  "imageMinorVersion img =
     (let image = cut_before (CHR ''@'') img in
      case LastIndex image (CHR '':'') of
        None \<Rightarrow> None
      | Some i \<Rightarrow>
          if CHR ''/'' \<in> set (drop i image) then None
          else (case minorVersionMatch (drop (Suc i) image) of
              None \<Rightarrow> None
            | Some (ma, mi) \<Rightarrow> Some (Minor (fst (Atoi ma)) (fst (Atoi mi)))))"

definition validateVersionDowngrade ::
  "env \<Rightarrow> instance_cr \<Rightarrow> component_spec \<Rightarrow> mariadb \<Rightarrow> err + unit" where
  "validateVersionDowngrade E c engine0 existing =
     ebind (withBundleVersion E c engine0) (\<lambda>engine.
     ebind (resolveEngineImage E engine) (\<lambda>image.
     case imageMinorVersion (ms_image (md_spec existing)) of
       None \<Rightarrow> Inr ()
     | Some current \<Rightarrow>
        (case imageMinorVersion image of
           None \<Rightarrow> Inr ()
         | Some desired \<Rightarrow>
             if mv_major desired < mv_major current
               \<or> (mv_major desired = mv_major current \<and> mv_minor desired < mv_minor current)
             then Inl (Errorf (''downgrading MariaDB from '' @ Itoa (mv_major current) @ ''.'' @ Itoa (mv_minor current)
               @ '' to '' @ Itoa (mv_major desired) @ ''.'' @ Itoa (mv_minor desired)
               @ '' is not supported; restore a backup into a new Instance instead''))
             else Inr ())))"

subsection \<open>What a tag says\<close>

lemma digits_ascii: "is_digit c \<Longrightarrow> c \<noteq> CHR ''.'' \<and> c \<noteq> CHR ''@'' \<and> c \<noteq> CHR '':'' \<and> c \<noteq> CHR ''/''"
  by (auto simp: is_digit_def)

lemma Itoa_digits: "0 \<le> n \<Longrightarrow> Itoa n \<noteq> [] \<and> list_all is_digit (Itoa n)"
  using itoa_pos_props [of n] by (simp add: Itoa_def)

lemma not_digit_dot: "\<not> is_digit (CHR ''.'')"
  by code_simp

lemma takeWhile_all: "list_all P xs \<Longrightarrow> takeWhile P xs = xs"
  by (induction xs) auto

lemma span_digits:
  assumes "list_all is_digit ds" and "rest = [] \<or> \<not> is_digit (hd rest)"
  shows "takeWhile is_digit (ds @ rest) = ds" "dropWhile is_digit (ds @ rest) = rest"
  using assms by (induction ds) (cases rest; auto)+

lemma minorVersionMatch_shape:
  assumes "list_all is_digit ds" "ds \<noteq> []" "list_all is_digit es" "es \<noteq> []"
    and "rest = [] \<or> \<not> is_digit (hd rest)"
  shows "minorVersionMatch (ds @ CHR ''.'' # es @ rest) = Some (ds, es)"
proof -
  have "takeWhile is_digit (ds @ CHR ''.'' # es @ rest) = ds"
    "dropWhile is_digit (ds @ CHR ''.'' # es @ rest) = CHR ''.'' # es @ rest"
    by (rule span_digits [OF assms(1)]; simp add: not_digit_dot)+
  with assms span_digits(1) [OF assms(3,5)] show ?thesis by (simp add: minorVersionMatch_def Let_def)
qed

lemma minorVersionMatch_digits:
  assumes "minorVersionMatch s = Some (ds, es)"
  shows "ds \<noteq> [] \<and> list_all is_digit ds \<and> es \<noteq> [] \<and> list_all is_digit es"
  using assms set_takeWhileD [of _ is_digit]
  by (auto simp: minorVersionMatch_def Let_def list_all_iff split: list.splits if_splits dest: set_takeWhileD)

lemma Atoi_digits_range:
  assumes "s \<noteq> []" "list_all is_digit s"
  shows "0 \<le> fst (Atoi s) \<and> fst (Atoi s) \<le> max_i64"
  using assms digits_val_nonneg [OF assms(2)] by (auto simp: Atoi_digits clamp_i64_def)

text \<open>
  C38: Reading the version off an image inverts writing it: whatever the registry and
  repository are (a port included), a tag that begins with \<open>major.minor\<close> yields those two
  numbers, whatever non-digit follows them and whatever digest is appended. What is read is
  never negative and fits in 64 bits.
\<close>

theorem imageMinorVersion_roundtrip:
  assumes "CHR ''@'' \<notin> set repo" and "set rest \<inter> {CHR ''@'', CHR '':'', CHR ''/''} = {}"
    and "rest = [] \<or> \<not> is_digit (hd rest)" and "digest = [] \<or> hd digest = CHR ''@''"
    and "0 \<le> ma" "ma \<le> max_i64" "0 \<le> mi" "mi \<le> max_i64"
  shows "imageMinorVersion (repo @ '':'' @ Itoa ma @ ''.'' @ Itoa mi @ rest @ digest) = Some (Minor ma mi)
     \<and> (\<forall>img v. imageMinorVersion img = Some v \<longrightarrow>
          0 \<le> mv_major v \<and> mv_major v \<le> max_i64 \<and> 0 \<le> mv_minor v \<and> mv_minor v \<le> max_i64)"
proof
  let ?tag = "Itoa ma @ ''.'' @ Itoa mi @ rest"
  note ma = Itoa_digits [OF assms(5)] and mi = Itoa_digits [OF assms(7)]
  have clean: "CHR ''@'' \<notin> set ?tag" "CHR '':'' \<notin> set ?tag" "CHR ''/'' \<notin> set ?tag"
    using assms(2) ma mi digits_ascii by (auto simp: list_all_iff)
  have cut: "cut_before (CHR ''@'') (repo @ '':'' @ ?tag @ digest) = repo @ CHR '':'' # ?tag"
  proof (cases digest)
    case Nil
    with clean assms(1) show ?thesis using cut_before_none [of "CHR ''@''" "repo @ CHR '':'' # ?tag"] by simp
  next
    case (Cons d ds)
    with assms(4) have "digest = CHR ''@'' # ds" by simp
    with clean assms(1) show ?thesis
      using cut_before_append [of "CHR ''@''" "repo @ CHR '':'' # ?tag" ds] by simp
  qed
  have "minorVersionMatch ?tag = Some (Itoa ma, Itoa mi)"
    using minorVersionMatch_shape [of "Itoa ma" "Itoa mi" rest] ma mi assms(3) by simp
  with cut clean show "imageMinorVersion (repo @ '':'' @ Itoa ma @ ''.'' @ Itoa mi @ rest @ digest) = Some (Minor ma mi)"
    using LastIndex_append [OF clean(2), of repo] Atoi_Itoa [OF assms(5,6)] Atoi_Itoa [OF assms(7,8)]
    by (simp add: imageMinorVersion_def)
  show "\<forall>img v. imageMinorVersion img = Some v \<longrightarrow>
          0 \<le> mv_major v \<and> mv_major v \<le> max_i64 \<and> 0 \<le> mv_minor v \<and> mv_minor v \<le> max_i64"
    by (auto simp: imageMinorVersion_def Let_def split: option.splits if_splits
        dest!: minorVersionMatch_digits dest: Atoi_digits_range)
qed

theorem imageMinorVersion_roundtrip_witness:
  "imageMinorVersion (''registry:5000/mariadb'' @ '':'' @ Itoa 11 @ ''.'' @ Itoa 4 @ ''.5-ubi9'' @ ''@sha256:0a'')
     = Some (Minor 11 4)"
  using imageMinorVersion_roundtrip [of "''registry:5000/mariadb''" "''.5-ubi9''" "''@sha256:0a''" 11 4]
  by (simp add: not_digit_dot)

lemma downgrade_accepted_iff:
  assumes "withBundleVersion E c engine = Inr engine'" and "resolveEngineImage E engine' = Inr img"
  shows "validateVersionDowngrade E c engine existing = Inr () \<longleftrightarrow>
     \<not> (\<exists>current desired. imageMinorVersion (ms_image (md_spec existing)) = Some current
          \<and> imageMinorVersion img = Some desired \<and> desired < current)"
  using assms by (auto simp: validateVersionDowngrade_def less_minor_version_def split: option.splits)

text \<open>
  An engine update is turned down as a downgrade exactly when the image it resolves to,
  with the version of the Instance's bundle filled in as the runtime will, and the image in
  use both show a version and the new one is older; patch levels and tags without a
  version never matter.
\<close>

theorem downgrade_rejected_exactly:
  assumes "withBundleVersion E c engine = Inr engine'" and "resolveEngineImage E engine' = Inr img"
  shows "validateVersionDowngrade E c engine existing = Inr () \<longleftrightarrow>
     \<not> (\<exists>current desired. imageMinorVersion (ms_image (md_spec existing)) = Some current
          \<and> imageMinorVersion img = Some desired \<and> desired < current)"
  using assms by (rule downgrade_accepted_iff)

theorem downgrade_rejected_exactly_witness:
  "validateVersionDowngrade (mem_env empty_world) (plain_instance ''standalone'') (zero_component\<lparr>cs_version := ''10.6''\<rparr>)
     (plain_mariadb\<lparr>md_spec := plain_spec\<lparr>ms_image := ''mariadb:11.4.5''\<rparr>\<rparr>) \<noteq> Inr ()"
proof -
  let ?E = "mem_env empty_world" and ?e = "zero_component\<lparr>cs_version := ''10.6''\<rparr>"
  have "withBundleVersion ?E (plain_instance ''standalone'') ?e = Inr ?e" by code_simp
  moreover have "resolveEngineImage ?E ?e = Inr ''mariadb:10.6''" by code_simp
  moreover have "imageMinorVersion ''mariadb:10.6'' = Some (Minor 10 6)" by code_simp
  moreover have "imageMinorVersion ''mariadb:11.4.5'' = Some (Minor 11 4)" by code_simp
  ultimately show ?thesis
    using downgrade_rejected_exactly [of ?E "plain_instance ''standalone''" ?e ?e "''mariadb:10.6''"]
    by (simp add: less_minor_version_def)
qed

end
