(* ===== verification/Validate.thy ===== *)
theory Validate
  imports MariaDB Versions
begin

section \<open>Admission validation\<close>

text \<open>
  \<open>validate.go\<close>: \<open>ValidateMariaDB\<close>, which the validation webhook calls before an Instance
  is created or updated, with all its checks. The checks that need the previous state
  compare with the provisioned MariaDB. The properties relate what is accepted to what
  the other operations then do with it.
\<close>

subsection \<open>Components\<close>

definition validateComponents :: "instance_cr \<Rightarrow> err + unit" where
  "validateComponents c =
     (case component c ComponentEngine of
        None \<Rightarrow> Inl (Errorf (''component '' @ quote ComponentEngine @ '' is required''))
      | Some engine \<Rightarrow>
          if (case cs_replicas engine of Some n \<Rightarrow> n < 1 | None \<Rightarrow> False) then
            Inl (Errorf (''engine replicas must be at least 1, got '' @ Itoa (deref (cs_replicas engine) 0)))
          else if (case cs_storage engine of Some st \<Rightarrow> sr_size st \<noteq> 0 \<and> sr_size st < gibibytes 1 | None \<Rightarrow> False) then
            Inl (Errorf ''engine storage size must be at least 1Gi'')
          else ebind (validateService ComponentEngine (cs_service engine)) (\<lambda>_.
            case cs_scheduling engine of
              None \<Rightarrow> Inr ()
            | Some sp \<Rightarrow> validateAffinity (sp_affinity sp)))"

definition validateMonitoring :: "env \<Rightarrow> instance_cr \<Rightarrow> unit go" where
  "validateMonitoring E c =
     bnd (lift (monitoringParams E c)) (\<lambda>params. case params of
         None \<Rightarrow> ret ()
       | Some p \<Rightarrow>
          if vmp_enabled (mop_victoria p) \<and> \<not> mop_enabled p then
            fail (Errorf ''victoriaMetrics requires metrics to be enabled'')
          else if \<not> mop_enabled p then ret ()
          else bnd (lift (resolveExporterImage E c)) (\<lambda>img.
            if img = [] then
              fail (Errorf ''unable to resolve a mysqld-exporter image for the monitoring component'')
            else if vmp_enabled (mop_victoria p) then
              bnd (vmServiceScrapeCRDInstalled E) (\<lambda>installed.
                if \<not> installed then fail (Errorf (''victoriaMetrics requires the VMServiceScrape CRD '' @
                  ''(operator.victoriametrics.com) to be installed''))
                else ret ())
            else ret ()))"

definition validateProxy :: "env \<Rightarrow> instance_cr \<Rightarrow> err + unit" where
  "validateProxy E c =
     ebind (isProxyEnabled E c) (\<lambda>enabled.
     if \<not> enabled then Inr ()
     else if \<not> isHATopology c then
       Inl (Errorf (''the '' @ quote ComponentProxy @ '' component is only supported on the ''
         @ quote TopologyTypeGalera @ '' and '' @ quote TopologyTypeReplication @ '' topologies''))
     else let proxy = component_or_zero c ComponentProxy in
       if (case cs_replicas proxy of Some n \<Rightarrow> n < 1 | None \<Rightarrow> False) then
         Inl (Errorf (''proxy replicas must be at least 1, got '' @ Itoa (deref (cs_replicas proxy) 0)))
       else ebind (validateService ComponentProxy (cs_service proxy)) (\<lambda>_.
         ebind (case cs_scheduling proxy of None \<Rightarrow> Inr () | Some sp \<Rightarrow> validateAffinity (sp_affinity sp)) (\<lambda>_.
         ebind (resolveMaxScaleImage E c) (\<lambda>img.
           if img = [] then
             Inl (Errorf (''unable to resolve a MaxScale image for the '' @ quote ComponentProxy @ '' component''))
           else Inr ()))))"

subsection \<open>Topology\<close>

definition validateStandaloneReplicas :: "instance_cr \<Rightarrow> err + unit" where
  "validateStandaloneReplicas c =
     (case cs_replicas (engine_of c) of
        None \<Rightarrow> Inr ()
      | Some n \<Rightarrow> if n \<noteq> standaloneDefaultReplicas then
            Inl (Errorf (''standalone topology supports a single node only, got '' @ Itoa n
              @ ''; use the galera or replication topology for multiple nodes''))
          else Inr ())"

definition validateGaleraReplicas :: "instance_cr \<Rightarrow> err + unit" where
  "validateGaleraReplicas c =
     (let replicas = deref (cs_replicas (engine_of c)) galeraDefaultReplicas in
      if replicas < 3 then
        Inl (Errorf (''galera topology requires at least 3 engine replicas, got '' @ Itoa replicas))
      else if replicas mod 2 = 0 then
        Inl (Errorf (''galera topology requires an odd number of engine replicas to avoid split-brain, got ''
          @ Itoa replicas))
      else Inr ())"

definition validateReplicationReplicas :: "instance_cr \<Rightarrow> err + unit" where
  "validateReplicationReplicas c =
     (let replicas = deref (cs_replicas (engine_of c)) replicationDefaultReplicas in
      if replicas < 2 then
        Inl (Errorf (''replication topology requires at least 2 engine replicas (one primary and one replica), got ''
          @ Itoa replicas))
      else Inr ())"

definition validateReplicationScaleOut :: "env \<Rightarrow> instance_cr \<Rightarrow> unit go" where
  "validateReplicationScaleOut E c =
     (if replicaTemplateStorage c \<noteq> None then ret ()
      else on_get ''get MariaDB'' (api_get KMariaDB (e_mariadbs E) (key_of c (in_name c)))
        (ret ())
        (\<lambda>existing.
           if (case cs_replicas (engine_of c) of None \<Rightarrow> True | Some n \<Rightarrow> n \<le> ms_replicas (md_spec existing)) then ret ()
           else fail (Errorf (''scaling out the '' @ quote TopologyTypeReplication
             @ '' topology requires a backup storage in spec.backup: ''
             @ ''new replicas are seeded from a physical backup of the cluster staged there''))))"

definition validateTopologyImmutable :: "env \<Rightarrow> instance_cr \<Rightarrow> string \<Rightarrow> unit go" where
  "validateTopologyImmutable E c topology =
     on_get ''get MariaDB'' (api_get KMariaDB (e_mariadbs E) (key_of c (in_name c)))
       (ret ())
       (\<lambda>existing. if existingTopology E existing \<noteq> normalizeTopology topology then
           fail (Errorf ''spec.topology is immutable and cannot be changed on an existing instance'')
         else ret ())"

definition validateTopology :: "env \<Rightarrow> instance_cr \<Rightarrow> unit go" where
  "validateTopology E c =
     (let topology = in_topology c in
      bnd (if topology = [] \<or> topology = TopologyTypeStandalone then lift (validateStandaloneReplicas c)
           else if topology = TopologyTypeGalera then lift (validateGaleraReplicas c)
           else if topology = TopologyTypeReplication then
             bnd (lift (validateReplicationReplicas c)) (\<lambda>_. validateReplicationScaleOut E c)
           else fail (Errorf (''unsupported spec.topology.type '' @ quote topology @ ''; supported values are ''
             @ quote TopologyTypeStandalone @ '', '' @ quote TopologyTypeGalera @ '' and '' @ quote TopologyTypeReplication)))
        (\<lambda>_. validateTopologyImmutable E c topology))"

subsection \<open>Updates of the engine\<close>

definition validateStorageUpdate :: "env \<Rightarrow> component_spec \<Rightarrow> mariadb \<Rightarrow> err + unit" where
  "validateStorageUpdate E engine existing =
     (let desired = engineStorageSize engine;
          cls = ms_storage_class (md_spec existing)
      in if (case ms_storage_size (md_spec existing) of Some current \<Rightarrow> desired < current | None \<Rightarrow> False) then
           Inl (Errorf (''spec.components.'' @ ComponentEngine @ ''.storage.size cannot be decreased from ''
             @ e_quantity_text E (deref (ms_storage_size (md_spec existing)) 0) @ '' to '' @ e_quantity_text E desired))
         else (case cs_storage engine of
             None \<Rightarrow> Inr ()
           | Some st \<Rightarrow> (case sr_class st of
               None \<Rightarrow> Inr ()
             | Some wanted \<Rightarrow>
                 if cls = [] then Inr ()
                 else if wanted \<noteq> cls then
                   Inl (Errorf (''spec.components.'' @ ComponentEngine
                     @ ''.storage.storageClass cannot be changed on an existing instance (current: '' @ quote cls @ '')''))
                 else Inr ())))"

definition validateEngineUpdate :: "env \<Rightarrow> instance_cr \<Rightarrow> unit go" where
  "validateEngineUpdate E c =
     on_get ''get MariaDB'' (api_get KMariaDB (e_mariadbs E) (key_of c (in_name c)))
       (ret ())
       (\<lambda>existing. bnd (lift (validateVersionDowngrade E c (engine_of c) existing)) (\<lambda>_.
          lift (validateStorageUpdate E (engine_of c) existing)))"

subsection \<open>Recovery\<close>

definition validatePITR :: "env \<Rightarrow> instance_cr \<Rightarrow> err + unit" where
  "validatePITR E c =
     ebind (pitrEnabledStorage (in_backup c)) (\<lambda>storage. case storage of
         None \<Rightarrow> Inr ()
       | Some st \<Rightarrow>
          if normalizeTopology (in_topology c) \<noteq> TopologyTypeReplication then
            Inl (Errorf (''point-in-time recovery is only supported on the '' @ quote TopologyTypeReplication
              @ '' topology; storage '' @ quote (is_ref st) @ '' has pitr.enabled=true''))
          else ebind (firstPhysicalSchedule (e_json_error E) st) (\<lambda>_. Inr ()))"

definition validatePointInTimeDataSource :: "env \<Rightarrow> instance_cr \<Rightarrow> unit go" where
  "validatePointInTimeDataSource E c =
     (if (case in_datasource c of None \<Rightarrow> True | Some ds \<Rightarrow> ds_type ds \<noteq> DSPointInTime) then ret ()
      else if normalizeTopology (in_topology c) = TopologyTypeReplication then ret ()
      else on_get ''get MariaDB'' (api_get KMariaDB (e_mariadbs E) (key_of c (in_name c)))
        (fail (Errorf (''point-in-time recovery is only supported into the '' @ quote TopologyTypeReplication
           @ '' topology; set spec.topology.type to '' @ quote TopologyTypeReplication)))
        (\<lambda>_. ret ()))"

subsection \<open>The webhook\<close>

definition ValidateMariaDB :: "env \<Rightarrow> instance_cr \<Rightarrow> unit go" where
  "ValidateMariaDB E c =
     bnd (wrap_err ''component validation'' (lift (validateComponents c))) (\<lambda>_.
     bnd (wrap_err ''monitoring validation'' (validateMonitoring E c)) (\<lambda>_.
     bnd (wrap_err ''proxy validation'' (lift (validateProxy E c))) (\<lambda>_.
     bnd (wrap_err ''topology validation'' (validateTopology E c)) (\<lambda>_.
     bnd (wrap_err ''engine update validation'' (validateEngineUpdate E c)) (\<lambda>_.
     bnd (wrap_err ''TLS validation'' (lift (validateTLS E c))) (\<lambda>_.
     bnd (wrap_err ''PITR validation'' (lift (validatePITR E c))) (\<lambda>_.
     wrap_err ''data source validation'' (validatePointInTimeDataSource E c))))))))"

subsection \<open>The checks only read\<close>

lemma emits_validate [post_intros]:
  assumes "\<And>e. read_only e \<Longrightarrow> P e"
  shows "emits P (validateMonitoring E c)" "emits P (validateTopology E c)" "emits P (validateEngineUpdate E c)"
    "emits P (validatePointInTimeDataSource E c)"
  unfolding validateMonitoring_def validateTopology_def validateReplicationScaleOut_def validateTopologyImmutable_def
    validateEngineUpdate_def validatePointInTimeDataSource_def vmServiceScrapeCRDInstalled_def
  by (intro post_intros; simp add: assms)+

subsection \<open>An accepted Instance\<close>

lemma ValidateMariaDB_ok:
  assumes "ValidateMariaDB E c l = (Inr (), l')"
  shows "validateComponents c = Inr ()" "validateProxy E c = Inr ()" "validateTLS E c = Inr ()"
    "validatePITR E c = Inr ()" "\<exists>l1 l2. validateTopology E c l1 = (Inr (), l2)"
    "\<exists>l1 l2. validateEngineUpdate E c l1 = (Inr (), l2)"
    "\<exists>l1 l2. validateMonitoring E c l1 = (Inr (), l2)"
  using assms by (auto simp: ValidateMariaDB_def bnd_eq_Inr wrap_err_eq_Inr basic_eq_Inr)

text \<open>The replica rules of the three topologies, the requested number being optional.\<close>

definition legal_replicas :: "string \<Rightarrow> int option \<Rightarrow> bool" where
  "legal_replicas t n =
     (if t = [] \<or> t = ''standalone'' then deref n 1 = 1
      else if t = ''galera'' then 3 \<le> deref n 3 \<and> odd (deref n 3)
      else t = ''replication'' \<and> 2 \<le> deref n 3)"

lemma replica_checks:
  "validateStandaloneReplicas c = Inr () \<longleftrightarrow> deref (cs_replicas (engine_of c)) 1 = 1"
  "validateGaleraReplicas c = Inr () \<longleftrightarrow>
     3 \<le> deref (cs_replicas (engine_of c)) 3 \<and> odd (deref (cs_replicas (engine_of c)) 3)"
  "validateReplicationReplicas c = Inr () \<longleftrightarrow> 2 \<le> deref (cs_replicas (engine_of c)) 3"
  by (auto simp: validateStandaloneReplicas_def validateGaleraReplicas_def validateReplicationReplicas_def Let_def
      standaloneDefaultReplicas_def galeraDefaultReplicas_def replicationDefaultReplicas_def odd_iff_mod_2_eq_one
      split: option.splits)

lemma validateTopology_ok:
  assumes "validateTopology E c l = (Inr (), l')"
  shows "legal_replicas (in_topology c) (cs_replicas (engine_of c))"
    and "\<exists>l1. validateTopologyImmutable E c (in_topology c) l1 = (Inr (), l')"
    and "isReplicationTopology c \<Longrightarrow> \<exists>l1 l2. validateReplicationScaleOut E c l1 = (Inr (), l2)"
  using assms
  by (auto simp: validateTopology_def Let_def legal_replicas_def topology_names isReplicationTopology_def
      bnd_eq_Inr basic_eq_Inr replica_checks split: if_splits)

lemma legal_replicas_cases:
  assumes "legal_replicas t n"
  obtains (standalone) "t = [] \<or> t = ''standalone''" "deref n 1 = 1"
  | (galera) "t = ''galera''" "3 \<le> deref n 3" "odd (deref n 3)"
  | (replication) "t = ''replication''" "2 \<le> deref n 3"
  using assms unfolding legal_replicas_def by (metis (full_types))

lemma default_replicas_of:
  "in_topology c = [] \<Longrightarrow> defaultReplicas c = 1"
  "in_topology c = ''standalone'' \<Longrightarrow> defaultReplicas c = 1"
  "in_topology c = ''galera'' \<Longrightarrow> defaultReplicas c = 3"
  "in_topology c = ''replication'' \<Longrightarrow> defaultReplicas c = 3"
  by (simp_all add: defaultReplicas_def isGaleraTopology_def isReplicationTopology_def topology_names
      standaloneDefaultReplicas_def galeraDefaultReplicas_def replicationDefaultReplicas_def)

lemma desired_fields:
  assumes "desiredMariaDB E c l = (Inr m, l')"
  shows "ms_replicas (md_spec m) = deref (cs_replicas (engine_of c)) (defaultReplicas c)"
    "ms_storage_size (md_spec m) = Some (engineStorageSize (engine_of c))"
    "ms_storage_class (md_spec m) = (case cs_storage (engine_of c) of Some st \<Rightarrow> deref (sr_class st) [] | None \<Rightarrow> [])"
    "resolveEngineImage E (engine_of c) = Inr (ms_image (md_spec m))"
    "\<exists>t. buildTLS E c = Inr t \<and> ms_tls (md_spec m) = Some t"
    "ms_service (md_spec m) = Some s \<or> ms_primary_service (md_spec m) = Some s \<Longrightarrow>
       configureService E (cs_service (engine_of c)) = Some s"
    "ms_galera (md_spec m) = Some True \<longleftrightarrow> isGaleraTopology c"
    "ms_replication (md_spec m) \<noteq> None \<longleftrightarrow> isReplicationTopology c"
proof -
  from assms obtain img metrics tls pitrRef where r: "resolveEngineImage E (engine_of c) = Inr img"
    "buildTLS E c = Inr tls"
    and m: "md_spec m = desired_spec E c img metrics tls pitrRef"
    by (elim desiredMariaDB_spec) simp
  note m = m [unfolded desired_spec_def Let_def desired_replication_def]
  show "ms_replicas (md_spec m) = deref (cs_replicas (engine_of c)) (defaultReplicas c)"
    "ms_storage_size (md_spec m) = Some (engineStorageSize (engine_of c))"
    "ms_storage_class (md_spec m) = (case cs_storage (engine_of c) of Some st \<Rightarrow> deref (sr_class st) [] | None \<Rightarrow> [])"
    "resolveEngineImage E (engine_of c) = Inr (ms_image (md_spec m))"
    "\<exists>t. buildTLS E c = Inr t \<and> ms_tls (md_spec m) = Some t"
    "ms_galera (md_spec m) = Some True \<longleftrightarrow> isGaleraTopology c"
    "ms_replication (md_spec m) \<noteq> None \<longleftrightarrow> isReplicationTopology c"
    by (simp_all add: m r)
  show "configureService E (cs_service (engine_of c)) = Some s"
    if "ms_service (md_spec m) = Some s \<or> ms_primary_service (md_spec m) = Some s"
    using that by (auto simp: m split: if_splits)
qed

lemma validateComponents_ok:
  assumes "validateComponents c = Inr ()"
  shows "gibibytes 1 \<le> engineStorageSize (engine_of c)"
    and "validateService ComponentEngine (cs_service (engine_of c)) = Inr ()"
    and "cs_scheduling (engine_of c) = Some sp \<Longrightarrow> validateAffinity (sp_affinity sp) = Inr ()"
  using assms
  by (auto simp: validateComponents_def component_or_zero_def engineStorageSize_def gibibytes_def
      split: option.splits if_splits)

text \<open>
  C3: What admission accepts, reconciliation turns into a legal cluster: one node
  standalone, an odd number of at least three Galera nodes, at least two replication nodes
  (defaults included), no other topology; at least 1Gi of storage; a Service type the
  operator supports; a consistent TLS block; and no pod affinity that would be dropped.
\<close>

theorem validated_cluster_legal:
  assumes valid: "ValidateMariaDB E c l = (Inr (), l')" and desired: "desiredMariaDB E c l1 = (Inr m, l2)"
  shows "((in_topology c = [] \<or> in_topology c = ''standalone'') \<and> ms_replicas (md_spec m) = 1
        \<or> in_topology c = ''galera'' \<and> 3 \<le> ms_replicas (md_spec m) \<and> odd (ms_replicas (md_spec m))
        \<or> in_topology c = ''replication'' \<and> 2 \<le> ms_replicas (md_spec m))
     \<and> (\<exists>q. ms_storage_size (md_spec m) = Some q \<and> gibibytes 1 \<le> q)
     \<and> (\<forall>s. ms_service (md_spec m) = Some s \<or> ms_primary_service (md_spec m) = Some s \<longrightarrow>
          tm_type s \<in> {''ClusterIP'', ''LoadBalancer'', ''NodePort''})
     \<and> (\<exists>t. ms_tls (md_spec m) = Some t \<and> tls_consistent t)
     \<and> (\<forall>sp a. cs_scheduling (engine_of c) = Some sp \<and> sp_affinity sp = Some a \<longrightarrow> af_pod a = None)"
proof (intro conjI)
  note ok = ValidateMariaDB_ok [OF valid] and fields = desired_fields [OF desired]
  from ok(5) validateTopology_ok(1) have legal: "legal_replicas (in_topology c) (cs_replicas (engine_of c))" by blast
  then show "(in_topology c = [] \<or> in_topology c = ''standalone'') \<and> ms_replicas (md_spec m) = 1
        \<or> in_topology c = ''galera'' \<and> 3 \<le> ms_replicas (md_spec m) \<and> odd (ms_replicas (md_spec m))
        \<or> in_topology c = ''replication'' \<and> 2 \<le> ms_replicas (md_spec m)"
    unfolding fields(1) by (cases rule: legal_replicas_cases) (auto simp: default_replicas_of)
  from fields(2) validateComponents_ok(1) [OF ok(1)] show "\<exists>q. ms_storage_size (md_spec m) = Some q \<and> gibibytes 1 \<le> q"
    by blast
  show "\<forall>s. ms_service (md_spec m) = Some s \<or> ms_primary_service (md_spec m) = Some s \<longrightarrow>
          tm_type s \<in> {''ClusterIP'', ''LoadBalancer'', ''NodePort''}"
    using fields(6) service_type_supported [OF validateComponents_ok(2) [OF ok(1)]] by blast
  from fields(5) ok(3) tls_validation_iff [of E c] show "\<exists>t. ms_tls (md_spec m) = Some t \<and> tls_consistent t"
    by auto
  from validateComponents_ok(3) [OF ok(1)]
  show "\<forall>sp a. cs_scheduling (engine_of c) = Some sp \<and> sp_affinity sp = Some a \<longrightarrow> af_pod a = None"
    by (auto simp: validateAffinity_def split: option.splits if_splits)
qed

lemma topology_accepts_iff:
  assumes "\<And>l. \<exists>e. ep_get (e_mariadbs E) l (key_of c (in_name c)) = Inl e \<and> is_not_found e"
  shows "fst (validateTopology E c l) = Inr () \<longleftrightarrow> legal_replicas (in_topology c) (cs_replicas (engine_of c))"
proof
  assume "fst (validateTopology E c l) = Inr ()"
  then have "validateTopology E c l = (Inr (), snd (validateTopology E c l))" by (simp add: prod_eq_iff)
  then show "legal_replicas (in_topology c) (cs_replicas (engine_of c))" by (rule validateTopology_ok)
next
  assume legal: "legal_replicas (in_topology c) (cs_replicas (engine_of c))"
  have gone: "\<exists>l'. on_get msg (api_get KMariaDB (e_mariadbs E) (key_of c (in_name c))) (ret ()) f l = (Inr (), l')"
    for msg f l
    using assms [of l] by (auto simp: on_get_def api_get_def request_def attempt_def)
  have s: "\<exists>l'. validateReplicationScaleOut E c l = (Inr (), l')" for l
    unfolding validateReplicationScaleOut_def using gone by simp
  have i: "\<exists>l'. validateTopologyImmutable E c t l = (Inr (), l')" for t l
    unfolding validateTopologyImmutable_def by (rule gone)
  obtain l1 where s1: "validateReplicationScaleOut E c l = (Inr (), l1)" using s by blast
  have imm: "fst (validateTopologyImmutable E c t l) = Inr ()" for t l using i [of t l] by auto
  note rules = iffD2 [OF replica_checks(1)] iffD2 [OF replica_checks(2)] iffD2 [OF replica_checks(3)]
  from legal show "fst (validateTopology E c l) = Inr ()"
    by (auto simp: validateTopology_def Let_def legal_replicas_def topology_names rules s1 imm bnd_def attempt_def
        split: if_splits)
qed

lemma run_ok: "fst p = Inr x \<Longrightarrow> p = (Inr x, snd p)"
  by (simp add: prod_eq_iff)

theorem validated_cluster_legal_witness:
  "\<exists>m l. desiredMariaDB (mem_env empty_world) (plain_instance ''galera'') [] = (Inr m, l)
     \<and> (\<exists>q. ms_storage_size (md_spec m) = Some q \<and> gibibytes 1 \<le> q)"
proof -
  let ?E = "mem_env empty_world" and ?c = "plain_instance ''galera''"
  have "case fst (desiredMariaDB ?E ?c []) of Inr _ \<Rightarrow> True | Inl _ \<Rightarrow> False" by code_simp
  then obtain m where m: "fst (desiredMariaDB ?E ?c []) = Inr m" by (auto split: sum.splits)
  have "fst (ValidateMariaDB ?E ?c []) = Inr ()" by code_simp
  from validated_cluster_legal [OF run_ok [OF this] run_ok [OF m]] run_ok [OF m] show ?thesis by blast
qed

subsection \<open>An accepted update\<close>


text \<open>A replication cluster of two nodes, and an update of its Instance to the given number.\<close>

definition two_nodes :: mariadb where
  "two_nodes = plain_mariadb\<lparr>md_spec := plain_spec\<lparr>ms_image := ''mariadb:11.4'', ms_replicas := 2,
     ms_storage_size := Some (gibibytes 10), ms_replication := Some \<lparr> rp_enabled = True,
       rp_boot_as_replica = Some True, rp_bootstrap = None, rp_recovery = None \<rparr>\<rparr>\<rparr>"

definition resized_instance :: "int option \<Rightarrow> instance_cr" where
  "resized_instance n = (plain_instance ''replication'')\<lparr>in_components :=
     [(''engine'', zero_component\<lparr>cs_version := ''11.8'', cs_replicas := n\<rparr>)]\<rparr>"



subsection \<open>Accepted recovery and proxy settings\<close>

text \<open>
  Once admission accepted an Instance, point-in-time recovery never fails on its
  configuration: the choice of the storage succeeds, and a storage chosen comes with the
  replication topology and with a physical schedule for the base backup, among those
  declared on that storage.
\<close>

theorem validated_pitr_configured:
  assumes "ValidateMariaDB E c l = (Inr (), l')"
  shows "\<exists>storage. pitrEnabledStorage (in_backup c) = Inr storage
     \<and> (\<forall>st. storage = Some st \<longrightarrow> in_topology c = ''replication''
          \<and> (\<exists>schedule. firstPhysicalSchedule (e_json_error E) st = Inr schedule))"
  using ValidateMariaDB_ok(4) [OF assms]
  by (auto simp: validatePITR_def normalizeTopology_def topology_names split: option.splits if_splits)

text \<open>A replication Instance with point-in-time recovery, and one with an enabled proxy.\<close>

definition recoverable_instance :: instance_cr where
  "recoverable_instance = (plain_instance ''replication'')\<lparr>in_backup := Some \<lparr> ib_enabled = True, ib_class = ''c'',
     ib_storages = [\<lparr> is_ref = ''st'', is_pitr = Some True, is_schedules = [\<lparr> sc_name = ''nightly'', sc_cron = ''0 0 * * *'',
       sc_enabled = True, sc_retention = None, sc_parameters = Some (Some (marshal_single ''type'' ''physical'')) \<rparr>] \<rparr>] \<rparr>\<rparr>"

definition proxied_instance :: instance_cr where
  "proxied_instance = (plain_instance ''galera'')\<lparr>in_components :=
     [(''engine'', zero_component), (''proxy'', zero_component\<lparr>cs_parameters := Some (Some ''{}'')\<rparr>)]\<rparr>"

definition proxy_env :: "world \<Rightarrow> env" where
  "proxy_env w = (mem_env w)\<lparr>e_decode_proxy := (\<lambda>_. Inr \<lparr> mxp_enabled = True \<rparr>)\<rparr>"

theorem validated_pitr_configured_witness:
  "\<exists>st schedule. pitrEnabledStorage (in_backup recoverable_instance) = Inr (Some st)
     \<and> firstPhysicalSchedule (e_json_error (mem_env empty_world)) st = Inr schedule"
proof -
  have "fst (ValidateMariaDB (mem_env empty_world) recoverable_instance []) = Inr ()" by code_simp
  from validated_pitr_configured [OF run_ok [OF this]]
  obtain storage where s: "pitrEnabledStorage (in_backup recoverable_instance) = Inr storage"
    and sch: "\<forall>st. storage = Some st \<longrightarrow> (\<exists>schedule. firstPhysicalSchedule (e_json_error (mem_env empty_world)) st = Inr schedule)"
    by blast
  have "pitrEnabledStorage (in_backup recoverable_instance) \<noteq> Inr None" by code_simp
  with s sch show ?thesis by (cases storage) auto
qed

text \<open>
  A proxy admission accepted is deployable: it stands in front of one of the two HA
  topologies, and the MaxScale declared for it has an image, at least one replica and, if
  a Service was configured, one of the supported types.
\<close>

theorem validated_proxy_deployable:
  assumes "ValidateMariaDB E c l = (Inr (), l')" and "isProxyEnabled E c = Inr True"
    and "desiredMaxScale E c = Inr x"
  shows "in_topology c \<in> {''galera'', ''replication''} \<and> xs_image (mx_spec x) \<noteq> [] \<and> 1 \<le> xs_replicas (mx_spec x)
     \<and> (\<forall>s. xs_service (mx_spec x) = Some s \<longrightarrow> tm_type s \<in> {''ClusterIP'', ''LoadBalancer'', ''NodePort''})"
proof -
  from ValidateMariaDB_ok(2) [OF assms(1)] assms(2) obtain img where ha: "isHATopology c"
    and n: "\<not> (case cs_replicas (component_or_zero c ComponentProxy) of Some n \<Rightarrow> n < 1 | None \<Rightarrow> False)"
    and s: "validateService ComponentProxy (cs_service (component_or_zero c ComponentProxy)) = Inr ()"
    and img: "resolveMaxScaleImage E c = Inr img" "img \<noteq> []"
    by (auto simp: validateProxy_def Let_def split: if_splits)
  from assms(3) img(1) have x: "xs_image (mx_spec x) = img"
    "xs_replicas (mx_spec x) = deref (cs_replicas (component_or_zero c ComponentProxy)) maxScaleDefaultReplicas"
    "xs_service (mx_spec x) = configureService E (cs_service (component_or_zero c ComponentProxy))"
    by (auto simp: desiredMaxScale_def Let_def)
  from n have "1 \<le> deref (cs_replicas (component_or_zero c ComponentProxy)) maxScaleDefaultReplicas"
    by (auto simp: deref_def maxScaleDefaultReplicas_def split: option.splits)
  with ha x img(2) service_type_supported [OF s] show ?thesis
    by (auto simp: isHATopology_def isGaleraTopology_def isReplicationTopology_def topology_names)
qed

theorem validated_proxy_deployable_witness:
  "\<exists>x. desiredMaxScale (proxy_env empty_world) proxied_instance = Inr x \<and> 1 \<le> xs_replicas (mx_spec x)"
proof -
  have v: "fst (ValidateMariaDB (proxy_env empty_world) proxied_instance []) = Inr ()" by code_simp
  have e: "isProxyEnabled (proxy_env empty_world) proxied_instance = Inr True" by code_simp
  have "case desiredMaxScale (proxy_env empty_world) proxied_instance of Inr _ \<Rightarrow> True | Inl _ \<Rightarrow> False" by code_simp
  then obtain x where x: "desiredMaxScale (proxy_env empty_world) proxied_instance = Inr x" by (auto split: sum.splits)
  from validated_proxy_deployable [OF run_ok [OF v] e x] x show ?thesis by blast
qed

text \<open>The message about a pod affinity of the proxy names the engine.\<close>

theorem proxy_affinity_message:
  "validateProxy (proxy_env empty_world) (proxied_instance\<lparr>in_components := [(''engine'', zero_component),
       (''proxy'', zero_component\<lparr>cs_parameters := Some (Some ''{}''), cs_scheduling := Some (zero_scheduling
         \<lparr>sp_affinity := Some \<lparr> af_node = None, af_pod = Some \<lparr> pa_required = [], pa_preferred = [] \<rparr>, af_anti = None \<rparr>\<rparr>)\<rparr>)]\<rparr>)
   = Inl (Errorf (''spec.components.engine.schedulingPolicy.affinity.podAffinity is not supported by the MariaDB operator; ''
       @ ''only nodeAffinity and podAntiAffinity are supported''))"
  by code_simp

end
