(* ===== verification/Status.thy ===== *)
theory Status
  imports MariaDB
begin

section \<open>What the provider reports, and how it cleans up\<close>

text \<open>
  Properties of \<open>StatusMariaDB\<close>, \<open>buildConnectionDetails\<close>, \<open>resolveHost\<close> and
  \<open>CleanupMariaDB\<close> (\<open>mariadb.go\<close>, modelled in \<open>MariaDB\<close>): when an Instance is reported ready,
  where its clients are sent and with which credentials, and the order of the removal.
\<close>

subsection \<open>Connection details\<close>

lemma resolveHost_cases:
  assumes "resolveHost E c n l = (Inr h, l')"
  shows "h = n @ ''.'' @ in_namespace c @ ''.svc'' \<or>
     (\<exists>svc. ep_get (e_services E) l (key_of c n) = Inr svc \<and> sx_type svc = ''LoadBalancer''
        \<and> first_address (sx_ingress svc) = Some h)"
  using assms
  by (auto simp: resolveHost_def Let_def attempt_def api_get_def request_def ServiceTypeLoadBalancer_def deref_def
      split: sum.splits if_splits option.splits)

text \<open>Whether clients connect over TLS: what the proxy says if there is one, else the engine.\<close>

definition clients_use_tls :: "env \<Rightarrow> instance_cr \<Rightarrow> maxscale option \<Rightarrow> bool" where
  "clients_use_tls E c mxs =
     (case mxs of
        Some m \<Rightarrow> e_mxs_tls E m
      | None \<Rightarrow> (case resolveTLSSettings E c of Inr s \<Rightarrow> ts_enabled s | Inl _ \<Rightarrow> False))"

definition front_name :: "instance_cr \<Rightarrow> maxscale option \<Rightarrow> string" where
  "front_name c mxs = (case mxs of Some m \<Rightarrow> m_name (mx_meta m) | None \<Rightarrow> in_name c)"

text \<open>The TLS properties published: none, or the switch and the CA of the front's bundle.\<close>

definition tls_properties :: "env \<Rightarrow> instance_cr \<Rightarrow> maxscale option \<Rightarrow> (string \<times> string) list \<Rightarrow> bool" where
  "tls_properties E c mxs ps \<longleftrightarrow>
     (if clients_use_tls E c mxs then
        (\<exists>s l ca. ep_get (e_secrets E) l (key_of c (front_name c mxs @ ''-ca-bundle'')) = Inr s
           \<and> map_of (se_data s) ''ca.crt'' = Some ca \<and> ca \<noteq> [] \<and> ps = [(''tls'', ''true''), (''ca.crt'', ca)])
      else ps = [])"

lemma port_text: "Itoa defaultPort = ''3306''"
  by code_simp

lemma buildConnectionDetails_cases:
  assumes "buildConnectionDetails E c mxs l = (Inr d, l')"
  obtains s host l1 l2 l3 ps where
    "ep_get (e_secrets E) l (key_of c (userSecretName (in_name c))) = Inr s"
    "resolveHost E c (client_service c mxs) l1 = (Inr host, l2)"
    "if clients_use_tls E c mxs then
       (\<exists>b. ep_get (e_secrets E) l3 (key_of c (tlsCABundleSecretName (front_name c mxs))) = Inr b
         \<and> or_empty (map_of (se_data b) tlsCAKey) \<noteq> []
         \<and> ps = [(tlsConnectionKey, FormatBool True), (tlsCAKey, or_empty (map_of (se_data b) tlsCAKey))])
     else ps = []"
    "d = \<lparr> cd_type = ''mysql'', cd_provider = ProviderName, cd_host = host, cd_port = Itoa defaultPort,
           cd_username = defaultInitialUser, cd_password = or_empty (map_of (se_data s) userPasswordSecretKey),
           cd_uri = ''mysql://'' @ defaultInitialUser @ '':'' @ or_empty (map_of (se_data s) userPasswordSecretKey)
             @ ''@'' @ host @ '':'' @ Itoa defaultPort @ ''/'' @ defaultInitialDatabase,
           cd_properties = ps \<rparr>"
proof -
  from assms obtain s l1 t l2 host l3 ps where s: "ep_get (e_secrets E) l (key_of c (userSecretName (in_name c))) = Inr s"
    and t: "(case mxs of Some m \<Rightarrow> ret (e_mxs_tls E m)
          | None \<Rightarrow> bnd (lift (ewrap ''resolve TLS settings'' (resolveTLSSettings E c))) (\<lambda>s. ret (ts_enabled s))) l1
        = (Inr t, l2)"
    and host: "resolveHost E c (client_service c mxs) l2 = (Inr host, l3)"
    and ps: "(if t then
               attempt (api_get KSecret (e_secrets E) (key_of c (tlsCABundleSecretName (front_name c mxs)))) (case_sum
                 (\<lambda>e. fail (WrappedV TLSCABundleNotReady e))
                 (\<lambda>ca. let data = or_empty (map_of (se_data ca) tlsCAKey) in
                    if data = [] then
                      fail (WrappedV TLSCABundleNotReady (Errorf (''secret '' @ quote (m_name (se_meta ca))
                        @ '' has no '' @ quote tlsCAKey @ '' key'')))
                    else ret [(tlsConnectionKey, FormatBool True), (tlsCAKey, data)]))
             else ret []) l3 = (Inr ps, l')"
    and d: "d = \<lparr> cd_type = ''mysql'', cd_provider = ProviderName, cd_host = host, cd_port = Itoa defaultPort,
           cd_username = defaultInitialUser, cd_password = or_empty (map_of (se_data s) userPasswordSecretKey),
           cd_uri = ''mysql://'' @ defaultInitialUser @ '':'' @ or_empty (map_of (se_data s) userPasswordSecretKey)
             @ ''@'' @ host @ '':'' @ Itoa defaultPort @ ''/'' @ defaultInitialDatabase,
           cd_properties = ps \<rparr>"
    unfolding buildConnectionDetails_def Let_def front_name_def by (auto simp: run_simps)
  from t have t: "t = clients_use_tls E c mxs"
    by (auto simp: clients_use_tls_def run_simps split: option.splits)
  show ?thesis
  proof (rule that [OF s host _ d, of l3])
    from ps t show "if clients_use_tls E c mxs then
       (\<exists>b. ep_get (e_secrets E) l3 (key_of c (tlsCABundleSecretName (front_name c mxs))) = Inr b
         \<and> or_empty (map_of (se_data b) tlsCAKey) \<noteq> []
         \<and> ps = [(tlsConnectionKey, FormatBool True), (tlsCAKey, or_empty (map_of (se_data b) tlsCAKey))])
     else ps = []"
      by (auto simp: attempt_def api_get_def request_def Let_def split: sum.splits if_splits)
  qed
qed


subsection \<open>Readiness\<close>

lemma details_status_ready:
  "details_status E c mxs l = (Inr (ReadyWithConnectionDetails d), l') \<Longrightarrow> \<exists>l1. buildConnectionDetails E c mxs l1 = (Inr d, l')"
  by (auto simp: details_status_def attempt_def split: prod.splits sum.splits if_splits)

text \<open>
  C5: An Instance is only reported ready when it is: the server returned a MariaDB that is
  ready, no seeding is staged as unfinished or failed, an enabled proxy is there and ready,
  and the details come from \<open>buildConnectionDetails\<close> for exactly that proxy, or none.
\<close>

theorem ready_is_real:
  assumes "StatusMariaDB E c l = (Inr (ReadyWithConnectionDetails d), l')"
  shows "\<exists>m mxs. ep_get (e_mariadbs E) l (key_of c (in_name c)) = Inr m \<and> e_is_ready E m
     \<and> (\<forall>st. e_ds_status E (l @ [(ReqGet KMariaDB (key_of c (in_name c)), None)]) = Some st \<longrightarrow>
          dss_done st \<and> dss_state st \<noteq> DSFailed)
     \<and> (case mxs of
          None \<Rightarrow> isProxyEnabled E c = Inr False
        | Some x \<Rightarrow> isProxyEnabled E c = Inr True \<and> e_mxs_ready E x
            \<and> (\<exists>l1. ep_get (e_maxscales E) l1 (key_of c (maxScaleName (in_name c))) = Inr x))
     \<and> (\<exists>l1. buildConnectionDetails E c mxs l1 = (Inr d, l'))"
proof -
  from assms obtain m where m: "ep_get (e_mariadbs E) l (key_of c (in_name c)) = Inr m"
    and rest: "(if (case e_ds_status E (l @ [(ReqGet KMariaDB (key_of c (in_name c)), None)]) of
               Some d \<Rightarrow> dss_state d = DSFailed | None \<Rightarrow> False) then False
          else if (case e_ds_status E (l @ [(ReqGet KMariaDB (key_of c (in_name c)), None)]) of
               Some d \<Rightarrow> \<not> dss_done d | None \<Rightarrow> False) then False
          else e_is_ready E m \<and> ready_status E c (l @ [(ReqGet KMariaDB (key_of c (in_name c)), None)])
             = (Inr (ReadyWithConnectionDetails d), l'))"
    by (auto simp: StatusMariaDB_def staged_status_def run_simps split: if_splits option.splits)
  let ?l = "l @ [(ReqGet KMariaDB (key_of c (in_name c)), None)]"
  from rest have r: "ready_status E c ?l = (Inr (ReadyWithConnectionDetails d), l')" by (simp split: if_splits)
  then obtain p where p: "isProxyEnabled E c = Inr p"
    and run: "(if \<not> p then details_status E c None
     else bnd (readyMaxScale E c) (\<lambda>ready. case ready of
         Inl msg \<Rightarrow> ret (Provisioning msg)
       | Inr mxs \<Rightarrow> details_status E c (Some mxs))) ?l = (Inr (ReadyWithConnectionDetails d), l')"
    unfolding ready_status_def bnd_eq_Inr basic_eq_Inr by blast
  show ?thesis
  proof (cases p)
    case False
    with run have "\<exists>l1. buildConnectionDetails E c None l1 = (Inr d, l')"
      using details_status_ready [of E c None ?l] by simp
    with False p m rest show ?thesis by (intro exI [of _ m] exI [of _ None]) (auto split: option.splits if_splits)
  next
    case True
    with run obtain r l2 where r: "readyMaxScale E c ?l = (Inr r, l2)"
      and k: "(case r of Inl msg \<Rightarrow> ret (Provisioning msg) | Inr mxs \<Rightarrow> details_status E c (Some mxs)) l2
         = (Inr (ReadyWithConnectionDetails d), l')"
      by (auto simp: bnd_eq_Inr)
    then obtain x where x: "readyMaxScale E c ?l = (Inr (Inr x), l2)"
      and b: "details_status E c (Some x) l2 = (Inr (ReadyWithConnectionDetails d), l')"
      by (cases r) simp_all
    from x have "e_mxs_ready E x \<and> (\<exists>l1. ep_get (e_maxscales E) l1 (key_of c (maxScaleName (in_name c))) = Inr x)"
      by (auto simp: readyMaxScale_def run_simps split: if_splits)
    with True p m rest details_status_ready [OF b] show ?thesis
      by (intro exI [of _ m] exI [of _ "Some x"]) (auto split: option.splits if_splits)
  qed
qed

text \<open>
  C29: Readiness is reached: once the MariaDB is ready, no seeding is pending, no proxy is
  enabled and the user Secret is there, the status is ready if TLS is off or the CA bundle
  holds a certificate; and while the CA bundle or the user Secret is missing the Instance
  is provisioning, which is not an error.
\<close>

theorem status_progress:
  assumes ready: "ep_get (e_mariadbs E) l (key_of c (in_name c)) = Inr m" "e_is_ready E m"
    and seeded: "\<And>l st. e_ds_status E l = Some st \<Longrightarrow> dss_done st \<and> dss_state st \<noteq> DSFailed"
    and proxy: "isProxyEnabled E c = Inr False"
    and tls: "resolveTLSSettings E c = Inr ts"
    and creds: "\<And>l. ep_get (e_secrets E) l (key_of c (userSecretName (in_name c))) = creds"
    and cas: "\<And>l. ep_get (e_secrets E) l (key_of c (tlsCABundleSecretName (in_name c))) = bdl"
  shows "case creds of
      Inl e \<Rightarrow> is_not_found e \<longrightarrow> fst (StatusMariaDB E c l) = Inr (Provisioning ''Waiting for MariaDB credentials secret'')
    | Inr _ \<Rightarrow>
        if ts_enabled ts \<and> (case bdl of Inl _ \<Rightarrow> True | Inr b \<Rightarrow> map_of (se_data b) ''ca.crt'' \<in> {None, Some []})
        then fst (StatusMariaDB E c l) = Inr (Provisioning ''Waiting for MariaDB TLS CA bundle'')
        else \<exists>d. fst (StatusMariaDB E c l) = Inr (ReadyWithConnectionDetails d)"
proof -
  let ?l = "l @ [(ReqGet KMariaDB (key_of c (in_name c)), None)]"
  have st: "StatusMariaDB E c l = details_status E c None ?l"
    using ready seeded
    by (auto simp: StatusMariaDB_def on_get_def api_get_def request_def attempt_def bnd_def staged_status_def
        ready_status_def proxy split: option.splits)
  show ?thesis
  proof (cases creds)
    case (Inl e)
    then have "is_not_found e \<Longrightarrow> fst (details_status E c None ?l) = Inr (Provisioning ''Waiting for MariaDB credentials secret'')"
      using creds not_found_not_ca_bundle [of e]
      by (auto simp: details_status_def buildConnectionDetails_def wrap_err_def api_get_def request_def
          attempt_def bnd_def)
    with Inl show ?thesis by (simp add: st)
  next
    case (Inr s)
    have ca: "or_empty o1 = [] \<longleftrightarrow> o1 \<in> {None, Some []}" for o1
      by (cases o1) (auto simp: or_empty_def)
    obtain host where host: "\<And>l. fst (resolveHost E c (client_service c None) l) = Inr (host l)"
      using resolveHost_total by metis
    show ?thesis
    proof (cases "ts_enabled ts \<and> (case bdl of Inl _ \<Rightarrow> True | Inr b \<Rightarrow> or_empty (map_of (se_data b) tlsCAKey) = [])")
      case True
      then have "fst (details_status E c None ?l) = Inr (Provisioning ''Waiting for MariaDB TLS CA bundle'')"
        using Inr creds cas by (cases bdl) (simp_all add: details_status_def buildConnectionDetails_def wrap_err_def
            api_get_def request_def attempt_def bnd_def tls Let_def split_beta host)
      with True Inr show ?thesis unfolding st ca tlsCAKey_def by simp
    next
      case False
      then have "\<exists>d. fst (details_status E c None ?l) = Inr (ReadyWithConnectionDetails d)"
        using Inr creds cas by (cases bdl; cases "ts_enabled ts") (simp_all add: details_status_def
            buildConnectionDetails_def wrap_err_def api_get_def request_def attempt_def bnd_def tls Let_def split_beta host)
      with False Inr show ?thesis unfolding st ca tlsCAKey_def by auto
    qed
  qed
qed

text \<open>A cluster that is up, with its Secrets.\<close>

definition up_secrets :: "secret list" where
  "up_secrets = [\<lparr> se_meta = empty_meta ''ns'' ''everest-secrets-db'', se_type = ''Opaque'', se_data = [(''password'', ''pw'')] \<rparr>,
     \<lparr> se_meta = empty_meta ''ns'' ''db-ca-bundle'', se_type = ''Opaque'', se_data = [(''ca.crt'', ''pem'')] \<rparr>]"

definition up_env :: env where
  "up_env = frozen_env [plain_mariadb] up_secrets (mem_env empty_world)"

abbreviation up_instance :: instance_cr where
  "up_instance \<equiv> plain_instance ''standalone''"

theorem status_progress_witness:
  "\<exists>d. fst (StatusMariaDB up_env up_instance []) = Inr (ReadyWithConnectionDetails d)"
proof -
  have k: "key_of up_instance (in_name up_instance) = (''ns'', ''db'')"
    "key_of up_instance (userSecretName (in_name up_instance)) = (''ns'', ''everest-secrets-db'')"
    "key_of up_instance (tlsCABundleSecretName (in_name up_instance)) = (''ns'', ''db-ca-bundle'')" by code_simp+
  have m: "ep_get (e_mariadbs up_env) [] (key_of up_instance (in_name up_instance)) = Inr plain_mariadb" by code_simp
  have r: "e_is_ready up_env plain_mariadb" by code_simp
  have d: "e_ds_status up_env l = None" for l by (simp add: up_env_def frozen_env_def mem_env_def)
  have p: "isProxyEnabled up_env up_instance = Inr False" by code_simp
  have t: "resolveTLSSettings up_env up_instance = Inr \<lparr> ts_enabled = True, ts_required = False, ts_galera_sst = False \<rparr>"
    by code_simp
  have s: "ep_get (e_secrets up_env) l (key_of up_instance (userSecretName (in_name up_instance))) = Inr (up_secrets ! 0)"
    "ep_get (e_secrets up_env) l (key_of up_instance (tlsCABundleSecretName (in_name up_instance))) = Inr (up_secrets ! 1)"
    for l unfolding k by (simp_all add: up_env_def frozen_env_def frozen_def up_secrets_def meta_key_def empty_meta_def)
  from status_progress [OF m r _ p t s] show ?thesis by (simp add: d up_secrets_def)
qed

theorem ready_is_real_witness:
  "\<exists>d l'. StatusMariaDB up_env up_instance [] = (Inr (ReadyWithConnectionDetails d), l')
     \<and> (\<exists>mxs l1. buildConnectionDetails up_env up_instance mxs l1 = (Inr d, l'))"
proof -
  have "case fst (StatusMariaDB up_env up_instance []) of Inr (ReadyWithConnectionDetails _) \<Rightarrow> True | _ \<Rightarrow> False" by code_simp
  then obtain d where "fst (StatusMariaDB up_env up_instance []) = Inr (ReadyWithConnectionDetails d)"
    by (auto split: sum.splits status.splits)
  then have run: "StatusMariaDB up_env up_instance [] = (Inr (ReadyWithConnectionDetails d), snd (StatusMariaDB up_env up_instance []))"
    by (simp add: prod_eq_iff)
  from ready_is_real [OF run] run show ?thesis by blast
qed


subsection \<open>The connection string\<close>

text \<open>
  The generic syntax of a URI with an authority (RFC 3986), without percent-decoding: the
  authority ends at the first slash, question mark or hash; user information ends at its
  last at sign and splits at its first colon; the port follows the last colon.
\<close>

definition uri_authority :: "string \<Rightarrow> string" where
  "uri_authority u = takeWhile (\<lambda>x. x \<notin> set ''/?#'') (TrimPrefix u ''mysql://'')"

definition uri_parts :: "string \<Rightarrow> (string \<times> string \<times> string \<times> string) option" where
  "uri_parts u =
     (let a = uri_authority u in
      case LastIndex a (CHR ''@'') of
        None \<Rightarrow> None
      | Some i \<Rightarrow>
         (let user = take i a; hp = drop (Suc i) a in
          case LastIndex hp (CHR '':'') of
            None \<Rightarrow> None
          | Some j \<Rightarrow> Some (cut_before (CHR '':'') user, drop (Suc (length (cut_before (CHR '':'') user))) user,
              take j hp, drop (Suc j) hp)))"

lemma takeWhile_stop: "(\<forall>x \<in> set xs. P x) \<Longrightarrow> \<not> P y \<Longrightarrow> takeWhile P (xs @ y # ys) = xs"
  by (induction xs) auto

lemma uri_parts_shape:
  assumes "set (user @ pw @ host @ port) \<inter> set ''/?#'' = {}" and "CHR ''@'' \<notin> set (host @ port)"
    and "CHR '':'' \<notin> set user" and "CHR '':'' \<notin> set port"
  shows "uri_parts (''mysql://'' @ user @ '':'' @ pw @ ''@'' @ host @ '':'' @ port @ ''/'' @ db) = Some (user, pw, host, port)"
proof -
  let ?a = "(user @ CHR '':'' # pw) @ CHR ''@'' # host @ CHR '':'' # port"
  have "TrimPrefix (''mysql://'' @ user @ '':'' @ pw @ ''@'' @ host @ '':'' @ port @ ''/'' @ db) ''mysql://'' = ?a @ CHR ''/'' # db"
    using TrimPrefix_append [of "''mysql://''"] by simp
  moreover have "takeWhile (\<lambda>x. x \<notin> set ''/?#'') (?a @ CHR ''/'' # db) = ?a"
    by (rule takeWhile_stop) (use assms(1) in auto)
  ultimately have a: "uri_authority (''mysql://'' @ user @ '':'' @ pw @ ''@'' @ host @ '':'' @ port @ ''/'' @ db) = ?a"
    by (simp only: uri_authority_def)
  have i: "LastIndex ?a (CHR ''@'') = Some (length (user @ CHR '':'' # pw))"
    by (rule LastIndex_append) (use assms(2) in auto)
  have j: "LastIndex (host @ CHR '':'' # port) (CHR '':'') = Some (length host)"
    by (rule LastIndex_append) (use assms(4) in auto)
  have "take (length (user @ CHR '':'' # pw)) ?a = user @ CHR '':'' # pw"
    "drop (Suc (length (user @ CHR '':'' # pw))) ?a = host @ CHR '':'' # port" by simp_all
  with i j cut_before_append [OF assms(3), of pw] show ?thesis
    unfolding uri_parts_def a Let_def by simp
qed

text \<open>
  The connection string can be taken apart again: read as a URI it gives back the user,
  the password, the host and the port published beside it, as long as the password and the
  host contain no slash, question mark or hash and the host no at sign (the code does not
  escape the password). 
\<close>

theorem connection_uri_roundtrip:
  assumes built: "buildConnectionDetails E c mxs l = (Inr d, l')"
    and clean: "set (cd_password d @ cd_host d) \<inter> set ''/?#'' = {}" "CHR ''@'' \<notin> set (cd_host d)"
  shows "uri_parts (cd_uri d) = Some (cd_username d, cd_password d, cd_host d, cd_port d)"
  using built
proof (cases rule: buildConnectionDetails_cases)
  case (1 s host l1 l2 l3 ps)
  with clean have "set (defaultInitialUser @ cd_password d @ cd_host d @ ''3306'') \<inter> set ''/?#'' = {}"
    "CHR ''@'' \<notin> set (cd_host d @ ''3306'')"
    by (auto simp: defaultInitialUser_def)
  from uri_parts_shape [OF this, of defaultInitialDatabase] show ?thesis
    unfolding 1(4) port_text by (simp add: defaultInitialUser_def)
qed

theorem connection_uri_roundtrip_witness:
  "\<exists>d. fst (buildConnectionDetails up_env up_instance None []) = Inr d
     \<and> uri_parts (cd_uri d) = Some (''everest'', ''pw'', ''db.ns.svc'', ''3306'')"
proof -
  let ?run = "buildConnectionDetails up_env up_instance None []"
  have "case fst ?run of Inr d \<Rightarrow> cd_password d = ''pw'' \<and> cd_host d = ''db.ns.svc'' \<and> cd_username d = ''everest''
      \<and> cd_port d = ''3306'' | _ \<Rightarrow> False" by code_simp
  then obtain d where d: "fst ?run = Inr d" "cd_password d = ''pw''" "cd_host d = ''db.ns.svc''" "cd_username d = ''everest''"
    "cd_port d = ''3306''" by (auto split: sum.splits)
  then have run: "?run = (Inr d, snd ?run)" by (simp add: prod_eq_iff)
  from connection_uri_roundtrip [OF run] d show ?thesis by simp
qed

text \<open>
  A password with a slash breaks the connection string: what a client reads as the host is
  then a part of the password, while the host published beside it is right.
\<close>

theorem connection_uri_unescaped:
  "case fst (buildConnectionDetails (frozen_env [plain_mariadb]
       (map (\<lambda>s. s\<lparr>se_data := map (\<lambda>(k, v). (k, if k = ''password'' then ''p@evil:1/x'' else v)) (se_data s)\<rparr>) up_secrets)
       (mem_env empty_world)) up_instance None []) of
     Inr d \<Rightarrow> cd_host d = ''db.ns.svc'' \<and> uri_parts (cd_uri d) = Some (''everest'', ''p'', ''evil'', ''1'')
   | Inl _ \<Rightarrow> False"
  by code_simp

subsection \<open>Cleanup\<close>

text \<open>
  The cluster is removed in order: the deletion of the MariaDB is the last request of a
  cleanup, it is only requested once the MaxScale that connects to it is gone, being
  deleted, or successfully asked to go, and a cleanup that succeeds has requested it;
  nothing else is written.
\<close>

theorem cleanup_order:
  assumes "CleanupMariaDB E c l = (r, l')"
  shows "\<exists>pre post. l' = l @ pre @ post
     \<and> (\<forall>e \<in> set pre. is_write (fst e) \<longrightarrow> (\<exists>l0 x. ep_get (e_maxscales E) l0 (key_of c (maxScaleName (in_name c))) = Inr x
          \<and> fst e = ReqDelete KMaxScale (meta_key (mx_meta x))))
     \<and> (post = [] \<or> (\<exists>d. post = [(ReqDelete KMariaDB (key_of c (in_name c)), d)]) \<and> (\<forall>e \<in> set pre. is_write (fst e) \<longrightarrow> snd e = None))
     \<and> (post \<noteq> [] \<longrightarrow> fst (teardownMaxScale E c l) = Inr ()) \<and> (r = Inr () \<longrightarrow> post \<noteq> [])"
    (is "\<exists>pre post. ?P pre post")
proof -
  let ?k = "key_of c (maxScaleName (in_name c))"
  obtain t l1 where t: "teardownMaxScale E c l = (t, l1)" by fastforce
  have pre: "\<exists>pre. l1 = l @ pre \<and> (\<forall>e \<in> set pre. is_write (fst e) \<longrightarrow>
        (\<exists>l0 x. ep_get (e_maxscales E) l0 ?k = Inr x \<and> fst e = ReqDelete KMaxScale (meta_key (mx_meta x)))
        \<and> (t = Inr () \<longrightarrow> snd e = None))"
    using t
    by (auto simp: teardownMaxScale_def on_get_def api_get_def api_delete_def request_def attempt_def wrap_err_def
        result_def split: sum.splits if_splits option.splits) blast+
  then obtain pre where l1: "l1 = l @ pre" and w: "\<And>e. e \<in> set pre \<Longrightarrow> is_write (fst e) \<Longrightarrow>
        (\<exists>l0 x. ep_get (e_maxscales E) l0 ?k = Inr x \<and> fst e = ReqDelete KMaxScale (meta_key (mx_meta x)))
        \<and> (t = Inr () \<longrightarrow> snd e = None)" by blast
  show ?thesis
  proof (cases t)
    case (Inl e)
    with assms t l1 w have "?P pre []" by (auto simp: CleanupMariaDB_def bnd_def)
    then show ?thesis by blast
  next
    case (Inr u)
    with assms t obtain d where "l' = l1 @ [(ReqDelete KMariaDB (key_of c (in_name c)), d)]"
      by (auto simp: CleanupMariaDB_def bnd_def delete_if_present_def on_get_def api_delete_def request_def attempt_def
          split: sum.splits if_splits)
    with Inr l1 w have "?P pre [(ReqDelete KMariaDB (key_of c (in_name c)), d)]" by (auto simp: t)
    then show ?thesis by blast
  qed
qed

theorem cleanup_order_witness:
  "\<exists>pre post. snd (CleanupMariaDB up_env up_instance []) = [] @ pre @ post \<and> post \<noteq> []"
proof -
  let ?run = "CleanupMariaDB up_env up_instance []"
  have "fst ?run = Inr ()" by code_simp
  with cleanup_order [OF prod.collapse [symmetric, of ?run]] show ?thesis by blast
qed

end
