(* ===== verification/Handlers.thy ===== *)
theory Handlers
  imports Store
begin

section \<open>The contract of a handler\<close>

text \<open>
  What the runtime relies on in every handler of the provider it calls: a handler only adds
  requests to those already made, and every request it adds is one of a known set. The
  handlers of the other theories are the instances; what follows from the contract alone is
  proved here once.
\<close>

lemma emits_create_or_update [post_intros]:
  assumes "\<And>r. P (ReqGet K k, r)" "\<And>y r. P (ReqCreate (C y), r)" "\<And>y r. P (ReqUpdate (C y), r)"
    and "\<And>x. emits P (f x)"
  shows "emits P (create_or_update K C ep k init f)"
  unfolding create_or_update_def
  by (intro emits_attempt emits_api) (auto split: sum.splits intro!: post_intros assms)

locale handler =
  fixes run :: "'a go"
    and may :: "entry \<Rightarrow> bool"
  assumes within: "emits may run"
begin

lemma log_grows: "\<exists>new. snd (run l) = l @ new \<and> list_all may new"
  using within unfolding emits_def post_def by blast

lemma log_grows_run: "run l = (r, l') \<Longrightarrow> \<exists>new. l' = l @ new \<and> list_all may new"
  using log_grows [of l] by simp

lemma only_allowed: "e \<in> set (snd (run l)) \<Longrightarrow> e \<in> set l \<or> may e"
  using log_grows [of l] by (auto simp: list_all_iff)

lemma history_kept: "take (length l) (snd (run l)) = l"
  using log_grows [of l] by auto

lemma grows_within: "(\<And>e. may e \<Longrightarrow> may' e) \<Longrightarrow> \<exists>new. snd (run l) = l @ new \<and> list_all may' new"
  using log_grows [of l] by (auto simp: list_all_iff)

end

text \<open>
  A reporting handler makes no write at all, so it leaves the writes made so far and every
  faithful server's contents as they were, and may be run any number of times.
\<close>

locale reporter = handler run read_only for run :: "'a go"
begin

lemma writes_kept: "filter (\<lambda>e. is_write (fst e)) (snd (run l)) = filter (\<lambda>e. is_write (fst e)) l"
proof -
  obtain new where "snd (run l) = l @ new" "list_all read_only new" using log_grows by blast
  then show ?thesis by (simp add: list_all_iff)
qed

lemma contents_kept:
  assumes "faithful_endpoint C ep mt"
  shows "ep_get ep (snd (run l)) k = ep_get ep l k"
proof -
  obtain new where "snd (run l) = l @ new" "list_all read_only new" using log_grows by blast
  then show ?thesis by (simp add: get_after_reads [OF assms])
qed

end

end
