(* ===== verification/ScheduleRuns.thy ===== *)
theory ScheduleRuns
  imports Schedule Handlers
begin

section \<open>Whole runs of the schedules\<close>

text \<open>
  What a reconciliation of all schedules leaves standing (\<open>SyncScheduledBackups\<close>): every
  declared schedule keeps its operator object, and the object of the other strategy is gone.
\<close>

subsection \<open>What a successful run emits\<close>

definition ok_emits :: "('e \<Rightarrow> bool) \<Rightarrow> ('e, 'a) eff \<Rightarrow> bool" where
  "ok_emits P m \<longleftrightarrow> post m (\<lambda>r new. (\<exists>x. r = Inr x) \<longrightarrow> list_all P new)"

lemma ok_emitsD:
  assumes "ok_emits P m" and "m l = (Inr x, l')"
  shows "\<exists>new. l' = l @ new \<and> list_all P new"
  using postD [OF assms(1) [unfolded ok_emits_def] assms(2)] by simp

lemma ok_emits_of: "emits P m \<Longrightarrow> ok_emits P m"
  unfolding emits_def ok_emits_def by (erule post_weaken) simp

lemma ok_emits_bnd: "ok_emits P m \<Longrightarrow> (\<And>x. ok_emits P (k x)) \<Longrightarrow> ok_emits P (bnd m k)"
  unfolding ok_emits_def
  by (rule post_bnd, assumption) (auto elim!: post_weaken)

lemma ok_emits_if: "(b \<Longrightarrow> ok_emits P f) \<Longrightarrow> (\<not> b \<Longrightarrow> ok_emits P g) \<Longrightarrow> ok_emits P (if b then f else g)"
  by simp

text \<open>A branch that always ends in an error may ask for anything.\<close>

lemma ok_emits_failing: "emits (\<lambda>_. True) m \<Longrightarrow> ok_emits P (bnd m (\<lambda>_. fail e))"
  unfolding ok_emits_def emits_def by (rule post_bnd, assumption) (auto intro: post_fail)

lemma ok_emits_wrap_err: "ok_emits P m \<Longrightarrow> ok_emits P (wrap_err msg m)"
  unfolding ok_emits_def wrap_err_def
  by (rule post_attempt, assumption) (auto intro: post_fail post_ret split: sum.splits)

lemma ok_emits_on_get:
  assumes "emits P m" and "ok_emits P a" and "\<And>x. ok_emits P (f x)"
  shows "ok_emits P (on_get msg m a f)"
  unfolding ok_emits_def on_get_def
proof (rule post_attempt [OF assms(1) [unfolded emits_def]])
  fix r n1
  assume n1: "list_all P n1"
  have "post t (\<lambda>r' n2. (\<exists>x. r' = Inr x) \<longrightarrow> list_all P (n1 @ n2))" if "ok_emits P t" for t :: "('a, 'c) eff"
    using that n1 unfolding ok_emits_def by (auto elim: post_weaken)
  with assms(2,3) show "post (case_sum (\<lambda>e. if is_not_found e then a else fail (Wrapped msg e)) f r)
      (\<lambda>r' n2. (\<exists>x. r' = Inr x) \<longrightarrow> list_all P (n1 @ n2))"
    by (cases r) (auto intro: post_fail)
qed

text \<open>The removal of an outdated object, which waits for the next call.\<close>

lemma ok_emits_recreate:
  assumes "\<And>r. P (ReqGet K k, r)"
  shows "ok_emits P (on_get m1 (api_get K ep k) (ret ())
     (\<lambda>x. if b x then bnd (wrap_err m2 (api_delete K ep (kk x))) (\<lambda>_. fail e) else ret ()))"
  by (intro ok_emits_on_get ok_emits_if ok_emits_failing)
     (auto intro!: ok_emits_of post_intros assms)

subsection \<open>Deletions\<close>

definition deletes_only :: "(kind \<Rightarrow> nsname \<Rightarrow> bool) \<Rightarrow> entry \<Rightarrow> bool" where
  "deletes_only D e \<longleftrightarrow> (\<forall>K k. fst e = ReqDelete K k \<longrightarrow> D K k)"

lemma deletes_only_simps [simp]:
  "deletes_only D (ReqDelete K k, r) = D K k"
  "deletes_only D (ReqGet K k, r)" "deletes_only D (ReqList K sel, r)" "deletes_only D (ReqStorage n, r)"
  "deletes_only D (ReqCreate ob, r)" "deletes_only D (ReqUpdate ob, r)"
  by (simp_all add: deletes_only_def del: split_paired_All)

lemma deletes_only_mono: "deletes_only D e \<Longrightarrow> (\<And>K k. D K k \<Longrightarrow> D' K k) \<Longrightarrow> deletes_only D' e"
  by (auto simp: deletes_only_def)

lemma served_key: "faithful_endpoint C ep mt \<Longrightarrow> ep_get ep l k = Inr x \<Longrightarrow> meta_key (mt x) = k"
  unfolding faithful_endpoint_def by blast

text \<open>
  A reconciled schedule only removes the object of the other strategy: the outdated object
  of its own is removed on a path that ends in an error.
\<close>

lemma logical_deletes:
  assumes "faithful_endpoint OPhysicalBackup (e_physicals E) pb_meta"
  shows "ok_emits (deletes_only (\<lambda>K k. K = KPhysicalBackup \<and> k = key_of c name))
     (reconcileScheduledBackup E c mdb st schedule name params)"
proof -
  let ?P = "deletes_only (\<lambda>K k. K = KPhysicalBackup \<and> k = key_of c name)"
  have "emits ?P (deleteScheduledPhysicalBackup E c name)"
    unfolding deleteScheduledPhysicalBackup_def
    by (rule emits_on_get_yields [OF _ yields_served])
       (auto intro!: post_intros simp: served_key [OF assms])
  then show ?thesis
    unfolding reconcileScheduledBackup_def
    unfolding schedule_retention_def scheduled_backup_mutate_def Let_def
    by (intro ok_emits_bnd ok_emits_recreate ok_emits_wrap_err)
       (auto intro!: ok_emits_of post_intros split: sum.splits)
qed

lemma physical_deletes:
  assumes "faithful_endpoint OBackup (e_backups E) ob_meta"
  shows "ok_emits (deletes_only (\<lambda>K k. K = KBackup \<and> k = key_of c name))
     (reconcileScheduledPhysicalBackup E c mdb st schedule name params)"
proof -
  let ?P = "deletes_only (\<lambda>K k. K = KBackup \<and> k = key_of c name)"
  have "emits ?P (deleteScheduledBackup E c name)"
    unfolding deleteScheduledBackup_def
    by (rule emits_on_get_yields [OF _ yields_served])
       (auto intro!: post_intros simp: served_key [OF assms])
  then show ?thesis
    unfolding reconcileScheduledPhysicalBackup_def
    unfolding schedule_retention_def scheduled_physical_mutate_def Let_def
    by (intro ok_emits_bnd ok_emits_recreate ok_emits_wrap_err)
       (auto intro!: ok_emits_of post_intros split: sum.splits)
qed

subsection \<open>The object of the other strategy\<close>

text \<open>The server was asked for the object, and if it was there it was deleted.\<close>

definition cleared :: "kind \<Rightarrow> nsname \<Rightarrow> log \<Rightarrow> bool" where
  "cleared K k new \<longleftrightarrow> (\<exists>r. (ReqGet K k, r) \<in> set new \<and> (r = None \<longrightarrow> (ReqDelete K k, None) \<in> set new))"

lemma cleared_append: "cleared K k n1 \<or> cleared K k n2 \<Longrightarrow> cleared K k (n1 @ n2)"
  by (auto simp: cleared_def)

definition ok_clears :: "kind \<Rightarrow> nsname \<Rightarrow> (entry, 'a) eff \<Rightarrow> bool" where
  "ok_clears K k m \<longleftrightarrow> post m (\<lambda>r new. (\<exists>x. r = Inr x) \<longrightarrow> cleared K k new)"

lemma ok_clears_here:
  assumes "ok_clears K k m" and "\<And>x. emits (\<lambda>_. True) (f x)"
  shows "ok_clears K k (bnd m f)"
  unfolding ok_clears_def
  by (rule post_bnd [OF assms(1) [unfolded ok_clears_def]])
     (auto intro!: post_weaken [OF assms(2) [unfolded emits_def]] intro: cleared_append)

lemma ok_clears_later:
  assumes "emits (\<lambda>_. True) m" and "\<And>x. ok_clears K k (f x)"
  shows "ok_clears K k (bnd m f)"
  unfolding ok_clears_def
  by (rule post_bnd [OF assms(1) [unfolded emits_def]])
     (auto intro!: post_weaken [OF assms(2) [unfolded ok_clears_def]] intro: cleared_append)

lemma ok_clears_delete:
  assumes "faithful_endpoint C ep mt"
  shows "ok_clears K k (on_get m1 (api_get K ep k) (ret ()) (\<lambda>x. wrap_err m2 (api_delete K ep (meta_key (mt x)))))"
    (is "ok_clears K k ?m")
  unfolding ok_clears_def
proof (rule postI)
  fix l
  have e: "emits (\<lambda>_. True) ?m" by (intro post_intros) simp_all
  obtain r l' where run: "?m l = (r, l')" by fastforce
  from emitsD [OF e run] obtain new where new: "l' = l @ new" by blast
  have "cleared K k new" if "r = Inr x" for x
    using run new that by (auto simp: run_simps cleared_def served_key [OF assms])
  with run new show "\<exists>new. snd (?m l) = l @ new \<and> ((\<exists>x. fst (?m l) = Inr x) \<longrightarrow> cleared K k new)" by auto
qed

lemma logical_clears:
  assumes "faithful_endpoint OPhysicalBackup (e_physicals E) pb_meta"
  shows "ok_clears KPhysicalBackup (key_of c name) (reconcileScheduledBackup E c mdb st schedule name params)"
  unfolding reconcileScheduledBackup_def deleteScheduledPhysicalBackup_def schedule_retention_def scheduled_backup_mutate_def Let_def
  by (rule ok_clears_later, intro post_intros, simp)
     (rule ok_clears_later, auto intro!: post_intros ok_clears_here ok_clears_delete [OF assms] split: sum.splits)

lemma physical_clears:
  assumes "faithful_endpoint OBackup (e_backups E) ob_meta"
  shows "ok_clears KBackup (key_of c name) (reconcileScheduledPhysicalBackup E c mdb st schedule name params)"
  unfolding reconcileScheduledPhysicalBackup_def deleteScheduledBackup_def schedule_retention_def scheduled_physical_mutate_def Let_def
  by (rule ok_clears_later, intro post_intros, simp)
     (rule ok_clears_later, auto intro!: post_intros ok_clears_here ok_clears_delete [OF assms] split: sum.splits)

subsection \<open>All schedules\<close>

definition operator_name :: "instance_cr \<Rightarrow> string \<times> backup_schedule \<Rightarrow> string" where
  "operator_name c x = scheduledBackupName (in_name c) (sc_name (snd x))"

text \<open>
  The kinds a schedule's object has and must not have, by the strategy of its parameters.
\<close>

definition own_kind :: "backup_params \<Rightarrow> kind" where
  "own_kind p = (if isPhysical p then KPhysicalBackup else KBackup)"

definition other_kind :: "backup_params \<Rightarrow> kind" where
  "other_kind p = (if isPhysical p then KBackup else KPhysicalBackup)"

definition loop_deletes :: "string list \<Rightarrow> string list \<Rightarrow> kind \<Rightarrow> nsname \<Rightarrow> bool" where
  "loop_deletes ls ps K k \<longleftrightarrow> K = KPhysicalBackup \<and> snd k \<in> set ls \<or> K = KBackup \<and> snd k \<in> set ps"

lemma sync_schedules_run:
  assumes laws: "faithful_endpoint OBackup (e_backups E) ob_meta" "faithful_endpoint OPhysicalBackup (e_physicals E) pb_meta"
    and "sync_schedules E c mdb ss l = (Inr (ls, ps), l')"
  shows "\<exists>new. l' = l @ new \<and> list_all (deletes_only (loop_deletes ls ps)) new
     \<and> set ls \<union> set ps = operator_name c ` set ss
     \<and> (distinct (map (operator_name c) ss) \<longrightarrow> set ls \<inter> set ps = {})
     \<and> (\<forall>x \<in> set ss. \<exists>p. backup_params_of (e_json_error E) (sc_parameters (snd x)) = Inr p
          \<and> operator_name c x \<in> set (if isPhysical p then ps else ls)
          \<and> cleared (other_kind p) (key_of c (operator_name c x)) new)"
  using assms(3)
proof (induction ss arbitrary: mdb l ls ps)
  case Nil
  then show ?case by simp
next
  case (Cons x ss)
  obtain st s where x: "x = (st, s)" by (cases x)
  let ?n = "operator_name c x" and ?D = "\<lambda>ls ps. deletes_only (loop_deletes ls ps)"
  have name: "scheduledBackupName (in_name c) (sc_name s) = ?n" by (simp add: x operator_name_def)
  from Cons.prems [unfolded x] obtain p m l1 where p: "backup_params_of (e_json_error E) (sc_parameters s) = Inr p"
    and owner: "(case mdb of Some m \<Rightarrow> ret m | None \<Rightarrow> owner_mariadb E c) l = (Inr m, l1)"
    and rest: "(if isPhysical p then
       bnd (reconcileScheduledPhysicalBackup E c m st s ?n p) (\<lambda>_.
       bnd (sync_schedules E c (Some m) ss) (\<lambda>(ls, ps). ret (ls, ?n # ps)))
     else
       bnd (reconcileScheduledBackup E c m st s ?n p) (\<lambda>_.
       bnd (sync_schedules E c (Some m) ss) (\<lambda>(ls, ps). ret (?n # ls, ps)))) l1 = (Inr (ls, ps), l')"
    by (auto simp: bnd_eq_Inr basic_eq_Inr Let_def name)
  have "emits (deletes_only (\<lambda>_ _. False)) (case mdb of Some m \<Rightarrow> ret m | None \<Rightarrow> owner_mariadb E c)"
    unfolding owner_mariadb_def by (intro post_intros) simp
  from emitsD [OF this owner] obtain n0 where n0: "l1 = l @ n0" "list_all (deletes_only (\<lambda>_ _. False)) n0" by blast
  then have n0': "list_all (?D ls ps) n0" by (auto simp: list_all_iff elim: deletes_only_mono)
  have go: ?case
    if l2: "l2 = l1 @ n1" "list_all (?D ls ps) n1" "cleared (other_kind p) (key_of c ?n) n1"
      and tail: "sync_schedules E c (Some m) ss l2 = (Inr (ls0, ps0), l')"
      and lists: "(ls, ps) = (if isPhysical p then (ls0, ?n # ps0) else (?n # ls0, ps0))" for l2 n1 ls0 ps0
  proof -
    from Cons.IH [OF tail] obtain n2 where n2: "l' = l2 @ n2" "list_all (?D ls0 ps0) n2"
      and names: "set ls0 \<union> set ps0 = operator_name c ` set ss"
        "distinct (map (operator_name c) ss) \<longrightarrow> set ls0 \<inter> set ps0 = {}"
      and each: "\<forall>y \<in> set ss. \<exists>q. backup_params_of (e_json_error E) (sc_parameters (snd y)) = Inr q
          \<and> operator_name c y \<in> set (if isPhysical q then ps0 else ls0)
          \<and> cleared (other_kind q) (key_of c (operator_name c y)) n2" by blast
    have sub: "set ls0 \<subseteq> set ls" "set ps0 \<subseteq> set ps" using lists by (auto split: if_splits)
    have "list_all (?D ls ps) n2"
      using n2(2)
    proof (rule list.pred_mono_strong)
      show "?D ls ps e" if "?D ls0 ps0 e" for e
        using that by (rule deletes_only_mono) (use sub in \<open>auto simp: loop_deletes_def\<close>)
    qed
    moreover have "set ls \<union> set ps = operator_name c ` set (x # ss)"
      using lists names(1) by (auto split: if_splits)
    moreover have "set ls \<inter> set ps = {}" if "distinct (map (operator_name c) (x # ss))"
      using that lists names by (auto split: if_splits)
    moreover have "\<forall>y \<in> set (x # ss). \<exists>q. backup_params_of (e_json_error E) (sc_parameters (snd y)) = Inr q
          \<and> operator_name c y \<in> set (if isPhysical q then ps else ls)
          \<and> cleared (other_kind q) (key_of c (operator_name c y)) (n0 @ n1 @ n2)"
    proof
      fix y assume "y \<in> set (x # ss)"
      then consider "y = x" | "y \<in> set ss" by auto
      then show "\<exists>q. backup_params_of (e_json_error E) (sc_parameters (snd y)) = Inr q
          \<and> operator_name c y \<in> set (if isPhysical q then ps else ls)
          \<and> cleared (other_kind q) (key_of c (operator_name c y)) (n0 @ n1 @ n2)"
      proof cases
        case 1
        with x p lists l2(3) show ?thesis by (auto intro!: exI [of _ p] cleared_append split: if_splits)
      next
        case 2
        with each sub show ?thesis by (fastforce intro: cleared_append)
      qed
    qed
    ultimately show ?thesis
      using n0 n0' l2 n2 by (intro exI [of _ "n0 @ n1 @ n2"]) simp
  qed
  show ?case
  proof (cases "isPhysical p")
    case True
    with rest obtain u l2 ls0 ps0 where r: "reconcileScheduledPhysicalBackup E c m st s ?n p l1 = (Inr u, l2)"
      and tail: "sync_schedules E c (Some m) ss l2 = (Inr (ls0, ps0), l')" and lists: "ls = ls0" "ps = ?n # ps0"
      by (auto simp: bnd_eq_Inr basic_eq_Inr)
    from ok_emitsD [OF physical_deletes [OF laws(1)] r] postD [OF physical_clears [OF laws(1), unfolded ok_clears_def] r]
    obtain n1 where "l2 = l1 @ n1" "list_all (deletes_only (\<lambda>K k. K = KBackup \<and> k = key_of c ?n)) n1"
      "cleared KBackup (key_of c ?n) n1" by auto
    with True lists show ?thesis
      by (intro go [OF _ _ _ tail])
         (auto simp: list_all_iff other_kind_def loop_deletes_def key_of_def elim!: deletes_only_mono)
  next
    case False
    with rest obtain u l2 ls0 ps0 where r: "reconcileScheduledBackup E c m st s ?n p l1 = (Inr u, l2)"
      and tail: "sync_schedules E c (Some m) ss l2 = (Inr (ls0, ps0), l')" and lists: "ls = ?n # ls0" "ps = ps0"
      by (auto simp: bnd_eq_Inr basic_eq_Inr)
    from ok_emitsD [OF logical_deletes [OF laws(2)] r] postD [OF logical_clears [OF laws(2), unfolded ok_clears_def] r]
    obtain n1 where "l2 = l1 @ n1" "list_all (deletes_only (\<lambda>K k. K = KPhysicalBackup \<and> k = key_of c ?n)) n1"
      "cleared KPhysicalBackup (key_of c ?n) n1" by auto
    with False lists show ?thesis
      by (intro go [OF _ _ _ tail])
         (auto simp: list_all_iff other_kind_def loop_deletes_def key_of_def elim!: deletes_only_mono)
  qed
qed

subsection \<open>The loop and the pruning together\<close>

lemma prune_deletes:
  "emits (deletes_only (\<lambda>K k. K = KBackup \<and> snd k \<notin> set ns)) (pruneScheduledBackups E c ns)"
  "emits (deletes_only (\<lambda>K k. K = KPhysicalBackup \<and> snd k \<notin> set ns)) (pruneScheduledPhysicalBackups E c ns)"
  unfolding pruneScheduledBackups_def pruneScheduledPhysicalBackups_def
  by (intro post_intros; simp add: meta_key_def)+

text \<open>
  A successful reconciliation of the schedules leaves every declared schedule with its
  operator object and with that one only. If the operator objects have different names, no
  object of a declared schedule's name and strategy is deleted, neither by the loop nor by
  the pruning that follows it; and the object of the same name and the other strategy was
  looked for and, if it was there, deleted.
\<close>

theorem schedules_survive:
  assumes laws: "faithful_endpoint OBackup (e_backups E) ob_meta" "faithful_endpoint OPhysicalBackup (e_physicals E) pb_meta"
    and run: "SyncScheduledBackups E c l = (Inr (), l')"
    and declared: "in_backup c = Some cfg" "ib_enabled cfg" "distinct (map (operator_name c) (declared_schedules cfg))"
    and x: "x \<in> set (declared_schedules cfg)"
  shows "\<exists>new p. l' = l @ new \<and> backup_params_of (e_json_error E) (sc_parameters (snd x)) = Inr p
     \<and> (\<forall>e \<in> set new. \<forall>ns. fst e \<noteq> ReqDelete (own_kind p) (ns, operator_name c x))
     \<and> cleared (other_kind p) (key_of c (operator_name c x)) new"
proof -
  from run declared(1,2) obtain ls ps l1 l2 u
    where loop: "sync_schedules E c None (declared_schedules cfg) l = (Inr (ls, ps), l1)"
      and prune: "pruneScheduledBackups E c ls l1 = (Inr u, l2)" "pruneScheduledPhysicalBackups E c ps l2 = (Inr (), l')"
    by (auto simp: SyncScheduledBackups_def enabled_backup_def bnd_eq_Inr)
  from sync_schedules_run [OF laws loop] declared(3) x obtain n0 p
    where n0: "l1 = l @ n0" "list_all (deletes_only (loop_deletes ls ps)) n0" "set ls \<inter> set ps = {}"
      and p: "backup_params_of (e_json_error E) (sc_parameters (snd x)) = Inr p"
      and n: "operator_name c x \<in> set (if isPhysical p then ps else ls)"
      and cl: "cleared (other_kind p) (key_of c (operator_name c x)) n0"
    by blast
  from emitsD [OF prune_deletes(1) prune(1)] obtain n1
    where n1: "l2 = l1 @ n1" "list_all (deletes_only (\<lambda>K k. K = KBackup \<and> snd k \<notin> set ls)) n1" by blast
  from emitsD [OF prune_deletes(2) prune(2)] obtain n2
    where n2: "l' = l2 @ n2" "list_all (deletes_only (\<lambda>K k. K = KPhysicalBackup \<and> snd k \<notin> set ps)) n2" by blast
  have "\<not> loop_deletes ls ps (own_kind p) (ns, operator_name c x)" for ns
    using n n0(3) by (auto simp: loop_deletes_def own_kind_def split: if_splits)
  with n n0(2) n1(2) n2(2)
  have "\<forall>e \<in> set (n0 @ n1 @ n2). \<forall>ns. fst e \<noteq> ReqDelete (own_kind p) (ns, operator_name c x)"
    by (auto simp: list_all_iff deletes_only_def own_kind_def split: if_splits)
  moreover have "cleared (other_kind p) (key_of c (operator_name c x)) (n0 @ n1 @ n2)"
    using cl by (auto intro: cleared_append)
  ultimately show ?thesis
    using p n0(1) n1(1) n2(1) by (intro exI [of _ "n0 @ n1 @ n2"] exI [of _ p]) simp
qed

subsection \<open>A schedule in place\<close>

text \<open>A server with the given objects that accepts no write.\<close>

definition read_only_endpoint :: "('o \<Rightarrow> meta) \<Rightarrow> 'o list \<Rightarrow> 'o endpoint" where
  "read_only_endpoint mt xs = \<lparr> ep_get = (\<lambda>_ k. case find (\<lambda>x. meta_key (mt x) = k) xs of Some x \<Rightarrow> Inr x | None \<Rightarrow> Inl (ApiNotFound (snd k))),
     ep_list = (\<lambda>_ _. Inr xs), ep_create = (\<lambda>_ _. Inl (ApiError ''read-only'')), ep_update = (\<lambda>_ _. Inl (ApiError ''read-only'')),
     ep_delete = (\<lambda>_ _. Some (ApiError ''read-only'')) \<rparr>"

lemma read_only_faithful: "list_all (\<lambda>x. m_rv (mt x) \<noteq> []) xs \<Longrightarrow> faithful_endpoint C (read_only_endpoint mt xs) mt"
  by (auto simp: faithful_endpoint_def read_only_endpoint_def list_all_iff dest!: find_member split: option.splits)

text \<open>A logical schedule whose operator object is in place, and a server that accepts no write.\<close>

definition daily_backup :: "string \<Rightarrow> op_backup" where
  "daily_backup n = (new_op_backup ''ns'' n)\<lparr>ob_meta := (empty_meta ''ns'' n)\<lparr>m_rv := ''1'', m_labels := [(scheduleLabel, ''daily'')],
     m_owners := [(owner_of ''MariaDB'' (md_meta plain_mariadb))\<lparr>or_controller := Some True\<rparr>]\<rparr>,
     ob_storage := Some (operatorS3 plain_storage ''db''), ob_retention := keepAllRetention,
     ob_schedule := Some (sc_cron daily, False), ob_args := [''--flush-privileges''], ob_databases := None\<rparr>"

definition daily_instance :: instance_cr where
  "daily_instance = backup_instance ''standalone'' [\<lparr> is_ref = ''st'', is_pitr = None, is_schedules = [daily] \<rparr>]"

definition settled_env :: "string \<Rightarrow> env" where
  "settled_env n = (mem_env backup_world)\<lparr>e_mariadbs := read_only_endpoint md_meta [plain_mariadb],
     e_backups := read_only_endpoint ob_meta [daily_backup n], e_physicals := read_only_endpoint pb_meta []\<rparr>"

lemma settled_parts:
  "e_mariadbs (settled_env n) = read_only_endpoint md_meta [plain_mariadb]"
  "e_backups (settled_env n) = read_only_endpoint ob_meta [daily_backup n]"
  "e_physicals (settled_env n) = read_only_endpoint pb_meta []"
  "e_storage (settled_env n) l ''st'' = Inr (Some plain_storage)"
  "e_cron (settled_env n) = (\<lambda>_. Inr (\<lambda>t. t + 86400000000000))"
  "e_json_error (settled_env n) = (\<lambda>_. ''invalid'')"
  "e_now (settled_env n) = (\<lambda>_. 0)"
  "e_set_controller (settled_env n) = mem_set_controller"
  by (simp_all add: settled_env_def mem_env_def backup_world_def)

lemma daily_facts [simp]:
  "deriveMaxRetention f 0 (sc_cron daily) (sc_retention daily) = Inr keepAllRetention"
  "backup_params_of je (sc_parameters daily) = Inr zero_backup_params" "sc_name daily = ''daily''"
  by (simp_all add: daily_def deriveMaxRetention_def)

lemma daily_backup_facts [simp]:
  "meta_key (ob_meta (daily_backup n)) = (''ns'', n)" "m_name (ob_meta (daily_backup n)) = n"
  "ob_storage (daily_backup n) = Some (operatorS3 plain_storage ''db'')" "ob_retention (daily_backup n) = keepAllRetention"
  "m_rv (ob_meta (daily_backup n)) = ''1''"
  by (simp_all add: daily_backup_def meta_key_def empty_meta_def)

lemma daily_instance_facts [simp]:
  "in_name daily_instance = ''db''" "in_namespace daily_instance = ''ns''"
  "in_backup daily_instance = Some \<lparr> ib_enabled = True, ib_class = ''c'',
     ib_storages = [\<lparr> is_ref = ''st'', is_pitr = None, is_schedules = [daily] \<rparr>] \<rparr>"
  by (simp_all add: daily_instance_def backup_instance_def plain_instance_def)

lemma mutate_settled:
  "scheduled_backup_mutate (settled_env n) c plain_mariadb st rt managed daily zero_backup_params (daily_backup n) l
     = (Inr (daily_backup n), l)"
  by (simp add: scheduled_backup_mutate_def own_backup_def Let_def bnd_def attempt_def settled_parts applyLogicalBackupParameters_def
      daily_backup_def daily_def empty_meta_def new_op_backup_def mem_set_controller_def controller_of_def is_controller_def
      owner_of_def zero_backup_params_def)

lemma reconcile_settled:
  "reconcileScheduledBackup (settled_env n) daily_instance plain_mariadb ''st'' daily n zero_backup_params l =
     (Inr (), l @ [(ReqStorage ''st'', None), (ReqGet KPhysicalBackup (''ns'', n), Some (ApiNotFound n)),
        (ReqGet KBackup (''ns'', n), None), (ReqGet KBackup (''ns'', n), None)])"
  by (simp add: reconcileScheduledBackup_def bnd_def attempt_def on_get_def wrap_err_def api_get_def request_def schedule_retention_def
     buildS3Storage_apply s3_of_def settled_parts deleteScheduledPhysicalBackup_def read_only_endpoint_def key_of_def
     scheduledBackupLabels_def create_or_update_def mutate_settled)

lemma sync_settled:
  assumes "n = scheduledBackupName ''db'' ''daily''"
  shows "fst (SyncScheduledBackups (settled_env n) daily_instance []) = Inr ()"
proof -
  have owner: "owner_mariadb (settled_env n) daily_instance [] = (Inr plain_mariadb, [(ReqGet KMariaDB (''ns'', ''db''), None)])"
    by (simp add: owner_mariadb_def on_get_def attempt_def api_get_def request_def settled_parts read_only_endpoint_def key_of_def
        plain_mariadb_def meta_key_def empty_meta_def)
  show ?thesis
    by (simp add: SyncScheduledBackups_def enabled_backup_def declared_schedules_def bnd_def attempt_def owner settled_parts
        assms [symmetric] reconcile_settled Let_def pruneScheduledBackups_def pruneScheduledPhysicalBackups_def wrap_err_def api_list_def request_def
        read_only_endpoint_def)
qed

theorem schedules_survive_witness:
  "\<exists>n new. n = scheduledBackupName ''db'' ''daily'' \<and> snd (SyncScheduledBackups (settled_env n) daily_instance []) = new
     \<and> (\<forall>e \<in> set new. \<forall>ns. fst e \<noteq> ReqDelete KBackup (ns, n)) \<and> cleared KPhysicalBackup (''ns'', n) new"
proof -
  define n where n: "n = scheduledBackupName ''db'' ''daily''"
  have run: "SyncScheduledBackups (settled_env n) daily_instance [] =
      (Inr (), snd (SyncScheduledBackups (settled_env n) daily_instance []))"
    using sync_settled [OF n] by (simp add: prod_eq_iff)
  have laws: "faithful_endpoint OBackup (e_backups (settled_env n)) ob_meta"
    "faithful_endpoint OPhysicalBackup (e_physicals (settled_env n)) pb_meta"
    by (simp_all add: settled_parts read_only_faithful)
  have name: "operator_name daily_instance (''st'', daily) = n" by (simp add: operator_name_def n)
  from schedules_survive [OF laws run daily_instance_facts(3), of "(''st'', daily)"]
  have "(\<forall>e \<in> set (snd (SyncScheduledBackups (settled_env n) daily_instance [])). \<forall>ns. fst e \<noteq> ReqDelete KBackup (ns, n))
     \<and> cleared KPhysicalBackup (''ns'', n) (snd (SyncScheduledBackups (settled_env n) daily_instance []))"
    by (auto simp: declared_schedules_def name own_kind_def other_kind_def key_of_def)
  with n show ?thesis by blast
qed

end
