(* ===== verification/Provider.thy ===== *)
theory Provider
  imports Validate Status ScheduleRuns
begin

section \<open>The provider\<close>

text \<open>
  \<open>provider.go\<close>: the entry points the runtime calls, composed of the handlers of the other
  theories, the kinds of object whose changes wake the reconcilers, and the mapping of run
  Jobs to reconcile requests. The properties are those of whole reconciliations and of
  whole runs: any sequence of calls of the entry points.
\<close>

subsection \<open>Entry points\<close>

definition Validate :: "env \<Rightarrow> instance_cr \<Rightarrow> unit go" where
  "Validate E c = ValidateMariaDB E c"

definition Sync :: "env \<Rightarrow> instance_cr \<Rightarrow> unit go" where
  "Sync E c =
     bnd (SyncMariaDB E c) (\<lambda>_.
     bnd (SyncReplicaTemplate E c) (\<lambda>_.
     bnd (SyncMaxScale E c) (\<lambda>_.
     bnd (SyncServiceMonitor E c) (\<lambda>_.
     bnd (SyncVMServiceScrape E c) (\<lambda>_.
     bnd (SyncScheduledBackups E c) (\<lambda>_.
     bnd (SyncPITR E c) (\<lambda>_.
     syncDataSourceStatus E c)))))))"

definition Status :: "env \<Rightarrow> instance_cr \<Rightarrow> status go" where
  "Status E c = StatusMariaDB E c"

definition Cleanup :: "env \<Rightarrow> instance_cr \<Rightarrow> unit go" where
  "Cleanup E c = CleanupMariaDB E c"

subsection \<open>Watches\<close>

text \<open>
  The map function of \<open>EnqueueRequestsFromMapFunc\<close>: the reconcile requests of a Job.
\<close>

definition scheduledRunToBackupRequest :: "job \<Rightarrow> nsname list" where
  "scheduledRunToBackupRequest j =
     (if label_value (m_labels (jb_meta j)) scheduleLabel = [] then []
      else [(m_namespace (jb_meta j), m_name (jb_meta j))])"

datatype watch = WatchOwned kind | WatchExternal kind "job \<Rightarrow> nsname list"

definition WatchConfigs :: "watch list" where
  "WatchConfigs = [WatchOwned KMariaDB, WatchOwned KPITR, WatchOwned KMaxScale]"

definition BackupWatches :: "watch list" where
  "BackupWatches = [WatchOwned KBackup, WatchOwned KPhysicalBackup, WatchExternal KJob scheduledRunToBackupRequest]"

definition RestoreWatches :: "watch list" where
  "RestoreWatches = [WatchOwned KRestore]"

text \<open>The kind of object whose runs are mirrored.\<close>

definition OperatorBackupType :: kind where
  "OperatorBackupType = KJob"

fun watched :: "watch \<Rightarrow> kind" where
  "watched (WatchOwned K) = K"
| "watched (WatchExternal K _) = K"

text \<open>The API groups added to the scheme, and what \<open>New\<close> hands to the runtime.\<close>

datatype scheme_func = MariaDBAddToScheme | BatchAddToScheme

record base_provider =
  bp_name :: string
  bp_schemes :: "scheme_func list"
  bp_watches :: "watch list"

definition New :: base_provider where
  "New = \<lparr> bp_name = ProviderName, bp_schemes = [MariaDBAddToScheme, BatchAddToScheme], bp_watches = WatchConfigs \<rparr>"

text \<open>
  No scheduled run is missed: a Job that is mirrored as a Backup always causes a
  reconcile request, for exactly that Backup; a Job without a schedule causes none.
\<close>

theorem mirrored_runs_requested:
  "(\<forall>b. Mirror j = Some b \<longrightarrow> scheduledRunToBackupRequest j = [meta_key (eb_meta b)] \<and> eb_schedule b \<noteq> [])
   \<and> (label_value (m_labels (jb_meta j)) scheduleLabel = [] \<longrightarrow> scheduledRunToBackupRequest j = [] \<and> Mirror j = None)"
  by (auto simp: Mirror_def Let_def scheduledRunToBackupRequest_def meta_key_def empty_meta_def)

definition run_job :: job where
  "run_job = \<lparr> jb_meta = (empty_meta ''ns'' ''j1'')\<lparr>m_labels := [(scheduleLabel, ''daily''), (instanceLabel, ''db''),
     (storageLabel, ''st''), (classLabel, ''c'')]\<rparr>, jb_conditions = [] \<rparr>"

theorem mirrored_runs_requested_witness:
  "scheduledRunToBackupRequest run_job = [(''ns'', ''j1'')]"
proof -
  obtain b where b: "Mirror run_job = Some b" "meta_key (eb_meta b) = (''ns'', ''j1'')"
    by (simp add: Mirror_def Let_def run_job_def label_value_def label_defs empty_meta_def meta_key_def)
  with mirrored_runs_requested [of run_job] show ?thesis by simp
qed

subsection \<open>What is read is watched\<close>

definition reads_kinds :: "kind set \<Rightarrow> entry \<Rightarrow> bool" where
  "reads_kinds Ks e \<longleftrightarrow> (case fst e of ReqGet K k \<Rightarrow> K \<in> Ks | _ \<Rightarrow> True)"

lemma reads_kinds_simps [simp]:
  "reads_kinds Ks (ReqGet K k, r) \<longleftrightarrow> K \<in> Ks" "reads_kinds Ks (ReqStorage n, r)" "reads_kinds Ks (ReqCreate ob, r)"
  "reads_kinds Ks (ReqUpdate ob, r)" "reads_kinds Ks (ReqList K sel, r)"
  by (simp_all add: reads_kinds_def)

lemma status_reads:
  "emits (reads_kinds {KMariaDB, KMaxScale, KSecret, KService}) (Status E c)"
  "emits (reads_kinds {KPITR}) (BackupStorageStatuses te E c)"
  "emits (reads_kinds {KMariaDB, KBackup, KPhysicalBackup, KJob}) (SyncBackup E c b)"
  "emits (reads_kinds {KEvBackup, KRestore}) (SyncRestore E c r)"
  unfolding Status_def StatusMariaDB_def ready_status_def details_status_def readyMaxScale_def buildConnectionDetails_def
    Let_def BackupStorageStatuses_def SyncBackup_def syncScheduledRun_def syncPhysicalBackup_def SyncBackup_mutate_def
    syncPhysicalBackup_mutate_def SyncRestore_def SyncRestore_mutate_def
  by (intro post_intros; auto intro!: post_intros split: sum.splits option.splits)+

text \<open>
  No status goes stale unnoticed: every operator object a status is computed from is of a
  kind whose changes wake the reconciler that computes it. An Instance reads only watched
  kinds beside Secrets and Services; a Backup only the watched ones beside the MariaDB; a
  Restore only the watched one beside its source Backup. The run Jobs that are mirrored are
  among them.
\<close>

theorem status_sources_watched:
  "(\<exists>new. snd (Status E c l) = l @ new \<and> list_all (reads_kinds (watched ` set (bp_watches New) \<union> {KSecret, KService})) new)
   \<and> (\<exists>new. snd (BackupStorageStatuses te E c l) = l @ new \<and> list_all (reads_kinds (watched ` set (bp_watches New))) new)
   \<and> (\<exists>new. snd (SyncBackup E c b l) = l @ new \<and> list_all (reads_kinds (watched ` set BackupWatches \<union> {KMariaDB})) new)
   \<and> (\<exists>new. snd (SyncRestore E c r l) = l @ new \<and> list_all (reads_kinds (watched ` set RestoreWatches \<union> {KEvBackup})) new)
   \<and> OperatorBackupType \<in> watched ` set BackupWatches"
proof -
  have grows: "\<exists>new. snd (m l) = l @ new \<and> list_all P new" if "emits P m" for P :: "entry \<Rightarrow> bool" and m :: "'x go"
    using emitsD [OF that prod.collapse [symmetric]] .
  have kinds: "watched ` set (bp_watches New) = {KMariaDB, KPITR, KMaxScale}" "watched ` set RestoreWatches = {KRestore}"
    "watched ` set BackupWatches = {KBackup, KPhysicalBackup, KJob}"
    by (simp_all add: New_def WatchConfigs_def BackupWatches_def RestoreWatches_def insert_commute)
  have wider: "emits (reads_kinds B) m" if "emits (reads_kinds A) m" "A \<subseteq> B" for A B and m :: "'y go"
    using that(1) by (rule emits_mono) (use that(2) in \<open>auto simp: reads_kinds_def split: request.splits\<close>)
  show ?thesis
    unfolding kinds
    by (intro conjI grows wider [OF status_reads(1)] wider [OF status_reads(2)] wider [OF status_reads(3)]
        wider [OF status_reads(4)]) (auto simp: OperatorBackupType_def)
qed

subsection \<open>One reconciliation\<close>

text \<open>
  A sequence of stages: each runs on the log the previous one left, and the first error
  ends the sequence.
\<close>

inductive stages :: "unit go list \<Rightarrow> log \<Rightarrow> err + unit \<Rightarrow> log \<Rightarrow> bool" where
  all_done: "stages [] l (Inr ()) l"
| stage_fails: "s l = (Inl e, l') \<Longrightarrow> stages (s # ss) l (Inl e) l'"
| stage_passes: "s l = (Inr (), l1) \<Longrightarrow> stages ss l1 r l' \<Longrightarrow> stages (s # ss) l r l'"

inductive_simps stages_Nil: "stages [] l r l'"
inductive_simps stages_Cons: "stages (s # ss) l r l'"
inductive_cases stages_ConsE: "stages (s # ss) l r l'"

lemma stages_seq:
  assumes "\<And>l r l'. m l = (r, l') \<longleftrightarrow> stages ss l r l'"
  shows "bnd s (\<lambda>_. m) l = (r, l') \<longleftrightarrow> stages (s # ss) l r l'"
  by (cases "s l"; cases "fst (s l)") (auto simp: stages_Cons bnd_def attempt_def assms [symmetric])

lemma stages_last: "s l = (r, l') \<longleftrightarrow> stages [s] l r l'"
  by (cases "s l"; cases "fst (s l)") (auto simp: stages_Cons stages_Nil)

definition sync_stages :: "env \<Rightarrow> instance_cr \<Rightarrow> unit go list" where
  "sync_stages E c = [SyncMariaDB E c, SyncReplicaTemplate E c, SyncMaxScale E c, SyncServiceMonitor E c,
     SyncVMServiceScrape E c, SyncScheduledBackups E c, SyncPITR E c, syncDataSourceStatus E c]"

lemma Sync_stages: "Sync E c l = (r, l') \<longleftrightarrow> stages (sync_stages E c) l r l'"
  unfolding Sync_def sync_stages_def by (intro stages_seq stages_last)

subsection \<open>What a reconciliation may write\<close>

text \<open>
  The kinds of write of a reconciliation: the cluster, its proxy and the VMServiceScrape are
  applied; what the provider owns is created, updated and deleted; Secrets are only created.
\<close>

fun sync_write :: "request \<Rightarrow> bool" where
  "sync_write (ReqApply K _) = (K \<in> {KMariaDB, KMaxScale, KVMServiceScrape})"
| "sync_write (ReqCreate ob) = (case ob of
     OSecret _ \<Rightarrow> True | OBackup _ \<Rightarrow> True | OPhysicalBackup _ \<Rightarrow> True | OPITR _ \<Rightarrow> True | _ \<Rightarrow> False)"
| "sync_write (ReqUpdate ob) = (case ob of
     OMariaDB _ \<Rightarrow> True | OMaxScale _ \<Rightarrow> True | OBackup _ \<Rightarrow> True | OPhysicalBackup _ \<Rightarrow> True | OPITR _ \<Rightarrow> True | _ \<Rightarrow> False)"
| "sync_write (ReqPatch ob) = (case ob of OUnstructured _ \<Rightarrow> True | _ \<Rightarrow> False)"
| "sync_write (ReqDelete K _) = (K \<in> {KMaxScale, KBackup, KPhysicalBackup, KPITR, KServiceMonitor, KVMServiceScrape})"
| "sync_write q = True"

lemma sync_write_read: "\<not> is_write q \<Longrightarrow> sync_write q"
  by (cases q) simp_all

abbreviation sync_entry :: "entry \<Rightarrow> bool" where
  "sync_entry e \<equiv> sync_write (fst e)"

lemma emits_owner_reference:
  "emits sync_entry (scheduled_backup_mutate E c mdb st rt managed schedule params b)"
  "emits sync_entry (scheduled_physical_mutate E c mdb st rt managed schedule params pb)"
  "emits sync_entry (pitr_base_mutate E c mdb st rt schedule pb)"
  "emits sync_entry (reconcilePITR_mutate E c s3 base pi)"
  "emits sync_entry (replica_template_mutate E c mdb st pb)"
  unfolding scheduled_backup_mutate_def scheduled_physical_mutate_def pitr_base_mutate_def
    reconcilePITR_mutate_def replica_template_mutate_def Let_def
  by (intro post_intros)+

lemma emits_migrate_sync:
  "emits sync_entry (migrateFieldOwnership E OMariaDB (e_mariadbs E) md_meta f x)"
  "emits sync_entry (migrateFieldOwnership E OMaxScale (e_maxscales E) mx_meta g y)"
  unfolding migrateFieldOwnership_def by (intro post_intros; simp)+

lemma SyncMariaDB_kinds: "emits sync_entry (SyncMariaDB E c)"
  unfolding SyncMariaDB_def ensureRestoreCredentials_def copyInstanceSecret_def
  by (intro post_intros emits_migrate_sync; auto intro!: post_intros simp: sync_write_read split: prod.splits)

lemma SyncReplicaTemplate_kinds: "emits sync_entry (SyncReplicaTemplate E c)"
  unfolding SyncReplicaTemplate_def Let_def by (intro post_intros emits_owner_reference; simp)

lemma SyncMaxScale_kinds: "emits sync_entry (SyncMaxScale E c)"
  unfolding SyncMaxScale_def teardownMaxScale_def by (intro post_intros emits_migrate_sync; simp)

lemma monitoring_kinds: "emits sync_entry (SyncServiceMonitor E c)" "emits sync_entry (SyncVMServiceScrape E c)"
  unfolding SyncServiceMonitor_def SyncVMServiceScrape_def teardownVMServiceScrape_def adoptVMServiceScrape_def
  by (intro post_intros; simp)+

lemma reconcile_schedule_kinds:
  "emits sync_entry (reconcileScheduledBackup E c mdb st schedule name params)"
  "emits sync_entry (reconcileScheduledPhysicalBackup E c mdb st schedule name params)"
  unfolding reconcileScheduledBackup_def reconcileScheduledPhysicalBackup_def deleteScheduledBackup_def
    deleteScheduledPhysicalBackup_def
  by (intro post_intros emits_owner_reference; simp)+

lemma sync_schedules_kinds: "emits sync_entry (sync_schedules E c mdb ss)"
proof (induction E c mdb ss rule: sync_schedules.induct)
  case (2 E c mdb storageName schedule ss)
  show ?case
    unfolding sync_schedules.simps Let_def
    by (intro post_intros reconcile_schedule_kinds; (simp add: 2 | auto intro!: post_intros split: prod.splits)?)
       (auto intro!: post_intros 2 split: prod.splits)
next
  case (1 E c mdb)
  show ?case unfolding sync_schedules.simps by (rule emits_ret)
qed

lemma SyncScheduledBackups_kinds: "emits sync_entry (SyncScheduledBackups E c)"
proof -
  have "emits sync_entry (pruneScheduledBackups E c ns)" "emits sync_entry (pruneScheduledPhysicalBackups E c ns)" for ns
    unfolding pruneScheduledBackups_def pruneScheduledPhysicalBackups_def by (intro post_intros; simp)+
  then show ?thesis
    unfolding SyncScheduledBackups_def
    by (intro emits_bnd emits_case_option sync_schedules_kinds emits_ret) (auto intro!: emits_bnd split: prod.splits)
qed

lemma SyncPITR_kinds: "emits sync_entry (SyncPITR E c)"
  unfolding SyncPITR_def teardownPITR_def reconcilePITRBaseBackup_def reconcilePITR_def
  by (intro post_intros emits_owner_reference; simp)

lemma syncDataSourceStatus_kinds: "emits sync_entry (syncDataSourceStatus E c)"
  unfolding syncDataSourceStatus_def bootstrapRestoreFailed_def
  by (auto intro!: post_intros split: option.splits content_type.splits prod.splits)

lemmas stage_kinds = SyncMariaDB_kinds SyncReplicaTemplate_kinds SyncMaxScale_kinds monitoring_kinds
  SyncScheduledBackups_kinds SyncPITR_kinds syncDataSourceStatus_kinds

lemma sync_stages_kinds: "s \<in> set (sync_stages E c) \<Longrightarrow> emits sync_entry s"
  unfolding sync_stages_def by (auto intro: stage_kinds)

lemma stages_emit:
  assumes "stages ss l r l'" and "\<And>s. s \<in> set ss \<Longrightarrow> emits P s"
  shows "\<exists>new. l' = l @ new \<and> list_all P new"
  using assms
proof (induction rule: stages.induct)
  case (stage_fails s l e l' ss)
  then show ?case using emitsD [of P s] by simp
next
  case (stage_passes s l l1 ss r l')
  then show ?case using emitsD [of P s l] by fastforce
qed simp

lemma Sync_within: "emits sync_entry (Sync E c)"
  unfolding Sync_def by (intro emits_bnd stage_kinds)

interpretation sync_call: handler "Sync E c" sync_entry for E c
  by unfold_locales (rule Sync_within)



subsection \<open>The order of a reconciliation\<close>

lemma SyncMariaDB_ends:
  assumes "SyncMariaDB E c l = (Inr (), l')"
  shows "\<exists>new js. l' = l @ new @ [(ReqApply KMariaDB js, None)]"
proof -
  from assms obtain d l0 m l3 js where d: "desiredMariaDB E c l = (Inr d, l0)"
    and m: "settled_desired E c d l0 = (Inr m, l3)" and l': "l' = l3 @ [(ReqApply KMariaDB js, None)]"
    unfolding SyncMariaDB_alt by (auto simp: run_simps)
  have "emits (\<lambda>_. True) (desiredMariaDB E c)" by (intro post_intros) simp
  with emitsD [OF this d] emitsD [OF settled_desired_emits m] l' show ?thesis by auto
qed

text \<open>
  C16: A reconciliation always starts with the cluster: whatever else it asks for comes after
  a successful application of the MariaDB in the same run; until then it makes only the
  requests of \<open>SyncMariaDB\<close>, and if that fails nothing else.
\<close>

theorem cluster_first:
  assumes "Sync E c l = (r, l')"
  shows "\<exists>first rest. l' = l @ first @ rest \<and> list_all (\<lambda>e. mariadb_write E c (fst e)) first
     \<and> (rest \<noteq> [] \<or> r = Inr () \<longrightarrow> (\<exists>pre js. first = pre @ [(ReqApply KMariaDB js, None)]))"
    (is "\<exists>first rest. ?P first rest")
proof -
  from assms have "stages (sync_stages E c) l r l'" by (simp add: Sync_stages)
  then consider (fails) e where "r = Inl e" "SyncMariaDB E c l = (Inl e, l')"
    | (passes) l1 where "SyncMariaDB E c l = (Inr (), l1)" "stages (tl (sync_stages E c)) l1 r l'"
    by (auto simp: sync_stages_def stages_Cons)
  then show ?thesis
  proof cases
    case fails
    from emitsD [OF SyncMariaDB_writes_of fails(2)] obtain new where "l' = l @ new" "list_all (\<lambda>e. mariadb_write E c (fst e)) new"
      by blast
    with fails have "?P new []" by simp
    then show ?thesis by blast
  next
    case passes
    from emitsD [OF SyncMariaDB_writes_of passes(1)] SyncMariaDB_ends [OF passes(1)] obtain new pre js
      where new: "l1 = l @ new" "list_all (\<lambda>e. mariadb_write E c (fst e)) new" "new = pre @ [(ReqApply KMariaDB js, None)]"
      by auto
    from stages_emit [OF passes(2), of sync_entry] sync_stages_kinds [of _ E c] obtain rest where "l' = l1 @ rest"
      by (metis list.set_sel(2) sync_stages_def list.distinct(1))
    with new have "?P new rest" by auto
    then show ?thesis by blast
  qed
qed

theorem cluster_first_witness:
  "fst (SyncMariaDB (mem_env backup_world) (plain_instance ''galera'') []) = Inr ()
   \<and> (\<exists>first rest. snd (Sync (mem_env backup_world) (plain_instance ''galera'') []) = [] @ first @ rest
       \<and> list_all (\<lambda>e. mariadb_write (mem_env backup_world) (plain_instance ''galera'') (fst e)) first)"
proof
  show "fst (SyncMariaDB (mem_env backup_world) (plain_instance ''galera'') []) = Inr ()" by code_simp
  show "\<exists>first rest. snd (Sync (mem_env backup_world) (plain_instance ''galera'') []) = [] @ first @ rest
       \<and> list_all (\<lambda>e. mariadb_write (mem_env backup_world) (plain_instance ''galera'') (fst e)) first"
    using cluster_first [OF prod.collapse [symmetric], of "mem_env backup_world" "plain_instance ''galera''" "[]"] by blast
qed

subsection \<open>Whole runs\<close>

text \<open>
  The calls the runtime may make, in any order and for any objects, and the log after a
  sequence of them. What the rest of the cluster does in between is in the answers of the
  environment, which every later answer may depend on.
\<close>

datatype call =
    CallValidate instance_cr
  | CallSync instance_cr
  | CallStatus instance_cr
  | CallCleanup instance_cr
  | CallStorageStatuses instance_cr
  | CallSyncBackup instance_cr ev_backup
  | CallCleanupBackup instance_cr ev_backup
  | CallSyncRestore instance_cr ev_restore
  | CallCleanupRestore instance_cr ev_restore

fun run_call :: "env \<Rightarrow> call \<Rightarrow> log \<Rightarrow> log" where
  "run_call E (CallValidate c) l = snd (Validate E c l)"
| "run_call E (CallSync c) l = snd (Sync E c l)"
| "run_call E (CallStatus c) l = snd (Status E c l)"
| "run_call E (CallCleanup c) l = snd (Cleanup E c l)"
| "run_call E (CallStorageStatuses c) l = snd (BackupStorageStatuses (e_json_error E) E c l)"
| "run_call E (CallSyncBackup c b) l = snd (SyncBackup E c b l)"
| "run_call E (CallCleanupBackup c b) l = snd (CleanupBackup E c b l)"
| "run_call E (CallSyncRestore c r) l = snd (SyncRestore E c r l)"
| "run_call E (CallCleanupRestore c r) l = snd (CleanupRestore E c r l)"

inductive runs :: "env \<Rightarrow> call list \<Rightarrow> log \<Rightarrow> log \<Rightarrow> bool" for E where
  no_call: "runs E [] l l"
| next_call: "runs E xs l l1 \<Longrightarrow> l' = run_call E x l1 \<Longrightarrow> runs E (xs @ [x]) l l'"

inductive_cases runs_NilE: "runs E [] l l'"

text \<open>What one call may write as far as the cluster and other people's data go.\<close>

definition call_write :: "call \<Rightarrow> entry \<Rightarrow> bool" where
  "call_write x e = (case fst e of
     ReqDelete K k \<Rightarrow> (K = KMariaDB \<longrightarrow> (\<exists>c. x = CallCleanup c \<and> k = key_of c (in_name c)))
       \<and> K \<notin> {KSecret, KJob, KEvBackup, KService}
       \<and> (K = KRestore \<longrightarrow> (\<exists>c r. x = CallCleanupRestore c r))
   | ReqUpdate ob \<Rightarrow> (case ob of OSecret _ \<Rightarrow> False | _ \<Rightarrow> True)
   | _ \<Rightarrow> True)"

lemma call_write_read: "read_only e \<Longrightarrow> call_write x e"
  by (cases "fst e") (auto simp: call_write_def)

lemma call_write_sync: "sync_entry e \<Longrightarrow> call_write x e"
  by (cases "fst e") (auto simp: call_write_def split: obj.splits)

lemma call_write_simps [simp]:
  "call_write x (ReqGet K k, r)" "call_write x (ReqStorage n, r)" "call_write x (ReqList K sel, r)"
  "call_write x (ReqCreate ob, r)" "call_write x (ReqApply K js, r)" "call_write x (ReqStage st, r)"
  "call_write x (ReqUpdate (OBackup b), r)" "call_write x (ReqUpdate (OPhysicalBackup pb), r)"
  "call_write x (ReqUpdate (ORestore rb), r)"
  "call_write x (ReqDelete KBackup k, r)" "call_write x (ReqDelete KPhysicalBackup k, r)"
  "call_write x (ReqDelete KMaxScale k, r)"
  "call_write (CallCleanup c) (ReqDelete KMariaDB (key_of c (in_name c)), r)"
  "call_write (CallCleanupRestore c rs) (ReqDelete KRestore k, r)"
  by (simp_all add: call_write_def)

lemma reports_read:
  "emits read_only (Validate E c)" "emits read_only (Status E c)" "emits read_only (BackupStorageStatuses te E c)"
  unfolding Validate_def ValidateMariaDB_def Status_def StatusMariaDB_def ready_status_def details_status_def
    readyMaxScale_def buildConnectionDetails_def Let_def BackupStorageStatuses_def
  by (intro post_intros; auto intro!: post_intros split: sum.splits option.splits)+

interpretation validate_call: reporter "Validate E c" for E c
  by unfold_locales (rule reports_read)

interpretation status_call: reporter "Status E c" for E c
  by unfold_locales (rule reports_read)

interpretation storage_call: reporter "BackupStorageStatuses te E c" for te E c
  by unfold_locales (rule reports_read)

interpretation cleanup_call: handler "Cleanup E c" "call_write (CallCleanup c)" for E c
  unfolding Cleanup_def CleanupMariaDB_def teardownMaxScale_def
  by unfold_locales (intro post_intros; simp)

interpretation cleanup_backup_call: handler "CleanupBackup E c b" "call_write x" for E c b x
  unfolding CleanupBackup_def cleanupPhysicalBackup_def by unfold_locales (intro post_intros; simp)

interpretation cleanup_restore_call: handler "CleanupRestore E c r" "call_write (CallCleanupRestore c r)" for E c r
  unfolding CleanupRestore_def by unfold_locales (intro post_intros; simp)

lemma backup_calls: "emits (call_write x) (SyncBackup E c b)" "emits (call_write x) (SyncRestore E c r)"
  unfolding SyncBackup_def syncScheduledRun_def syncPhysicalBackup_def SyncBackup_mutate_def
    syncPhysicalBackup_mutate_def SyncRestore_def SyncRestore_mutate_def
  by (intro post_intros; auto intro!: post_intros split: sum.splits option.splits)+

interpretation backup_call: handler "SyncBackup E c b" "call_write x" for E c b x
  by unfold_locales (rule backup_calls)

interpretation restore_call: handler "SyncRestore E c r" "call_write x" for E c r x
  by unfold_locales (rule backup_calls)

lemmas call_logs = sync_call.grows_within [OF call_write_sync] validate_call.grows_within [OF call_write_read]
  status_call.grows_within [OF call_write_read] storage_call.grows_within [OF call_write_read]
  cleanup_call.log_grows cleanup_backup_call.log_grows cleanup_restore_call.log_grows
  backup_call.log_grows restore_call.log_grows

lemma run_call_write: "\<exists>new. run_call E x l = l @ new \<and> list_all (call_write x) new"
  by (cases x; hypsubst; unfold run_call.simps; rule call_logs; assumption)

text \<open>
  C31: The entry points that report, the admission check, the status and the storage statuses,
  change nothing: they add only reads to the requests made, a faithful API server serves
  every object afterwards as it did before, and reporting in between is not observable in
  the writes of a run.
\<close>

theorem reports_change_nothing:
  assumes faithful: "faithful_endpoint C ep mt"
    and report: "m \<in> {snd (Validate E c l), snd (Status E c l), snd (BackupStorageStatuses te E c l)}"
  shows "filter (\<lambda>e. is_write (fst e)) m = filter (\<lambda>e. is_write (fst e)) l
     \<and> take (length l) m = l \<and> (\<forall>k. ep_get ep m k = ep_get ep l k)"
  using report validate_call.writes_kept [of E c l] validate_call.contents_kept [OF faithful, of E c l]
    validate_call.history_kept [of l E c] status_call.writes_kept [of E c l] status_call.contents_kept [OF faithful, of E c l]
    status_call.history_kept [of l E c] storage_call.writes_kept [of te E c l]
    storage_call.contents_kept [OF faithful, of te E c l] storage_call.history_kept [of l te E c]
  by auto

theorem reports_change_nothing_witness:
  "\<exists>m. m = snd (Status up_env up_instance []) \<and> m \<noteq> [] \<and> filter (\<lambda>e. is_write (fst e)) m = []
     \<and> (\<forall>k. ep_get (e_backups (mem_env backup_world)) m k = ep_get (e_backups (mem_env backup_world)) [] k)"
proof -
  have "snd (Status up_env up_instance []) \<noteq> []" by code_simp
  with reports_change_nothing [OF mem_backups_faithful, of "snd (Status up_env up_instance [])" up_env up_instance "[]" "\<lambda>_. []" backup_world]
  show ?thesis by simp
qed

text \<open>
  C4: Over any run of the provider, whatever calls the runtime makes and whatever the API
  server answers: a MariaDB is only deleted by the cleanup of its own Instance, operator
  Restores only by the cleanup of a Restore, and no Secret, Job, Service or OpenEverest
  Backup is ever deleted, nor any Secret changed.
\<close>

theorem only_cleanup_deletes:
  assumes "runs E xs l l'"
  shows "\<exists>new. l' = l @ new \<and> (\<forall>e \<in> set new. \<exists>x \<in> set xs. call_write x e)"
  using assms
proof (induction rule: runs.induct)
  case (no_call l)
  then show ?case by simp
next
  case (next_call xs l l1 l' x)
  then obtain new where new: "l1 = l @ new" "\<forall>e \<in> set new. \<exists>x \<in> set xs. call_write x e" by blast
  from run_call_write [of E x l1] next_call(2) obtain n2 where "l' = l1 @ n2" "list_all (call_write x) n2" by auto
  with new show ?case by (intro exI [of _ "new @ n2"]) (auto simp: list_all_iff)
qed

theorem only_cleanup_deletes_witness:
  "\<exists>l'. runs up_env [CallStatus up_instance, CallCleanup up_instance] [] l'
     \<and> (\<forall>e \<in> set l'. \<exists>x \<in> {CallStatus up_instance, CallCleanup up_instance}. call_write x e)
     \<and> l' \<noteq> []"
proof -
  let ?l = "run_call up_env (CallCleanup up_instance) (run_call up_env (CallStatus up_instance) [])"
  have "runs up_env ([] @ [CallStatus up_instance]) [] (run_call up_env (CallStatus up_instance) [])"
    by (rule next_call [OF no_call refl])
  from next_call [OF this refl, of "CallCleanup up_instance"]
  have r: "runs up_env [CallStatus up_instance, CallCleanup up_instance] [] ?l" by (simp del: run_call.simps)
  have "?l \<noteq> []" by code_simp
  with only_cleanup_deletes [OF r] r show ?thesis by auto
qed

end
