(* ===== verification/Renewal.thy ===== *)
theory Renewal
  imports ScheduleRuns ReplicaTemplate
begin

section \<open>Recreation settles\<close>

text \<open>
  Some fields of the operator's objects are immutable. Where the desired value of one has
  changed, the code deletes the object and asks to be called again
  (\<open>reconcileScheduledBackup\<close>, \<open>reconcileScheduledPhysicalBackup\<close>, \<open>SyncReplicaTemplate\<close>). This
  theory shows that these loops end on a server that serves its client.
\<close>

subsection \<open>The server\<close>

text \<open>
  A server that serves its client: every object is there or not found, an object that is
  there can be updated and deleted and is gone after that, one that is not can be created.
\<close>

definition obliging :: "kind \<Rightarrow> 'o endpoint \<Rightarrow> ('o \<Rightarrow> meta) \<Rightarrow> bool" where
  "obliging K ep mt \<longleftrightarrow>
     (\<forall>l k e. ep_get ep l k = Inl e \<longrightarrow> is_not_found e) \<and>
     (\<forall>l k x. ep_get ep l k = Inr x \<longrightarrow> ep_delete ep l k = None) \<and>
     (\<forall>l k. ep_delete ep l k = None \<longrightarrow> (\<exists>e. ep_get ep (l @ [(ReqDelete K k, None)]) k = Inl e)) \<and>
     (\<forall>l x e. ep_get ep l (meta_key (mt x)) = Inl e \<longrightarrow> (\<exists>y. ep_create ep l x = Inr y)) \<and>
     (\<forall>l x y. ep_get ep l (meta_key (mt x)) = Inr y \<longrightarrow> (\<exists>z. ep_update ep l x = Inr z)) \<and>
     (\<forall>l k e. ep_delete ep l k = Some e \<longrightarrow> is_not_found e)"

lemma obligingD:
  assumes "obliging K ep mt"
  shows "ep_get ep l k = Inl e \<Longrightarrow> is_not_found e"
    and "ep_get ep l k = Inr x \<Longrightarrow> ep_delete ep l k = None"
    and "ep_delete ep l k = None \<Longrightarrow> \<exists>e. ep_get ep (l @ [(ReqDelete K k, None)]) k = Inl e"
    and "ep_get ep l (meta_key (mt y)) = Inl e \<Longrightarrow> \<exists>z. ep_create ep l y = Inr z"
    and "ep_get ep l (meta_key (mt y)) = Inr w \<Longrightarrow> \<exists>z. ep_update ep l y = Inr z"
    and "ep_delete ep l k = Some e \<Longrightarrow> is_not_found e"
  using assms unfolding obliging_def by blast+

lemma get_after_read: "faithful_endpoint C ep mt \<Longrightarrow> \<not> is_write q \<Longrightarrow> ep_get ep (l @ [(q, r)]) k = ep_get ep l k"
  by (rule get_after_reads) simp_all

text \<open>On such a server \<open>CreateOrUpdate\<close> succeeds with a function that succeeds and keeps the key.\<close>

lemma create_or_update_succeeds:
  assumes laws: "faithful_endpoint C ep mt" "obliging K ep mt"
    and f: "\<And>x l. meta_key (mt x) = k \<Longrightarrow> \<exists>y. f x l = (Inr y, l) \<and> meta_key (mt y) = k"
    and init: "meta_key (mt init) = k"
  shows "\<exists>y. fst (create_or_update K C ep k init f l) = Inr y"
proof (cases "ep_get ep l k")
  case (Inl e)
  let ?l = "l @ [(ReqGet K k, Some e)]"
  from f [OF init] obtain y where y: "f init ?l = (Inr y, ?l)" "meta_key (mt y) = k" by blast
  from Inl have "ep_get ep ?l (meta_key (mt y)) = Inl e" by (simp add: y get_after_read [OF laws(1)])
  from obligingD(4) [OF laws(2) this] obtain z where "ep_create ep ?l y = Inr z" ..
  with Inl y obligingD(1) [OF laws(2) Inl] show ?thesis
    by (simp add: create_or_update_def attempt_def bnd_def api_get_def api_create_def request_def)
next
  case (Inr x)
  let ?l = "l @ [(ReqGet K k, None)]"
  from f [OF served_key [OF laws(1) Inr]] obtain y where y: "f x ?l = (Inr y, ?l)" "meta_key (mt y) = k" by blast
  from Inr have "ep_get ep ?l (meta_key (mt y)) = Inr x" by (simp add: y get_after_read [OF laws(1)])
  from obligingD(5) [OF laws(2) this] obtain z where "ep_update ep ?l y = Inr z" ..
  with Inr y show ?thesis
    by (simp add: create_or_update_def attempt_def bnd_def api_get_def api_update_def request_def)
qed

text \<open>Deleting an object of another kind leaves the objects of this one alone.\<close>

definition isolated :: "kind \<Rightarrow> 'o endpoint \<Rightarrow> bool" where
  "isolated K ep \<longleftrightarrow> (\<forall>l K' k' r k. K' \<noteq> K \<longrightarrow> ep_get ep (l @ [(ReqDelete K' k', r)]) k = ep_get ep l k)"

subsection \<open>Delete and wait, or write\<close>

text \<open>What the three functions share.\<close>

definition renew ::
  "string \<Rightarrow> string \<Rightarrow> string \<Rightarrow> string \<Rightarrow> kind \<Rightarrow> ('o \<Rightarrow> obj) \<Rightarrow> 'o endpoint \<Rightarrow> ('o \<Rightarrow> meta) \<Rightarrow> nsname \<Rightarrow>
    ('o \<Rightarrow> bool) \<Rightarrow> 'o \<Rightarrow> ('o \<Rightarrow> 'o go) \<Rightarrow> unit go" where
  "renew get_msg del_msg wait_msg write_msg K C ep mt k outdated init f =
     bnd (on_get get_msg (api_get K ep k)
            (ret ())
            (\<lambda>x. if outdated x then
                bnd (wrap_err del_msg (api_delete K ep (meta_key (mt x)))) (\<lambda>_. fail (WaitFor wait_msg))
              else ret ())) (\<lambda>_.
     wrap_err write_msg (bnd (create_or_update K C ep k init f) (\<lambda>_. ret ())))"

definition renewed :: "('o \<Rightarrow> bool) \<Rightarrow> (log \<Rightarrow> (err + unit) \<times> log) \<Rightarrow> (log \<Rightarrow> err + 'o) \<Rightarrow> log \<Rightarrow> bool" where
  "renewed outdated run there l \<longleftrightarrow>
     (if \<exists>x. there l = Inr x \<and> outdated x then \<exists>m e. fst (run l) = Inl (WaitFor m) \<and> there (snd (run l)) = Inl e
      else fst (run l) = Inr ())"

lemma renew_run:
  assumes laws: "faithful_endpoint C ep mt" "obliging K ep mt"
    and f: "\<And>x l. meta_key (mt x) = k \<Longrightarrow> \<exists>y. f x l = (Inr y, l) \<and> meta_key (mt y) = k"
    and init: "meta_key (mt init) = k"
  shows "renewed outdated (renew get_msg del_msg wait_msg write_msg K C ep mt k outdated init f) (\<lambda>l. ep_get ep l k) l"
    (is "renewed _ ?run _ _")
proof -
  let ?cou = "create_or_update K C ep k init f"
  have "\<exists>y. fst (?cou l) = Inr y" for l by (rule create_or_update_succeeds [OF laws f init])
  then have written: "fst (wrap_err write_msg (bnd ?cou (\<lambda>_. ret ())) l) = Inr ()" for l
    by (simp add: wrap_err_def bnd_def attempt_def split: prod.split sum.split) (metis fst_conv sum.distinct(1))
  let ?get = "on_get get_msg (api_get K ep k) (ret ())
     (\<lambda>x. if outdated x then bnd (wrap_err del_msg (api_delete K ep (meta_key (mt x)))) (\<lambda>_. fail (WaitFor wait_msg)) else ret ())"
  have unchanged: ?thesis if "?get l = (Inr (), l1)" "\<not> (\<exists>x. ep_get ep l k = Inr x \<and> outdated x)" for l1
    unfolding renewed_def if_not_P [OF that(2)] renew_def by (simp only: bnd_Inr [where m = ?get, OF that(1)] written)
  show ?thesis
  proof (cases "ep_get ep l k")
    case (Inl e)
    with obligingD(1) [OF laws(2) Inl] show ?thesis
      by (intro unchanged [of "l @ [(ReqGet K k, Some e)]"]) (simp_all add: on_get_def attempt_def api_get_def request_def)
  next
    case (Inr x)
    let ?l = "l @ [(ReqGet K k, None)]"
    show ?thesis
    proof (cases "outdated x")
      case False
      with Inr show ?thesis
        by (intro unchanged [of ?l]) (simp_all add: on_get_def attempt_def api_get_def request_def)
    next
      case True
      from Inr have there: "ep_get ep ?l k = Inr x" by (simp add: get_after_read [OF laws(1)])
      from obligingD(2) [OF laws(2) this] have del: "ep_delete ep ?l k = None" .
      from True Inr del served_key [OF laws(1) Inr]
      have "?get l = (Inl (WaitFor wait_msg), ?l @ [(ReqDelete K k, None)])"
        by (simp add: on_get_def attempt_def api_get_def request_def wrap_err_def api_delete_def bnd_def)
      then have run: "?run l = (Inl (WaitFor wait_msg), ?l @ [(ReqDelete K k, None)])"
        unfolding renew_def by (rule bnd_Inl [where m = ?get])
      from obligingD(3) [OF laws(2) del] obtain e where "ep_get ep (?l @ [(ReqDelete K k, None)]) k = Inl e" ..
      with Inr True show ?thesis unfolding renewed_def run by auto
    qed
  qed
qed

lemma bnd_lift_Inr: "bnd (lift (Inr x)) k = k x"
  by (rule ext) (simp add: bnd_def attempt_def)

lemma renewed_done: "fst (run l) = Inr () \<Longrightarrow> renewed (\<lambda>_. False) run there l"
  by (simp add: renewed_def)

lemma renewed_cong:
  assumes "run l = run' l'" and "there l' = there l" and "renewed outdated run' there l'"
  shows "renewed outdated run there l"
  using assms(3) unfolding renewed_def assms(1,2) .

text \<open>A run settles: it succeeds, or it asks to wait and the next one succeeds.\<close>

definition settles :: "(log \<Rightarrow> (err + unit) \<times> log) \<Rightarrow> log \<Rightarrow> bool" where
  "settles run l \<longleftrightarrow> fst (run l) = Inr () \<or> (\<exists>m. fst (run l) = Inl (WaitFor m)) \<and> fst (run (snd (run l))) = Inr ()"

lemma renewed_settles:
  assumes "\<And>l. \<exists>outdated. renewed outdated run there l"
  shows "settles run l"
  using assms [of l] assms [of "snd (run l)"] by (auto simp: renewed_def settles_def split: if_splits)

subsection \<open>The three callers\<close>

lemma mutate_succeeds:
  assumes own: "lawful_owner E" and owner: "\<And>m. \<exists>m'. e_set_controller E (owner_of ''MariaDB'' (md_meta mdb)) m = Inr m'"
    and key: "meta_key (ob_meta x) = k"
  shows "\<exists>y. scheduled_backup_mutate E c mdb st rt managed schedule params x l = (Inr y, l) \<and> meta_key (ob_meta y) = k"
proof -
  let ?x = "applyLogicalBackupParameters params ((if m_rv (ob_meta x) = [] then x\<lparr>ob_meta := (ob_meta x)\<lparr>m_labels := managed\<rparr>,
        ob_ref := mariadb_ref c, ob_storage := st, ob_retention := rt, ob_inherit := Some managed\<rparr> else x)
      \<lparr>ob_schedule := Some (sc_cron schedule, \<not> sc_enabled schedule)\<rparr>)"
  have "meta_key (ob_meta ?x) = k" using key by (simp add: applyLogicalBackupParameters_def meta_key_def)
  moreover from owner obtain m' where m': "e_set_controller E (owner_of ''MariaDB'' (md_meta mdb)) (ob_meta ?x) = Inr m'" by blast
  ultimately show ?thesis
    using lawful_ownerD(2) [OF own m'] by (simp add: scheduled_backup_mutate_def own_backup_def Let_def bnd_def attempt_def)
qed

lemma physical_mutate_succeeds:
  assumes own: "lawful_owner E" and owner: "\<And>m. \<exists>m'. e_set_controller E (owner_of ''MariaDB'' (md_meta mdb)) m = Inr m'"
    and key: "meta_key (pb_meta x) = k"
  shows "\<exists>y. scheduled_physical_mutate E c mdb st rt managed schedule params x l = (Inr y, l) \<and> meta_key (pb_meta y) = k"
proof -
  let ?x = "applyPhysicalBackupParameters params ((if m_rv (pb_meta x) = [] then x\<lparr>pb_meta := (pb_meta x)\<lparr>m_labels := managed\<rparr>,
        pb_ref := mariadb_ref c, pb_storage := st, pb_inherit := Some managed\<rparr> else x)
      \<lparr>pb_retention := rt, pb_schedule := Some \<lparr> ps_cron = sc_cron schedule, ps_suspend = (\<not> sc_enabled schedule), ps_immediate = None \<rparr>\<rparr>)"
  have "meta_key (pb_meta ?x) = k" using key by (simp add: applyPhysicalBackupParameters_def meta_key_def)
  moreover from owner obtain m' where m': "e_set_controller E (owner_of ''MariaDB'' (md_meta mdb)) (pb_meta ?x) = Inr m'" by blast
  ultimately show ?thesis
    using lawful_ownerD(2) [OF own m'] by (simp add: scheduled_physical_mutate_def own_physical_def Let_def bnd_def attempt_def)
qed

lemma template_mutate_succeeds:
  assumes own: "lawful_owner E" and owner: "\<And>m. \<exists>m'. e_set_controller E (owner_of ''MariaDB'' (md_meta mdb)) m = Inr m'"
    and key: "meta_key (pb_meta x) = k"
  shows "\<exists>y. replica_template_mutate E c mdb st x l = (Inr y, l) \<and> meta_key (pb_meta y) = k"
proof -
  from owner obtain m' where m': "e_set_controller E (owner_of ''MariaDB'' (md_meta mdb)) (pb_meta x) = Inr m'" by blast
  with key lawful_ownerD(2) [OF own m'] show ?thesis
    by (simp add: replica_template_mutate_def own_physical_def Let_def bnd_def attempt_def)
qed

text \<open>The object of the other strategy is gone or deleted, with success.\<close>

lemma delete_other_succeeds:
  assumes "faithful_endpoint C ep mt" "obliging K ep mt"
  shows "\<exists>pre. on_get msg (api_get K ep k) (ret ()) (\<lambda>b. wrap_err (msg' b) (api_delete K ep (meta_key (mt b)))) l = (Inr (), l @ pre)
     \<and> (pre = [(ReqGet K k, None), (ReqDelete K k, None)] \<or> (\<exists>e. pre = [(ReqGet K k, Some e)]))"
proof (cases "ep_get ep l k")
  case (Inl e)
  with obligingD(1) [OF assms(2) Inl] show ?thesis by (simp add: on_get_def attempt_def api_get_def request_def)
next
  case (Inr x)
  then have "ep_get ep (l @ [(ReqGet K k, None)]) k = Inr x" by (simp add: get_after_read [OF assms(1)])
  from obligingD(2) [OF assms(2) this] Inr served_key [OF assms(1) Inr] show ?thesis
    by (simp add: on_get_def attempt_def api_get_def request_def wrap_err_def api_delete_def)
qed

lemma other_leaves:
  assumes "faithful_endpoint C ep mt" "isolated K ep" "K' \<noteq> K"
    and "pre = [(ReqGet K' k, None), (ReqDelete K' k, None)] \<or> (\<exists>e. pre = [(ReqGet K' k, Some e)])"
  shows "ep_get ep ((l @ [(ReqStorage n, None)]) @ pre) k = ep_get ep l k"
proof -
  have "ep_get ep (((l @ [(ReqStorage n, None)]) @ [(ReqGet K' k, None)]) @ [(ReqDelete K' k, None)]) k
      = ep_get ep ((l @ [(ReqStorage n, None)]) @ [(ReqGet K' k, None)]) k"
    using assms(2,3) unfolding isolated_def by metis
  with assms(4) show ?thesis
    using get_after_reads [OF assms(1), of _ l k] by auto
qed

lemma scheduled_backup_renewed:
  assumes laws: "faithful_endpoint OBackup (e_backups E) ob_meta" "obliging KBackup (e_backups E) ob_meta" "isolated KBackup (e_backups E)"
      "faithful_endpoint OPhysicalBackup (e_physicals E) pb_meta" "obliging KPhysicalBackup (e_physicals E) pb_meta" "lawful_owner E"
    and storage: "\<And>l. \<exists>cfg. e_storage E l storageName = Inr (Some cfg)"
    and retention: "\<And>now. \<exists>rt. deriveMaxRetention (e_cron E) now (sc_cron schedule) (sc_retention schedule) = Inr rt"
    and owner: "\<And>m. \<exists>m'. e_set_controller E (owner_of ''MariaDB'' (md_meta mdb)) m = Inr m'"
    and backup: "in_backup c \<noteq> None"
  shows "\<exists>cfg rt. e_storage E l storageName = Inr (Some cfg)
     \<and> deriveMaxRetention (e_cron E) (e_now E (l @ [(ReqStorage storageName, None)])) (sc_cron schedule) (sc_retention schedule) = Inr rt
     \<and> renewed (\<lambda>b. ob_storage b \<noteq> Some (operatorS3 cfg (in_name c)) \<or> ob_retention b \<noteq> rt)
         (reconcileScheduledBackup E c mdb storageName schedule name params) (\<lambda>l. ep_get (e_backups E) l (key_of c name)) l"
proof -
  let ?k = "key_of c name" and ?l = "l @ [(ReqStorage storageName, None)]"
  from storage obtain cfg where cfg: "e_storage E l storageName = Inr (Some cfg)" by blast
  from retention obtain rt where rt: "deriveMaxRetention (e_cron E) (e_now E ?l) (sc_cron schedule) (sc_retention schedule) = Inr rt" by blast
  obtain managed where managed: "scheduledBackupLabels c (sc_name schedule) storageName backupTypeLogical = Inr managed"
    using backup by (auto simp: scheduledBackupLabels_def)
  let ?st = "Some (operatorS3 cfg (in_name c))"
  let ?go = "renew (''get scheduled backup '' @ quote name) (''delete outdated scheduled backup '' @ quote name)
     (''Recreating scheduled backup '' @ quote name) (''reconcile scheduled backup '' @ quote name) KBackup OBackup (e_backups E) ob_meta ?k
     (\<lambda>x. ob_storage x \<noteq> ?st \<or> ob_retention x \<noteq> rt) (new_op_backup (in_namespace c) name)
     (scheduled_backup_mutate E c mdb ?st rt managed schedule params)"
  obtain pre where other: "deleteScheduledPhysicalBackup E c name ?l = (Inr (), ?l @ pre)"
    and pre: "pre = [(ReqGet KPhysicalBackup ?k, None), (ReqDelete KPhysicalBackup ?k, None)] \<or> (\<exists>e. pre = [(ReqGet KPhysicalBackup ?k, Some e)])"
    using delete_other_succeeds [OF laws(4,5), where l = ?l and k = ?k and msg = "''get scheduled physical backup '' @ quote name"
        and msg' = "\<lambda>_. ''delete scheduled physical backup '' @ quote name"]
    unfolding deleteScheduledPhysicalBackup_def by blast
  have st: "buildOperatorS3Storage E c storageName l = (Inr ?st, ?l)" by (simp add: buildS3Storage_apply s3_of_def cfg)
  have ret_step: "schedule_retention E schedule ?l = (Inr rt, ?l)" by (simp add: schedule_retention_eq rt)
  have "reconcileScheduledBackup E c mdb storageName schedule name params l = ?go (?l @ pre)"
    by (simp only: reconcileScheduledBackup_def renew_def bnd_Inr st ret_step other managed bnd_lift_Inr)
  moreover have "ep_get (e_backups E) (?l @ pre) ?k = ep_get (e_backups E) l ?k"
    by (rule other_leaves [OF laws(1,3) _ pre]) simp
  moreover have "renewed (\<lambda>x. ob_storage x \<noteq> ?st \<or> ob_retention x \<noteq> rt) ?go (\<lambda>l. ep_get (e_backups E) l ?k) (?l @ pre)"
    by (rule renew_run [OF laws(1,2)])
       (rule mutate_succeeds [OF laws(6) owner], simp_all add: new_op_backup_def empty_meta_def meta_key_def key_of_def)
  ultimately show ?thesis using cfg rt by (blast intro: renewed_cong)
qed

lemma scheduled_physical_renewed:
  assumes laws: "faithful_endpoint OPhysicalBackup (e_physicals E) pb_meta" "obliging KPhysicalBackup (e_physicals E) pb_meta"
      "isolated KPhysicalBackup (e_physicals E)"
      "faithful_endpoint OBackup (e_backups E) ob_meta" "obliging KBackup (e_backups E) ob_meta" "lawful_owner E"
    and storage: "\<And>l. \<exists>cfg. e_storage E l storageName = Inr (Some cfg)"
    and retention: "\<And>now. \<exists>rt. deriveMaxRetention (e_cron E) now (sc_cron schedule) (sc_retention schedule) = Inr rt"
    and owner: "\<And>m. \<exists>m'. e_set_controller E (owner_of ''MariaDB'' (md_meta mdb)) m = Inr m'"
    and backup: "in_backup c \<noteq> None"
  shows "\<exists>cfg. e_storage E l storageName = Inr (Some cfg)
     \<and> renewed (\<lambda>b. pb_storage b \<noteq> Some (operatorS3 cfg (in_name c)))
         (reconcileScheduledPhysicalBackup E c mdb storageName schedule name params) (\<lambda>l. ep_get (e_physicals E) l (key_of c name)) l"
proof -
  let ?k = "key_of c name" and ?l = "l @ [(ReqStorage storageName, None)]"
  from storage obtain cfg where cfg: "e_storage E l storageName = Inr (Some cfg)" by blast
  from retention obtain rt where rt: "deriveMaxRetention (e_cron E) (e_now E ?l) (sc_cron schedule) (sc_retention schedule) = Inr rt" by blast
  obtain managed where managed: "scheduledBackupLabels c (sc_name schedule) storageName backupTypePhysical = Inr managed"
    using backup by (auto simp: scheduledBackupLabels_def)
  let ?st = "Some (operatorS3 cfg (in_name c))"
  let ?go = "renew (''get scheduled physical backup '' @ quote name) (''delete outdated scheduled physical backup '' @ quote name)
     (''Recreating scheduled physical backup '' @ quote name) (''reconcile scheduled physical backup '' @ quote name)
     KPhysicalBackup OPhysicalBackup (e_physicals E) pb_meta ?k
     (\<lambda>x. pb_storage x \<noteq> ?st) (new_phys_backup (in_namespace c) name)
     (scheduled_physical_mutate E c mdb ?st rt managed schedule params)"
  obtain pre where other: "deleteScheduledBackup E c name ?l = (Inr (), ?l @ pre)"
    and pre: "pre = [(ReqGet KBackup ?k, None), (ReqDelete KBackup ?k, None)] \<or> (\<exists>e. pre = [(ReqGet KBackup ?k, Some e)])"
    using delete_other_succeeds [OF laws(4,5), where l = ?l and k = ?k and msg = "''get scheduled backup '' @ quote name"
        and msg' = "\<lambda>_. ''delete scheduled backup '' @ quote name"]
    unfolding deleteScheduledBackup_def by blast
  have st: "buildPhysicalS3Storage E c storageName l = (Inr ?st, ?l)" by (simp add: buildS3Storage_apply s3_of_def cfg)
  have ret_step: "schedule_retention E schedule ?l = (Inr rt, ?l)" by (simp add: schedule_retention_eq rt)
  have "reconcileScheduledPhysicalBackup E c mdb storageName schedule name params l = ?go (?l @ pre)"
    by (simp only: reconcileScheduledPhysicalBackup_def renew_def bnd_Inr st ret_step other managed bnd_lift_Inr)
  moreover have "ep_get (e_physicals E) (?l @ pre) ?k = ep_get (e_physicals E) l ?k"
    by (rule other_leaves [OF laws(1,3) _ pre]) simp
  moreover have "renewed (\<lambda>x. pb_storage x \<noteq> ?st) ?go (\<lambda>l. ep_get (e_physicals E) l ?k) (?l @ pre)"
    by (rule renew_run [OF laws(1,2)])
       (rule physical_mutate_succeeds [OF laws(6) owner], simp_all add: new_phys_backup_def empty_meta_def meta_key_def key_of_def)
  ultimately show ?thesis using cfg by (blast intro: renewed_cong)
qed

lemma template_renewed:
  assumes laws: "faithful_endpoint OPhysicalBackup (e_physicals E) pb_meta" "obliging KPhysicalBackup (e_physicals E) pb_meta" "lawful_owner E"
    and cluster: "\<And>l e. ep_get (e_mariadbs E) l (key_of c (in_name c)) = Inl e \<Longrightarrow> is_not_found e"
    and storage: "\<And>l s. replicaTemplateStorage c = Some s \<Longrightarrow> \<exists>cfg. e_storage E l (is_ref s) = Inr (Some cfg)"
    and owner: "\<And>r m. \<exists>m'. e_set_controller E r m = Inr m'"
    and key: "meta_key (e_object_meta E c (replicaTemplateName (in_name c))) = key_of c (replicaTemplateName (in_name c))"
  shows "\<exists>outdated. renewed outdated (SyncReplicaTemplate E c) (\<lambda>l. ep_get (e_physicals E) l (key_of c (replicaTemplateName (in_name c)))) l"
proof (cases "\<not> isReplicationTopology c \<or> replicaTemplateStorage c = None")
  case True
  let ?k = "key_of c (replicaTemplateName (in_name c))"
  from obligingD(6) [OF laws(2)] have "ep_delete (e_physicals E) l ?k = None \<or> (\<exists>e. ep_delete (e_physicals E) l ?k = Some e \<and> is_not_found e)"
    by (cases "ep_delete (e_physicals E) l ?k") auto
  with True show ?thesis
    by (intro exI [of _ "\<lambda>_. False"] renewed_done)
       (auto simp: SyncReplicaTemplate_def Let_def delete_if_present_def on_get_def attempt_def api_delete_def request_def)
next
  case False
  then obtain s where s: "replicaTemplateStorage c = Some s" "isReplicationTopology c" by auto
  let ?name = "replicaTemplateName (in_name c)"
  let ?k = "key_of c ?name"
  show ?thesis
  proof (cases "ep_get (e_mariadbs E) l (key_of c (in_name c))")
    case (Inl e)
    with s cluster [OF Inl] show ?thesis
      by (intro exI [of _ "\<lambda>_. False"] renewed_done) (simp add: SyncReplicaTemplate_def Let_def on_get_def attempt_def api_get_def request_def)
  next
    case (Inr mdb)
    let ?l1 = "l @ [(ReqGet KMariaDB (key_of c (in_name c)), None)]"
    let ?l = "?l1 @ [(ReqStorage (is_ref s), None)]"
    from storage s obtain cfg where cfg: "e_storage E ?l1 (is_ref s) = Inr (Some cfg)" by blast
    let ?st = "operatorS3 cfg (in_name c @ replicaPrefixSuffix)"
    let ?go = "renew ''get replica template'' ''delete outdated replica template'' ''Recreating replica template'' ''reconcile replica template''
       KPhysicalBackup OPhysicalBackup (e_physicals E) pb_meta ?k (\<lambda>x. pb_storage x \<noteq> Some ?st)
       ((new_phys_backup (in_namespace c) ?name)\<lparr>pb_meta := e_object_meta E c ?name\<rparr>) (replica_template_mutate E c mdb (Some ?st))"
    have "SyncReplicaTemplate E c l = ?go ?l"
    proof -
      have get: "on_get ''get MariaDB'' (api_get KMariaDB (e_mariadbs E) (key_of c (in_name c))) a f l = f mdb ?l1" for a :: "unit go" and f
        using Inr by (simp add: on_get_def attempt_def api_get_def request_def)
      have st: "buildOperatorS3 E (is_ref s) (in_name c @ replicaPrefixSuffix) ?l1 = (Inr ?st, ?l)"
        by (simp add: buildOperatorS3_apply s3_of_def cfg)
      show ?thesis
        using s by (simp add: SyncReplicaTemplate_def Let_def get bnd_Inr st key renew_def del: append_assoc)
    qed
    moreover have "ep_get (e_physicals E) ?l ?k = ep_get (e_physicals E) l ?k"
      by (simp add: get_after_read [OF laws(1)] del: append_assoc)
    moreover have "renewed (\<lambda>x. pb_storage x \<noteq> Some ?st) ?go (\<lambda>l. ep_get (e_physicals E) l ?k) ?l"
      by (rule renew_run [OF laws(1,2)]) (rule template_mutate_succeeds [OF laws(3) owner], simp_all add: key)
    ultimately show ?thesis by (blast intro: renewed_cong)
  qed
qed


lemma mem_endpoint_obliging: "obliging K (mem_endpoint K D mt stamp init) mt"
proof -
  have "find (\<lambda>y. meta_key (mt y) = k) (filter (\<lambda>y. meta_key (mt y) \<noteq> k) xs) = None" for k xs
    by (induction xs) auto
  then show ?thesis
    unfolding obliging_def mem_endpoint_def Let_def by (auto simp: mem_step_def split: option.splits)
qed

text \<open>A server with a daily schedule in one storage, on which the storage of the schedule is changed.\<close>

definition moving_env :: env where
  "moving_env = (mem_env two_storages_world)\<lparr>e_set_controller := (\<lambda>r m. Inr (m\<lparr>m_owners := [r]\<rparr>))\<rparr>"

abbreviation reconcile_moving :: "string \<Rightarrow> log \<Rightarrow> (err + unit) \<times> log" where
  "reconcile_moving st \<equiv> reconcileScheduledBackup moving_env (backup_instance ''standalone'' []) plain_mariadb st daily
     ''mdb-sched-1'' zero_backup_params"

lemma mem_endpoint_isolated: "isolated K (mem_endpoint K D mt stamp init)"
  unfolding isolated_def mem_endpoint_def Let_def by (simp add: mem_step_def)

lemma moving_parts:
  "e_backups moving_env = e_backups (mem_env two_storages_world)" "e_physicals moving_env = e_physicals (mem_env two_storages_world)"
  "e_mariadbs moving_env = e_mariadbs (mem_env two_storages_world)" "e_storage moving_env = e_storage (mem_env two_storages_world)"
  "e_set_controller moving_env = (\<lambda>r m. Inr (m\<lparr>m_owners := [r]\<rparr>))" "e_object_meta moving_env = e_object_meta (mem_env two_storages_world)"
  by (simp_all add: moving_env_def)

lemma mem_obliging:
  "obliging KBackup (e_backups (mem_env w)) ob_meta" "obliging KPhysicalBackup (e_physicals (mem_env w)) pb_meta"
  "obliging KMariaDB (e_mariadbs (mem_env w)) md_meta"
  "isolated KBackup (e_backups (mem_env w))" "isolated KPhysicalBackup (e_physicals (mem_env w))"
  by (simp_all add: mem_env_def mem_endpoint_obliging mem_endpoint_isolated)


end
