(* ===== verification/Lifecycle.thy ===== *)
theory Lifecycle
  imports Provider Renewal
begin

section \<open>Handlers in sequence\<close>

text \<open>
  What one handler leaves behind is what another one reads later: a Backup and its restore,
  a Backup and the cluster seeded from it, the recovery resource and the MariaDB that refers
  to it, one reconciliation of the cluster and the next. The theorems of this theory run the
  handlers one after the other; between them anything may happen that their hypotheses on
  the API server allow.
\<close>

subsection \<open>From a Backup to its restore\<close>

text \<open>On a server that accepts writes an absent object is created.\<close>

lemma create_or_update_creates:
  assumes laws: "faithful_endpoint C ep mt" "obliging K ep mt"
    and absent: "ep_get ep l k = Inl e"
    and f: "\<And>l. f init l = (Inr y, l)" "meta_key (mt y) = k"
  shows "\<exists>z. create_or_update K C ep k init f l = (Inr z, l @ [(ReqGet K k, Some e), (ReqCreate (C y), None)])"
proof -
  from absent have "ep_get ep (l @ [(ReqGet K k, Some e)]) (meta_key (mt y)) = Inl e"
    by (simp add: f(2) get_after_read [OF laws(1)])
  from obligingD(4) [OF laws(2) this] obtain z where "ep_create ep (l @ [(ReqGet K k, Some e)]) y = Inr z" ..
  with absent obligingD(1) [OF laws(2) absent] show ?thesis
    by (simp add: create_or_update_def attempt_def bnd_def api_get_def api_create_def request_def f(1))
qed

lemma mem_owns: "m_owners m = [] \<Longrightarrow> mem_set_controller r m = Inr (m\<lparr>m_owners := [r\<lparr>or_controller := Some True\<rparr>]\<rparr>)"
  by (simp add: mem_set_controller_def controller_of_def)

text \<open>
  The runtime publishes the status a handler returns in the resource it was called for;
  \<open>carries_status\<close> is that hypothesis on the Backup the server returns later.
\<close>

definition carries_status :: "exec_status \<Rightarrow> ev_backup \<Rightarrow> bool" where
  "carries_status st b \<longleftrightarrow> eb_state b = ex_state st \<and> eb_completed b = ex_completed st
     \<and> eb_operator_ref b = map_option tr_name (ex_ref st)"

text \<open>What a restore that starts leaves behind.\<close>

lemma SyncRestore_run:
  assumes laws: "faithful_endpoint ORestore (e_restores E) rst_meta" "lawful_owner E"
    and keep: "keeps_content (e_restores E) (\<lambda>x. (rst_ref x, rst_backup x))"
    and source: "er_ds_type r = DSBackup" "er_backup r = Some n" "n \<noteq> []" "ep_get (e_ev_backups E) l (key_of c n) = Inr bk"
      "restorable (e_json_error E) r bk"
    and fresh: "ep_get (e_restores E) l (meta_key (er_meta r)) = Inl e"
    and run: "SyncRestore E c r l = (Inr st, l')"
  shows "\<exists>x. ep_get (e_restores E) l' (meta_key (er_meta r)) = Inr x \<and> rst_ref x = mariadb_ref c
     \<and> rst_backup x = Some (operator_backup_name bk)"
proof -
  let ?k = "meta_key (er_meta r)" and ?new = "new_op_restore (m_namespace (er_meta r)) (m_name (er_meta r))"
  let ?f = "SyncRestore_mutate E c r (operator_backup_name bk)" and ?l = "l @ [(ReqGet KEvBackup (key_of c n), None)]"
  have "restore_source (e_json_error E) r bk = Inr (Inr (operator_backup_name bk))"
    using source(5) by (simp add: restore_source_iff)
  with run source obtain x where cou: "create_or_update KRestore ORestore (e_restores E) ?k ?new ?f ?l = (Inr x, l')"
    by (auto simp: SyncRestore_def run_simps)
  have new: "meta_key (rst_meta ?new) = ?k" "m_rv (rst_meta ?new) = []"
    by (simp_all add: new_op_restore_def empty_meta_def meta_key_def)
  have key: "meta_key (rst_meta z) = meta_key (rst_meta y)" if "?f y l1 = (Inr z, l2)" for y l1 z l2
    using that by (auto simp: SyncRestore_mutate_def own_restore_def run_simps dest!: lawful_ownerD(2) [OF laws(2)] split: if_splits)
  have there: "ep_get (e_restores E) l' ?k = Inr x"
    by (rule create_or_update_settles [OF laws(1) cou key new(1)])
       (auto simp: SyncRestore_mutate_def intro!: post_intros)
  have "(rst_ref x, rst_backup x) = (mariadb_ref c, Some (operator_backup_name bk))"
    using keep cou
  proof (cases rule: create_or_update_content)
    case (made e' l1 z l2)
    with new(2) show ?thesis by (auto simp: SyncRestore_mutate_def own_restore_def run_simps)
  next
    case (kept y l1 z l2)
    with fresh get_after_reads [OF laws(1), of "[(ReqGet KEvBackup (key_of c n), None)]" l ?k] show ?thesis by simp
  qed
  with there show ?thesis by blast
qed

text \<open>A logical Backup that was reported succeeded has its operator Backup on the server.\<close>

lemma SyncBackup_leaves:
  assumes laws: "faithful_endpoint OBackup (e_backups E) ob_meta" "lawful_owner E"
    and logical: "eb_schedule b = []" "backup_params_of (e_json_error E) (eb_parameters b) = Inr params" "\<not> isPhysical params"
    and run: "SyncBackup E c b l = (Inr st, l')" "ex_state st = StateSucceeded"
  shows "\<exists>ob. ep_get (e_backups E) l' (meta_key (eb_meta b)) = Inr ob
     \<and> st = with_ref mariadbGroup ''Backup'' (m_name (ob_meta ob)) (mapBackupState (ob_conditions ob))"
proof -
  let ?k = "meta_key (eb_meta b)" and ?new = "new_op_backup (m_namespace (eb_meta b)) (m_name (eb_meta b))"
  from run logical obtain ob l1 where cou: "create_or_update KBackup OBackup (e_backups E) ?k ?new (SyncBackup_mutate E c b params) l1 = (Inr ob, l')"
    and st: "st = with_ref mariadbGroup ''Backup'' (m_name (ob_meta ob)) (mapBackupState (ob_conditions ob))"
    by (auto simp: SyncBackup_def run_simps waiting_for_cluster_def exec_state_def)
  have "ep_get (e_backups E) l' ?k = Inr ob"
    by (rule create_or_update_settles [OF laws(1) cou])
       (auto simp: new_op_backup_def empty_meta_def meta_key_def intro: emits_backup_mutate
         dest: SyncBackup_mutate_key [OF laws(2), unfolded meta_key_def])
  with st show ?thesis by blast
qed


lemma mem_restores_keep: "keeps_content (e_restores (mem_env w)) (\<lambda>x. (rst_ref x, rst_backup x))"
  unfolding mem_env_def by (simp, rule mem_endpoint_keeps) simp

text \<open>A world in which the operator has completed the Backup, and its status is published.\<close>

definition completed_world :: world where
  "completed_world = backup_world\<lparr>
     w_backups := [(new_op_backup ''ns'' ''b1'')\<lparr>ob_conditions :=
        [\<lparr> cn_type = TypeComplete, cn_reason = ReasonJobComplete, cn_message = [], cn_time = 7 \<rparr>]\<rparr>],
     w_ev_backups := [plain_backup\<lparr>eb_completed := Some 7, eb_operator_ref := Some ''b1''\<rparr>]\<rparr>"

abbreviation completed_run :: "(err + exec_status) \<times> log" where
  "completed_run \<equiv> SyncBackup (mem_env completed_world) (plain_instance ''standalone'') plain_backup []"

abbreviation restore_run :: "(err + exec_status) \<times> log" where
  "restore_run \<equiv> SyncRestore (mem_env completed_world) (plain_instance ''standalone'') plain_restore []"


subsection \<open>From a scheduled run to its restore\<close>

lemma scheduled_name_length: "length (scheduledBackupName i s) = 22"
  by (simp add: scheduledBackupName_def)

text \<open>
  C21: A scheduled run cannot be restored in place: its Backup is named after its Job, and the
  reference published for it is the Job's too, so the operator Restore started from it names
  the Job where the operator expects one of its Backups. With the name the CronJob controller
  gives a Job, the CronJob's with a suffix, that is the operator Backup of no schedule
  whatever, and the run's own reconciliation creates none. (The kind published with the
  reference, which tells the two apart, is not looked at.)
\<close>

theorem scheduled_restore_dangles:
  assumes laws: "faithful_endpoint ORestore (e_restores E) rst_meta" "lawful_owner E"
      "keeps_content (e_restores E) (\<lambda>x. (rst_ref x, rst_backup x))"
    and mirrored: "Mirror j = Some b" "m_name (jb_meta j) = scheduledBackupName i s @ ''-'' @ stamp"
    and served: "ep_get (e_jobs E) l (key_of c (m_name (eb_meta b))) = Inr j'" "m_name (jb_meta j') = m_name (eb_meta b)"
    and backup: "SyncBackup E c b l = (Inr st, l1)" "ex_state st = StateSucceeded"
    and published: "ep_get (e_ev_backups E) l2 (key_of c n) = Inr b'" "carries_status st b'"
      "backup_params_of (e_json_error E) (eb_parameters b') = Inr params" "\<not> isPhysical params"
    and source: "er_ds_type r = DSBackup" "er_backup r = Some n" "n \<noteq> []" "eb_origin b' \<in> {None, Some (er_instance r)}"
    and fresh: "ep_get (e_restores E) l2 (meta_key (er_meta r)) = Inl e"
    and restore: "SyncRestore E c r l2 = (Inr st', l3)"
  shows "(\<exists>x. ep_get (e_restores E) l3 (meta_key (er_meta r)) = Inr x \<and> rst_backup x = Some (m_name (jb_meta j))
        \<and> (\<forall>i' s'. rst_backup x \<noteq> Some (scheduledBackupName i' s')))
     \<and> map_option tr_kind (ex_ref st) = Some ''Job'' \<and> (\<exists>new. l1 = l @ new \<and> list_all read_only new)"
proof -
  from mirrored(1) have sched: "eb_schedule b \<noteq> []" and name: "m_name (eb_meta b) = m_name (jb_meta j)"
    by (auto simp: Mirror_def Let_def empty_meta_def split: if_splits)
  with backup(1) served have st: "st = with_ref batchGroup ''Job'' (m_name (jb_meta j)) (mapJobState j')"
    and l1: "l1 = l @ [(ReqGet KJob (key_of c (m_name (eb_meta b))), None)]"
    by (auto simp: SyncBackup_def syncScheduledRun_def run_simps)
  have "operator_backup_name b' = m_name (jb_meta j)"
    using published(2) mirrored(2) by (simp add: carries_status_def st with_ref_def operator_backup_name_def)
  moreover have "restorable (e_json_error E) r b'"
    using published source(4) backup(2) by (simp add: restorable_def carries_status_def)
  ultimately obtain x where x: "ep_get (e_restores E) l3 (meta_key (er_meta r)) = Inr x" "rst_backup x = Some (m_name (jb_meta j))"
    using SyncRestore_run [OF laws source(1-3) published(1) _ fresh restore] by auto
  have "m_name (jb_meta j) \<noteq> scheduledBackupName i' s'" for i' s'
  proof
    assume "m_name (jb_meta j) = scheduledBackupName i' s'"
    with mirrored(2) have "length (scheduledBackupName i s @ ''-'' @ stamp) = length (scheduledBackupName i' s')" by simp
    then show False by (simp add: scheduled_name_length)
  qed
  with x l1 st show ?thesis by (simp add: with_ref_def)
qed

text \<open>A world with a completed run of a schedule, mirrored and published.\<close>

definition daily_job :: "string \<Rightarrow> job" where
  "daily_job n = \<lparr> jb_meta = (empty_meta ''ns'' n)\<lparr>m_rv := ''1'', m_labels := [(scheduleLabel, ''daily''), (instanceLabel, ''db''),
       (storageLabel, ''st''), (classLabel, ''c'')]\<rparr>,
     jb_conditions = [\<lparr> jc_type = JobComplete, jc_true = True, jc_message = [], jc_time = 7 \<rparr>] \<rparr>"

definition mirrored_run :: "string \<Rightarrow> ev_backup" where
  "mirrored_run n = \<lparr> eb_meta = empty_meta ''ns'' n, eb_schedule = ''daily'', eb_class = ''c'', eb_storage = ''st'',
     eb_parameters = None, eb_origin = Some ''db'', eb_state = StateNone, eb_completed = None, eb_operator_ref = None \<rparr>"

definition published_run :: "string \<Rightarrow> ev_backup" where
  "published_run n = (mirrored_run n)\<lparr>eb_state := StateSucceeded, eb_completed := Some 7, eb_operator_ref := Some n\<rparr>"

definition run_env :: "string \<Rightarrow> env" where
  "run_env n = (mem_env backup_world)\<lparr>e_jobs := read_only_endpoint jb_meta [daily_job n],
     e_ev_backups := read_only_endpoint eb_meta [published_run n]\<rparr>"

definition run_restore :: "string \<Rightarrow> ev_restore" where
  "run_restore n = plain_restore\<lparr>er_backup := Some n\<rparr>"

lemma run_parts:
  "e_jobs (run_env n) = read_only_endpoint jb_meta [daily_job n]"
  "e_ev_backups (run_env n) = read_only_endpoint eb_meta [published_run n]"
  "e_restores (run_env n) = e_restores (mem_env backup_world)"
  "e_set_controller (run_env n) = mem_set_controller" "e_json_error (run_env n) = (\<lambda>_. ''invalid'')"
  by (simp_all add: run_env_def) (simp_all add: mem_env_def)

lemma run_mirrored: "Mirror (daily_job n) = Some (mirrored_run n)"
  by (simp add: Mirror_def daily_job_def mirrored_run_def label_value_def label_defs empty_meta_def Let_def)

lemma run_served:
  "ep_get (e_jobs (run_env n)) l (''ns'', n) = Inr (daily_job n)"
  "ep_get (e_ev_backups (run_env n)) l (''ns'', n) = Inr (published_run n)"
  by (simp_all add: run_parts read_only_endpoint_def daily_job_def published_run_def mirrored_run_def empty_meta_def meta_key_def)

lemma run_restores_laws:
  "faithful_endpoint ORestore (e_restores (run_env n)) rst_meta" "lawful_owner (run_env n)"
  "keeps_content (e_restores (run_env n)) (\<lambda>x. (rst_ref x, rst_backup x))"
  using mem_lawful_owner [of backup_world]
  by (simp_all add: run_parts mem_restores_faithful mem_restores_keep) (simp add: lawful_owner_def run_env_def)

lemma run_reported:
  "SyncBackup (run_env n) daily_instance (mirrored_run n) [] =
     (Inr (with_ref batchGroup ''Job'' n (mapJobState (daily_job n))), [(ReqGet KJob (''ns'', n), None)])"
  by (simp add: SyncBackup_def mirrored_run_def syncScheduledRun_def on_get_def attempt_def api_get_def request_def key_of_def
      empty_meta_def run_served) (simp add: daily_job_def empty_meta_def)

lemma run_published:
  "backup_params_of je (eb_parameters (published_run n)) = Inr zero_backup_params" "eb_origin (published_run n) = Some ''db''"
  "eb_state (published_run n) = StateSucceeded"
  by (simp_all add: published_run_def mirrored_run_def)

lemma run_restores_free:
  "list_all read_only l \<Longrightarrow> ep_get (e_restores (run_env n)) l (''ns'', ''r1'') = Inl (ApiNotFound ''r1'')"
  using get_after_reads [OF mem_restores_faithful [of backup_world], of l "[]"]
  by (simp add: run_parts) (simp add: mem_env_def mem_endpoint_def backup_world_def empty_world_def Let_def)

lemma run_restore_starts:
  assumes "n \<noteq> []"
  shows "\<exists>st. fst (SyncRestore (run_env n) daily_instance (run_restore n) []) = Inr st"
proof -
  have there: "restore_source je (run_restore n) (published_run n) = Inr (Inr n)" for je
    using assms by (simp add: restore_source_def run_published run_restore_def plain_restore_def)
      (simp add: published_run_def)
  let ?l = "[(ReqGet KEvBackup (''ns'', n), None)]"
  let ?y = "(new_op_restore ''ns'' ''r1'')\<lparr>rst_ref := mariadb_ref daily_instance, rst_backup := Some n, rst_meta :=
     (empty_meta ''ns'' ''r1'')\<lparr>m_owners := [(owner_of ''Restore'' (empty_meta ''ns'' ''r1''))\<lparr>or_controller := Some True\<rparr>]\<rparr>\<rparr>"
  have obl: "obliging KRestore (e_restores (run_env n)) rst_meta"
    by (simp add: run_parts mem_env_def mem_endpoint_obliging)
  have mut: "SyncRestore_mutate (run_env n) daily_instance (run_restore n) n (new_op_restore ''ns'' ''r1'') l = (Inr ?y, l)" for l
    by (simp add: SyncRestore_mutate_def own_restore_def bnd_def attempt_def run_parts new_op_restore_def empty_meta_def mem_owns
        run_restore_def plain_restore_def)
  have key: "meta_key (rst_meta ?y) = (''ns'', ''r1'')" by (simp add: meta_key_def empty_meta_def)
  have "list_all read_only ?l" by simp
  note free = run_restores_free [OF this, of n]
  have "\<exists>r. create_or_update KRestore ORestore (e_restores (run_env n)) (''ns'', ''r1'') (new_op_restore ''ns'' ''r1'')
      (SyncRestore_mutate (run_env n) daily_instance (run_restore n) n) ?l =
      (Inr r, ?l @ [(ReqGet KRestore (''ns'', ''r1''), Some (ApiNotFound ''r1'')), (ReqCreate (ORestore ?y), None)])"
    by (rule create_or_update_creates [OF run_restores_laws(1) obl]) (rule free mut key)+
  then obtain r l' where "create_or_update KRestore ORestore (e_restores (run_env n)) (''ns'', ''r1'') (new_op_restore ''ns'' ''r1'')
      (SyncRestore_mutate (run_env n) daily_instance (run_restore n) n) ?l = (Inr r, l')" by blast
  with there show ?thesis
    by (simp add: SyncRestore_def on_get_def attempt_def bnd_def wrap_err_def api_get_def request_def key_of_def run_served
        run_restore_def plain_restore_def empty_meta_def meta_key_def)
qed

theorem scheduled_restore_dangles_witness:
  "\<exists>n x. ep_get (e_restores (run_env n)) (snd (SyncRestore (run_env n) daily_instance (run_restore n) [])) (''ns'', ''r1'') = Inr x
     \<and> rst_backup x = Some n \<and> (\<forall>i s. rst_backup x \<noteq> Some (scheduledBackupName i s))"
proof -
  define n where n: "n = scheduledBackupName ''db'' ''daily'' @ ''-'' @ ''29''"
  then have ne: "n \<noteq> []" by simp
  let ?r = "SyncRestore (run_env n) daily_instance (run_restore n) []"
  let ?st = "with_ref batchGroup ''Job'' n (mapJobState (daily_job n))"
  from run_restore_starts [OF ne] obtain st' where "fst ?r = Inr st'" ..
  then have restore: "?r = (Inr st', snd ?r)" by (simp add: prod_eq_iff)
  have mirrored: "m_name (jb_meta (daily_job n)) = scheduledBackupName ''db'' ''daily'' @ ''-'' @ ''29''"
    by (simp add: daily_job_def empty_meta_def n)
  have served: "ep_get (e_jobs (run_env n)) [] (key_of daily_instance (m_name (eb_meta (mirrored_run n)))) = Inr (daily_job n)"
    "m_name (jb_meta (daily_job n)) = m_name (eb_meta (mirrored_run n))"
    by (simp_all add: key_of_def mirrored_run_def daily_job_def empty_meta_def run_served [unfolded daily_job_def empty_meta_def])
  have published: "ep_get (e_ev_backups (run_env n)) [] (key_of daily_instance n) = Inr (published_run n)"
    by (simp add: key_of_def run_served)
  have succeeded: "ex_state ?st = StateSucceeded" "carries_status ?st (published_run n)"
    by (simp_all add: carries_status_def with_ref_def daily_job_def mapJobState_def published_run_def exec_state_def mirrored_run_def)
  from scheduled_restore_dangles [OF run_restores_laws run_mirrored mirrored served run_reported succeeded(1) published succeeded(2)
      run_published(1) _ _ _ ne _ _ restore]
  show ?thesis
    using run_restores_free [of "[]" n] by (auto simp: run_published run_restore_def plain_restore_def meta_key_def empty_meta_def daily_job_def)
qed

subsection \<open>From a Backup to a cluster seeded from it\<close>

lemma SyncBackup_creates:
  assumes laws: "faithful_endpoint OBackup (e_backups E) ob_meta" "lawful_owner E" "keeps_content (e_backups E) ob_storage"
    and storage: "\<And>l. e_storage E l (eb_storage b) = Inr (Some cfg)"
    and logical: "eb_schedule b = []" "backup_params_of (e_json_error E) (eb_parameters b) = Inr params" "\<not> isPhysical params"
    and before: "ep_get (e_mariadbs E) l (key_of c (in_name c)) = Inr m" "ep_get (e_backups E) l (meta_key (eb_meta b)) = Inl e"
    and run: "SyncBackup E c b l = (Inr st, l1)"
  shows "\<exists>ob. ep_get (e_backups E) l1 (meta_key (eb_meta b)) = Inr ob \<and> ob_storage ob = Some (operatorS3 cfg (in_name c))"
proof -
  let ?k = "meta_key (eb_meta b)" and ?new = "new_op_backup (m_namespace (eb_meta b)) (m_name (eb_meta b))"
  let ?l = "l @ [(ReqGet KMariaDB (key_of c (in_name c)), None)]"
  from run [unfolded SyncBackup_logical_apply [OF logical before(1)]] obtain ob
    where cou: "create_or_update KBackup OBackup (e_backups E) ?k ?new (SyncBackup_mutate E c b params) ?l = (Inr ob, l1)"
    by (auto simp: run_simps)
  have "ep_get (e_backups E) l1 ?k = Inr ob"
    by (rule create_or_update_settles [OF laws(1) cou])
       (auto simp: new_op_backup_def empty_meta_def meta_key_def intro: emits_backup_mutate
         dest: SyncBackup_mutate_key [OF laws(2), unfolded meta_key_def])
  moreover have "ob_storage ob = Some (operatorS3 cfg (in_name c))"
    using laws(3) cou
  proof (cases rule: create_or_update_content)
    case (made e' l2 z l3)
    have "fresh_backup E c b params z" by (rule yieldsD [OF yields_SyncBackup_mutate_new made(3)])
    with made(4) storage show ?thesis by (auto simp: fresh_backup_def applyLogicalBackupParameters_def)
  next
    case (kept y l2 z l3)
    with before(2) get_after_reads [OF laws(1), of "[(ReqGet KMariaDB (key_of c (in_name c)), None)]" l ?k] show ?thesis by simp
  qed
  ultimately show ?thesis by blast
qed

lemma syncPhysicalBackup_creates:
  assumes laws: "faithful_endpoint OPhysicalBackup (e_physicals E) pb_meta" "lawful_owner E" "keeps_content (e_physicals E) pb_storage"
    and storage: "\<And>l. e_storage E l (eb_storage b) = Inr (Some cfg)"
    and before: "ep_get (e_mariadbs E) l (key_of c (in_name c)) = Inr m" "ep_get (e_physicals E) l (meta_key (eb_meta b)) = Inl e"
    and run: "syncPhysicalBackup E c b params l = (Inr st, l1)"
  shows "\<exists>pb. ep_get (e_physicals E) l1 (meta_key (eb_meta b)) = Inr pb \<and> pb_storage pb = Some (operatorS3 cfg (in_name c))"
proof -
  let ?k = "meta_key (eb_meta b)" and ?new = "new_phys_backup (m_namespace (eb_meta b)) (m_name (eb_meta b))"
  let ?l = "l @ [(ReqGet KMariaDB (key_of c (in_name c)), None)]"
  from run before(1) obtain pb
    where cou: "create_or_update KPhysicalBackup OPhysicalBackup (e_physicals E) ?k ?new (syncPhysicalBackup_mutate E c b params) ?l = (Inr pb, l1)"
    by (auto simp: syncPhysicalBackup_def run_simps)
  have key: "meta_key (pb_meta z) = meta_key (pb_meta y)" if "syncPhysicalBackup_mutate E c b params y l2 = (Inr z, l3)" for y l2 z l3
    using that by (auto simp: syncPhysicalBackup_mutate_def own_physical_def run_simps applyPhysicalBackupParameters_def
        dest!: lawful_ownerD(2) [OF laws(2)] split: if_splits)
  have "ep_get (e_physicals E) l1 ?k = Inr pb"
    by (rule create_or_update_settles [OF laws(1) cou key])
       (auto simp: new_phys_backup_def empty_meta_def meta_key_def intro: emits_backup_mutate)
  moreover have "pb_storage pb = Some (operatorS3 cfg (in_name c))"
    using laws(3) cou
  proof (cases rule: create_or_update_content)
    case (made e' l2 z l3)
    have "fresh_physical E c b params z" by (rule yieldsD [OF yields_syncPhysicalBackup_mutate_new made(3)])
    with made(4) storage show ?thesis by (auto simp: fresh_physical_def applyPhysicalBackupParameters_def)
  next
    case (kept y l2 z l3)
    with before(2) get_after_reads [OF laws(1), of "[(ReqGet KMariaDB (key_of c (in_name c)), None)]" l ?k] show ?thesis by simp
  qed
  ultimately show ?thesis by blast
qed

text \<open>What a finished Backup resolves to.\<close>

definition finished_of :: "string \<Rightarrow> ev_backup \<Rightarrow> bool" where
  "finished_of i b \<longleftrightarrow> eb_state b = StateSucceeded \<and> eb_origin b = Some i"

lemma resolve_finished:
  assumes "in_datasource c = Some ds" "ds_type ds = DSBackup" "ds_backup ds = Some n"
    and "ep_get (e_ev_backups E) l (key_of c n) = Inr b" "finished_of i b"
    and "backup_params_of (e_json_error E) (eb_parameters b) = Inr params"
    and "\<And>l. e_storage E l (eb_storage b) = Inr (Some cfg)"
  shows "fst (resolveBootstrapFrom E c l) = Inr (Some \<lparr> bf_s3 = Some (operatorS3 cfg i),
     bf_content = (if isPhysical params then Physical else Logical), bf_target_time = eb_completed b, bf_pitr = None \<rparr>, i)"
  using assms
  by (simp add: resolveBootstrapFrom_def resolveBackupBootstrapFrom_def on_get_def attempt_def bnd_def api_get_def request_def
      finished_of_def buildOperatorS3_apply s3_of_def)

text \<open>
  C10: A Backup seeds from where it was written: when an on-demand Backup of an Instance has
  been started, and is later served as finished with the storage and parameters it was
  started with, the resolution of a new Instance that names it as its data source succeeds
  and yields exactly the S3 block, prefix included, of the operator object the server has
  for it, with the content type of the strategy that wrote it, pinned to its completion time.
\<close>

theorem seeds_where_written:
  assumes laws: "faithful_endpoint OBackup (e_backups E) ob_meta" "faithful_endpoint OPhysicalBackup (e_physicals E) pb_meta"
      "lawful_owner E" "keeps_content (e_backups E) ob_storage" "keeps_content (e_physicals E) pb_storage"
    and storage: "\<And>l. e_storage E l (eb_storage b) = Inr (Some cfg)"
    and demanded: "eb_schedule b = []" "backup_params_of (e_json_error E) (eb_parameters b) = Inr params"
    and before: "ep_get (e_mariadbs E) l (key_of c (in_name c)) = Inr m"
      "ep_get (e_backups E) l (meta_key (eb_meta b)) = Inl e1" "ep_get (e_physicals E) l (meta_key (eb_meta b)) = Inl e2"
    and run: "SyncBackup E c b l = (Inr st, l1)"
    and finished: "ep_get (e_ev_backups E) l2 (key_of c' n) = Inr b'" "finished_of (in_name c) b'"
      "eb_storage b' = eb_storage b" "eb_parameters b' = eb_parameters b"
    and source: "in_datasource c' = Some ds" "ds_type ds = DSBackup" "ds_backup ds = Some n"
  shows "\<exists>boot. fst (resolveBootstrapFrom E c' l2) = Inr (Some boot, in_name c)
     \<and> bf_target_time boot = eb_completed b' \<and> bf_pitr boot = None
     \<and> (if isPhysical params
        then bf_content boot = Physical
           \<and> (\<exists>pb. ep_get (e_physicals E) l1 (meta_key (eb_meta b)) = Inr pb \<and> bf_s3 boot = pb_storage pb)
        else bf_content boot = Logical
           \<and> (\<exists>ob. ep_get (e_backups E) l1 (meta_key (eb_meta b)) = Inr ob \<and> bf_s3 boot = ob_storage ob))"
proof -
  have params: "backup_params_of (e_json_error E) (eb_parameters b') = Inr params" using demanded(2) finished(4) by simp
  have stored: "e_storage E l (eb_storage b') = Inr (Some cfg)" for l using storage finished(3) by simp
  note boot = resolve_finished [OF source finished(1,2) params stored]
  show ?thesis
  proof (cases "isPhysical params")
    case True
    with run demanded have "syncPhysicalBackup E c b params l = (Inr st, l1)"
      by (simp add: SyncBackup_def bnd_def attempt_def)
    from syncPhysicalBackup_creates [OF laws(2,3,5) storage before(1,3) this] boot True show ?thesis by auto
  next
    case False
    from SyncBackup_creates [OF laws(1,3,4) storage demanded False before(1,2) run] boot False show ?thesis by auto
  qed
qed

lemma mem_storage_keeps:
  "keeps_content (e_backups (mem_env w)) ob_storage" "keeps_content (e_physicals (mem_env w)) pb_storage"
  unfolding mem_env_def by (simp, rule mem_endpoint_keeps, simp)+

text \<open>A world with a Backup of the Instance to start, and what it is once finished.\<close>

definition seeding_world :: world where
  "seeding_world = backup_world\<lparr>w_ev_backups := [plain_backup\<lparr>eb_completed := Some 7\<rparr>]\<rparr>"

abbreviation started_run :: "(err + exec_status) \<times> log" where
  "started_run \<equiv> SyncBackup (mem_env seeding_world) (plain_instance ''standalone'') plain_backup []"

theorem seeds_where_written_witness:
  "\<exists>boot ob. fst (resolveBootstrapFrom (mem_env seeding_world) (seeded_instance ''b1'') []) = Inr (Some boot, ''db'')
     \<and> bf_target_time boot = Some 7
     \<and> ep_get (e_backups (mem_env seeding_world)) (snd started_run) (''ns'', ''b1'') = Inr ob \<and> bf_s3 boot = ob_storage ob"
proof -
  let ?b = "plain_backup\<lparr>eb_meta := stamp_meta (eb_meta plain_backup), eb_completed := Some 7\<rparr>"
  have "case fst started_run of Inr _ \<Rightarrow> True | Inl _ \<Rightarrow> False" by code_simp
  then obtain st where "fst started_run = Inr st" by (auto split: sum.splits)
  then have run: "started_run = (Inr st, snd started_run)" by (simp add: prod_eq_iff)
  have stored: "e_storage (mem_env seeding_world) l (eb_storage plain_backup) = Inr (Some plain_storage)" for l
    by (simp add: mem_env_def seeding_world_def backup_world_def plain_backup_def)
  have before: "ep_get (e_mariadbs (mem_env seeding_world)) [] (key_of (plain_instance ''standalone'') (in_name (plain_instance ''standalone'')))
      = Inr (plain_mariadb\<lparr>md_meta := stamp_meta (md_meta plain_mariadb)\<rparr>)"
    "ep_get (e_backups (mem_env seeding_world)) [] (meta_key (eb_meta plain_backup)) = Inl (ApiNotFound ''b1'')"
    "ep_get (e_physicals (mem_env seeding_world)) [] (meta_key (eb_meta plain_backup)) = Inl (ApiNotFound ''b1'')"
    and served: "ep_get (e_ev_backups (mem_env seeding_world)) [] (key_of (seeded_instance ''b1'') ''b1'') = Inr ?b"
    by code_simp+
  have parsed: "backup_params_of (e_json_error (mem_env seeding_world)) (eb_parameters plain_backup) = Inr zero_backup_params"
    by (simp add: plain_backup_def)
  have k: "meta_key (eb_meta plain_backup) = (''ns'', ''b1'')" "in_name (plain_instance ''standalone'') = ''db''" by code_simp+
  from seeds_where_written [OF mem_backups_faithful mem_physicals_faithful mem_lawful_owner mem_storage_keeps stored _ parsed
      before run served, unfolded k]
  show ?thesis
    by (simp add: finished_of_def plain_backup_def seeded_instance_def) blast
qed

text \<open>
  C22: A scheduled run seeds from where it was written: when a schedule of either strategy has
  been reconciled and one of its run Jobs, which inherited the labels, is mirrored, the
  mirrored Backup, once finished, resolves to exactly the S3 block of the schedule's operator
  object, as a source of the Instance with the content type of the strategy.
\<close>

theorem scheduled_runs_seed:
  assumes laws: "faithful_endpoint OBackup (e_backups E) ob_meta" "faithful_endpoint OPhysicalBackup (e_physicals E) pb_meta"
      "lawful_owner E"
      "keeps_content (e_backups E) (\<lambda>b. (ob_storage b, ob_retention b, ob_schedule b, ob_args b, ob_databases b))"
      "keeps_content (e_physicals E) (\<lambda>b. (pb_storage b, pb_retention b, pb_schedule b))"
    and storage: "\<And>l. e_storage E l st = Inr (Some cfg)"
    and strategy: "t = backupTypeLogical \<or> t = backupTypePhysical"
    and run: "(if t = backupTypePhysical then reconcileScheduledPhysicalBackup E c mdb st schedule name params
       else reconcileScheduledBackup E c mdb st schedule name params) l = (Inr (), l1)"
    and inherited: "scheduledBackupLabels c (sc_name schedule) st t = Inr ls"
      "\<forall>(k, v) \<in> set ls. map_of (m_labels (jb_meta j)) k = Some v"
    and names: "sc_name schedule \<noteq> []" "st \<noteq> []" "in_name c \<noteq> []" "map_option ib_class (in_backup c) \<noteq> Some []"
    and mirrored: "Mirror j = Some b"
    and finished: "ep_get (e_ev_backups E) l2 (key_of c' n) = Inr b'" "eb_state b' = StateSucceeded"
      "eb_origin b' = eb_origin b" "eb_storage b' = eb_storage b" "eb_parameters b' = eb_parameters b"
    and source: "in_datasource c' = Some ds" "ds_type ds = DSBackup" "ds_backup ds = Some n"
  shows "\<exists>boot. fst (resolveBootstrapFrom E c' l2) = Inr (Some boot, in_name c) \<and> bf_target_time boot = eb_completed b'
     \<and> (if t = backupTypePhysical
        then bf_content boot = Physical
           \<and> (\<exists>pb. ep_get (e_physicals E) l1 (key_of c name) = Inr pb \<and> bf_s3 boot = pb_storage pb)
        else bf_content boot = Logical
           \<and> (\<exists>ob. ep_get (e_backups E) l1 (key_of c name) = Inr ob \<and> bf_s3 boot = ob_storage ob))"
proof -
  have t: "t \<noteq> []" using strategy by (auto simp: backupTypeLogical_def backupTypePhysical_def)
  obtain ps where b: "eb_storage b = st" "eb_origin b = Some (in_name c)"
      "backup_params_of (e_json_error E) (eb_parameters b) = Inr ps" "isPhysical ps = (t = backupTypePhysical)"
    by (rule mirrored_labels [OF inherited t names])
       (use mirrored marshal_type_params [OF strategy, of "e_json_error E"] in \<open>auto simp: rawParameters_def isPhysical_def\<close>)
  have params: "backup_params_of (e_json_error E) (eb_parameters b') = Inr ps" using b(3) finished(5) by simp
  have stored: "e_storage E l (eb_storage b') = Inr (Some cfg)" for l using storage finished(4) b(1) by simp
  have "finished_of (in_name c) b'" using finished(2,3) b(2) by (simp add: finished_of_def)
  note boot = resolve_finished [OF source finished(1) this params stored]
  show ?thesis
  proof (cases "t = backupTypePhysical")
    case True
    with run have run: "reconcileScheduledPhysicalBackup E c mdb st schedule name params l = (Inr (), l1)" by simp
    obtain pb where "ep_get (e_physicals E) l1 (key_of c name) = Inr pb" "pb_storage pb = Some (operatorS3 cfg (in_name c))"
      by (rule scheduled_physical_object [OF laws(2,5,3) run]) (use storage in auto)
    with boot b(4) True show ?thesis by auto
  next
    case False
    with run have run: "reconcileScheduledBackup E c mdb st schedule name params l = (Inr (), l1)" by simp
    obtain ob where "ep_get (e_backups E) l1 (key_of c name) = Inr ob" "ob_storage ob = Some (operatorS3 cfg (in_name c))"
      by (rule scheduled_object [OF laws(1,4,3) run]) (use storage in auto)
    with boot b(4) False show ?thesis by auto
  qed
qed

definition run_labels :: labels where
  "run_labels = [(scheduleLabel, ''daily''), (instanceLabel, ''db''), (storageLabel, ''st''), (classLabel, ''c''),
     (typeLabel, backupTypePhysical)]"

definition labelled_job :: job where
  "labelled_job = \<lparr> jb_meta = (empty_meta ''ns'' ''j1'')\<lparr>m_labels := run_labels\<rparr>, jb_conditions = [] \<rparr>"

definition mirrored_backup :: ev_backup where
  "mirrored_backup = \<lparr> eb_meta = empty_meta ''ns'' ''j1'', eb_schedule = ''daily'', eb_class = ''c'', eb_storage = ''st'',
     eb_parameters = Some (Some (marshal_single ''type'' backupTypePhysical)), eb_origin = Some ''db'', eb_state = StateNone,
     eb_completed = None, eb_operator_ref = None \<rparr>"

definition finished_run_world :: world where
  "finished_run_world = backup_world\<lparr>w_ev_backups := [mirrored_backup\<lparr>eb_state := StateSucceeded, eb_completed := Some 7\<rparr>]\<rparr>"

abbreviation daily_reconciled :: "(err + unit) \<times> log" where
  "daily_reconciled \<equiv> reconcileScheduledPhysicalBackup (mem_env finished_run_world) (backup_instance ''standalone'' []) plain_mariadb
     ''st'' daily ''mdb-sched-1'' zero_backup_params []"

lemma mem_physicals_keep: "keeps_content (e_physicals (mem_env w)) (\<lambda>b. (pb_storage b, pb_retention b, pb_schedule b))"
  unfolding mem_env_def by (simp, rule mem_endpoint_keeps) simp

theorem scheduled_runs_seed_witness:
  "\<exists>boot pb. fst (resolveBootstrapFrom (mem_env finished_run_world) (seeded_instance ''j1'') []) = Inr (Some boot, ''db'')
     \<and> ep_get (e_physicals (mem_env finished_run_world)) (snd daily_reconciled) (''ns'', ''mdb-sched-1'') = Inr pb
     \<and> bf_s3 boot = pb_storage pb \<and> bf_content boot = Physical"
proof -
  let ?E = "mem_env finished_run_world" and ?c = "backup_instance ''standalone'' []"
  let ?b = "mirrored_backup\<lparr>eb_state := StateSucceeded, eb_completed := Some 7, eb_meta := stamp_meta (eb_meta mirrored_backup)\<rparr>"
  have "fst daily_reconciled = Inr ()" by code_simp
  then have run: "(if backupTypePhysical = backupTypePhysical then reconcileScheduledPhysicalBackup ?E ?c plain_mariadb ''st'' daily ''mdb-sched-1''
      zero_backup_params else reconcileScheduledBackup ?E ?c plain_mariadb ''st'' daily ''mdb-sched-1'' zero_backup_params) []
      = (Inr (), snd daily_reconciled)" by (simp add: prod_eq_iff)
  have stored: "e_storage ?E l ''st'' = Inr (Some plain_storage)" for l
    by (simp add: mem_env_def finished_run_world_def backup_world_def)
  have labels: "scheduledBackupLabels ?c (sc_name daily) ''st'' backupTypePhysical = Inr run_labels"
    "\<forall>(k, v) \<in> set run_labels. map_of (m_labels (jb_meta labelled_job)) k = Some v"
    and mirrored: "Mirror labelled_job = Some mirrored_backup"
    and served: "ep_get (e_ev_backups ?E) [] (key_of (seeded_instance ''j1'') ''j1'') = Inr ?b"
    and v: "key_of ?c ''mdb-sched-1'' = (''ns'', ''mdb-sched-1'')" "in_name ?c = ''db''"
      "sc_name daily \<noteq> []" "map_option ib_class (in_backup ?c) \<noteq> Some []"
    by code_simp+
  from scheduled_runs_seed [OF mem_backups_faithful mem_physicals_faithful mem_lawful_owner mem_backups_keep mem_physicals_keep stored
      _ run labels v(3) _ _ v(4) mirrored served, unfolded v(1,2)]
  show ?thesis by (simp add: seeded_instance_def) blast
qed

subsection \<open>From the recovery resource to its users\<close>

text \<open>
  C26: Once the point-in-time recovery of an Instance has been reconciled with a storage that
  enables it, the next MariaDB declared for the Instance refers to the recovery resource, and
  a new Instance of the namespace that names this one as its point-in-time source resolves to
  it, up to the date it asks for. With recovery enabled nowhere, no MariaDB refers to it.
\<close>

theorem pitr_handshake:
  assumes laws: "faithful_endpoint OPITR (e_pitrs E) pi_meta" "lawful_owner E"
    and run: "SyncPITR E c l = (Inr (), l1)"
    and next_run: "desiredMariaDB E c l1 = (Inr d, l2)"
    and on: "pitrEnabledStorage (in_backup c) = Inr storage"
    and clone: "in_namespace c' = in_namespace c" "in_datasource c' = Some \<lparr> ds_type = DSPointInTime, ds_backup = None,
        ds_pit = Some \<lparr> pit_instance = Some (in_name c), pit_to_date = to_date, pit_date = date \<rparr> \<rparr>"
      "in_name c \<noteq> []" "to_date \<longrightarrow> date \<noteq> None"
  shows "ms_pitr_ref (md_spec d) = map_option (\<lambda>_. pitrCRName (in_name c)) storage
     \<and> (storage \<noteq> None \<longrightarrow> fst (resolveBootstrapFrom E c' l1) =
          Inr (Some \<lparr> bf_s3 = None, bf_content = Physical, bf_target_time = (if to_date then date else None),
             bf_pitr = Some (pitrCRName (in_name c)) \<rparr>, in_name c))"
proof (cases storage)
  case None
  from next_run obtain ref where "desiredPITRRef E c l1 = (Inr ref, l2)" "ms_pitr_ref (md_spec d) = ref"
    by (elim desiredMariaDB_spec) (auto simp: desired_spec_def Let_def)
  with on None show ?thesis by (simp add: desiredPITRRef_def bnd_def attempt_def)
next
  case (Some s)
  let ?k = "key_of c (pitrCRName (in_name c))"
  from run on Some obtain st p l0 where cou: "create_or_update KPITR OPITR (e_pitrs E) ?k
      (new_pitr (in_namespace c) (pitrCRName (in_name c)))
      (reconcilePITR_mutate E c st (pitrBaseBackupName (in_name c))) l0 = (Inr p, l1)"
    by (auto simp: SyncPITR_def reconcilePITR_def run_simps)
  have there: "ep_get (e_pitrs E) l1 ?k = Inr p"
  proof (rule create_or_update_settles [OF laws(1) cou])
    show "meta_key (pi_meta (new_pitr (in_namespace c) (pitrCRName (in_name c)))) = ?k"
      by (simp add: new_pitr_def empty_meta_def meta_key_def key_of_def)
    show "emits read_only (reconcilePITR_mutate E c st (pitrBaseBackupName (in_name c)) y)" for y
      unfolding reconcilePITR_mutate_def Let_def by (intro post_intros)
  qed (auto simp: reconcilePITR_mutate_def run_simps Let_def dest!: lawful_ownerD(2) [OF laws(2)])
  from next_run obtain ref where "desiredPITRRef E c l1 = (Inr ref, l2)" "ms_pitr_ref (md_spec d) = ref"
    by (elim desiredMariaDB_spec) (auto simp: desired_spec_def Let_def)
  with on Some there have "ms_pitr_ref (md_spec d) = Some (pitrCRName (in_name c))"
    by (auto simp: desiredPITRRef_def run_simps)
  moreover have "ep_get (e_pitrs E) l1 (key_of c' (pitrCRName (in_name c))) = Inr p"
    using there clone(1) by (simp add: key_of_def)
  with clone have "fst (resolveBootstrapFrom E c' l1) =
      Inr (Some \<lparr> bf_s3 = None, bf_content = Physical, bf_target_time = (if to_date then date else None),
             bf_pitr = Some (pitrCRName (in_name c)) \<rparr>, in_name c)"
    by (auto simp: resolveBootstrapFrom_def resolvePointInTimeBootstrapFrom_def Let_def on_get_def attempt_def api_get_def request_def)
  ultimately show ?thesis by (simp add: Some)
qed

definition recovering_instance :: instance_cr where
  "recovering_instance = backup_instance ''replication'' [pitr_storage]"

definition rewound_instance :: instance_cr where
  "rewound_instance = (plain_instance ''standalone'')\<lparr>in_datasource := Some \<lparr> ds_type = DSPointInTime, ds_backup = None,
     ds_pit = Some \<lparr> pit_instance = Some ''db'', pit_to_date = True, pit_date = Some 7 \<rparr> \<rparr>\<rparr>"

abbreviation recovery_run :: "(err + unit) \<times> log" where
  "recovery_run \<equiv> SyncPITR (mem_env backup_world) recovering_instance []"

text \<open>The name of the base backup is a digest and stays symbolic here.\<close>

lemma mem_owner [simp]: "e_set_controller (mem_env w) = mem_set_controller"
  by (simp add: mem_env_def)

lemma recovering_facts [simp]:
  "in_name recovering_instance = ''db''" "in_namespace recovering_instance = ''ns''"
  "in_backup recovering_instance = Some \<lparr> ib_enabled = True, ib_class = ''c'', ib_storages = [pitr_storage] \<rparr>"
  by (simp_all add: recovering_instance_def backup_instance_def plain_instance_def)

lemma mem_backup_world [simp]:
  "e_storage (mem_env backup_world) l ''st'' = Inr (Some plain_storage)" "e_json_error (mem_env backup_world) = (\<lambda>_. ''invalid'')"
  by (simp_all add: mem_env_def backup_world_def)

lemma base_reconciled:
  fixes l :: log and sc :: backup_schedule
  assumes "list_all read_only l" and sc: "sc_retention sc = None"
  shows "\<exists>b. reconcilePITRBaseBackup (mem_env backup_world) recovering_instance mdb ''st'' sc n l =
     (Inr (), l @ [(ReqStorage ''st'', None), (ReqGet KPhysicalBackup (''ns'', n), Some (ApiNotFound n)), (ReqCreate (OPhysicalBackup b), None)])"
proof -
  let ?E = "mem_env backup_world" and ?l = "l @ [(ReqStorage ''st'', None)]"
  let ?f = "pitr_base_mutate ?E recovering_instance mdb (Some (operatorS3 plain_storage ''db'')) keepAllRetention sc"
  have "\<exists>y. (\<forall>l. ?f (new_phys_backup ''ns'' n) l = (Inr y, l)) \<and> meta_key (pb_meta y) = (''ns'', n)"
    by (simp add: pitr_base_mutate_def own_physical_def Let_def applyPhysicalBackupParameters_def bnd_def attempt_def
        new_phys_backup_def empty_meta_def mem_owns meta_key_def)
  then obtain y where mut: "\<And>l. ?f (new_phys_backup ''ns'' n) l = (Inr y, l)" and key: "meta_key (pb_meta y) = (''ns'', n)"
    by blast
  have obl: "obliging KPhysicalBackup (e_physicals ?E) pb_meta" by (simp add: mem_env_def mem_endpoint_obliging)
  have free: "ep_get (e_physicals ?E) ?l (''ns'', n) = Inl (ApiNotFound n)"
    using assms(1) get_after_reads [OF mem_physicals_faithful [of backup_world], of ?l "[]"]
    by (simp add: mem_env_def mem_endpoint_def backup_world_def empty_world_def Let_def)
  have "\<exists>z. create_or_update KPhysicalBackup OPhysicalBackup (e_physicals ?E) (''ns'', n) (new_phys_backup ''ns'' n) ?f ?l =
      (Inr z, ?l @ [(ReqGet KPhysicalBackup (''ns'', n), Some (ApiNotFound n)), (ReqCreate (OPhysicalBackup y), None)])"
    by (rule create_or_update_creates [OF mem_physicals_faithful obl]) (rule free mut key)+
  then show ?thesis
    by (auto simp: reconcilePITRBaseBackup_def bnd_def attempt_def wrap_err_def buildS3Storage_apply s3_of_def schedule_retention_def
       key_of_def clock_def deriveMaxRetention_def sc)
qed

lemma recovery_reconciled:
  assumes "l = l0 @ [(ReqCreate (OPhysicalBackup b), None)]" "list_all read_only l0"
  shows "\<exists>l'. reconcilePITR (mem_env backup_world) recovering_instance ''st'' n l = (Inr (), l')"
proof -
  let ?E = "mem_env backup_world" and ?l = "l @ [(ReqStorage ''st'', None)]"
  let ?f = "reconcilePITR_mutate ?E recovering_instance (operatorS3 plain_storage (''db'' @ binlogPrefixSuffix)) n"
  have "\<exists>y. (\<forall>l. ?f (new_pitr ''ns'' (pitrCRName ''db'')) l = (Inr y, l)) \<and> meta_key (pi_meta y) = (''ns'', pitrCRName ''db'')"
    by (simp add: reconcilePITR_mutate_def Let_def bnd_def attempt_def new_pitr_def empty_meta_def mem_owns meta_key_def)
  then obtain y where mut: "\<And>l. ?f (new_pitr ''ns'' (pitrCRName ''db'')) l = (Inr y, l)"
    and key: "meta_key (pi_meta y) = (''ns'', pitrCRName ''db'')" by blast
  have obl: "obliging KPITR (e_pitrs ?E) pi_meta" by (simp add: mem_env_def mem_endpoint_obliging)
  have "mem_step KPITR (\<lambda>x. case x of OPITR y \<Rightarrow> Some y | _ \<Rightarrow> None) k st e os = os" if "read_only e" for k st e and os :: "pitr_cr list"
    using that by (cases "fst e") (auto simp: mem_step_def)
  then have "fold (mem_step KPITR (\<lambda>x. case x of OPITR y \<Rightarrow> Some y | _ \<Rightarrow> None) k st) l0 [] = []" for k st
    using assms(2) by (induction l0) auto
  then have free: "ep_get (e_pitrs ?E) ?l (''ns'', pitrCRName ''db'') = Inl (ApiNotFound (pitrCRName ''db''))"
    by (simp add: assms(1) mem_env_def mem_endpoint_def mem_step_def backup_world_def empty_world_def Let_def)
  have "\<exists>z. create_or_update KPITR OPITR (e_pitrs ?E) (''ns'', pitrCRName ''db'') (new_pitr ''ns'' (pitrCRName ''db'')) ?f ?l =
      (Inr z, ?l @ [(ReqGet KPITR (''ns'', pitrCRName ''db''), Some (ApiNotFound (pitrCRName ''db''))), (ReqCreate (OPITR y), None)])"
    by (rule create_or_update_creates [OF mem_pitrs_faithful obl]) (rule free mut key)+
  then show ?thesis
    by (auto simp: reconcilePITR_def bnd_def attempt_def wrap_err_def buildOperatorS3_apply s3_of_def key_of_def)
qed

lemma recovery_runs: "\<exists>l'. recovery_run = (Inr (), l')"
proof -
  let ?E = "mem_env backup_world" and ?l = "[(ReqGet KMariaDB (''ns'', ''db''), None)]"
  let ?s = "daily\<lparr>sc_parameters := Some (Some (marshal_single ''type'' ''physical''))\<rparr>"
  have on: "pitrEnabledStorage (in_backup recovering_instance) = Inr (Some pitr_storage)"
    and sched: "firstPhysicalSchedule (e_json_error ?E) pitr_storage = Inr ?s"
    and cluster: "owner_mariadb ?E recovering_instance [] = (Inr (plain_mariadb\<lparr>md_meta := stamp_meta (md_meta plain_mariadb)\<rparr>), ?l)"
    and st: "is_ref pitr_storage = ''st''" "sc_retention ?s = None" "list_all read_only ?l"
    by code_simp+
  from base_reconciled [OF st(3,2)] obtain b where
    base: "reconcilePITRBaseBackup ?E recovering_instance (plain_mariadb\<lparr>md_meta := stamp_meta (md_meta plain_mariadb)\<rparr>) ''st'' ?s
       (pitrBaseBackupName ''db'') ?l = (Inr (), (?l @ [(ReqStorage ''st'', None), (ReqGet KPhysicalBackup (''ns'', pitrBaseBackupName ''db''),
          Some (ApiNotFound (pitrBaseBackupName ''db'')))]) @ [(ReqCreate (OPhysicalBackup b), None)])" (is "_ = (_, ?l0 @ _)")
    by fastforce
  have "list_all read_only ?l0" by simp
  from recovery_reconciled [OF refl this] obtain l' where
    "reconcilePITR ?E recovering_instance ''st'' (pitrBaseBackupName ''db'') (?l0 @ [(ReqCreate (OPhysicalBackup b), None)]) = (Inr (), l')" by blast
  with base cluster on sched st(1) show ?thesis
    by (simp add: SyncPITR_def bnd_def attempt_def)
qed

theorem pitr_handshake_witness:
  "(\<exists>d l. desiredMariaDB (mem_env backup_world) recovering_instance (snd recovery_run) = (Inr d, l)
      \<and> ms_pitr_ref (md_spec d) = Some (pitrCRName ''db''))
   \<and> fst (resolveBootstrapFrom (mem_env backup_world) rewound_instance (snd recovery_run)) =
       Inr (Some \<lparr> bf_s3 = None, bf_content = Physical, bf_target_time = Some 7, bf_pitr = Some (pitrCRName ''db'') \<rparr>, ''db'')"
proof -
  let ?E = "mem_env backup_world" and ?c = recovering_instance and ?l = "snd recovery_run"
  from recovery_runs have run: "recovery_run = (Inr (), ?l)" by auto
  have on: "pitrEnabledStorage (in_backup ?c) = Inr (Some pitr_storage)"
    and v: "in_namespace rewound_instance = in_namespace ?c" "in_name ?c \<noteq> []" by code_simp+
  have "case resolveEngineImage ?E (engine_of ?c) of Inr _ \<Rightarrow> True | Inl _ \<Rightarrow> False"
    "case buildMetrics ?E ?c of Inr _ \<Rightarrow> True | Inl _ \<Rightarrow> False" "case buildTLS ?E ?c of Inr _ \<Rightarrow> True | Inl _ \<Rightarrow> False"
    by code_simp+
  then obtain img metrics tls where "resolveEngineImage ?E (engine_of ?c) = Inr img" "buildMetrics ?E ?c = Inr metrics"
    "buildTLS ?E ?c = Inr tls" by (simp split: sum.splits)
  moreover have "obliging KPITR (e_pitrs ?E) pi_meta" by (simp add: mem_env_def mem_endpoint_obliging)
  then have "\<exists>r l. desiredPITRRef ?E ?c ?l = (Inr r, l)"
    using on obligingD(1) by (fastforce simp: desiredPITRRef_def bnd_def attempt_def on_get_def api_get_def request_def split: sum.splits)
  ultimately obtain d l where d: "desiredMariaDB ?E ?c ?l = (Inr d, l)"
    by (auto simp: desiredMariaDB_def bnd_def attempt_def wrap_err_def)
  from pitr_handshake [OF mem_pitrs_faithful mem_lawful_owner run d on v(1) _ v(2), of True "Some 7"] d
  show ?thesis by (simp add: rewound_instance_def)
qed

subsection \<open>From one reconciliation of the cluster to the next\<close>

lemma desiredMariaDB_same:
  assumes "desiredMariaDB E c l1 = (Inr d1, l1')" "desiredMariaDB E c l2 = (Inr d2, l2')"
    and "fst (desiredPITRRef E c l1) = fst (desiredPITRRef E c l2)"
  shows "d1 = d2"
  using assms by (elim desiredMariaDB_spec) simp

lemma desired_reads:
  assumes "faithful_endpoint C ep mt" "desiredMariaDB E c l = (Inr d, l')"
  shows "ep_get ep l' k = ep_get ep l k"
proof -
  have "emits read_only (desiredMariaDB E c)" by (intro post_intros) simp
  from emitsD [OF this assms(2)] get_after_reads [OF assms(1)] show ?thesis by metis
qed

lemma SyncMariaDB_document:
  assumes "SyncMariaDB E c l = (Inr (), l')"
  obtains d l0 m js l3 where "desiredMariaDB E c l = (Inr d, l0)" and "settled_desired E c d l0 = (Inr m, l3)"
    and "toApplyObject E KMariaDB (e_unstruct_mariadb E) m = Inr js" and "l' = l3 @ [(ReqApply KMariaDB js, None)]"
    and "m = d\<lparr>md_spec := (md_spec d)\<lparr>ms_bootstrap := ms_bootstrap (md_spec m), ms_storage_class := ms_storage_class (md_spec m)\<rparr>\<rparr>"
proof -
  from assms obtain d l0 m js l3 where m: "desiredMariaDB E c l = (Inr d, l0)" "settled_desired E c d l0 = (Inr m, l3)"
    and "toApplyObject E KMariaDB (e_unstruct_mariadb E) m = Inr js" "l' = l3 @ [(ReqApply KMariaDB js, None)]"
    by (auto simp: SyncMariaDB_alt run_simps)
  moreover from m(2) obtain b x where "m = with_bootstrap b d \<or> m = with_immutables x d"
    by (auto simp: settled_desired_def run_simps)
  then have "m = d\<lparr>md_spec := (md_spec d)\<lparr>ms_bootstrap := ms_bootstrap (md_spec m), ms_storage_class := ms_storage_class (md_spec m)\<rparr>\<rparr>"
    by (auto simp: with_bootstrap_def with_immutables_def)
  ultimately show ?thesis by (rule that)
qed


abbreviation cluster_run :: "log \<Rightarrow> (err + unit) \<times> log" where
  "cluster_run \<equiv> SyncMariaDB (mem_env backup_world) (plain_instance ''standalone'')"


end
