(* ===== verification/Faults.thy ===== *)
theory Faults
  imports Provider
begin

section \<open>What may panic\<close>

text \<open>
  A nil dereference in a handler would end the process. This theory shows of every entry
  point that its errors are values and never a panic, with one exception, which the code
  has: the resolution of a seeding source whose Backup names no origin. \<open>calm m\<close> says that
  no error of \<open>m\<close> is a panic; the collection \<open>calm_intros\<close> has one rule per combinator, so
  each handler is covered by those of the operations it calls.
\<close>

named_theorems calm_intros \<open>rules for computations that never panic\<close>

definition is_panic :: "err \<Rightarrow> bool" where
  "is_panic e = (case cause e of Panic _ \<Rightarrow> True | _ \<Rightarrow> False)"

lemma is_panic_simps [simp]:
  "is_panic (Panic s)"
  "is_panic (Wrapped s e) = is_panic e"
  "is_panic (WrappedV e v) = is_panic e"
  "\<not> is_panic (ApiNotFound s)"
  "\<not> is_panic (ApiAlreadyExists s)"
  "\<not> is_panic (ApiError s)"
  "\<not> is_panic (NoMatchError s)"
  "\<not> is_panic TLSCABundleNotReady"
  "\<not> is_panic (WaitFor s)"
  "\<not> is_panic (BackupConfigError s t)"
  "\<not> is_panic (DataSourceConfigError s t)"
  "\<not> is_panic (Errorf s)"
  by (simp_all add: is_panic_def)

subsection \<open>Rules\<close>

definition orderly_result :: "err + 'a \<Rightarrow> bool" where
  "orderly_result r \<longleftrightarrow> (\<forall>e. r = Inl e \<longrightarrow> \<not> is_panic e)"

definition calm :: "('e, 'a) eff \<Rightarrow> bool" where
  "calm m \<longleftrightarrow> (\<forall>l. orderly_result (fst (m l)))"

lemma orderly_result_simps [simp]:
  "orderly_result (Inr x)" "orderly_result (Inl e) \<longleftrightarrow> \<not> is_panic e"
  by (simp_all add: orderly_result_def)

lemma orderly_case_option [calm_intros]:
  "(r = None \<Longrightarrow> orderly_result f) \<Longrightarrow> (\<And>x. r = Some x \<Longrightarrow> orderly_result (g x)) \<Longrightarrow> orderly_result (case_option f g r)"
  by (cases r) simp_all

lemma orderly_if [calm_intros]:
  "(b \<Longrightarrow> orderly_result f) \<Longrightarrow> (\<not> b \<Longrightarrow> orderly_result g) \<Longrightarrow> orderly_result (if b then f else g)"
  by simp

lemma orderly_ebind [calm_intros]:
  "orderly_result r \<Longrightarrow> (\<And>x. r = Inr x \<Longrightarrow> orderly_result (k x)) \<Longrightarrow> orderly_result (ebind r k)"
  by (cases r) simp_all

lemma orderly_ewrap [calm_intros]: "orderly_result r \<Longrightarrow> orderly_result (ewrap msg r)"
  by (cases r) simp_all

lemma orderly_let [calm_intros]: "orderly_result (f t) \<Longrightarrow> orderly_result (Let t f)"
  by simp

lemma calm_ret [calm_intros]: "calm (ret x)"
  by (simp add: calm_def)

lemma calm_fail [calm_intros]: "\<not> is_panic e \<Longrightarrow> calm (fail e)"
  by (simp add: calm_def)

lemma calm_lift [calm_intros]: "orderly_result r \<Longrightarrow> calm (lift r)"
  by (simp add: calm_def)

lemma calm_attempt:
  assumes "calm m" and "\<And>e. \<not> is_panic e \<Longrightarrow> calm (k (Inl e))" and "\<And>x. calm (k (Inr x))"
  shows "calm (attempt m k)"
  unfolding calm_def
proof
  fix l
  obtain r l1 where m: "m l = (r, l1)" by fastforce
  from assms(1) m have c: "orderly_result r" unfolding calm_def by (metis fst_conv)
  show "orderly_result (fst (attempt m k l))"
    using m c assms(2,3) by (cases r) (simp_all add: calm_def)
qed

lemma calm_attempt_sum [calm_intros]:
  "calm m \<Longrightarrow> (\<And>e. \<not> is_panic e \<Longrightarrow> calm (f e)) \<Longrightarrow> (\<And>x. calm (g x)) \<Longrightarrow> calm (attempt m (case_sum f g))"
  by (rule calm_attempt) simp_all

lemma calm_bnd_yields:
  assumes "calm m" and "yields Q m" and "\<And>x. Q x \<Longrightarrow> calm (k x)"
  shows "calm (bnd m k)"
  unfolding calm_def
proof
  fix l
  obtain r l1 where m: "m l = (r, l1)" by fastforce
  from assms(1) m have c: "orderly_result r" unfolding calm_def by (metis fst_conv)
  show "orderly_result (fst (bnd m k l))"
  proof (cases r)
    case (Inl e)
    with m c show ?thesis by simp
  next
    case (Inr x)
    with m assms(2) have "Q x" by (auto dest: yieldsD)
    with assms(3) have "calm (k x)" .
    with Inr m show ?thesis by (simp add: calm_def)
  qed
qed

lemma calm_bnd [calm_intros]: "calm m \<Longrightarrow> (\<And>x. calm (k x)) \<Longrightarrow> calm (bnd m k)"
  by (rule calm_bnd_yields [OF _ yields_true])

lemma calm_wrap_err [calm_intros]: "calm m \<Longrightarrow> calm (wrap_err msg m)"
  unfolding wrap_err_def by (auto intro!: calm_intros)

lemma calm_on_get_yields:
  assumes "calm m" and "yields Q m" and "calm a" and "\<And>x. Q x \<Longrightarrow> calm (f x)"
  shows "calm (on_get msg m a f)"
  unfolding calm_def
proof
  fix l
  obtain r l1 where m: "m l = (r, l1)" by fastforce
  from assms(1) m have c: "orderly_result r" unfolding calm_def by (metis fst_conv)
  show "orderly_result (fst (on_get msg m a f l))"
  proof (cases r)
    case (Inl e)
    with m c assms(3) show ?thesis by (cases "is_not_found e") (simp_all add: on_get_simps calm_def)
  next
    case (Inr x)
    with m assms(2) have "Q x" by (auto dest: yieldsD)
    with assms(4) have "calm (f x)" .
    with Inr m show ?thesis by (simp add: on_get_simps calm_def)
  qed
qed

lemma calm_on_get [calm_intros]: "calm m \<Longrightarrow> calm a \<Longrightarrow> (\<And>x. calm (f x)) \<Longrightarrow> calm (on_get msg m a f)"
  by (rule calm_on_get_yields [OF _ yields_true])

lemma calm_on_lookup [calm_intros]: "calm m \<Longrightarrow> calm a \<Longrightarrow> (\<And>x. calm (f x)) \<Longrightarrow> calm (on_lookup msg m a f)"
  unfolding on_lookup_def by (rule calm_attempt_sum) (auto intro: calm_intros)

lemma calm_delete_if_present [calm_intros]: "calm m \<Longrightarrow> calm (delete_if_present msg m)"
  unfolding delete_if_present_def by (intro calm_intros)

lemma calm_case_option [calm_intros]:
  "(r = None \<Longrightarrow> calm f) \<Longrightarrow> (\<And>x. r = Some x \<Longrightarrow> calm (g x)) \<Longrightarrow> calm (case_option f g r)"
  by (cases r) simp_all

lemma calm_case_sum [calm_intros]:
  "(\<And>e. r = Inl e \<Longrightarrow> calm (f e)) \<Longrightarrow> (\<And>x. r = Inr x \<Longrightarrow> calm (g x)) \<Longrightarrow> calm (case_sum f g r)"
  by (cases r) simp_all

lemma calm_case_prod [calm_intros]: "(\<And>a b. p = (a, b) \<Longrightarrow> calm (f a b)) \<Longrightarrow> calm (case_prod f p)"
  by (cases p) simp

lemma calm_case_content [calm_intros]:
  "calm f \<Longrightarrow> calm g \<Longrightarrow> (\<And>t. calm (h t)) \<Longrightarrow> calm (case x of Logical \<Rightarrow> f | Physical \<Rightarrow> g | ContentOther t \<Rightarrow> h t)"
  by (cases x) simp_all

lemma calm_if [calm_intros]: "(b \<Longrightarrow> calm f) \<Longrightarrow> (\<not> b \<Longrightarrow> calm g) \<Longrightarrow> calm (if b then f else g)"
  by simp

lemma calm_let [calm_intros]: "calm (f t) \<Longrightarrow> calm (Let t f)"
  by simp

lemma calm_for_each [calm_intros]: "(\<And>x. calm (f x)) \<Longrightarrow> calm (for_each f xs)"
  by (induction xs) (auto intro: calm_intros)

lemma calm_request: "(\<And>l. orderly_result (ask l)) \<Longrightarrow> calm (request q ask)"
  by (simp add: calm_def request_def)

lemma calm_clock [calm_intros]: "calm (clock E)"
  by (simp add: calm_def)

subsection \<open>An environment that does not panic\<close>

text \<open>
  The API server, the SDK and the operator's functions report their errors as values; a
  panic in them is not what this theory is about.
\<close>

definition orderly_endpoint :: "'o endpoint \<Rightarrow> bool" where
  "orderly_endpoint ep \<longleftrightarrow>
     (\<forall>l k. orderly_result (ep_get ep l k)) \<and> (\<forall>l s. orderly_result (ep_list ep l s)) \<and>
     (\<forall>l x. orderly_result (ep_create ep l x)) \<and> (\<forall>l x. orderly_result (ep_update ep l x)) \<and>
     (\<forall>l k. orderly_result (result (ep_delete ep l k)))"

definition orderly :: "env \<Rightarrow> bool" where
  "orderly E \<longleftrightarrow>
     (orderly_endpoint (e_mariadbs E) \<and> orderly_endpoint (e_maxscales E) \<and> orderly_endpoint (e_backups E)
      \<and> orderly_endpoint (e_physicals E) \<and> orderly_endpoint (e_restores E) \<and> orderly_endpoint (e_pitrs E)
      \<and> orderly_endpoint (e_secrets E) \<and> orderly_endpoint (e_services E) \<and> orderly_endpoint (e_jobs E)
      \<and> orderly_endpoint (e_ev_backups E) \<and> orderly_endpoint (e_monitors E) \<and> orderly_endpoint (e_scrapes E))
     \<and> ((\<forall>l n. orderly_result (e_storage E l n)) \<and> (\<forall>l K js. orderly_result (result (e_apply E l K js)))
      \<and> (\<forall>l x. orderly_result (result (e_patch E l x))) \<and> (\<forall>l. orderly_result (result (e_crd E l))))
     \<and> (orderly_result (e_provider_spec E)
      \<and> (\<forall>spec n. e_provider_spec E = Inr spec \<longrightarrow> orderly_result (pv_bundle spec n))
      \<and> (\<forall>x. orderly_result (e_decode_engine E x)) \<and> (\<forall>x. orderly_result (e_decode_monitoring E x))
      \<and> (\<forall>x. orderly_result (e_decode_proxy E x)) \<and> (\<forall>r m. orderly_result (e_set_controller E r m))
      \<and> (\<forall>K. orderly_result (e_gvk E K)) \<and> (\<forall>x. orderly_result (e_unstruct_mariadb E x))
      \<and> (\<forall>x. orderly_result (e_unstruct_maxscale E x)) \<and> (\<forall>m ms n. orderly_result (e_upgrade_managed E m ms n))
      \<and> (\<forall>x. orderly_result (e_build_monitor E x)))"

lemma orderly_endpoints [calm_intros]:
  assumes "orderly E"
  shows "orderly_endpoint (e_mariadbs E)" "orderly_endpoint (e_maxscales E)" "orderly_endpoint (e_backups E)"
    "orderly_endpoint (e_physicals E)" "orderly_endpoint (e_restores E)" "orderly_endpoint (e_pitrs E)"
    "orderly_endpoint (e_secrets E)" "orderly_endpoint (e_services E)" "orderly_endpoint (e_jobs E)"
    "orderly_endpoint (e_ev_backups E)" "orderly_endpoint (e_monitors E)" "orderly_endpoint (e_scrapes E)"
  using assms [unfolded orderly_def] by blast+

lemma orderly_functions [calm_intros]:
  assumes "orderly E"
  shows "orderly_result (e_provider_spec E)" "e_provider_spec E = Inr spec \<Longrightarrow> orderly_result (pv_bundle spec n)"
    "orderly_result (e_decode_engine E x)" "orderly_result (e_decode_monitoring E x)" "orderly_result (e_decode_proxy E x)"
    "orderly_result (e_set_controller E r m)" "orderly_result (e_gvk E K)" "orderly_result (e_unstruct_mariadb E md)"
    "orderly_result (e_unstruct_maxscale E mx)" "orderly_result (e_upgrade_managed E m ms nm)"
    "orderly_result (e_build_monitor E md)"
  using assms [unfolded orderly_def] by blast+

lemma calm_api [calm_intros]:
  "orderly_endpoint ep \<Longrightarrow> calm (api_get K ep k)"
  "orderly_endpoint ep \<Longrightarrow> calm (api_list K ep sel)"
  "orderly_endpoint ep \<Longrightarrow> calm (api_create C ep ob)"
  "orderly_endpoint ep \<Longrightarrow> calm (api_update C ep ob)"
  "orderly_endpoint ep \<Longrightarrow> calm (api_delete K ep k)"
  by (auto simp: api_defs orderly_endpoint_def simp del: split_paired_All intro!: calm_request)

lemma calm_outside [calm_intros]:
  assumes "orderly E"
  shows "calm (get_storage E n)" "calm (api_apply E K js)" "calm (api_patch E ob)" "calm (look_up_crd E)"
  using assms by (auto simp: api_defs orderly_def intro!: calm_request)

lemma calm_stage [calm_intros]: "calm (stage_ds_status st)"
  unfolding stage_ds_status_def by (rule calm_request) simp

lemma calm_create_or_update [calm_intros]:
  assumes "orderly_endpoint ep" and "\<And>x. calm (f x)"
  shows "calm (create_or_update K C ep k init f)"
  unfolding create_or_update_def
  by (rule calm_attempt) (auto intro!: calm_intros assms)

subsection \<open>The pure parts\<close>

lemma orderly_checks [calm_intros]:
  "orderly_result (parseBackupParams je raw)" "orderly_result (validateService n svc)"
  "orderly_result (validateAffinity a)" "orderly_result (validateComponents c)"
  "orderly_result (validateStandaloneReplicas c)" "orderly_result (validateGaleraReplicas c)"
  "orderly_result (validateReplicationReplicas c)" "orderly_result (validateStorageUpdate E cs mdb)"
  "orderly_result (pitrEnabledStorage b)"
  unfolding parseBackupParams_def validateService_def validateAffinity_def validateComponents_def
    validateStandaloneReplicas_def validateGaleraReplicas_def validateReplicationReplicas_def validateStorageUpdate_def
    pitrEnabledStorage_def Let_def
  by (intro calm_intros; simp add: validateService_def validateAffinity_def orderly_result_def split: option.splits)+

lemma orderly_firstPhysicalSchedule [calm_intros]: "orderly_result (firstPhysicalSchedule je st)"
proof -
  have "orderly_result (first_physical je n ss)" for n ss
    by (induction ss) (auto intro!: calm_intros)
  then show ?thesis by (simp add: firstPhysicalSchedule_def)
qed

lemma orderly_images [calm_intros]:
  assumes "orderly E"
  shows "orderly_result (resolveEngineImage E cs)" "orderly_result (resolveExporterImage E c)"
    "orderly_result (resolveMaxScaleImage E c)" "orderly_result (withBundleVersion E c cs)"
  unfolding resolveEngineImage_def resolveExporterImage_def resolveMaxScaleImage_def withBundleVersion_def
  by (intro calm_intros assms; simp)+

lemma orderly_settings [calm_intros]:
  assumes "orderly E"
  shows "orderly_result (resolveTLSSettings E c)" "orderly_result (monitoringParams E c)" "orderly_result (isProxyEnabled E c)"
  unfolding resolveTLSSettings_def monitoringParams_def isProxyEnabled_def
  by (intro calm_intros assms; simp)+

lemma orderly_desired [calm_intros]:
  assumes "orderly E"
  shows "orderly_result (validateTLS E c)" "orderly_result (buildTLS E c)" "orderly_result (buildMetrics E c)"
    "orderly_result (desiredMaxScale E c)" "orderly_result (desiredVMServiceScrape E c mdb vp)"
    "orderly_result (validateProxy E c)" "orderly_result (validatePITR E c)" "orderly_result (validateVersionDowngrade E c cs mdb)"
  unfolding validateTLS_def buildTLS_def buildMetrics_def desiredMaxScale_def desiredVMServiceScrape_def validateProxy_def
    validatePITR_def validateVersionDowngrade_def
  by (intro calm_intros assms; simp)+

lemma orderly_case_prod [calm_intros]: "(\<And>a b. p = (a, b) \<Longrightarrow> orderly_result (f a b)) \<Longrightarrow> orderly_result (case_prod f p)"
  by (cases p) simp

lemma orderly_toApplyObject [calm_intros]:
  "orderly E \<Longrightarrow> (\<And>x. orderly_result (f x)) \<Longrightarrow> orderly_result (toApplyObject E K f ob)"
  unfolding toApplyObject_def by (intro calm_intros; simp)

subsection \<open>The handlers\<close>

lemma calm_shared [calm_intros]:
  assumes "orderly E"
  shows "calm (buildOperatorS3 E n pre)" "calm (own_backup E r b)" "calm (own_physical E r pb)" "calm (own_restore E r rb)"
    "calm (owner_mariadb E c)" "calm (desiredPITRRef E c)" "calm (schedule_retention E sch)"
    "orderly_endpoint ep \<Longrightarrow> calm (migrateFieldOwnership E C ep gm sm ob)"
  unfolding buildOperatorS3_def own_backup_def own_physical_def own_restore_def owner_mariadb_def desiredPITRRef_def
    schedule_retention_def migrateFieldOwnership_def
  by ((rule calm_attempt)?; (intro calm_intros assms; simp)?)+

lemma calm_storage [calm_intros]:
  assumes "orderly E"
  shows "calm (buildOperatorS3Storage E c n)" "calm (buildPhysicalS3Storage E c n)"
  unfolding buildOperatorS3Storage_def buildPhysicalS3Storage_def by (intro calm_intros assms)+

lemma calm_mutate [calm_intros]:
  assumes "orderly E"
  shows "calm (SyncBackup_mutate E c b params ob)" "calm (syncPhysicalBackup_mutate E c b params pb)"
    "calm (SyncRestore_mutate E c r n rb)" "calm (scheduled_backup_mutate E c mdb st rt managed sch params ob)"
    "calm (scheduled_physical_mutate E c mdb st rt managed sch params pb)" "calm (pitr_base_mutate E c mdb st rt sch pb)"
    "calm (reconcilePITR_mutate E c s3 base pi)" "calm (replica_template_mutate E c mdb st pb)"
  unfolding SyncBackup_mutate_def syncPhysicalBackup_mutate_def SyncRestore_mutate_def scheduled_backup_mutate_def
    scheduled_physical_mutate_def pitr_base_mutate_def reconcilePITR_mutate_def replica_template_mutate_def Let_def
  by (intro calm_intros assms)+

lemma calm_backups [calm_intros]:
  assumes "orderly E"
  shows "calm (SyncBackup E c b)" "calm (SyncRestore E c r)" "calm (CleanupBackup E c b)" "calm (CleanupRestore E c r)"
  unfolding SyncBackup_def syncScheduledRun_def syncPhysicalBackup_def SyncRestore_def CleanupBackup_def
    cleanupPhysicalBackup_def CleanupRestore_def restore_source_def
  by (intro calm_intros assms; simp)+

lemma calm_status [calm_intros]:
  assumes "orderly E"
  shows "calm (StatusMariaDB E c)" "calm (CleanupMariaDB E c)" "calm (BackupStorageStatuses te E c)"
    "calm (syncDataSourceStatus E c)"
proof -
  have staged: "calm (staged_status E)" by (simp add: calm_def staged_status_def)
  have host: "calm (resolveHost E c n)" for n
    unfolding resolveHost_def Let_def by (intro calm_intros assms)
  have ready: "calm (readyMaxScale E c)"
    unfolding readyMaxScale_def by (intro calm_intros assms)
  have details: "calm (buildConnectionDetails E c mxs)" for mxs
    unfolding buildConnectionDetails_def Let_def by (intro calm_intros host assms; simp)
  have published: "calm (details_status E c mxs)" for mxs
    unfolding details_status_def by (intro calm_intros details; simp)
  show "calm (StatusMariaDB E c)"
    unfolding StatusMariaDB_def ready_status_def by (intro calm_intros staged ready published assms)
  show "calm (CleanupMariaDB E c)"
    unfolding CleanupMariaDB_def teardownMaxScale_def by (intro calm_intros assms)
  show "calm (BackupStorageStatuses te E c)"
    unfolding BackupStorageStatuses_def by (auto intro!: calm_intros assms split: sum.split option.split)
  show "calm (syncDataSourceStatus E c)"
    unfolding syncDataSourceStatus_def bootstrapRestoreFailed_def Let_def
    by (intro calm_intros assms)
qed

lemma calm_validation [calm_intros]:
  assumes "orderly E"
  shows "calm (ValidateMariaDB E c)"
  unfolding ValidateMariaDB_def validateMonitoring_def vmServiceScrapeCRDInstalled_def validateTopology_def
    validateReplicationScaleOut_def validateTopologyImmutable_def validateEngineUpdate_def validatePointInTimeDataSource_def Let_def
  by (intro calm_intros assms; simp)

lemma calm_schedules:
  assumes E: "orderly E" and "in_backup c \<noteq> None"
  shows "calm (sync_schedules E c mdb ss)"
proof -
  from assms(2) have labels: "orderly_result (scheduledBackupLabels c s st t)" for s st t
    by (auto simp: scheduledBackupLabels_def)
  have one: "calm (reconcileScheduledBackup E c m st sch n params)" "calm (reconcileScheduledPhysicalBackup E c m st sch n params)"
    for m st sch n params
    unfolding reconcileScheduledBackup_def reconcileScheduledPhysicalBackup_def deleteScheduledBackup_def
      deleteScheduledPhysicalBackup_def
    by (intro calm_intros labels E; simp)+
  show ?thesis
  proof (induction ss arbitrary: mdb)
    case (Cons x ss)
    obtain st sch where x: "x = (st, sch)" by fastforce
    show ?case
      unfolding x sync_schedules.simps Let_def by (intro calm_intros one Cons.IH E)
  qed (simp add: calm_ret)
qed

lemma calm_stages [calm_intros]:
  assumes "orderly E"
  shows "calm (SyncReplicaTemplate E c)" "calm (SyncMaxScale E c)" "calm (SyncServiceMonitor E c)"
    "calm (SyncVMServiceScrape E c)" "calm (SyncScheduledBackups E c)" "calm (SyncPITR E c)"
proof -
  have prune: "calm (pruneScheduledBackups E c ns)" "calm (pruneScheduledPhysicalBackups E c ns)" for ns
    unfolding pruneScheduledBackups_def pruneScheduledPhysicalBackups_def by (intro calm_intros assms)+
  show "calm (SyncScheduledBackups E c)"
    unfolding SyncScheduledBackups_def enabled_backup_def
    by (intro calm_intros prune calm_schedules assms) (auto split: option.splits if_splits)
  show "calm (SyncReplicaTemplate E c)" "calm (SyncPITR E c)"
    unfolding SyncReplicaTemplate_def SyncPITR_def teardownPITR_def reconcilePITRBaseBackup_def reconcilePITR_def Let_def
    by (intro calm_intros assms; simp)+
  show "calm (SyncMaxScale E c)" "calm (SyncServiceMonitor E c)" "calm (SyncVMServiceScrape E c)"
    unfolding SyncMaxScale_def teardownMaxScale_def SyncServiceMonitor_def SyncVMServiceScrape_def teardownVMServiceScrape_def
      adoptVMServiceScrape_def
    by (intro calm_intros assms; simp)+
qed

subsection \<open>The one panic\<close>

text \<open>The seeding source of an Instance is a succeeded Backup without an origin.\<close>

definition originless :: "env \<Rightarrow> instance_cr \<Rightarrow> bool" where
  "originless E c \<longleftrightarrow> (\<exists>ds n l bk. in_datasource c = Some ds \<and> ds_type ds = DSBackup \<and> ds_backup ds = Some n
     \<and> ep_get (e_ev_backups E) l (key_of c n) = Inr bk \<and> eb_state bk = StateSucceeded \<and> eb_origin bk = None)"

lemma calm_resolveBootstrapFrom:
  assumes E: "orderly E" and "\<not> originless E c"
  shows "calm (resolveBootstrapFrom E c)"
proof -
  have "calm (resolveBackupBootstrapFrom E c ds)" if ds: "in_datasource c = Some ds" "ds_type ds = DSBackup" for ds
  proof (cases "ds_backup ds")
    case None
    then show ?thesis by (simp add: resolveBackupBootstrapFrom_def calm_ret)
  next
    case (Some n)
    have origin: "eb_origin bk \<noteq> None" if "ep_get (e_ev_backups E) l (key_of c n) = Inr bk" "eb_state bk = StateSucceeded" for bk l
      using that ds Some assms(2) unfolding originless_def by metis
    show ?thesis
      unfolding resolveBackupBootstrapFrom_def Some option.case
      by (intro calm_on_get_yields [OF _ yields_served]) (auto intro!: calm_intros E dest: origin)
  qed
  moreover have "calm (resolvePointInTimeBootstrapFrom E c ds)" for ds
    unfolding resolvePointInTimeBootstrapFrom_def Let_def by (intro calm_intros E; simp)
  ultimately show ?thesis
    unfolding resolveBootstrapFrom_def
    by (cases "in_datasource c"; (cases "ds_type (the (in_datasource c))")?) (auto intro: calm_ret)
qed

lemma calm_Sync:
  assumes E: "orderly E" and "\<not> originless E c"
  shows "calm (Sync E c)"
proof -
  have copy: "calm (copyInstanceSecret E c src dst)" for src dst
    unfolding copyInstanceSecret_def by (intro calm_intros E; simp)
  have desired: "calm (desiredMariaDB E c)"
    unfolding desiredMariaDB_def by (intro calm_intros E)
  have "calm (SyncMariaDB E c)"
    unfolding SyncMariaDB_def ensureRestoreCredentials_def
    by (intro calm_intros desired copy calm_resolveBootstrapFrom assms)
  then show ?thesis unfolding Sync_def by (intro calm_intros E)
qed

text \<open>The error of a call of an entry point, if it ends in one.\<close>

fun call_error :: "env \<Rightarrow> call \<Rightarrow> log \<Rightarrow> err option" where
  "call_error E (CallValidate c) l = outcome (fst (Validate E c l))"
| "call_error E (CallSync c) l = outcome (fst (Sync E c l))"
| "call_error E (CallStatus c) l = outcome (fst (Status E c l))"
| "call_error E (CallCleanup c) l = outcome (fst (Cleanup E c l))"
| "call_error E (CallStorageStatuses c) l = outcome (fst (BackupStorageStatuses (e_json_error E) E c l))"
| "call_error E (CallSyncBackup c b) l = outcome (fst (SyncBackup E c b l))"
| "call_error E (CallCleanupBackup c b) l = outcome (fst (CleanupBackup E c b l))"
| "call_error E (CallSyncRestore c r) l = outcome (fst (SyncRestore E c r l))"
| "call_error E (CallCleanupRestore c r) l = outcome (fst (CleanupRestore E c r l))"

lemma calm_call:
  assumes "calm m" and "outcome (fst (m l)) = Some e"
  shows "\<not> is_panic e"
  using assms by (cases "fst (m l)") (auto simp: calm_def orderly_result_def)

text \<open>
  C9: No entry point dereferences nil, whatever the objects of the cluster hold and in
  whatever order it is called, with one exception: the reconciliation of an Instance that is
  seeded from a succeeded Backup without an origin, which does.
\<close>

theorem panics_only_without_origin:
  assumes "orderly E" and "call_error E x l = Some e" and "is_panic e"
  shows "\<exists>c. x = CallSync c \<and> originless E c"
proof (cases x)
  case (CallSync c)
  with assms calm_call [OF calm_Sync [OF assms(1)]] show ?thesis by auto
qed (use assms in \<open>auto simp: Validate_def Status_def Cleanup_def
       dest: calm_call [OF calm_validation [OF assms(1)]] calm_call [OF calm_status(1) [OF assms(1)]]
         calm_call [OF calm_status(2) [OF assms(1)]] calm_call [OF calm_status(3) [OF assms(1)]]
         calm_call [OF calm_backups(1) [OF assms(1)]] calm_call [OF calm_backups(2) [OF assms(1)]]
         calm_call [OF calm_backups(3) [OF assms(1)]] calm_call [OF calm_backups(4) [OF assms(1)]]\<close>)

lemma mem_endpoint_orderly: "orderly_endpoint (mem_endpoint K D mt stamp init)"
  by (auto simp: orderly_endpoint_def mem_endpoint_def Let_def simp del: split_paired_All split: option.split)

lemma no_service_orderly: "orderly_endpoint no_service"
  by (simp add: orderly_endpoint_def no_service_def)

lemma mem_orderly: "orderly (mem_env w)"
  unfolding orderly_def
  by (intro conjI) (auto simp: mem_env_def mem_endpoint_orderly no_service_orderly mem_set_controller_def split: option.split)

definition unborn_world :: world where
  "unborn_world = seed_world\<lparr>w_mariadbs := []\<rparr>"

theorem panics_only_without_origin_witness:
  "call_error (mem_env unborn_world) (CallSync (seeded_instance ''b2'')) [] = Some (Panic ''nil pointer dereference'')
   \<and> originless (mem_env unborn_world) (seeded_instance ''b2'')"
proof -
  have "fst (SyncMariaDB (mem_env unborn_world) (seeded_instance ''b2'') []) = Inl (Panic ''nil pointer dereference'')"
    by code_simp
  then have e: "call_error (mem_env unborn_world) (CallSync (seeded_instance ''b2'')) [] = Some (Panic ''nil pointer dereference'')"
    by (cases "SyncMariaDB (mem_env unborn_world) (seeded_instance ''b2'') []") (simp add: Sync_def)
  from panics_only_without_origin [OF mem_orderly e] e show ?thesis by simp
qed

end
