(* ===== verification/Convergence.thy ===== *)
theory Convergence
  imports Renewal Pitr
begin

section \<open>The schedules of an Instance, as a whole\<close>

text \<open>
  \<open>SyncScheduledBackups\<close> reconciles the schedules one after the other and prunes what is not
  declared. This theory shows what the whole achieves: after a successful call the operator
  objects of the Instance's schedules are the declared ones and no others, and on a server
  that serves its client a bounded number of calls succeeds. The step of one schedule leaves
  the objects of the others alone (the frame of a request), so what it achieved still holds
  at the end.
\<close>

subsection \<open>The frame of a request\<close>

text \<open>The object a request is about. Unstructured objects are of the monitoring kinds.\<close>

fun obj_ref :: "obj \<Rightarrow> (kind \<times> nsname) option" where
  "obj_ref (OMariaDB x) = Some (KMariaDB, meta_key (md_meta x))"
| "obj_ref (OMaxScale x) = Some (KMaxScale, meta_key (mx_meta x))"
| "obj_ref (OBackup x) = Some (KBackup, meta_key (ob_meta x))"
| "obj_ref (OPhysicalBackup x) = Some (KPhysicalBackup, meta_key (pb_meta x))"
| "obj_ref (ORestore x) = Some (KRestore, meta_key (rst_meta x))"
| "obj_ref (OPITR x) = Some (KPITR, meta_key (pi_meta x))"
| "obj_ref (OSecret x) = Some (KSecret, meta_key (se_meta x))"
| "obj_ref (OUnstructured x) = None"

fun touches :: "kind \<Rightarrow> nsname \<Rightarrow> request \<Rightarrow> bool" where
  "touches K k (ReqCreate ob) = (obj_ref ob = Some (K, k))"
| "touches K k (ReqUpdate ob) = (obj_ref ob = Some (K, k))"
| "touches K k (ReqPatch ob) = (obj_ref ob = Some (K, k))"
| "touches K k (ReqDelete K' k') = (K' = K \<and> k' = k)"
| "touches K k (ReqApply K' js) = (K' = K)"
| "touches K k q = False"

text \<open>
  The laws of the server: a request leaves the objects it is not about as they are, and a
  deleted object is gone and stays so until somebody creates it.
\<close>

definition framed :: "kind \<Rightarrow> 'o endpoint \<Rightarrow> bool" where
  "framed K ep \<longleftrightarrow> (\<forall>l q r k. \<not> touches K k q \<longrightarrow> ep_get ep (l @ [(q, r)]) k = ep_get ep l k)"

definition absent :: "'o endpoint \<Rightarrow> log \<Rightarrow> nsname \<Rightarrow> bool" where
  "absent ep l k \<longleftrightarrow> (\<exists>e. ep_get ep l k = Inl e)"

definition deletes_for_good :: "kind \<Rightarrow> 'o endpoint \<Rightarrow> bool" where
  "deletes_for_good K ep \<longleftrightarrow> (\<forall>l k r. r = None \<or> absent ep l k \<longrightarrow> absent ep (l @ [(ReqDelete K k, r)]) k)"

lemma framed_isolated: "framed K ep \<Longrightarrow> isolated K ep"
  unfolding framed_def isolated_def by simp

lemma framed_list:
  assumes "framed K ep" and "list_all (\<lambda>e. \<not> touches K k (fst e)) new"
  shows "ep_get ep (l @ new) k = ep_get ep l k"
  using assms(2)
proof (induction new rule: rev_induct)
  case (snoc e new)
  obtain q r where e: "e = (q, r)" by (cases e)
  with snoc.prems have "\<not> touches K k q" "list_all (\<lambda>e. \<not> touches K k (fst e)) new" by simp_all
  moreover from assms(1) have "\<not> touches K k q \<longrightarrow> ep_get ep ((l @ new) @ [(q, r)]) k = ep_get ep (l @ new) k"
    unfolding framed_def by blast
  ultimately show ?case using snoc.IH e by simp
qed simp

text \<open>A log in which nothing but deletions concerns the object.\<close>

definition only_deleted :: "kind \<Rightarrow> nsname \<Rightarrow> log \<Rightarrow> bool" where
  "only_deleted K k = list_all (\<lambda>e. touches K k (fst e) \<longrightarrow> fst e = ReqDelete K k)"

lemma stays_absent:
  assumes "framed K ep" "deletes_for_good K ep" and "absent ep l k" and "only_deleted K k new"
  shows "absent ep (l @ new) k"
  using assms(4)
proof (induction new rule: rev_induct)
  case Nil
  with assms(3) show ?case by simp
next
  case (snoc e new)
  then have IH: "absent ep (l @ new) k" and e: "touches K k (fst e) \<longrightarrow> fst e = ReqDelete K k"
    by (simp_all add: only_deleted_def)
  show ?case
  proof (cases "touches K k (fst e)")
    case True
    with e obtain r where "e = (ReqDelete K k, r)" by (cases e) auto
    with IH assms(2) have "absent ep ((l @ new) @ [e]) k" unfolding deletes_for_good_def by blast
    then show ?thesis by simp
  next
    case False
    with framed_list [OF assms(1), where new = "[e]" and l = "l @ new"] IH show ?thesis by (simp add: absent_def)
  qed
qed

lemma deleted_absent:
  assumes "framed K ep" "deletes_for_good K ep" and "only_deleted K k new" and "(ReqDelete K k, None) \<in> set new"
  shows "absent ep (l @ new) k"
proof -
  from assms(4) obtain a b where new: "new = a @ (ReqDelete K k, None) # b" by (auto dest: split_list)
  from assms(2) have "absent ep ((l @ a) @ [(ReqDelete K k, None)]) k" unfolding deletes_for_good_def by blast
  from stays_absent [OF assms(1,2) this, of b] assms(3) show ?thesis by (simp add: new only_deleted_def)
qed

subsection \<open>Whose objects a reconciliation is about\<close>

definition about :: "instance_cr \<Rightarrow> string set \<Rightarrow> entry \<Rightarrow> bool" where
  "about c N e \<longleftrightarrow> (\<forall>K k. touches K k (fst e) \<longrightarrow> (\<exists>n \<in> N. k = key_of c n))"

lemma about_simps [simp]:
  "about c N (ReqGet K k, r)" "about c N (ReqStorage n, r)" "about c N (ReqList K sel, r)"
  "about c N (ReqDelete K k, r) \<longleftrightarrow> (\<exists>n \<in> N. k = key_of c n)"
  "about c N (ReqCreate (OBackup b), r) \<longleftrightarrow> (\<exists>n \<in> N. meta_key (ob_meta b) = key_of c n)"
  "about c N (ReqUpdate (OBackup b), r) \<longleftrightarrow> (\<exists>n \<in> N. meta_key (ob_meta b) = key_of c n)"
  "about c N (ReqCreate (OPhysicalBackup pb), r) \<longleftrightarrow> (\<exists>n \<in> N. meta_key (pb_meta pb) = key_of c n)"
  "about c N (ReqUpdate (OPhysicalBackup pb), r) \<longleftrightarrow> (\<exists>n \<in> N. meta_key (pb_meta pb) = key_of c n)"
  by (auto simp: about_def simp del: split_paired_All split_paired_Ex)

lemma about_mono: "about c M e \<Longrightarrow> M \<subseteq> N \<Longrightarrow> about c N e"
  unfolding about_def by blast

lemma key_of_inject [simp]: "key_of c m = key_of c n \<longleftrightarrow> m = n"
  by (simp add: key_of_def)

lemma about_others: "about c N e \<Longrightarrow> k \<notin> key_of c ` N \<Longrightarrow> \<not> touches K k (fst e)"
  unfolding about_def by blast

lemma mutate_keys:
  assumes own: "lawful_owner E"
  shows "yields (\<lambda>y. meta_key (ob_meta y) = meta_key (ob_meta x)) (scheduled_backup_mutate E c mdb st rt ls s ps x)"
    and "yields (\<lambda>y. meta_key (pb_meta y) = meta_key (pb_meta z)) (scheduled_physical_mutate E c mdb st rt ls s ps z)"
  unfolding yields_def
  by (auto simp: scheduled_backup_mutate_def scheduled_physical_mutate_def own_backup_def own_physical_def run_simps Let_def
      applyLogicalBackupParameters_def applyPhysicalBackupParameters_def meta_key_def
      dest!: lawful_ownerD(2) [OF own] split: if_splits)

lemma emits_scheduled_mutate [post_intros]:
  "emits P (scheduled_backup_mutate E c mdb st rt ls s ps x)"
  "emits P (scheduled_physical_mutate E c mdb st rt ls s ps z)"
  unfolding scheduled_backup_mutate_def scheduled_physical_mutate_def Let_def by (intro post_intros)+

lemma emits_delete_other:
  assumes "faithful_endpoint C ep mt"
  shows "emits (about c {n}) (on_get m1 (api_get K ep (key_of c n)) (ret ()) (\<lambda>b. wrap_err m2 (api_delete K ep (meta_key (mt b)))))"
  by (rule emits_on_get_yields [OF _ yields_served]) (auto intro!: post_intros simp: served_key [OF assms])

lemma emits_delete_outdated:
  assumes "faithful_endpoint C ep mt"
  shows "emits (about c {n}) (on_get m1 (api_get K ep (key_of c n)) (ret ())
     (\<lambda>b. if out b then bnd (wrap_err m2 (api_delete K ep (meta_key (mt b)))) (\<lambda>_. fail e) else ret ()))"
  by (rule emits_on_get_yields [OF _ yields_served]) (auto intro!: post_intros simp: served_key [OF assms])

lemma reconcile_about:
  assumes laws: "faithful_endpoint OBackup (e_backups E) ob_meta" "faithful_endpoint OPhysicalBackup (e_physicals E) pb_meta"
    and own: "lawful_owner E"
  shows "emits (about c {n}) (reconcileScheduledBackup E c mdb st s n ps)"
    and "emits (about c {n}) (reconcileScheduledPhysicalBackup E c mdb st s n ps)"
proof -
  have new: "meta_key (ob_meta (new_op_backup (in_namespace c) n)) = key_of c n"
    "meta_key (pb_meta (new_phys_backup (in_namespace c) n)) = key_of c n"
    by (simp_all add: new_op_backup_def new_phys_backup_def empty_meta_def meta_key_def key_of_def)
  have "emits (about c {n}) (create_or_update KBackup OBackup (e_backups E) (key_of c n) (new_op_backup (in_namespace c) n)
      (scheduled_backup_mutate E c mdb b rt ls s ps))" for b rt ls
    by (rule emits_create_or_update_spec [OF _ _ mutate_keys(1) [OF own] _ mutate_keys(1) [OF own]])
       (auto intro!: post_intros simp: new served_key [OF laws(1)])
  then show "emits (about c {n}) (reconcileScheduledBackup E c mdb st s n ps)"
    unfolding reconcileScheduledBackup_def deleteScheduledPhysicalBackup_def
    by (intro emits_bnd emits_wrap_err emits_delete_other [OF laws(2)] emits_delete_outdated [OF laws(1)]) (auto intro!: post_intros)
  have "emits (about c {n}) (create_or_update KPhysicalBackup OPhysicalBackup (e_physicals E) (key_of c n) (new_phys_backup (in_namespace c) n)
      (scheduled_physical_mutate E c mdb b rt ls s ps))" for b rt ls
    by (rule emits_create_or_update_spec [OF _ _ mutate_keys(2) [OF own] _ mutate_keys(2) [OF own]])
       (auto intro!: post_intros simp: new served_key [OF laws(2)])
  then show "emits (about c {n}) (reconcileScheduledPhysicalBackup E c mdb st s n ps)"
    unfolding reconcileScheduledPhysicalBackup_def deleteScheduledBackup_def
    by (intro emits_bnd emits_wrap_err emits_delete_other [OF laws(1)] emits_delete_outdated [OF laws(2)]) (auto intro!: post_intros)
qed

lemma sync_schedules_about:
  assumes laws: "faithful_endpoint OBackup (e_backups E) ob_meta" "faithful_endpoint OPhysicalBackup (e_physicals E) pb_meta"
    "lawful_owner E"
  shows "emits (about c (operator_name c ` set ss)) (sync_schedules E c mdb ss)"
proof (induction ss arbitrary: mdb)
  case Nil
  show ?case unfolding sync_schedules.simps by (rule post_intros)
next
  case (Cons x ss)
  obtain st s where x: "x = (st, s)" by (cases x)
  let ?N = "operator_name c ` set (x # ss)"
  have name: "scheduledBackupName (in_name c) (sc_name s) = operator_name c x" by (simp add: x operator_name_def)
  have head: "emits (about c ?N) (reconcileScheduledBackup E c m st s (operator_name c x) p)"
    "emits (about c ?N) (reconcileScheduledPhysicalBackup E c m st s (operator_name c x) p)" for m p
    by (rule emits_mono [OF reconcile_about(1) [OF laws]] emits_mono [OF reconcile_about(2) [OF laws]]; erule about_mono; simp)+
  have tail: "emits (about c ?N) (sync_schedules E c m ss)" for m
    by (rule emits_mono [OF Cons.IH]) (erule about_mono, auto)
  show ?case
    unfolding x sync_schedules.simps Let_def name [unfolded x] owner_mariadb_def
    using head tail unfolding x
    by (intro post_intros) (auto intro!: post_intros split: option.split)
qed

subsection \<open>A schedule in force\<close>

text \<open>
  A declared schedule is realized: the operator object of its name and strategy is there with
  the S3 block of its storage, a retention derived from it, and its cron and suspension, and
  there is no object of that name of the other strategy.
\<close>

definition realized :: "env \<Rightarrow> instance_cr \<Rightarrow> string \<times> backup_schedule \<Rightarrow> log \<Rightarrow> bool" where
  "realized E c x l \<longleftrightarrow> (\<exists>p cfg l0 now.
     backup_params_of (e_json_error E) (sc_parameters (snd x)) = Inr p \<and> e_storage E l0 (fst x) = Inr (Some cfg) \<and>
     (if isPhysical p then
        absent (e_backups E) l (key_of c (operator_name c x)) \<and>
        (\<exists>b. ep_get (e_physicals E) l (key_of c (operator_name c x)) = Inr b
           \<and> pb_storage b = Some (operatorS3 cfg (in_name c))
           \<and> deriveMaxRetention (e_cron E) now (sc_cron (snd x)) (sc_retention (snd x)) = Inr (pb_retention b)
           \<and> pb_schedule b = Some \<lparr> ps_cron = sc_cron (snd x), ps_suspend = (\<not> sc_enabled (snd x)), ps_immediate = None \<rparr>)
      else
        absent (e_physicals E) l (key_of c (operator_name c x)) \<and>
        (\<exists>b. ep_get (e_backups E) l (key_of c (operator_name c x)) = Inr b
           \<and> ob_storage b = Some (operatorS3 cfg (in_name c))
           \<and> deriveMaxRetention (e_cron E) now (sc_cron (snd x)) (sc_retention (snd x)) = Inr (ob_retention b)
           \<and> ob_schedule b = Some (sc_cron (snd x), \<not> sc_enabled (snd x)) \<and> ob_databases b = bp_databases p)))"

definition content_kept :: "env \<Rightarrow> bool" where
  "content_kept E \<longleftrightarrow>
     keeps_content (e_backups E) (\<lambda>b. (ob_storage b, ob_retention b, ob_schedule b, ob_args b, ob_databases b)) \<and>
     keeps_content (e_physicals E) (\<lambda>b. (pb_storage b, pb_retention b, pb_schedule b))"

text \<open>What the server promises about the operator's two kinds of backup.\<close>

definition lawful_backups :: "env \<Rightarrow> bool" where
  "lawful_backups E \<longleftrightarrow>
     faithful_endpoint OBackup (e_backups E) ob_meta \<and> faithful_endpoint OPhysicalBackup (e_physicals E) pb_meta \<and>
     framed KBackup (e_backups E) \<and> framed KPhysicalBackup (e_physicals E) \<and>
     deletes_for_good KBackup (e_backups E) \<and> deletes_for_good KPhysicalBackup (e_physicals E) \<and>
     content_kept E \<and> lawful_owner E"

lemma lawful_backupsD:
  assumes "lawful_backups E"
  shows "faithful_endpoint OBackup (e_backups E) ob_meta" "faithful_endpoint OPhysicalBackup (e_physicals E) pb_meta"
    and "framed KBackup (e_backups E)" "framed KPhysicalBackup (e_physicals E)"
    and "deletes_for_good KBackup (e_backups E)" "deletes_for_good KPhysicalBackup (e_physicals E)"
    and "keeps_content (e_backups E) (\<lambda>b. (ob_storage b, ob_retention b, ob_schedule b, ob_args b, ob_databases b))"
    and "keeps_content (e_physicals E) (\<lambda>b. (pb_storage b, pb_retention b, pb_schedule b))"
    and "lawful_owner E"
  using assms unfolding lawful_backups_def content_kept_def by blast+

text \<open>After the object of the other strategy was removed it is absent, and stays so.\<close>

lemma deleted_other_absent:
  assumes laws: "faithful_endpoint C ep mt" "deletes_for_good K ep"
    and run: "on_get m1 (api_get K ep k) (ret ()) (\<lambda>b. wrap_err (m2 b) (api_delete K ep (meta_key (mt b)))) l = (Inr u, l')"
  shows "absent ep l' k"
proof (cases "ep_get ep l k")
  case (Inl e)
  with run have "l' = l @ [(ReqGet K k, Some e)]" by (auto simp: run_simps)
  with Inl show ?thesis by (simp add: absent_def get_after_read [OF laws(1)])
next
  case (Inr x)
  with run served_key [OF laws(1) Inr] have "l' = (l @ [(ReqGet K k, None)]) @ [(ReqDelete K k, None)]"
    by (auto simp: run_simps)
  with laws(2) show ?thesis unfolding deletes_for_good_def by blast
qed

text \<open>A computation that makes no request about the objects of a kind.\<close>

abbreviation ignores :: "kind \<Rightarrow> entry \<Rightarrow> bool" where
  "ignores K e \<equiv> (\<forall>k. \<not> touches K k (fst e))"

lemma absent_after:
  assumes "framed K ep" and run: "bnd m f l = (Inr y, l')"
    and gone: "\<And>u l1. m l = (Inr u, l1) \<Longrightarrow> absent ep l1 k" and quiet: "\<And>u. emits (ignores K) (f u)"
  shows "absent ep l' k"
proof -
  from run obtain u l1 where m: "m l = (Inr u, l1)" and f: "f u l1 = (Inr y, l')" by (auto simp: bnd_eq_Inr)
  from emitsD [OF quiet f] obtain new where new: "l' = l1 @ new" "list_all (ignores K) new" by blast
  then have "list_all (\<lambda>e. \<not> touches K k (fst e)) new" by (auto simp: list_all_iff simp del: split_paired_All)
  from framed_list [OF assms(1) this, of l1] gone [OF m] show ?thesis by (simp add: absent_def new(1))
qed

lemma emits_write_rest:
  "emits (ignores KPhysicalBackup) (create_or_update KBackup OBackup (e_backups E) k i (scheduled_backup_mutate E c mdb st rt ls s ps))"
  "emits (ignores KBackup) (create_or_update KPhysicalBackup OPhysicalBackup (e_physicals E) k j (scheduled_physical_mutate E c mdb st rt ls s ps))"
  by (rule emits_create_or_update_spec [OF _ _ yields_true _ yields_true]; auto intro!: post_intros)+

lemma reconcile_clears:
  assumes laws: "lawful_backups E"
  shows "reconcileScheduledBackup E c mdb st s n ps l = (Inr (), l') \<Longrightarrow> absent (e_physicals E) l' (key_of c n)"
    and "reconcileScheduledPhysicalBackup E c mdb st s n ps l = (Inr (), l') \<Longrightarrow> absent (e_backups E) l' (key_of c n)"
proof -
  note law = lawful_backupsD [OF laws]
  assume "reconcileScheduledBackup E c mdb st s n ps l = (Inr (), l')"
  then show "absent (e_physicals E) l' (key_of c n)"
    unfolding reconcileScheduledBackup_def bnd_eq_Inr [of "buildOperatorS3Storage E c st"] bnd_eq_Inr [of "schedule_retention E s"]
    by (elim exE conjE)
       (erule absent_after [OF law(4)], unfold deleteScheduledPhysicalBackup_def,
        erule deleted_other_absent [OF law(2,6)], auto intro!: post_intros emits_write_rest)
next
  note law = lawful_backupsD [OF laws]
  assume "reconcileScheduledPhysicalBackup E c mdb st s n ps l = (Inr (), l')"
  then show "absent (e_backups E) l' (key_of c n)"
    unfolding reconcileScheduledPhysicalBackup_def bnd_eq_Inr [of "buildPhysicalS3Storage E c st"] bnd_eq_Inr [of "schedule_retention E s"]
    by (elim exE conjE)
       (erule absent_after [OF law(3)], unfold deleteScheduledBackup_def,
        erule deleted_other_absent [OF law(1,5)], auto intro!: post_intros emits_write_rest)
qed

lemma realized_cong:
  assumes "ep_get (e_backups E) l' (key_of c (operator_name c x)) = ep_get (e_backups E) l (key_of c (operator_name c x))"
    and "ep_get (e_physicals E) l' (key_of c (operator_name c x)) = ep_get (e_physicals E) l (key_of c (operator_name c x))"
  shows "realized E c x l' = realized E c x l"
  unfolding realized_def absent_def assms ..

text \<open>What one step of the loop achieves, and that the steps of the other schedules keep it.\<close>

lemma logical_realized:
  assumes laws: "lawful_backups E" and p: "backup_params_of (e_json_error E) (sc_parameters s) = Inr p" "\<not> isPhysical p"
    and run: "reconcileScheduledBackup E c mdb st s (operator_name c (st, s)) p l = (Inr (), l')"
  shows "realized E c (st, s) l'"
proof -
  note law = lawful_backupsD [OF laws]
  from scheduled_object [OF law(1,7,9) run] obtain b cfg now
    where "ep_get (e_backups E) l' (key_of c (operator_name c (st, s))) = Inr b" "e_storage E l st = Inr (Some cfg)"
      "deriveMaxRetention (e_cron E) now (sc_cron s) (sc_retention s) = Inr (ob_retention b)"
      "(ob_storage b, ob_schedule b, ob_args b, ob_databases b) = (Some (operatorS3 cfg (in_name c)),
         Some (sc_cron s, \<not> sc_enabled s), [''--flush-privileges''], bp_databases p)" by metis
  with p reconcile_clears(1) [OF laws run] show ?thesis unfolding realized_def by fastforce
qed

lemma physical_realized:
  assumes laws: "lawful_backups E" and p: "backup_params_of (e_json_error E) (sc_parameters s) = Inr p" "isPhysical p"
    and run: "reconcileScheduledPhysicalBackup E c mdb st s (operator_name c (st, s)) p l = (Inr (), l')"
  shows "realized E c (st, s) l'"
proof -
  note law = lawful_backupsD [OF laws]
  from scheduled_physical_object [OF law(2,8,9) run] obtain b cfg now
    where "ep_get (e_physicals E) l' (key_of c (operator_name c (st, s))) = Inr b" "e_storage E l st = Inr (Some cfg)"
      "deriveMaxRetention (e_cron E) now (sc_cron s) (sc_retention s) = Inr (pb_retention b)"
      "(pb_storage b, pb_schedule b) = (Some (operatorS3 cfg (in_name c)),
         Some \<lparr> ps_cron = sc_cron s, ps_suspend = (\<not> sc_enabled s), ps_immediate = None \<rparr>)" by metis
  with p reconcile_clears(2) [OF laws run] show ?thesis unfolding realized_def by fastforce
qed

lemma others_untouched:
  assumes laws: "lawful_backups E" and "list_all (about c N) new" and "k \<notin> key_of c ` N"
  shows "ep_get (e_backups E) (l @ new) k = ep_get (e_backups E) l k"
    and "ep_get (e_physicals E) (l @ new) k = ep_get (e_physicals E) l k"
proof -
  have same: "list_all (\<lambda>e. \<not> touches K k (fst e)) new" for K
    using assms(2) by (rule list.pred_mono_strong) (rule about_others [OF _ assms(3)])
  then show "ep_get (e_backups E) (l @ new) k = ep_get (e_backups E) l k"
    "ep_get (e_physicals E) (l @ new) k = ep_get (e_physicals E) l k"
    by (simp_all add: framed_list [OF lawful_backupsD(3) [OF laws] same] framed_list [OF lawful_backupsD(4) [OF laws] same])
qed

lemma sync_schedules_step:
  assumes "sync_schedules E c mdb ((st, s) # ss) l = (Inr (ls, ps), l')"
  obtains p m l1 l2 ls' ps' where "backup_params_of (e_json_error E) (sc_parameters s) = Inr p"
    and "(case mdb of Some m \<Rightarrow> ret m | None \<Rightarrow> owner_mariadb E c) l = (Inr m, l1)"
    and "if isPhysical p then reconcileScheduledPhysicalBackup E c m st s (operator_name c (st, s)) p l1 = (Inr (), l2)
        else reconcileScheduledBackup E c m st s (operator_name c (st, s)) p l1 = (Inr (), l2)"
    and "sync_schedules E c (Some m) ss l2 = (Inr (ls', ps'), l')"
proof -
  have name: "scheduledBackupName (in_name c) (sc_name s) = operator_name c (st, s)" by (simp add: operator_name_def)
  from assms obtain p m l1 where p: "backup_params_of (e_json_error E) (sc_parameters s) = Inr p"
    and m: "(case mdb of Some m \<Rightarrow> ret m | None \<Rightarrow> owner_mariadb E c) l = (Inr m, l1)"
    and r: "(if isPhysical p then
       bnd (reconcileScheduledPhysicalBackup E c m st s (operator_name c (st, s)) p) (\<lambda>_.
       bnd (sync_schedules E c (Some m) ss) (\<lambda>(ls, ps). ret (ls, operator_name c (st, s) # ps)))
     else
       bnd (reconcileScheduledBackup E c m st s (operator_name c (st, s)) p) (\<lambda>_.
       bnd (sync_schedules E c (Some m) ss) (\<lambda>(ls, ps). ret (operator_name c (st, s) # ls, ps)))) l1 = (Inr (ls, ps), l')"
    unfolding sync_schedules.simps Let_def name bnd_eq_Inr [of "lift _"] bnd_eq_Inr [of "case_option _ _ _"] basic_eq_Inr by blast
  from r that [OF p m] show ?thesis
    by (cases "isPhysical p") (auto simp: bnd_eq_Inr split: prod.splits)
qed

lemma loop_realizes:
  assumes laws: "lawful_backups E"
  shows "sync_schedules E c mdb ss l = (Inr (ls, ps), l') \<Longrightarrow> distinct (map (operator_name c) ss) \<Longrightarrow> \<forall>x \<in> set ss. realized E c x l'"
proof (induction ss arbitrary: mdb l ls ps)
  case (Cons x ss)
  obtain st s where x: "x = (st, s)" by (cases x)
  note law = lawful_backupsD [OF laws]
  from Cons.prems(1) obtain p m l1 l2 ls' ps' where p: "backup_params_of (e_json_error E) (sc_parameters s) = Inr p"
    and step: "if isPhysical p then reconcileScheduledPhysicalBackup E c m st s (operator_name c x) p l1 = (Inr (), l2)
        else reconcileScheduledBackup E c m st s (operator_name c x) p l1 = (Inr (), l2)"
    and rest: "sync_schedules E c (Some m) ss l2 = (Inr (ls', ps'), l')"
    unfolding x by (rule sync_schedules_step)
  from p step have "realized E c x l2"
    unfolding x by (auto split: if_splits intro: logical_realized [OF laws] physical_realized [OF laws])
  moreover from emitsD [OF sync_schedules_about [OF law(1,2,9)] rest] obtain new
    where "l' = l2 @ new" "list_all (about c (operator_name c ` set ss)) new" by blast
  moreover have "key_of c (operator_name c x) \<notin> key_of c ` operator_name c ` set ss" using Cons.prems(2) by auto
  ultimately have "realized E c x l'"
    using realized_cong [of E l' c x l2] others_untouched [OF laws] by metis
  with Cons.IH [OF rest] Cons.prems(2) show ?case by simp
qed simp

subsection \<open>Pruning leaves what is declared\<close>

text \<open>
  A list answers with every object of the namespace that carries the labels asked for, each
  once and as a read would return it, and with no object without these labels.
\<close>

definition selected :: "labels \<Rightarrow> meta \<Rightarrow> bool" where
  "selected sel m \<longleftrightarrow> (\<forall>(a, b) \<in> set sel. map_of (m_labels m) a = Some b)"

definition lists :: "string \<Rightarrow> 'o endpoint \<Rightarrow> ('o \<Rightarrow> meta) \<Rightarrow> bool" where
  "lists ns ep mt \<longleftrightarrow> (\<forall>l sel xs. ep_list ep l sel = Inr xs \<longrightarrow>
     distinct (map (\<lambda>x. meta_key (mt x)) xs) \<and> (\<forall>x \<in> set xs. ep_get ep l (meta_key (mt x)) = Inr x \<and> selected sel (mt x)) \<and>
     (\<forall>k x. ep_get ep l k = Inr x \<and> fst k = ns \<and> selected sel (mt x) \<longrightarrow> x \<in> set xs))"

lemma listsD:
  assumes "lists ns ep mt" and "ep_list ep l sel = Inr xs"
  shows "distinct (map (\<lambda>x. meta_key (mt x)) xs)" "x \<in> set xs \<Longrightarrow> ep_get ep l (meta_key (mt x)) = Inr x"
    and "ep_get ep l k = Inr x \<Longrightarrow> fst k = ns \<Longrightarrow> selected sel (mt x) \<Longrightarrow> x \<in> set xs"
    and "x \<in> set xs \<Longrightarrow> selected sel (mt x)"
  using assms unfolding lists_def by blast+

text \<open>What the two pruning functions share.\<close>

definition prune :: "string \<Rightarrow> ('o \<Rightarrow> string) \<Rightarrow> kind \<Rightarrow> 'o endpoint \<Rightarrow> ('o \<Rightarrow> meta) \<Rightarrow> labels \<Rightarrow> string set \<Rightarrow> unit go" where
  "prune m1 m2 K ep mt sel names =
     bnd (wrap_err m1 (api_list K ep sel)) (\<lambda>items.
     for_each (\<lambda>item.
        if map_of (m_labels (mt item)) scheduleLabel = None then ret ()
        else if m_name (mt item) \<in> names then ret ()
        else wrap_err (m2 item) (api_delete K ep (meta_key (mt item)))) items)"

lemma prune_eq:
  "pruneScheduledBackups E c ns = prune ''list scheduled backups'' (\<lambda>i. ''delete stale scheduled backup '' @ quote (m_name (ob_meta i)))
     KBackup (e_backups E) ob_meta [(instanceLabel, in_name c)] (set ns)"
  "pruneScheduledPhysicalBackups E c ns = prune ''list scheduled physical backups''
     (\<lambda>i. ''delete stale scheduled physical backup '' @ quote (m_name (pb_meta i)))
     KPhysicalBackup (e_physicals E) pb_meta [(instanceLabel, in_name c)] (set ns)"
  unfolding pruneScheduledBackups_def pruneScheduledPhysicalBackups_def prune_def by (rule refl)+

definition stale :: "string set \<Rightarrow> meta \<Rightarrow> bool" where
  "stale names m \<longleftrightarrow> map_of (m_labels m) scheduleLabel \<noteq> None \<and> m_name m \<notin> names"

lemma prune_run:
  assumes "prune m1 m2 K ep mt sel names l = (Inr (), l')"
  obtains items where "ep_list ep l sel = Inr items"
    and "l' = l @ (ReqList K sel, None) # map (\<lambda>i. (ReqDelete K (meta_key (mt i)), None)) (filter (\<lambda>i. stale names (mt i)) items)"
proof -
  have loop: "for_each (\<lambda>item. if map_of (m_labels (mt item)) scheduleLabel = None then ret ()
        else if m_name (mt item) \<in> names then ret ()
        else wrap_err (m2 item) (api_delete K ep (meta_key (mt item)))) items l1 = (Inr (), l') \<Longrightarrow>
      l' = l1 @ map (\<lambda>i. (ReqDelete K (meta_key (mt i)), None)) (filter (\<lambda>i. stale names (mt i)) items)" for items l1
  proof (induction items arbitrary: l1)
    case (Cons a items)
    from Cons.prems show ?case by (auto simp: run_simps stale_def split: if_splits dest!: Cons.IH)
  qed simp
  from assms show ?thesis
    unfolding prune_def by (auto simp: bnd_eq_Inr wrap_err_eq_Inr api_run intro: that dest!: loop)
qed

lemma meta_key_name: "snd (meta_key m) = m_name m"
  by (simp add: meta_key_def)

lemma prune_keeps:
  assumes run: "prune m1 m2 K ep mt sel names l = (Inr (), l')"
  shows "framed K ep \<Longrightarrow> snd k \<in> names \<Longrightarrow> ep_get ep l' k = ep_get ep l k"
    and "framed K ep \<Longrightarrow> deletes_for_good K ep \<Longrightarrow> absent ep l k \<Longrightarrow> absent ep l' k"
    and "framed K' ep' \<Longrightarrow> K' \<noteq> K \<Longrightarrow> ep_get ep' l' k = ep_get ep' l k"
proof -
  from run obtain items where l': "l' = l @ (ReqList K sel, None) #
      map (\<lambda>i. (ReqDelete K (meta_key (mt i)), None)) (filter (\<lambda>i. stale names (mt i)) items)" by (rule prune_run)
  show "ep_get ep l' k = ep_get ep l k" if "framed K ep" "snd k \<in> names"
    unfolding l' using that(2) by (intro framed_list [OF that(1)]) (auto simp: list_all_iff stale_def meta_key_name [symmetric])
  show "absent ep l' k" if "framed K ep" "deletes_for_good K ep" "absent ep l k"
    unfolding l' by (intro stays_absent [OF that]) (auto simp: only_deleted_def list_all_iff)
  show "ep_get ep' l' k = ep_get ep' l k" if "framed K' ep'" "K' \<noteq> K"
    unfolding l' using that(2) by (intro framed_list [OF that(1)]) (auto simp: list_all_iff)
qed

lemma prune_spares:
  assumes laws: "framed K ep" "lists ns ep mt" and run: "prune m1 m2 K ep mt sel names l = (Inr (), l')"
    and x: "ep_get ep l k = Inr x" "\<not> (selected sel (mt x) \<and> map_of (m_labels (mt x)) scheduleLabel \<noteq> None)"
  shows "ep_get ep l' k = Inr x"
proof -
  from run obtain items where items: "ep_list ep l sel = Inr items"
    and l': "l' = l @ (ReqList K sel, None) #
      map (\<lambda>i. (ReqDelete K (meta_key (mt i)), None)) (filter (\<lambda>i. stale names (mt i)) items)" by (rule prune_run)
  have "meta_key (mt i) \<noteq> k" if "i \<in> set items" "stale names (mt i)" for i
    using listsD(2,4) [OF laws(2) items that(1)] that(2) x by (auto simp: stale_def)
  then have "ep_get ep l' k = ep_get ep l k"
    unfolding l' by (intro framed_list [OF laws(1)]) (auto simp: list_all_iff)
  with x(1) show ?thesis by simp
qed

lemma prune_complete:
  assumes laws: "faithful_endpoint C ep mt" "framed K ep" "deletes_for_good K ep" "lists ns ep mt"
    and run: "prune m1 m2 K ep mt sel names l = (Inr (), l')"
    and x: "ep_get ep l' k = Inr x" "fst k = ns" "selected sel (mt x)" "map_of (m_labels (mt x)) scheduleLabel \<noteq> None"
  shows "snd k \<in> names"
proof (rule ccontr)
  assume unwanted: "snd k \<notin> names"
  from run obtain items where items: "ep_list ep l sel = Inr items"
    and l': "l' = l @ (ReqList K sel, None) #
      map (\<lambda>i. (ReqDelete K (meta_key (mt i)), None)) (filter (\<lambda>i. stale names (mt i)) items)" (is "_ = l @ ?new") by (rule prune_run)
  have key: "meta_key (mt x) = k" by (rule served_key [OF laws(1) x(1)])
  have deleted: "(ReqDelete K k, None) \<notin> set ?new"
  proof
    assume "(ReqDelete K k, None) \<in> set ?new"
    then have "absent ep (l @ ?new) k"
      by (intro deleted_absent [OF laws(2,3)]) (auto simp: only_deleted_def list_all_iff)
    with x(1) show False by (simp add: l' absent_def)
  qed
  then have "list_all (\<lambda>e. \<not> touches K k (fst e)) ?new" by (auto simp: list_all_iff)
  from framed_list [OF laws(2) this, of l] x(1) have "ep_get ep l k = Inr x" by (simp add: l')
  from listsD(3) [OF laws(4) items this x(2,3)] have "x \<in> set items" .
  moreover have "stale names (mt x)" using unwanted x(4) by (simp add: stale_def key [symmetric] meta_key_name)
  ultimately have "(ReqDelete K k, None) \<in> set ?new" using key by auto
  with deleted show False ..
qed

subsection \<open>A successful call\<close>

definition schedules_of :: "instance_cr \<Rightarrow> (string \<times> backup_schedule) list" where
  "schedules_of c = (case enabled_backup c of Some cfg \<Rightarrow> declared_schedules cfg | None \<Rightarrow> [])"

lemma SyncScheduledBackups_loop:
  "SyncScheduledBackups E c = bnd (sync_schedules E c None (schedules_of c)) (\<lambda>(ls, ps).
     bnd (pruneScheduledBackups E c ls) (\<lambda>_. pruneScheduledPhysicalBackups E c ps))"
  by (simp add: SyncScheduledBackups_def schedules_of_def split: option.split)

definition physical_schedule :: "env \<Rightarrow> string \<times> backup_schedule \<Rightarrow> bool" where
  "physical_schedule E x \<longleftrightarrow> (\<exists>p. backup_params_of (e_json_error E) (sc_parameters (snd x)) = Inr p \<and> isPhysical p)"

text \<open>An object that carries the Instance's label and a schedule label.\<close>

definition schedule_object :: "instance_cr \<Rightarrow> meta \<Rightarrow> bool" where
  "schedule_object c m \<longleftrightarrow> selected [(instanceLabel, in_name c)] m \<and> map_of (m_labels m) scheduleLabel \<noteq> None"

lemma realized_through:
  assumes laws: "lawful_backups E" and x: "realized E c x l1" and names: "operator_name c x \<in> (if physical_schedule E x then P else L)"
    and prune: "prune m1 m2 KBackup (e_backups E) ob_meta sel L l1 = (Inr u, l2)"
      "prune m3 m4 KPhysicalBackup (e_physicals E) pb_meta sel' P l2 = (Inr v, l3)"
  shows "realized E c x l3"
proof -
  note law = lawful_backupsD [OF laws]
  let ?k = "key_of c (operator_name c x)"
  have u: "u = ()" "v = ()" by simp_all
  note keep1 = prune_keeps [OF prune(1) [unfolded u]] and keep2 = prune_keeps [OF prune(2) [unfolded u]]
  have across: "ep_get (e_backups E) l3 ?k = ep_get (e_backups E) l2 ?k" "ep_get (e_physicals E) l2 ?k = ep_get (e_physicals E) l1 ?k"
    by (rule keep2(3) [OF law(3)] keep1(3) [OF law(4)], simp)+
  have gone: "absent (e_backups E) l1 ?k \<Longrightarrow> absent (e_backups E) l3 ?k" "absent (e_physicals E) l1 ?k \<Longrightarrow> absent (e_physicals E) l3 ?k"
    using keep1(2) [OF law(3,5)] keep2(2) [OF law(4,6)] across by (simp_all add: absent_def)
  show ?thesis
  proof (cases "physical_schedule E x")
    case True
    with names have "ep_get (e_physicals E) l3 ?k = ep_get (e_physicals E) l1 ?k"
      using keep2(1) [OF law(4), of ?k] across by (simp add: key_of_def)
    with x True gone show ?thesis unfolding realized_def physical_schedule_def by fastforce
  next
    case False
    with names have "ep_get (e_backups E) l3 ?k = ep_get (e_backups E) l1 ?k"
      using keep1(1) [OF law(3), of ?k] across by (simp add: key_of_def)
    with x False gone show ?thesis unfolding realized_def physical_schedule_def by fastforce
  qed
qed

lemma loop_names:
  assumes laws: "lawful_backups E" and loop: "sync_schedules E c mdb ss l = (Inr (ls, ps), l1)"
    and distinct: "distinct (map (operator_name c) ss)"
  shows "set ls = operator_name c ` {x \<in> set ss. \<not> physical_schedule E x}"
    and "set ps = operator_name c ` {x \<in> set ss. physical_schedule E x}"
proof -
  from sync_schedules_run [OF lawful_backupsD(1,2) [OF laws] loop] distinct
  have all: "set ls \<union> set ps = operator_name c ` set ss" "set ls \<inter> set ps = {}"
    and each: "\<forall>x \<in> set ss. operator_name c x \<in> set (if physical_schedule E x then ps else ls)"
    by (auto simp: physical_schedule_def)
  from all each show "set ls = operator_name c ` {x \<in> set ss. \<not> physical_schedule E x}"
    "set ps = operator_name c ` {x \<in> set ss. physical_schedule E x}" by (fastforce split: if_splits)+
qed

text \<open>
  C14: A successful reconciliation of the schedules makes the operator's objects those of the
  declared schedules and no others. Every declared schedule is realized: the object of its
  name and strategy has the S3 block of its storage, a retention derived from it, its cron and
  suspension, and none of the other strategy is left; and every operator Backup or
  PhysicalBackup in the namespace that carries the Instance's label and a schedule label
  belongs to a declared schedule of that strategy. An object under another key that does not
  carry both labels (an on-demand backup, the base of point-in-time recovery, an object of
  another Instance) is left as it was.
\<close>

theorem schedules_realized:
  assumes laws: "lawful_backups E" "lists (in_namespace c) (e_backups E) ob_meta" "lists (in_namespace c) (e_physicals E) pb_meta"
    and distinct: "distinct (map (operator_name c) (schedules_of c))"
    and run: "SyncScheduledBackups E c l = (Inr (), l')"
  shows "(\<forall>x \<in> set (schedules_of c). realized E c x l')
     \<and> (\<forall>k b. ep_get (e_backups E) l' k = Inr b \<and> fst k = in_namespace c \<and> schedule_object c (ob_meta b) \<longrightarrow>
          (\<exists>x \<in> set (schedules_of c). \<not> physical_schedule E x \<and> k = key_of c (operator_name c x)))
     \<and> (\<forall>k b. ep_get (e_physicals E) l' k = Inr b \<and> fst k = in_namespace c \<and> schedule_object c (pb_meta b) \<longrightarrow>
          (\<exists>x \<in> set (schedules_of c). physical_schedule E x \<and> k = key_of c (operator_name c x)))
     \<and> (\<forall>k. k \<notin> key_of c ` operator_name c ` set (schedules_of c) \<longrightarrow>
          (\<forall>b. ep_get (e_backups E) l k = Inr b \<and> \<not> schedule_object c (ob_meta b) \<longrightarrow> ep_get (e_backups E) l' k = Inr b) \<and>
          (\<forall>b. ep_get (e_physicals E) l k = Inr b \<and> \<not> schedule_object c (pb_meta b) \<longrightarrow> ep_get (e_physicals E) l' k = Inr b))"
proof (intro conjI ballI allI impI)
  note law = lawful_backupsD [OF laws(1)]
  from run obtain ls ps l1 l2 where loop: "sync_schedules E c None (schedules_of c) l = (Inr (ls, ps), l1)"
    and prune: "pruneScheduledBackups E c ls l1 = (Inr (), l2)" "pruneScheduledPhysicalBackups E c ps l2 = (Inr (), l')"
    by (auto simp: SyncScheduledBackups_loop bnd_eq_Inr)
  note prune = prune [unfolded prune_eq]
  note names = loop_names [OF laws(1) loop distinct]
  from emitsD [OF sync_schedules_about [OF law(1,2,9)] loop] obtain new
    where new: "l1 = l @ new" "list_all (about c (operator_name c ` set (schedules_of c))) new" by blast
  have loop_spares: "ep_get (e_backups E) l1 k = ep_get (e_backups E) l k" "ep_get (e_physicals E) l1 k = ep_get (e_physicals E) l k"
    if "k \<notin> key_of c ` operator_name c ` set (schedules_of c)" for k
    unfolding new(1) by (rule others_untouched [OF laws(1) new(2) that])+
  show "ep_get (e_backups E) l' k = Inr b" if "k \<notin> key_of c ` operator_name c ` set (schedules_of c)"
      "ep_get (e_backups E) l k = Inr b \<and> \<not> schedule_object c (ob_meta b)" for k b
    using that prune_spares [OF law(3) laws(2) prune(1), of k b] prune_keeps(3) [OF prune(2) law(3), of k] loop_spares(1)
    by (auto simp: schedule_object_def)
  show "ep_get (e_physicals E) l' k = Inr b" if "k \<notin> key_of c ` operator_name c ` set (schedules_of c)"
      "ep_get (e_physicals E) l k = Inr b \<and> \<not> schedule_object c (pb_meta b)" for k b
    using that prune_spares [OF law(4) laws(3) prune(2), of k b] prune_keeps(3) [OF prune(1) law(4), of k] loop_spares(2)
    by (auto simp: schedule_object_def)
  show "realized E c x l'" if "x \<in> set (schedules_of c)" for x
    using that loop_realizes [OF laws(1) loop distinct] names by (intro realized_through [OF laws(1) _ _ prune]) auto
  show "\<exists>x \<in> set (schedules_of c). physical_schedule E x \<and> k = key_of c (operator_name c x)"
    if "ep_get (e_physicals E) l' k = Inr b \<and> fst k = in_namespace c \<and> schedule_object c (pb_meta b)" for k b
    using that prune_complete [OF law(2,4,6) laws(3) prune(2), of k b] names(2)
    by (auto simp: schedule_object_def key_of_def prod_eq_iff)
  show "\<exists>x \<in> set (schedules_of c). \<not> physical_schedule E x \<and> k = key_of c (operator_name c x)"
    if "ep_get (e_backups E) l' k = Inr b \<and> fst k = in_namespace c \<and> schedule_object c (ob_meta b)" for k b
    using that prune_complete [OF law(1,3,5) laws(2) prune(1), of k b] names(1) prune_keeps(3) [OF prune(2) law(3), of k]
    by (auto simp: schedule_object_def key_of_def prod_eq_iff)
qed

subsection \<open>A server that serves its client, and storages that do not change\<close>

definition serving :: "env \<Rightarrow> instance_cr \<Rightarrow> bool" where
  "serving E c \<longleftrightarrow>
     lawful_backups E \<and> obliging KBackup (e_backups E) ob_meta \<and> obliging KPhysicalBackup (e_physicals E) pb_meta \<and>
     lists (in_namespace c) (e_backups E) ob_meta \<and> lists (in_namespace c) (e_physicals E) pb_meta \<and>
     (\<forall>l sel. \<exists>xs. ep_list (e_backups E) l sel = Inr xs) \<and> (\<forall>l sel. \<exists>xs. ep_list (e_physicals E) l sel = Inr xs) \<and>
     (\<forall>l. \<exists>m. ep_get (e_mariadbs E) l (key_of c (in_name c)) = Inr m) \<and> (\<forall>r m. \<exists>m'. e_set_controller E r m = Inr m')"

lemma servingD:
  assumes "serving E c"
  shows "lawful_backups E" "obliging KBackup (e_backups E) ob_meta" "obliging KPhysicalBackup (e_physicals E) pb_meta"
    and "lists (in_namespace c) (e_backups E) ob_meta" "lists (in_namespace c) (e_physicals E) pb_meta"
    and "\<exists>xs. ep_list (e_backups E) l sel = Inr xs" "\<exists>xs. ep_list (e_physicals E) l sel = Inr xs"
    and "\<exists>m. ep_get (e_mariadbs E) l (key_of c (in_name c)) = Inr m" "\<exists>m'. e_set_controller E r m = Inr m'"
  using assms unfolding serving_def by blast+

text \<open>The parameters decode, the storages resolve and the retention is derived, each to one value.\<close>

definition steady :: "env \<Rightarrow> (string \<Rightarrow> s3_config) \<Rightarrow> (string \<times> backup_schedule \<Rightarrow> i64) \<Rightarrow> string \<times> backup_schedule \<Rightarrow> bool" where
  "steady E cfg rt x \<longleftrightarrow> (\<exists>p. backup_params_of (e_json_error E) (sc_parameters (snd x)) = Inr p) \<and>
     (\<forall>l. e_storage E l (fst x) = Inr (Some (cfg (fst x)))) \<and>
     (\<forall>now. deriveMaxRetention (e_cron E) now (sc_cron (snd x)) (sc_retention (snd x)) = Inr (rt x))"

text \<open>The object of the schedule is there with other immutable values.\<close>

definition outdated :: "env \<Rightarrow> instance_cr \<Rightarrow> (string \<Rightarrow> s3_config) \<Rightarrow> (string \<times> backup_schedule \<Rightarrow> i64) \<Rightarrow> log \<Rightarrow> string \<times> backup_schedule \<Rightarrow> bool" where
  "outdated E c cfg rt l x \<longleftrightarrow>
     (if physical_schedule E x
      then \<exists>b. ep_get (e_physicals E) l (key_of c (operator_name c x)) = Inr b \<and> pb_storage b \<noteq> Some (operatorS3 (cfg (fst x)) (in_name c))
      else \<exists>b. ep_get (e_backups E) l (key_of c (operator_name c x)) = Inr b
        \<and> (ob_storage b \<noteq> Some (operatorS3 (cfg (fst x)) (in_name c)) \<or> ob_retention b \<noteq> rt x))"

lemma realized_not_outdated:
  assumes "realized E c x l" and steady: "steady E cfg rt x"
  shows "\<not> outdated E c cfg rt l x"
proof -
  have cfg: "e_storage E l0 (fst x) = Inr (Some cfg') \<Longrightarrow> cfg' = cfg (fst x)" for l0 cfg'
    using steady by (simp add: steady_def)
  have rt: "deriveMaxRetention (e_cron E) now (sc_cron (snd x)) (sc_retention (snd x)) = Inr r \<Longrightarrow> r = rt x" for now r
    using steady by (simp add: steady_def)
  from steady obtain p where p: "backup_params_of (e_json_error E) (sc_parameters (snd x)) = Inr p" by (auto simp: steady_def)
  show ?thesis
    using assms(1) by (cases "isPhysical p") (auto simp: realized_def outdated_def physical_schedule_def p dest!: cfg rt)
qed

lemma outdated_cong:
  assumes "ep_get (e_backups E) l' (key_of c (operator_name c x)) = ep_get (e_backups E) l (key_of c (operator_name c x))"
    and "ep_get (e_physicals E) l' (key_of c (operator_name c x)) = ep_get (e_physicals E) l (key_of c (operator_name c x))"
  shows "outdated E c cfg rt l' x = outdated E c cfg rt l x"
  unfolding outdated_def assms ..

text \<open>One step of the loop: it succeeds, or it deletes the outdated object of its schedule and waits.\<close>

definition schedule_step :: "env \<Rightarrow> instance_cr \<Rightarrow> mariadb \<Rightarrow> string \<times> backup_schedule \<Rightarrow> backup_params \<Rightarrow> unit go" where
  "schedule_step E c m x p =
     (if isPhysical p then reconcileScheduledPhysicalBackup E c m (fst x) (snd x) (operator_name c x) p
      else reconcileScheduledBackup E c m (fst x) (snd x) (operator_name c x) p)"

lemma step_renews:
  assumes serving: "serving E c" and steady: "steady E cfg rt x" and backup: "in_backup c \<noteq> None"
    and p: "backup_params_of (e_json_error E) (sc_parameters (snd x)) = Inr p"
    and run: "schedule_step E c m x p l = (r, l')"
  shows "r = Inr () \<or> (\<exists>w. r = Inl (WaitFor w)) \<and> outdated E c cfg rt l x \<and> \<not> outdated E c cfg rt l' x"
proof -
  note law = lawful_backupsD [OF servingD(1) [OF serving]] and obl = servingD(2,3) [OF serving]
  note iso = framed_isolated [OF law(3)] framed_isolated [OF law(4)]
  have storage: "\<exists>cfg. e_storage E l (fst x) = Inr (Some cfg)" for l using steady by (auto simp: steady_def)
  have retention: "\<exists>rt. deriveMaxRetention (e_cron E) now (sc_cron (snd x)) (sc_retention (snd x)) = Inr rt" for now
    using steady by (auto simp: steady_def)
  have ph: "physical_schedule E x \<longleftrightarrow> isPhysical p" by (simp add: physical_schedule_def p)
  show ?thesis
  proof (cases "isPhysical p")
    case True
    obtain cfg' where st: "e_storage E l (fst x) = Inr (Some cfg')"
      and ren: "renewed (\<lambda>b. pb_storage b \<noteq> Some (operatorS3 cfg' (in_name c))) (schedule_step E c m x p)
        (\<lambda>l. ep_get (e_physicals E) l (key_of c (operator_name c x))) l"
      using scheduled_physical_renewed [OF law(2) obl(2) iso(2) law(1) obl(1) law(9) storage retention servingD(9) [OF serving] backup] True
      unfolding schedule_step_def by (auto simp: if_True) blast
    from st steady have "cfg' = cfg (fst x)" by (simp add: steady_def)
    with ren run True show ?thesis by (auto simp: renewed_def outdated_def ph split: if_splits)
  next
    case False
    obtain cfg' rt' where st: "e_storage E l (fst x) = Inr (Some cfg')"
      and rt: "deriveMaxRetention (e_cron E) (e_now E (l @ [(ReqStorage (fst x), None)])) (sc_cron (snd x)) (sc_retention (snd x)) = Inr rt'"
      and ren: "renewed (\<lambda>b. ob_storage b \<noteq> Some (operatorS3 cfg' (in_name c)) \<or> ob_retention b \<noteq> rt') (schedule_step E c m x p)
        (\<lambda>l. ep_get (e_backups E) l (key_of c (operator_name c x))) l"
      using scheduled_backup_renewed [OF law(1) obl(1) iso(1) law(2) obl(2) law(9) storage retention servingD(9) [OF serving] backup] False
      unfolding schedule_step_def by (auto simp: if_False) blast
    from st rt steady have "cfg' = cfg (fst x)" "rt' = rt x" by (simp_all add: steady_def)
    with ren run False show ?thesis by (auto simp: renewed_def outdated_def ph split: if_splits)
  qed
qed

lemma step_about:
  assumes "lawful_backups E"
  shows "emits (about c {operator_name c x}) (schedule_step E c m x p)"
  unfolding schedule_step_def using reconcile_about [OF lawful_backupsD(1,2,9) [OF assms]] by simp

lemma sync_schedules_head:
  assumes p: "backup_params_of (e_json_error E) (sc_parameters (snd x)) = Inr p"
    and m: "(case mdb of Some m \<Rightarrow> ret m | None \<Rightarrow> owner_mariadb E c) l = (Inr m, l1)"
    and step: "schedule_step E c m x p l1 = (r, l2)"
  shows "r = Inl e \<Longrightarrow> sync_schedules E c mdb (x # ss) l = (Inl e, l2)"
    and "r = Inr () \<Longrightarrow> \<exists>f. sync_schedules E c mdb (x # ss) l = bnd (sync_schedules E c (Some m) ss) (\<lambda>y. ret (f y)) l2"
proof -
  obtain st s where x: "x = (st, s)" by (cases x)
  have name: "scheduledBackupName (in_name c) (sc_name s) = operator_name c (st, s)" by (simp add: operator_name_def)
  have params: "bnd (lift (backup_params_of (e_json_error E) (sc_parameters s))) k l = k p l" for k :: "backup_params \<Rightarrow> (string list \<times> string list) go"
    using p by (simp add: x bnd_lift_Inr)
  have go: "sync_schedules E c mdb (x # ss) l = (if isPhysical p then
       bnd (schedule_step E c m x p) (\<lambda>_. bnd (sync_schedules E c (Some m) ss) (\<lambda>(ls, ps). ret (ls, operator_name c x # ps)))
     else
       bnd (schedule_step E c m x p) (\<lambda>_. bnd (sync_schedules E c (Some m) ss) (\<lambda>(ls, ps). ret (operator_name c x # ls, ps)))) l1"
    unfolding x sync_schedules.simps Let_def name params bnd_Inr [where m = "case_option _ _ _", OF m] schedule_step_def by simp
  show "sync_schedules E c mdb (x # ss) l = (Inl e, l2)" if "r = Inl e"
    using step that unfolding go by (cases "isPhysical p") simp_all
  show "\<exists>f. sync_schedules E c mdb (x # ss) l = bnd (sync_schedules E c (Some m) ss) (\<lambda>y. ret (f y)) l2" if "r = Inr ()"
    using step that unfolding go
    by (intro exI [of _ "\<lambda>(ls, ps). if isPhysical p then (ls, operator_name c x # ps) else (operator_name c x # ls, ps)"])
       (simp add: case_prod_unfold)
qed

lemma step_realizes:
  assumes "lawful_backups E" and "backup_params_of (e_json_error E) (sc_parameters (snd x)) = Inr p"
    and "schedule_step E c m x p l = (Inr (), l')"
  shows "realized E c x l'"
  using assms logical_realized [of E "snd x" p c m "fst x" l l'] physical_realized [of E "snd x" p c m "fst x" l l']
  by (cases "isPhysical p") (simp_all add: schedule_step_def)

text \<open>
  The loop ends well, or it waits after one outdated object was deleted; it never makes
  another schedule's object outdated.
\<close>

lemma loop_progress:
  assumes serving: "serving E c" and backup: "in_backup c \<noteq> None"
  shows "(\<And>x. x \<in> set ss \<Longrightarrow> steady E cfg rt x) \<Longrightarrow> distinct (map (operator_name c) ss) \<Longrightarrow>
     (\<exists>y. fst (sync_schedules E c mdb ss l) = Inr y)
     \<or> (\<exists>w. fst (sync_schedules E c mdb ss l) = Inl (WaitFor w))
       \<and> {x \<in> set ss. outdated E c cfg rt (snd (sync_schedules E c mdb ss l)) x} \<subset> {x \<in> set ss. outdated E c cfg rt l x}"
proof (induction ss arbitrary: mdb l)
  case (Cons x ss)
  note lawful = servingD(1) [OF serving]
  let ?out = "outdated E c cfg rt" and ?k = "key_of c ` operator_name c ` set ss"
  from Cons.prems(1) obtain p where p: "backup_params_of (e_json_error E) (sc_parameters (snd x)) = Inr p" by (fastforce simp: steady_def)
  have away: "key_of c (operator_name c x) \<notin> ?k" using Cons.prems(2) by auto
  obtain m l1 where m: "(case mdb of Some m \<Rightarrow> ret m | None \<Rightarrow> owner_mariadb E c) l = (Inr m, l1)"
    and same: "\<And>y. ?out l1 y = ?out l y"
  proof (cases mdb)
    case (Some m)
    then show ?thesis by (intro that [of m l]) simp_all
  next
    case None
    from servingD(8) [OF serving] obtain m where m: "ep_get (e_mariadbs E) l (key_of c (in_name c)) = Inr m" by blast
    have "?out (l @ [(ReqGet KMariaDB (key_of c (in_name c)), None)]) y = ?out l y" for y
      by (rule outdated_cong) (simp_all add: get_after_read [OF lawful_backupsD(1) [OF lawful]] get_after_read [OF lawful_backupsD(2) [OF lawful]])
    with None m show ?thesis
      by (intro that [of m "l @ [(ReqGet KMariaDB (key_of c (in_name c)), None)]"]) (simp_all add: owner_mariadb_def on_get_def attempt_def api_get_def request_def)
  qed
  obtain r l2 where step: "schedule_step E c m x p l1 = (r, l2)" by fastforce
  from emitsD [OF step_about [OF lawful] step] obtain n1 where n1: "l2 = l1 @ n1" "list_all (about c {operator_name c x}) n1" by blast
  have others: "?out l2 y = ?out l1 y" if "y \<in> set ss" for y
  proof -
    have "key_of c (operator_name c y) \<notin> key_of c ` {operator_name c x}" using that away by (metis image_eqI image_insert image_empty singletonD)
    then show ?thesis unfolding n1(1) by (intro outdated_cong others_untouched [OF lawful n1(2)])
  qed
  from step_renews [OF serving Cons.prems(1) backup p step]
  consider (ok) "r = Inr ()" | (wait) w where "r = Inl (WaitFor w)" "?out l1 x" "\<not> ?out l2 x" by auto
  then show ?case
  proof cases
    case wait
    from sync_schedules_head(1) [OF p m step wait(1)] have run: "sync_schedules E c mdb (x # ss) l = (Inl (WaitFor w), l2)" .
    from wait(2,3) others same have "{y \<in> set (x # ss). ?out l2 y} \<subset> {y \<in> set (x # ss). ?out l y}" by auto
    with run show ?thesis by simp
  next
    case ok
    from sync_schedules_head(2) [OF p m step ok] obtain f
      where run: "sync_schedules E c mdb (x # ss) l = bnd (sync_schedules E c (Some m) ss) (\<lambda>y. ret (f y)) l2" by blast
    obtain r' l' where rest: "sync_schedules E c (Some m) ss l2 = (r', l')" by fastforce
    show ?thesis
    proof (cases r')
      case (Inr y)
      with rest run show ?thesis by simp
    next
      case (Inl e)
      from emitsD [OF sync_schedules_about [OF lawful_backupsD(1,2,9) [OF lawful]] rest] obtain n2
        where n2: "l' = l2 @ n2" "list_all (about c (operator_name c ` set ss)) n2" by blast
      have x: "?out l' x = ?out l2 x"
        unfolding n2(1) by (intro outdated_cong others_untouched [OF lawful n2(2) away])
      have "{y \<in> set ss. ?out l' y} \<subset> {y \<in> set ss. ?out l2 y}" and w: "\<exists>w. e = WaitFor w"
        using Cons.IH [of "Some m" l2] Cons.prems rest Inl by auto
      moreover have "\<not> ?out l2 x"
        using step_realizes [OF lawful p step [unfolded ok]] Cons.prems(1) by (intro realized_not_outdated) simp_all
      ultimately have "{y \<in> set (x # ss). ?out l' y} \<subset> {y \<in> set (x # ss). ?out l y}"
        using others same x by auto
      with run rest Inl w show ?thesis by auto
    qed
  qed
qed simp

lemma prune_succeeds:
  assumes laws: "framed K ep" "obliging K ep mt" "lists ns ep mt" and list: "\<And>l sel. \<exists>xs. ep_list ep l sel = Inr xs"
  shows "\<exists>l'. prune m1 m2 K ep mt sel names l = (Inr (), l')"
proof -
  let ?f = "\<lambda>item. if map_of (m_labels (mt item)) scheduleLabel = None then ret ()
        else if m_name (mt item) \<in> names then ret ()
        else wrap_err (m2 item) (api_delete K ep (meta_key (mt item)))"
  have loop: "distinct (map (\<lambda>x. meta_key (mt x)) items) \<Longrightarrow> \<forall>x \<in> set items. ep_get ep l (meta_key (mt x)) = Inr x \<Longrightarrow>
      \<exists>l'. for_each ?f items l = (Inr (), l')" for items l
  proof (induction items arbitrary: l)
    case (Cons a items)
    show ?case
    proof (cases "stale names (mt a)")
      case False
      with Cons show ?thesis by (auto simp: stale_def)
    next
      case True
      let ?l = "l @ [(ReqDelete K (meta_key (mt a)), None)]"
      from Cons.prems(2) have "ep_delete ep l (meta_key (mt a)) = None" by (intro obligingD(2) [OF laws(2)]) simp
      with True have step: "?f a l = (Inr (), ?l)"
        by (auto simp: stale_def wrap_err_def attempt_def api_delete_def request_def)
      have "ep_get ep ?l (meta_key (mt x)) = Inr x" if "x \<in> set items" for x
        using that Cons.prems by (subst framed_list [OF laws(1)]) (auto dest: imageI [of x _ "\<lambda>x. meta_key (mt x)"])
      with Cons.IH [of ?l] Cons.prems(1) obtain l' where "for_each ?f items ?l = (Inr (), l')" by auto
      then have "for_each ?f (a # items) l = (Inr (), l')"
        unfolding for_each.simps by (simp only: bnd_Inr [where m = "?f a", OF step])
      then show ?thesis ..
    qed
  qed simp
  from list obtain items where items: "ep_list ep l sel = Inr items" by blast
  let ?l = "l @ [(ReqList K sel, None)]"
  have "ep_get ep ?l (meta_key (mt x)) = Inr x" if "x \<in> set items" for x
    using listsD(2) [OF laws(3) items that] by (subst framed_list [OF laws(1)]) simp_all
  with loop [of items ?l] listsD(1) [OF laws(3) items] obtain l' where "for_each ?f items ?l = (Inr (), l')" by auto
  with items show ?thesis
    unfolding prune_def by (simp add: bnd_def attempt_def wrap_err_def api_list_def request_def)
qed

text \<open>What a successful call leaves, for the schedules alone.\<close>

lemma success_realizes:
  assumes laws: "lawful_backups E" and distinct: "distinct (map (operator_name c) (schedules_of c))"
    and run: "SyncScheduledBackups E c l = (Inr (), l')" and x: "x \<in> set (schedules_of c)"
  shows "realized E c x l'"
proof -
  from run obtain ls ps l1 l2 where loop: "sync_schedules E c None (schedules_of c) l = (Inr (ls, ps), l1)"
    and prune: "pruneScheduledBackups E c ls l1 = (Inr (), l2)" "pruneScheduledPhysicalBackups E c ps l2 = (Inr (), l')"
    by (auto simp: SyncScheduledBackups_loop bnd_eq_Inr)
  show ?thesis
    using x loop_realizes [OF laws loop distinct] loop_names [OF laws loop distinct]
    by (intro realized_through [OF laws _ _ prune [unfolded prune_eq]]) auto
qed

lemma call_progress:
  assumes serving: "serving E c" and steady: "\<And>x. x \<in> set (schedules_of c) \<Longrightarrow> steady E cfg rt x"
    and distinct: "distinct (map (operator_name c) (schedules_of c))"
  shows "(\<exists>l'. SyncScheduledBackups E c l = (Inr (), l'))
     \<or> (\<exists>w l'. SyncScheduledBackups E c l = (Inl (WaitFor w), l') \<and>
          {x \<in> set (schedules_of c). outdated E c cfg rt l' x} \<subset> {x \<in> set (schedules_of c). outdated E c cfg rt l x})"
proof -
  note law = lawful_backupsD [OF servingD(1) [OF serving]]
  obtain r l1 where loop: "sync_schedules E c None (schedules_of c) l = (r, l1)" by fastforce
  have "(\<exists>y. r = Inr y) \<or> (\<exists>w. r = Inl (WaitFor w)) \<and>
      {x \<in> set (schedules_of c). outdated E c cfg rt l1 x} \<subset> {x \<in> set (schedules_of c). outdated E c cfg rt l x}"
  proof (cases "schedules_of c = []")
    case True
    with loop show ?thesis by auto
  next
    case False
    then have "in_backup c \<noteq> None" by (auto simp: schedules_of_def enabled_backup_def split: option.splits)
    from loop_progress [where ss = "schedules_of c", OF serving this steady distinct, of None l] loop show ?thesis by auto
  qed
  then show ?thesis
  proof (elim disjE exE conjE)
    fix w
    assume "r = Inl (WaitFor w)" and less: "{x \<in> set (schedules_of c). outdated E c cfg rt l1 x} \<subset> {x \<in> set (schedules_of c). outdated E c cfg rt l x}"
    with loop have "SyncScheduledBackups E c l = (Inl (WaitFor w), l1)" by (simp add: SyncScheduledBackups_loop)
    with less show ?thesis by blast
  next
    fix y
    assume r: "r = Inr y"
    obtain ls ps where y: "y = (ls, ps)" by (cases y)
    obtain l2 where l2: "pruneScheduledBackups E c ls l1 = (Inr (), l2)"
      using prune_succeeds [OF law(3) servingD(2,4,6) [OF serving]] unfolding prune_eq by blast
    obtain l3 where "pruneScheduledPhysicalBackups E c ps l2 = (Inr (), l3)"
      using prune_succeeds [OF law(4) servingD(3,5,7) [OF serving]] unfolding prune_eq by blast
    with l2 loop r y show ?thesis by (simp add: SyncScheduledBackups_loop)
  qed
qed

subsection \<open>Repeated calls\<close>

text \<open>The log after \<open>n\<close> calls.\<close>

definition after :: "(log \<Rightarrow> (err + unit) \<times> log) \<Rightarrow> nat \<Rightarrow> log \<Rightarrow> log" where
  "after run n = ((\<lambda>l. snd (run l)) ^^ n)"

lemma after_Suc: "after run (Suc n) l = after run n (snd (run l))"
  by (simp only: after_def funpow_Suc_right comp_def)

lemma after_0 [simp]: "after run 0 l = l"
  by (simp add: after_def)

lemma settles_eventually:
  assumes step: "\<And>l. fst (run l) = Inr () \<and> bad (snd (run l)) = {} \<or> (\<exists>w. fst (run l) = Inl (WaitFor w)) \<and> bad (snd (run l)) \<subset> bad l"
    and finite: "\<And>l. finite (bad l)"
  shows "\<exists>n \<le> card (bad l). (\<forall>i < n. \<exists>w. fst (run (after run i l)) = Inl (WaitFor w)) \<and> (\<forall>i \<ge> n. fst (run (after run i l)) = Inr ())"
proof (induction "card (bad l)" arbitrary: l rule: less_induct)
  case less
  have quiet: "bad l' = {} \<Longrightarrow> fst (run (after run i l')) = Inr ()" for i l'
  proof (induction i arbitrary: l')
    case 0
    with step [of l'] show ?case by auto
  next
    case (Suc i)
    with step [of l'] show ?case by (auto simp: after_Suc)
  qed
  from step [of l] show ?case
  proof (elim disjE conjE)
    assume "fst (run l) = Inr ()" "bad (snd (run l)) = {}"
    then have "fst (run (after run i l)) = Inr ()" for i
      using quiet by (cases i) (simp_all add: after_Suc)
    then show ?thesis by (intro exI [of _ 0]) simp
  next
    assume w: "\<exists>w. fst (run l) = Inl (WaitFor w)" and sub: "bad (snd (run l)) \<subset> bad l"
    then have card: "card (bad (snd (run l))) < card (bad l)" by (intro psubset_card_mono finite)
    from less [OF this] obtain n where n: "n \<le> card (bad (snd (run l)))"
      "\<forall>i < n. \<exists>w. fst (run (after run i (snd (run l)))) = Inl (WaitFor w)"
      "\<forall>i \<ge> n. fst (run (after run i (snd (run l)))) = Inr ()" by blast
    have "\<exists>w. fst (run (after run i l)) = Inl (WaitFor w)" if "i < Suc n" for i
      using that n(2) w by (cases i) (simp_all add: after_Suc)
    moreover have "fst (run (after run i l)) = Inr ()" if "i \<ge> Suc n" for i
      using that n(3) by (cases i) (simp_all add: after_Suc)
    moreover have "Suc n \<le> card (bad l)" using n(1) card by simp
    ultimately show ?thesis by blast
  qed
qed


subsection \<open>A server with these laws\<close>

lemma find_filter_other: "k \<noteq> k' \<Longrightarrow> find (\<lambda>y. key y = k) (filter (\<lambda>y. key y \<noteq> k') os) = find (\<lambda>y. key y = k) os"
  by (induction os) auto

lemma find_map_other:
  assumes "key x \<noteq> k"
  shows "find (\<lambda>y. key y = k) (map (\<lambda>y. if key y = key x then x else y) os) = find (\<lambda>y. key y = k) os"
  using assms by (induction os) auto

lemma find_deleted: "find (\<lambda>y. key y = k) (filter (\<lambda>y. key y \<noteq> k) os) = None"
  by (induction os) auto

lemma find_distinct: "distinct (map key os) \<Longrightarrow> x \<in> set os \<Longrightarrow> find (\<lambda>y. key y = key x) os = Some x"
  by (induction os) (auto dest: imageI [of x _ key])

lemma mem_endpoint_framed:
  assumes D: "\<And>ob x. D ob = Some x \<Longrightarrow> obj_ref ob = Some (K, meta_key (mt x))" and S: "\<And>x. mt (stamp x) = stamp_meta (mt x)"
  shows "framed K (mem_endpoint K D mt stamp init)"
proof -
  let ?key = "\<lambda>x. meta_key (mt x)"
  have "find (\<lambda>y. ?key y = k) (mem_step K D ?key stamp (q, r) os) = find (\<lambda>y. ?key y = k) os" if "\<not> touches K k q" for k q r os
  proof (cases r)
    case None
    show ?thesis
    proof (cases q)
      case (ReqCreate ob)
      have "find (\<lambda>y. ?key y = k) (filter (\<lambda>y. ?key y \<noteq> ?key x) os) = find (\<lambda>y. ?key y = k) os" if "?key x \<noteq> k" for x
        using that by (intro find_filter_other) simp
      with ReqCreate that None D [of ob] show ?thesis by (auto simp: mem_step_def S split: option.split)
    next
      case (ReqUpdate ob)
      have "find (\<lambda>y. ?key y = k) (map (\<lambda>y. if ?key y = ?key x then stamp x else y) os) = find (\<lambda>y. ?key y = k) os"
        if "?key x \<noteq> k" for x using find_map_other [of ?key "stamp x" k os] that by (simp add: S)
      with ReqUpdate that None D [of ob] show ?thesis by (auto simp: mem_step_def split: option.split)
    next
      case (ReqDelete K' k')
      with that None find_filter_other [of k k'] show ?thesis by (auto simp: mem_step_def)
    qed (use that None in \<open>simp_all add: mem_step_def\<close>)
  qed (simp add: mem_step_def)
  then show ?thesis unfolding framed_def mem_endpoint_def Let_def by simp
qed

lemma mem_endpoint_deletes: "deletes_for_good K (mem_endpoint K D mt stamp init)"
proof -
  let ?key = "\<lambda>x. meta_key (mt x)"
  have "find (\<lambda>y. ?key y = k) (mem_step K D ?key stamp (ReqDelete K k, r) os) = None"
    if "r = None \<or> find (\<lambda>y. ?key y = k) os = None" for k r os
    using that by (auto simp: mem_step_def find_deleted [of ?key])
  then show ?thesis
    unfolding deletes_for_good_def absent_def mem_endpoint_def Let_def by (auto split: option.splits)
qed

lemma mem_endpoint_lists:
  assumes S: "\<And>x. mt (stamp x) = stamp_meta (mt x)" and distinct: "distinct (map (\<lambda>x. meta_key (mt x)) init)"
  shows "lists ns (mem_endpoint K D mt stamp init) mt"
proof -
  let ?key = "\<lambda>x. meta_key (mt x)"
  have step: "distinct (map ?key (mem_step K D ?key stamp e os))" if "distinct (map ?key os)" for e os
  proof -
    have "map ?key (map (\<lambda>y. if ?key y = ?key x then stamp x else y) os) = map ?key os" for x by (simp add: S)
    with that show ?thesis
      by (auto simp: mem_step_def S distinct_map_filter simp del: map_map split: request.split option.split)
  qed
  have all: "distinct (map ?key (fold (mem_step K D ?key stamp) l (map stamp init)))" for l
  proof (induction l rule: rev_induct)
    case Nil
    have "map ?key (map stamp init) = map ?key init" by (simp add: S)
    with distinct show ?case by (simp del: map_map)
  qed (simp add: step)
  have kept: "distinct (map ?key (filter P (fold (mem_step K D ?key stamp) l (map stamp init))))" for P l
    using all by (rule distinct_map_filter)
  note there = find_distinct [of ?key, OF all]
  show ?thesis
    unfolding lists_def mem_endpoint_def Let_def selected_def
    by (auto simp: kept there list_all_iff split: option.splits dest!: find_member)
qed

definition serving_env :: "world \<Rightarrow> env" where
  "serving_env w = (mem_env w)\<lparr>e_set_controller := (\<lambda>r m. Inr (m\<lparr>m_owners := [r]\<rparr>))\<rparr>"

lemma serving_parts [simp]:
  "e_backups (serving_env w) = e_backups (mem_env w)" "e_physicals (serving_env w) = e_physicals (mem_env w)"
  "e_mariadbs (serving_env w) = e_mariadbs (mem_env w)" "e_storage (serving_env w) = e_storage (mem_env w)"
  "e_cron (serving_env w) = e_cron (mem_env w)" "e_json_error (serving_env w) = e_json_error (mem_env w)"
  "e_set_controller (serving_env w) = (\<lambda>r m. Inr (m\<lparr>m_owners := [r]\<rparr>))"
  by (simp_all add: serving_env_def)

lemma serving_env_lawful: "lawful_backups (serving_env w)"
proof -
  have "framed KBackup (e_backups (mem_env w))" "framed KPhysicalBackup (e_physicals (mem_env w))"
    unfolding mem_env_def by (simp_all, (rule mem_endpoint_framed; auto split: obj.splits)+)
  moreover have "keeps_content (e_physicals (mem_env w)) (\<lambda>b. (pb_storage b, pb_retention b, pb_schedule b))"
    unfolding mem_env_def by (simp, rule mem_endpoint_keeps) simp
  moreover have "deletes_for_good KBackup (e_backups (mem_env w))" "deletes_for_good KPhysicalBackup (e_physicals (mem_env w))"
    unfolding mem_env_def by (simp_all add: mem_endpoint_deletes)
  moreover have "lawful_owner (serving_env w)" by (simp add: lawful_owner_def)
  ultimately show ?thesis
    by (simp add: lawful_backups_def content_kept_def mem_backups_faithful mem_physicals_faithful mem_backups_keep)
qed

lemma serving_env_lists:
  assumes "distinct (map (\<lambda>b. meta_key (ob_meta b)) (w_backups w))" "distinct (map (\<lambda>b. meta_key (pb_meta b)) (w_physicals w))"
  shows "lists ns (e_backups (serving_env w)) ob_meta" "lists ns (e_physicals (serving_env w)) pb_meta"
  unfolding serving_parts mem_env_def using assms
  by (simp_all add: mem_endpoint_lists)

text \<open>The MariaDB is there and stays there, as nothing here deletes it.\<close>

definition cluster_env :: "world \<Rightarrow> env" where
  "cluster_env w = (serving_env w)\<lparr>e_mariadbs := read_only_endpoint md_meta [plain_mariadb]\<rparr>"

lemma cluster_env_serves:
  assumes "distinct (map (\<lambda>b. meta_key (ob_meta b)) (w_backups w))" "distinct (map (\<lambda>b. meta_key (pb_meta b)) (w_physicals w))"
    and c: "in_name c = ''db''" "in_namespace c = ''ns''"
  shows "serving (cluster_env w) c"
proof -
  have parts: "e_backups (cluster_env w) = e_backups (serving_env w)" "e_physicals (cluster_env w) = e_physicals (serving_env w)"
    "e_set_controller (cluster_env w) = e_set_controller (serving_env w)" "e_mariadbs (cluster_env w) = read_only_endpoint md_meta [plain_mariadb]"
    by (simp_all add: cluster_env_def)
  have "lawful_backups (cluster_env w)"
    using serving_env_lawful [of w] unfolding lawful_backups_def content_kept_def lawful_owner_def parts .
  moreover have "lists ns (e_backups (cluster_env w)) ob_meta" "lists ns (e_physicals (cluster_env w)) pb_meta" for ns
    unfolding parts using assms(1,2) by (intro serving_env_lists; simp)+
  moreover have "\<exists>xs. ep_list (e_backups (mem_env w)) l sel = Inr xs" "\<exists>xs. ep_list (e_physicals (mem_env w)) l sel = Inr xs" for w l sel
    by (simp_all add: mem_env_def mem_endpoint_def Let_def)
  moreover have "\<exists>m. ep_get (read_only_endpoint md_meta [plain_mariadb]) l (''ns'', ''db'') = Inr m" for l
    by (simp add: read_only_endpoint_def plain_mariadb_def meta_key_def empty_meta_def)
  ultimately show ?thesis
    by (simp add: serving_def parts mem_obliging(1,2) key_of_def c)
qed

definition schedules_env :: "op_backup list \<Rightarrow> env" where
  "schedules_env objs = cluster_env (backup_world\<lparr>w_backups := objs\<rparr>)"

lemma schedules_env_serves:
  assumes "distinct (map (\<lambda>b. meta_key (ob_meta b)) objs)"
  shows "serving (schedules_env objs) daily_instance"
  unfolding schedules_env_def
  by (rule cluster_env_serves) (simp_all add: assms backup_world_def empty_world_def)

lemma daily_schedules:
  "schedules_of daily_instance = [(''st'', daily)]" "distinct (map (operator_name daily_instance) (schedules_of daily_instance))"
  by (simp_all add: schedules_of_def enabled_backup_def declared_schedules_def)

lemma daily_steady: "x \<in> set (schedules_of daily_instance) \<Longrightarrow> steady (schedules_env objs) (\<lambda>_. plain_storage) (\<lambda>_. keepAllRetention) x"
  by (simp add: daily_schedules steady_def schedules_env_def cluster_env_def daily_def mem_env_def backup_world_def deriveMaxRetention_def)

text \<open>
  A server that holds the schedule's object in another bucket, and one that holds an object of
  a schedule that is not declared any more and an on-demand backup.
\<close>

definition moved_backup :: op_backup where
  "moved_backup = (labelled_backup (operator_name daily_instance (''st'', daily)) [(instanceLabel, ''db''), (scheduleLabel, ''daily'')])
     \<lparr>ob_storage := Some (operatorS3 (plain_storage\<lparr>s3c_bucket := ''other''\<rparr>) ''db'')\<rparr>"


definition left_backups :: "op_backup list" where
  "left_backups = [labelled_backup ''old'' [(instanceLabel, ''db''), (scheduleLabel, ''weekly'')], labelled_backup ''manual'' []]"

lemma daily_names: "operator_name daily_instance x \<noteq> ''old''" "operator_name daily_instance x \<noteq> ''manual''"
  by (simp_all add: operator_name_def scheduledBackupName_def)

lemma left_backups_served:
  assumes "serving (schedules_env left_backups) daily_instance"
  obtains l' where "SyncScheduledBackups (schedules_env left_backups) daily_instance [] = (Inr (), l')"
proof -
  have "ep_get (e_backups (schedules_env left_backups)) [] (''ns'', n) = Inl (ApiNotFound n)" if "n \<noteq> ''old''" "n \<noteq> ''manual''" for n
    using that not_sym [OF that(1)] not_sym [OF that(2)]
    by (simp add: schedules_env_def cluster_env_def mem_env_def mem_endpoint_def Let_def left_backups_def labelled_backup_def
        meta_key_def empty_meta_def stamp_meta_def)
  moreover have "ep_get (e_physicals (schedules_env left_backups)) [] k = Inl (ApiNotFound (snd k))" for k
    by (simp add: schedules_env_def cluster_env_def mem_env_def mem_endpoint_def Let_def backup_world_def empty_world_def)
  ultimately have "\<not> outdated (schedules_env left_backups) daily_instance (\<lambda>_. plain_storage) (\<lambda>_. keepAllRetention) [] x" for x
    by (simp add: outdated_def key_of_def daily_names)
  with call_progress [OF assms daily_steady daily_schedules(2), of "[]"] that show ?thesis by auto
qed

theorem schedules_realized_witness:
  "\<exists>l'. SyncScheduledBackups (schedules_env left_backups) daily_instance [] = (Inr (), l')
     \<and> realized (schedules_env left_backups) daily_instance (''st'', daily) l'
     \<and> (\<forall>b. ep_get (e_backups (schedules_env left_backups)) l' (''ns'', ''old'') = Inr b \<longrightarrow> \<not> schedule_object daily_instance (ob_meta b))
     \<and> ep_get (e_backups (schedules_env left_backups)) l' (''ns'', ''manual'') = Inr (last left_backups\<lparr>ob_meta := stamp_meta (ob_meta (last left_backups))\<rparr>)"
proof -
  have "distinct (map (\<lambda>b. meta_key (ob_meta b)) left_backups)"
    by (simp add: left_backups_def labelled_backup_def meta_key_def empty_meta_def)
  from schedules_env_serves [OF this] have serving: "serving (schedules_env left_backups) daily_instance" .
  from left_backups_served [OF serving] obtain l' where run: "SyncScheduledBackups (schedules_env left_backups) daily_instance [] = (Inr (), l')" .
  have manual: "ep_get (e_backups (schedules_env left_backups)) [] (''ns'', ''manual'') =
      Inr (last left_backups\<lparr>ob_meta := stamp_meta (ob_meta (last left_backups))\<rparr>)"
    "\<not> schedule_object daily_instance (ob_meta (last left_backups\<lparr>ob_meta := stamp_meta (ob_meta (last left_backups))\<rparr>))"
    by (simp_all add: schedules_env_def cluster_env_def mem_env_def mem_endpoint_def Let_def left_backups_def labelled_backup_def backup_world_def
        empty_world_def meta_key_def empty_meta_def stamp_meta_def schedule_object_def)
  note realized = schedules_realized [OF servingD(1,4,5) [OF serving] daily_schedules(2) run]
  have "realized (schedules_env left_backups) daily_instance (''st'', daily) l'"
    using realized [THEN conjunct1] by (simp add: daily_schedules(1))
  moreover have "\<not> schedule_object daily_instance (ob_meta b)"
    if "ep_get (e_backups (schedules_env left_backups)) l' (''ns'', ''old'') = Inr b" for b
  proof
    assume "schedule_object daily_instance (ob_meta b)"
    with that have "ep_get (e_backups (schedules_env left_backups)) l' (''ns'', ''old'') = Inr b
       \<and> fst (''ns'', ''old'') = in_namespace daily_instance \<and> schedule_object daily_instance (ob_meta b)" by simp
    from realized [THEN conjunct2, THEN conjunct1, rule_format, OF this]
    obtain x where "(''ns'', ''old'') = key_of daily_instance (operator_name daily_instance x)" by blast
    with daily_names(1) [of x] show False by (simp add: key_of_def)
  qed
  moreover have "(''ns'', ''manual'') \<notin> key_of daily_instance ` operator_name daily_instance ` set (schedules_of daily_instance)"
    by (auto simp: key_of_def not_sym [OF daily_names(2)])
  with realized manual have "ep_get (e_backups (schedules_env left_backups)) l' (''ns'', ''manual'') =
      Inr (last left_backups\<lparr>ob_meta := stamp_meta (ob_meta (last left_backups))\<rparr>)" by blast
  ultimately show ?thesis using run by blast
qed

subsection \<open>Uneven cron schedules\<close>

text \<open>
  The retentions have to stay the same (\<open>steady\<close>). With a number of copies they may not: the age
  is derived from the cron interval that follows the current time.
\<close>

lemma countRetention_uneven:
  assumes cron: "cron expr = Inr nxt" and n: "0 < n"
    and i: "0 < nxt (nxt t0) - nxt t0" "0 < nxt (nxt t1) - nxt t1" "nxt (nxt t0) - nxt t0 \<noteq> nxt (nxt t1) - nxt t1"
      "(nxt (nxt t0) - nxt t0) * (n + 1) \<le> max_i64" "(nxt (nxt t1) - nxt t1) * (n + 1) \<le> max_i64"
  shows "countRetention cron t0 expr n \<noteq> countRetention cron t1 expr n"
proof
  assume "countRetention cron t0 expr n = countRetention cron t1 expr n"
  then have "duration ((nxt (nxt t0) - nxt t0) * (n + 1)) = duration ((nxt (nxt t1) - nxt t1) * (n + 1))"
    by (simp only: countRetention_value(1) [where cron = cron and nxt = nxt, OF cron n refl i(1,4)]
        countRetention_value(1) [where cron = cron and nxt = nxt, OF cron n refl i(2,5)] sum.inject)
  then have "(nxt (nxt t0) - nxt t0) * (n + 1) = (nxt (nxt t1) - nxt t1) * (n + 1)"
    using countRetention_value(2) [where cron = cron and nxt = nxt, OF cron n refl i(1,4)] countRetention_value(2) [where cron = cron and nxt = nxt, OF cron n refl i(2,5)]
    by metis
  with i(3) n show False by simp
qed


text \<open>Midnight on working days; the epoch began on a Thursday.\<close>

definition weekdays_next :: "time \<Rightarrow> time" where
  "weekdays_next t = (let d = t div day_ns + 1 in
     (d + (if (d + 4) mod 7 = 6 then 2 else if (d + 4) mod 7 = 0 then 1 else 0)) * day_ns)"

definition weekdays :: backup_schedule where
  "weekdays = daily\<lparr>sc_cron := ''0 0 * * 1-5'', sc_retention := Some \<lparr> rt_type = RetentionCount, rt_duration = [], rt_count = Some 7 \<rparr>\<rparr>"

text \<open>The Backup a reconciliation at noon on a Tuesday makes, seen at noon on the Thursday after it.\<close>

definition tuesday_backup :: op_backup where
  "tuesday_backup = (labelled_backup ''mdb-sched-1'' [])\<lparr>ob_storage := Some (operatorS3 plain_storage ''db''), ob_retention := duration (8 * day_ns)\<rparr>"

definition thursday_env :: env where
  "thursday_env = (schedules_env [tuesday_backup])\<lparr>e_cron := (\<lambda>_. Inr weekdays_next), e_now := (\<lambda>_. 7 * day_ns + day_ns div 2)\<rparr>"


end
