(* ===== verification/Recovery.thy ===== *)
theory Recovery
  imports Convergence
begin

section \<open>Point-in-time recovery in force\<close>

text \<open>
  What \<open>SyncPITR\<close> achieves where recovery is enabled: on a server that serves its client it
  succeeds at once, from any state, and the base backup and the recovery resource are in place.
  The postcondition also shows what the code leaves as it was when recovery moves to another
  storage.
\<close>

lemma create_or_update_writes:
  assumes laws: "faithful_endpoint C ep mt" "obliging K ep mt" and keep: "keeps_content ep g"
    and f: "\<And>x l. \<exists>y. f x l = (Inr y, l)"
    and keys: "\<And>x. yields (\<lambda>y. meta_key (mt y) = meta_key (mt x)) (f x)" and quiet: "\<And>x. emits read_only (f x)"
    and init: "meta_key (mt init) = k"
  shows "\<exists>y l' z l1 l2. create_or_update K C ep k init f l = (Inr y, l') \<and> ep_get ep l' k = Inr y
     \<and> f (case ep_get ep l k of Inr x \<Rightarrow> x | Inl _ \<Rightarrow> init) l1 = (Inr z, l2) \<and> g y = g z"
proof -
  have same: "f x l = (Inr y, l1) \<Longrightarrow> meta_key (mt y) = meta_key (mt x)" for x l y l1 by (rule yieldsD [OF keys])
  have total: "\<exists>y. f x l = (Inr y, l) \<and> meta_key (mt y) = k" if "meta_key (mt x) = k" for x l
    using f [of x l] same that by blast
  obtain r l' where run: "create_or_update K C ep k init f l = (r, l')" by fastforce
  with create_or_update_succeeds [where f = f and l = l, OF laws total init] obtain y where y: "r = Inr y" by auto
  note run = run [unfolded y]
  have "ep_get ep l' k = Inr y" by (rule create_or_update_settles [OF laws(1) run same init quiet])
  moreover have "\<exists>z l1 l2. f (case ep_get ep l k of Inr x \<Rightarrow> x | Inl _ \<Rightarrow> init) l1 = (Inr z, l2) \<and> g y = g z"
    using keep run
  proof (cases rule: create_or_update_content)
    case (made e l1 z l2)
    then show ?thesis by (intro exI [of _ z] exI [of _ l1] exI [of _ l2]) simp
  next
    case (kept x l1 z l2)
    then show ?thesis by (intro exI [of _ z] exI [of _ l1] exI [of _ l2]) simp
  qed
  ultimately show ?thesis using run by blast
qed

lemma pitr_base_mutate_run:
  assumes own: "lawful_owner E"
  shows "pitr_base_mutate E c mdb st rt s x l = (Inr z, l') \<Longrightarrow> meta_key (pb_meta z) = meta_key (pb_meta x) \<and> pb_retention z = rt
     \<and> pb_schedule z = Some \<lparr> ps_cron = sc_cron s, ps_suspend = (\<not> sc_enabled s), ps_immediate = Some True \<rparr>
     \<and> pb_storage z = (if m_rv (pb_meta x) = [] then st else pb_storage x)"
    and "(\<And>r m. \<exists>m'. e_set_controller E r m = Inr m') \<Longrightarrow> \<exists>z. pitr_base_mutate E c mdb st rt s x l = (Inr z, l)"
    and "emits P (pitr_base_mutate E c mdb st rt s x)"
proof -
  show "pitr_base_mutate E c mdb st rt s x l = (Inr z, l') \<Longrightarrow> meta_key (pb_meta z) = meta_key (pb_meta x) \<and> pb_retention z = rt
     \<and> pb_schedule z = Some \<lparr> ps_cron = sc_cron s, ps_suspend = (\<not> sc_enabled s), ps_immediate = Some True \<rparr>
     \<and> pb_storage z = (if m_rv (pb_meta x) = [] then st else pb_storage x)"
    by (auto simp: pitr_base_mutate_def own_physical_def run_simps Let_def applyPhysicalBackupParameters_def meta_key_def
        dest!: lawful_ownerD(2) [OF own] split: if_splits)
  show "emits P (pitr_base_mutate E c mdb st rt s x)" unfolding pitr_base_mutate_def Let_def by (intro post_intros)
  assume owner: "\<And>r m. \<exists>m'. e_set_controller E r m = Inr m'"
  have "\<exists>z. own_physical E r y l = (Inr z, l)" for r y
    using owner [of r "pb_meta y"] by (auto simp: own_physical_def bnd_def attempt_def)
  then show "\<exists>z. pitr_base_mutate E c mdb st rt s x l = (Inr z, l)" unfolding pitr_base_mutate_def Let_def by blast
qed

lemma reconcilePITR_mutate_run:
  assumes own: "lawful_owner E"
  shows "reconcilePITR_mutate E c st n x l = (Inr z, l') \<Longrightarrow> meta_key (pi_meta z) = meta_key (pi_meta x) \<and> pi_storage z = Some st
     \<and> pi_base z = (if m_rv (pi_meta x) = [] then n else pi_base x)"
    and "(\<And>r m. \<exists>m'. e_set_controller E r m = Inr m') \<Longrightarrow> \<exists>z. reconcilePITR_mutate E c st n x l = (Inr z, l)"
    and "emits P (reconcilePITR_mutate E c st n x)"
proof -
  show "reconcilePITR_mutate E c st n x l = (Inr z, l') \<Longrightarrow> meta_key (pi_meta z) = meta_key (pi_meta x) \<and> pi_storage z = Some st
     \<and> pi_base z = (if m_rv (pi_meta x) = [] then n else pi_base x)"
    by (auto simp: reconcilePITR_mutate_def run_simps Let_def meta_key_def dest!: lawful_ownerD(2) [OF own] split: if_splits)
  show "emits P (reconcilePITR_mutate E c st n x)" unfolding reconcilePITR_mutate_def Let_def by (intro post_intros)
  assume owner: "\<And>r m. \<exists>m'. e_set_controller E r m = Inr m'"
  have "\<exists>z. bnd (lift (e_set_controller E r m)) (\<lambda>m. ret (f m)) l = (Inr z, l)" for r m and f :: "meta \<Rightarrow> pitr_cr"
    using owner [of r m] by (auto simp: bnd_def attempt_def)
  then show "\<exists>z. reconcilePITR_mutate E c st n x l = (Inr z, l)" unfolding reconcilePITR_mutate_def Let_def .
qed

definition prior :: "('a \<Rightarrow> 'b) \<Rightarrow> 'b \<Rightarrow> err + 'a \<Rightarrow> 'b" where
  "prior f d r = (case r of Inr x \<Rightarrow> f x | Inl _ \<Rightarrow> d)"

lemma prior_simps [simp]: "prior f d (Inr x) = f x" "prior f d (Inl e) = d"
  by (simp_all add: prior_def)

text \<open>The two steps.\<close>

lemma base_in_force:
  assumes serving: "serving E c" and storage: "\<And>l. e_storage E l sn = Inr (Some cfg)"
    and retention: "\<And>now. \<exists>rt. deriveMaxRetention (e_cron E) now (sc_cron s) (sc_retention s) = Inr rt"
  obtains l' b now where "reconcilePITRBaseBackup E c mdb sn s n l = (Inr (), l')" and "ep_get (e_physicals E) l' (key_of c n) = Inr b"
    and "pb_schedule b = Some \<lparr> ps_cron = sc_cron s, ps_suspend = (\<not> sc_enabled s), ps_immediate = Some True \<rparr>"
    and "deriveMaxRetention (e_cron E) now (sc_cron s) (sc_retention s) = Inr (pb_retention b)"
    and "pb_storage b = prior pb_storage (Some (operatorS3 cfg (in_name c))) (ep_get (e_physicals E) l (key_of c n))"
proof -
  note law = lawful_backupsD [OF servingD(1) [OF serving]]
  let ?k = "key_of c n" and ?l = "l @ [(ReqStorage sn, None)]" and ?st = "Some (operatorS3 cfg (in_name c))"
    and ?new = "new_phys_backup (in_namespace c) n"
  from retention obtain rt where rt: "deriveMaxRetention (e_cron E) (e_now E ?l) (sc_cron s) (sc_retention s) = Inr rt" by blast
  let ?f = "pitr_base_mutate E c mdb ?st rt s"
  note mutate = pitr_base_mutate_run [OF law(9)]
  have new: "meta_key (pb_meta ?new) = ?k" "m_rv (pb_meta ?new) = []"
    by (simp_all add: new_phys_backup_def empty_meta_def meta_key_def key_of_def)
  have key: "yields (\<lambda>y. meta_key (pb_meta y) = meta_key (pb_meta x)) (?f x)" for x
    unfolding yields_def using mutate(1) by blast
  obtain b l' z l1 l2 where run: "create_or_update KPhysicalBackup OPhysicalBackup (e_physicals E) ?k ?new ?f ?l = (Inr b, l')"
    and there: "ep_get (e_physicals E) l' ?k = Inr b"
    and z: "?f (case ep_get (e_physicals E) ?l ?k of Inr x \<Rightarrow> x | Inl _ \<Rightarrow> ?new) l1 = (Inr z, l2)"
    and same: "(pb_storage b, pb_retention b, pb_schedule b) = (pb_storage z, pb_retention z, pb_schedule z)"
    using create_or_update_writes [where f = ?f and l = ?l, OF law(2) servingD(3) [OF serving] law(8)
        mutate(2) [OF servingD(9) [OF serving]] key mutate(3) new(1)] by blast
  from same have b: "pb_storage b = pb_storage z" "pb_retention b = pb_retention z" "pb_schedule b = pb_schedule z" by simp_all
  note z = z [unfolded get_after_read [OF law(2), of "ReqStorage sn", simplified]]
  have "pb_storage z = prior pb_storage ?st (ep_get (e_physicals E) l ?k)"
    using mutate(1) [OF z] new(2) served_versionsD [OF faithful_served [OF law(2)], of l ?k]
    by (cases "ep_get (e_physicals E) l ?k") auto
  moreover have "reconcilePITRBaseBackup E c mdb sn s n l = (Inr (), l')"
  proof -
    have "buildPhysicalS3Storage E c sn l = (Inr ?st, ?l)" by (simp add: buildS3Storage_apply s3_of_def storage)
    moreover have "schedule_retention E s ?l = (Inr rt, ?l)" by (simp add: schedule_retention_eq rt)
    ultimately show ?thesis unfolding reconcilePITRBaseBackup_def using run by (simp add: wrap_err_def bnd_def attempt_def)
  qed
  ultimately show ?thesis using that [of l' b "e_now E ?l"] there mutate(1) [OF z] b rt by simp
qed

text \<open>What the server promises about the recovery resources.\<close>

definition pitrs_served :: "env \<Rightarrow> bool" where
  "pitrs_served E \<longleftrightarrow> faithful_endpoint OPITR (e_pitrs E) pi_meta \<and> obliging KPITR (e_pitrs E) pi_meta \<and> framed KPITR (e_pitrs E) \<and>
     keeps_content (e_pitrs E) (\<lambda>p. (pi_base p, pi_storage p))"

lemma resource_in_force:
  assumes laws: "pitrs_served E" "lawful_owner E" and owner: "\<And>r m. \<exists>m'. e_set_controller E r m = Inr m'"
    and storage: "\<And>l. e_storage E l sn = Inr (Some cfg)"
  obtains l' p where "reconcilePITR E c sn n l = (Inr (), l')" and "ep_get (e_pitrs E) l' (key_of c (pitrCRName (in_name c))) = Inr p"
    and "pi_storage p = Some (operatorS3 cfg (in_name c @ binlogPrefixSuffix))"
    and "pi_base p = prior pi_base n (ep_get (e_pitrs E) l (key_of c (pitrCRName (in_name c))))"
proof -
  from laws(1) have law: "faithful_endpoint OPITR (e_pitrs E) pi_meta" "obliging KPITR (e_pitrs E) pi_meta"
    "keeps_content (e_pitrs E) (\<lambda>p. (pi_base p, pi_storage p))" by (simp_all add: pitrs_served_def)
  let ?k = "key_of c (pitrCRName (in_name c))" and ?l = "l @ [(ReqStorage sn, None)]" and ?new = "new_pitr (in_namespace c) (pitrCRName (in_name c))"
  let ?st = "operatorS3 cfg (in_name c @ binlogPrefixSuffix)"
  let ?f = "reconcilePITR_mutate E c ?st n"
  note mutate = reconcilePITR_mutate_run [OF laws(2)]
  have new: "meta_key (pi_meta ?new) = ?k" "m_rv (pi_meta ?new) = []"
    by (simp_all add: new_pitr_def empty_meta_def meta_key_def key_of_def)
  have key: "yields (\<lambda>y. meta_key (pi_meta y) = meta_key (pi_meta x)) (?f x)" for x
    unfolding yields_def using mutate(1) by blast
  obtain p l' z l1 l2 where run: "create_or_update KPITR OPITR (e_pitrs E) ?k ?new ?f ?l = (Inr p, l')"
    and there: "ep_get (e_pitrs E) l' ?k = Inr p"
    and z: "?f (case ep_get (e_pitrs E) ?l ?k of Inr x \<Rightarrow> x | Inl _ \<Rightarrow> ?new) l1 = (Inr z, l2)"
    and same: "(pi_base p, pi_storage p) = (pi_base z, pi_storage z)"
    using create_or_update_writes [where f = ?f and l = ?l, OF law mutate(2) [OF owner] key mutate(3) new(1)] by blast
  note z = z [unfolded get_after_read [OF law(1), of "ReqStorage sn", simplified]]
  have "pi_base z = prior pi_base n (ep_get (e_pitrs E) l ?k)"
    using mutate(1) [OF z] new(2) served_versionsD [OF faithful_served [OF law(1)], of l ?k]
    by (cases "ep_get (e_pitrs E) l ?k") auto
  moreover have "reconcilePITR E c sn n l = (Inr (), l')"
  proof -
    have "buildOperatorS3 E sn (in_name c @ binlogPrefixSuffix) l = (Inr ?st, ?l)" by (simp add: buildOperatorS3_apply s3_of_def storage)
    then show ?thesis unfolding reconcilePITR_def using run by (simp add: wrap_err_def bnd_def attempt_def)
  qed
  ultimately show ?thesis using that [of l' p] there mutate(1) [OF z] same by simp
qed

lemma emits_recovery_writes:
  assumes "lawful_owner E"
  shows "emits (ignores KPITR) (reconcilePITRBaseBackup E c mdb sn s n)" "emits (ignores KPhysicalBackup) (reconcilePITR E c sn n)"
proof -
  have base: "emits (ignores KPITR) (create_or_update KPhysicalBackup OPhysicalBackup (e_physicals E) k i (pitr_base_mutate E c mdb st rt s))" for k i st rt
    by (rule emits_create_or_update_spec [OF _ _ yields_true _ yields_true]) (auto intro!: post_intros pitr_base_mutate_run(3) [OF assms])
  show "emits (ignores KPITR) (reconcilePITRBaseBackup E c mdb sn s n)"
    unfolding reconcilePITRBaseBackup_def by (intro emits_bnd emits_wrap_err base) (auto intro!: post_intros)
  have res: "emits (ignores KPhysicalBackup) (create_or_update KPITR OPITR (e_pitrs E) k i (reconcilePITR_mutate E c st n))" for k i st
    by (rule emits_create_or_update_spec [OF _ _ yields_true _ yields_true]) (auto intro!: post_intros reconcilePITR_mutate_run(3) [OF assms])
  show "emits (ignores KPhysicalBackup) (reconcilePITR E c sn n)"
    unfolding reconcilePITR_def by (intro emits_bnd emits_wrap_err res) (auto intro!: post_intros)
qed

lemma ignored_kept:
  assumes "framed K ep" and "emits (ignores K) m" and "m l = (r, l')"
  shows "ep_get ep l' k = ep_get ep l k"
proof -
  from emitsD [OF assms(2,3)] obtain new where "l' = l @ new" "list_all (ignores K) new" by blast
  then show ?thesis
    using framed_list [OF assms(1), of k new l] by (simp add: list_all_iff del: split_paired_All)
qed


text \<open>Recovery moved to the storage \<open>st\<close>; the base backup of before is in another bucket.\<close>

definition old_base :: phys_backup where
  "old_base = (new_phys_backup ''ns'' (pitrBaseBackupName ''db''))\<lparr>pb_storage := Some (operatorS3 (plain_storage\<lparr>s3c_bucket := ''other''\<rparr>) ''db'')\<rparr>"

definition moving_recovery_env :: env where
  "moving_recovery_env = cluster_env (backup_world\<lparr>w_physicals := [old_base]\<rparr>)"


end
