(* ===== verification/Admission.thy ===== *)
theory Admission
  imports Validate
begin

section \<open>What admission accepts\<close>

text \<open>
  The rules a new Instance has to follow, written down as predicates on the Instance and the
  environment, and the equivalence with the checks \<open>ValidateMariaDB\<close> runs. The checks are a
  sequence of early returns over requests; the rules mention neither.
\<close>

subsection \<open>The rules\<close>

definition service_rule :: "service_request option \<Rightarrow> bool" where
  "service_rule svc \<longleftrightarrow>
     (case svc of None \<Rightarrow> True | Some s \<Rightarrow> sv_type s \<in> {[], ''ClusterIP'', ''LoadBalancer'', ''NodePort''})"

definition placement_rule :: "component_spec \<Rightarrow> bool" where
  "placement_rule cs \<longleftrightarrow>
     (case cs_scheduling cs of
        None \<Rightarrow> True
      | Some sp \<Rightarrow> (case sp_affinity sp of None \<Rightarrow> True | Some a \<Rightarrow> af_pod a = None))"

definition replicas_rule :: "component_spec \<Rightarrow> bool" where
  "replicas_rule cs \<longleftrightarrow> (case cs_replicas cs of None \<Rightarrow> True | Some n \<Rightarrow> 1 \<le> n)"

text \<open>An image is set, or the provider has one for the version or a default.\<close>

definition image_rule :: "env \<Rightarrow> string \<Rightarrow> component_spec \<Rightarrow> bool" where
  "image_rule E name cs \<longleftrightarrow> cs_image cs \<noteq> [] \<or>
     (case e_provider_spec E of
        Inl _ \<Rightarrow> False
      | Inr spec \<Rightarrow> pv_default spec name \<noteq> [] \<or> (cs_version cs \<noteq> [] \<and> pv_image spec name (cs_version cs) \<noteq> []))"

definition engine_rule :: "instance_cr \<Rightarrow> bool" where
  "engine_rule c \<longleftrightarrow>
     (case component c ''engine'' of
        None \<Rightarrow> False
      | Some engine \<Rightarrow> replicas_rule engine \<and> service_rule (cs_service engine) \<and> placement_rule engine
          \<and> (case cs_storage engine of None \<Rightarrow> True | Some st \<Rightarrow> sr_size st = 0 \<or> gibibytes 1 \<le> sr_size st))"

text \<open>\<open>crd\<close> is the answer about the CRD of VictoriaMetrics: \<^term>\<open>None\<close> when it is installed.\<close>

definition monitoring_rule :: "env \<Rightarrow> err option \<Rightarrow> instance_cr \<Rightarrow> bool" where
  "monitoring_rule E crd c \<longleftrightarrow>
     (case component c ''monitoring'' of
        None \<Rightarrow> True
      | Some m \<Rightarrow> (case e_decode_monitoring E m of
            Inl _ \<Rightarrow> False
          | Inr p \<Rightarrow> (if mop_enabled p then image_rule E ''monitoring'' m \<and> (vmp_enabled (mop_victoria p) \<longrightarrow> crd = None)
                      else \<not> vmp_enabled (mop_victoria p))))"

definition proxy_rule :: "env \<Rightarrow> instance_cr \<Rightarrow> bool" where
  "proxy_rule E c \<longleftrightarrow>
     (case component c ''proxy'' of
        None \<Rightarrow> True
      | Some p \<Rightarrow> (case cs_parameters p of
            Some (Some _) \<Rightarrow> (case e_decode_proxy E p of
                Inl _ \<Rightarrow> False
              | Inr ps \<Rightarrow> mxp_enabled ps \<longrightarrow> in_topology c \<in> {''galera'', ''replication''} \<and> replicas_rule p
                  \<and> service_rule (cs_service p) \<and> placement_rule p \<and> image_rule E ''proxy'' p)
          | _ \<Rightarrow> True))"

definition tls_rule :: "env \<Rightarrow> instance_cr \<Rightarrow> bool" where
  "tls_rule E c \<longleftrightarrow> (case buildTLS E c of Inl _ \<Rightarrow> False | Inr t \<Rightarrow> tls_consistent t)"

text \<open>The first schedule that is not a decodable logical one is a decodable physical one.\<close>

definition base_rule :: "(string \<Rightarrow> string) \<Rightarrow> backup_schedule list \<Rightarrow> bool" where
  "base_rule je ss \<longleftrightarrow>
     (case dropWhile (\<lambda>s. case backup_params_of je (sc_parameters s) of Inl _ \<Rightarrow> False | Inr q \<Rightarrow> \<not> isPhysical q) ss of
        [] \<Rightarrow> False
      | s # _ \<Rightarrow> (case backup_params_of je (sc_parameters s) of Inl _ \<Rightarrow> False | Inr _ \<Rightarrow> True))"

definition recovery_rule :: "env \<Rightarrow> instance_cr \<Rightarrow> bool" where
  "recovery_rule E c \<longleftrightarrow>
     (case in_backup c of
        None \<Rightarrow> True
      | Some b \<Rightarrow> \<not> ib_enabled b \<or>
          (case filter (\<lambda>x. is_pitr x = Some True) (ib_storages b) of
             [] \<Rightarrow> True
           | [s] \<Rightarrow> in_topology c = ''replication'' \<and> base_rule (e_json_error E) (is_schedules s)
           | _ \<Rightarrow> False))"

definition source_rule :: "instance_cr \<Rightarrow> bool" where
  "source_rule c \<longleftrightarrow>
     (case in_datasource c of None \<Rightarrow> True | Some ds \<Rightarrow> ds_type ds = DSPointInTime \<longrightarrow> in_topology c = ''replication'')"

definition admissible :: "env \<Rightarrow> err option \<Rightarrow> instance_cr \<Rightarrow> bool" where
  "admissible E crd c \<longleftrightarrow> engine_rule c \<and> monitoring_rule E crd c \<and> proxy_rule E c
     \<and> legal_replicas (in_topology c) (cs_replicas (engine_of c)) \<and> tls_rule E c \<and> recovery_rule E c \<and> source_rule c"

subsection \<open>Checks and the rules they decide\<close>

text \<open>The check \<open>m\<close> passes exactly if \<open>P\<close> holds, whatever was asked before.\<close>

definition decides :: "unit go \<Rightarrow> bool \<Rightarrow> bool" where
  "decides m P \<longleftrightarrow> (\<forall>l. fst (m l) = Inr () \<longleftrightarrow> P)"

lemma decides_bnd: "decides m P \<Longrightarrow> decides (k ()) Q \<Longrightarrow> decides (bnd m k) (P \<and> Q)"
  unfolding decides_def by (auto simp: bnd_def attempt_def split: prod.splits sum.splits) (metis fst_conv sum.distinct(1))+

lemma decides_wrap: "decides m P \<Longrightarrow> decides (wrap_err msg m) P"
  unfolding decides_def by (auto simp: wrap_err_def attempt_def split: prod.splits sum.splits) (metis fst_conv sum.distinct(1))+

lemma decides_lift: "(r = Inr () \<longleftrightarrow> P) \<Longrightarrow> decides (lift r) P"
  by (simp add: decides_def)

lemma decides_ret: "P \<Longrightarrow> decides (ret ()) P"
  by (simp add: decides_def)

lemma decides_fail: "\<not> P \<Longrightarrow> decides (fail e) P"
  by (simp add: decides_def)

lemma decides_absent:
  assumes "\<And>l. \<exists>e. ep_get ep l k = Inl e \<and> is_not_found e" and "decides a P"
  shows "decides (on_get msg (api_get K ep k) a f) P"
  unfolding decides_def
proof
  fix l
  from assms(1) obtain e where "ep_get ep l k = Inl e" "is_not_found e" by blast
  with assms(2) show "fst (on_get msg (api_get K ep k) a f l) = Inr () \<longleftrightarrow> P"
    by (simp add: on_get_def attempt_def api_get_def request_def decides_def)
qed

lemma service_check: "validateService n svc = Inr () \<longleftrightarrow> service_rule svc"
  by (auto simp: validateService_def service_rule_def service_types split: option.splits)

lemma placement_check:
  "(case cs_scheduling cs of None \<Rightarrow> Inr () | Some sp \<Rightarrow> validateAffinity (sp_affinity sp)) = Inr () \<longleftrightarrow> placement_rule cs"
  by (auto simp: validateAffinity_def placement_rule_def split: option.splits)

lemma engine_check: "validateComponents c = Inr () \<longleftrightarrow> engine_rule c"
  by (cases "component c ''engine''")
     (auto simp: validateComponents_def engine_rule_def replicas_rule_def service_check placement_check ComponentEngine_def
       split: option.splits if_splits)

lemma image_check:
  assumes "image_resolver E name part resolve"
  shows "(\<exists>i. resolve c = Inr i \<and> i \<noteq> []) \<longleftrightarrow> image_rule E name (part c)"
proof (cases "e_provider_spec E")
  case (Inl e)
  then show ?thesis
    using image_resolver.override [OF assms] image_resolver.no_provider [OF assms] by (auto simp: image_rule_def)
next
  case (Inr spec)
  from image_resolver.resolves [OF assms Inr, of c] obtain i where "resolve c = Inr i" by blast
  with image_resolver.empty_iff [OF assms Inr, of c] Inr show ?thesis by (auto simp: image_rule_def)
qed

lemma tls_check: "validateTLS E c = Inr () \<longleftrightarrow> tls_rule E c"
  by (auto simp: tls_validation_iff tls_rule_def split: sum.splits)

lemma base_check: "(\<exists>s. first_physical je n ss = Inr s) \<longleftrightarrow> base_rule je ss"
  by (induction ss) (auto simp: base_rule_def ebind_eq_Inl split: sum.splits)

lemma recovery_check: "validatePITR E c = Inr () \<longleftrightarrow> recovery_rule E c"
proof (cases "\<exists>b. in_backup c = Some b \<and> ib_enabled b")
  case False
  then show ?thesis by (auto simp: validatePITR_def recovery_rule_def pitrEnabledStorage_def split: option.splits)
next
  case True
  then obtain b where b: "in_backup c = Some b" "ib_enabled b" by blast
  have topology: "normalizeTopology (in_topology c) = TopologyTypeReplication \<longleftrightarrow> in_topology c = ''replication''"
    by (auto simp: normalizeTopology_def topology_names)
  show ?thesis
  proof (cases "pitr_storages (ib_storages b)")
    case Nil
    with b show ?thesis
      by (simp add: validatePITR_def recovery_rule_def pitrEnabledStorage_def pitr_storages_def Let_def)
  next
    case (Cons s ss)
    with b topology base_check [of "e_json_error E" "is_ref s" "is_schedules s"] show ?thesis
      by (cases ss; cases "first_physical (e_json_error E) (is_ref s) (is_schedules s)")
         (auto simp: validatePITR_def recovery_rule_def pitrEnabledStorage_def pitr_storages_def Let_def
           firstPhysicalSchedule_def split: if_splits)
  qed
qed

lemma proxy_check: "validateProxy E c = Inr () \<longleftrightarrow> proxy_rule E c"
proof (cases "component c ''proxy''")
  case None
  then show ?thesis by (simp add: validateProxy_def isProxyEnabled_def proxy_rule_def ComponentProxy_def)
next
  case (Some p)
  have proxy: "component_or_zero c ComponentProxy = p" by (simp add: Some component_or_zero_def ComponentProxy_def)
  have topology: "isHATopology c \<longleftrightarrow> in_topology c \<in> {''galera'', ''replication''}"
    by (auto simp: isHATopology_def isGaleraTopology_def isReplicationTopology_def topology_names)
  have replicas: "\<not> (case cs_replicas p of Some n \<Rightarrow> n < 1 | None \<Rightarrow> False) \<longleftrightarrow> replicas_rule p"
    by (auto simp: replicas_rule_def split: option.splits)
  have image: "(\<exists>i. resolveMaxScaleImage E c = Inr i \<and> i \<noteq> []) \<longleftrightarrow> image_rule E ''proxy'' p"
    using image_check [OF maxscale_image.image_resolver_axioms, of E c] proxy by (simp add: ComponentProxy_def)
  note p = Some [folded ComponentProxy_def]
  note defs = isProxyEnabled_def proxy_rule_def p Some
  show ?thesis
  proof (cases "\<exists>r. cs_parameters p = Some (Some r)")
    case False
    then have "isProxyEnabled E c = Inr False" "proxy_rule E c" by (auto simp: defs split: option.splits)
    then show ?thesis by (simp add: validateProxy_def)
  next
    case True
    show ?thesis
    proof (cases "e_decode_proxy E p")
      case (Inl e)
      with True have "isProxyEnabled E c = Inl (Wrapped ''decode proxy parameters'' e)" "\<not> proxy_rule E c"
        by (auto simp: defs)
      then show ?thesis by (simp add: validateProxy_def)
    next
      case (Inr ps)
      with True have on: "isProxyEnabled E c = Inr (mxp_enabled ps)"
        "proxy_rule E c \<longleftrightarrow> (mxp_enabled ps \<longrightarrow> in_topology c \<in> {''galera'', ''replication''}
          \<and> replicas_rule p \<and> service_rule (cs_service p) \<and> placement_rule p \<and> image_rule E ''proxy'' p)"
        by (auto simp: defs)
      show ?thesis
        unfolding validateProxy_def on image [symmetric] topology [symmetric] replicas [symmetric] Let_def proxy
        by (auto simp: service_check placement_check [symmetric])
    qed
  qed
qed

lemma monitoring_check:
  assumes crd: "\<And>l. e_crd E l = crd"
  shows "decides (validateMonitoring E c) (monitoring_rule E crd c)"
proof (cases "component c ''monitoring''")
  case None
  then show ?thesis
    by (simp add: validateMonitoring_def monitoringParams_def monitoring_rule_def ComponentMonitoring_def decides_def bnd_def
        attempt_def)
next
  case (Some m)
  have mon: "component_or_zero c ComponentMonitoring = m" by (simp add: Some component_or_zero_def ComponentMonitoring_def)
  have image: "(\<exists>i. resolveExporterImage E c = Inr i \<and> i \<noteq> []) \<longleftrightarrow> image_rule E ''monitoring'' m"
    using image_check [OF exporter_image.image_resolver_axioms, of E c] mon by (simp add: ComponentMonitoring_def)
  have installed: "fst (bnd (vmServiceScrapeCRDInstalled E) (\<lambda>i. if \<not> i then fail x else ret ()) l) = Inr () \<longleftrightarrow> crd = None"
    for x l
    by (cases crd) (auto simp: vmServiceScrapeCRDInstalled_def look_up_crd_def request_def go_defs crd split: if_splits)
  show ?thesis
  proof (cases "e_decode_monitoring E m")
    case (Inl e)
    with Some show ?thesis
      by (simp add: validateMonitoring_def monitoringParams_def monitoring_rule_def ComponentMonitoring_def decides_def bnd_def
          attempt_def)
  next
    case (Inr p)
    with Some have params: "monitoringParams E c = Inr (Some p)"
      by (simp add: monitoringParams_def ComponentMonitoring_def)
    show ?thesis
      unfolding decides_def
    proof
      fix l
      show "fst (validateMonitoring E c l) = Inr () \<longleftrightarrow> monitoring_rule E crd c"
        using Some Inr image installed
        by (cases "resolveExporterImage E c")
           (auto simp: validateMonitoring_def params monitoring_rule_def bnd_Inl bnd_Inr)
    qed
  qed
qed

subsection \<open>The webhook decides the rules\<close>

lemma topology_check:
  assumes "\<And>l. \<exists>e. ep_get (e_mariadbs E) l (key_of c (in_name c)) = Inl e \<and> is_not_found e"
  shows "decides (validateTopology E c) (legal_replicas (in_topology c) (cs_replicas (engine_of c)))"
  unfolding decides_def using topology_accepts_iff [of E c, OF assms] by blast

lemma source_check:
  assumes "\<And>l. \<exists>e. ep_get (e_mariadbs E) l (key_of c (in_name c)) = Inl e \<and> is_not_found e"
  shows "decides (validatePointInTimeDataSource E c) (source_rule c)"
proof -
  have topology: "normalizeTopology (in_topology c) = TopologyTypeReplication \<longleftrightarrow> in_topology c = ''replication''"
    by (auto simp: normalizeTopology_def topology_names)
  show ?thesis
  proof (cases "source_rule c")
    case True
    then show ?thesis
      by (auto simp: validatePointInTimeDataSource_def source_rule_def topology intro!: decides_ret split: option.splits)
  next
    case False
    then have "validatePointInTimeDataSource E c = on_get ''get MariaDB'' (api_get KMariaDB (e_mariadbs E) (key_of c (in_name c)))
        (fail (Errorf (''point-in-time recovery is only supported into the '' @ quote TopologyTypeReplication
           @ '' topology; set spec.topology.type to '' @ quote TopologyTypeReplication))) (\<lambda>_. ret ())"
      by (auto simp: validatePointInTimeDataSource_def source_rule_def topology split: option.splits)
    with decides_absent [OF assms decides_fail [OF False]] show ?thesis by simp
  qed
qed

lemma update_check:
  assumes "\<And>l. \<exists>e. ep_get (e_mariadbs E) l (key_of c (in_name c)) = Inl e \<and> is_not_found e"
  shows "decides (validateEngineUpdate E c) True"
  unfolding validateEngineUpdate_def by (rule decides_absent [OF assms decides_ret [OF TrueI]])

text \<open>
  C13: The admission check of a new Instance is its rules, neither weaker nor stronger: while the
  server has no MariaDB of its name, \<open>ValidateMariaDB\<close> accepts it if and only if it is
  admissible, whatever was requested before.
\<close>

theorem admission_exact:
  assumes new: "\<And>l. \<exists>e. ep_get (e_mariadbs E) l (key_of c (in_name c)) = Inl e \<and> is_not_found e"
    and crd: "\<And>l. e_crd E l = crd"
  shows "fst (ValidateMariaDB E c l) = Inr () \<longleftrightarrow> admissible E crd c"
proof -
  note stages = decides_lift [OF engine_check] monitoring_check [OF crd] decides_lift [OF proxy_check]
    topology_check [OF new] update_check [OF new] decides_lift [OF tls_check] decides_lift [OF recovery_check]
    source_check [OF new]
  have "decides (ValidateMariaDB E c) (engine_rule c \<and> monitoring_rule E crd c \<and> proxy_rule E c
     \<and> legal_replicas (in_topology c) (cs_replicas (engine_of c)) \<and> True \<and> tls_rule E c \<and> recovery_rule E c \<and> source_rule c)"
    unfolding ValidateMariaDB_def by (intro decides_bnd decides_wrap stages)
  then show ?thesis by (simp add: decides_def admissible_def)
qed

text \<open>Of three Instances one is admitted; one lacks a third Galera node, one a physical schedule.\<close>

theorem admission_exact_witness:
  "fst (ValidateMariaDB (frozen_env [] [] (mem_env empty_world)) recoverable_instance []) = Inr ()
   \<and> fst (ValidateMariaDB (frozen_env [] [] (mem_env empty_world)) ((plain_instance ''galera'')\<lparr>in_components :=
        [(''engine'', zero_component\<lparr>cs_replicas := Some 2\<rparr>)]\<rparr>) []) \<noteq> Inr ()
   \<and> fst (ValidateMariaDB (frozen_env [] [] (mem_env empty_world)) (recoverable_instance\<lparr>in_backup :=
        Some \<lparr> ib_enabled = True, ib_class = ''c'', ib_storages = [\<lparr> is_ref = ''st'', is_pitr = Some True, is_schedules = [] \<rparr>] \<rparr>\<rparr>) []) \<noteq> Inr ()"
proof -
  let ?E = "frozen_env [] [] (mem_env empty_world)"
  have new: "\<exists>e. ep_get (e_mariadbs ?E) l k = Inl e \<and> is_not_found e" for l k by (simp add: frozen_env_get)
  have crd: "e_crd ?E l = None" for l by (simp add: frozen_env_def mem_env_def)
  have "admissible ?E None recoverable_instance"
    "\<not> admissible ?E None ((plain_instance ''galera'')\<lparr>in_components := [(''engine'', zero_component\<lparr>cs_replicas := Some 2\<rparr>)]\<rparr>)"
    "\<not> admissible ?E None (recoverable_instance\<lparr>in_backup :=
        Some \<lparr> ib_enabled = True, ib_class = ''c'', ib_storages = [\<lparr> is_ref = ''st'', is_pitr = Some True, is_schedules = [] \<rparr>] \<rparr>\<rparr>)"
    by code_simp+
  with admission_exact [of ?E, OF new crd] show ?thesis by blast
qed

end
